(* ===== verification/Prelude.thy ===== *)
theory Prelude
  imports Main "HOL-Library.Word" "HOL-Library.Finite_Map" "HOL-Library.Sublist"
begin

text \<open>
  What every component of the development shares: the collections of rewrite rules, the types that
  stand for Go's basic types, the error values, and the lemmas on lists, options and sums that the
  component proofs use.

  Go strings and byte slices are sequences of bytes, which is what HOL's \<^typ>\<open>string\<close> (a list of
  8-bit characters) is. An \<open>int32\<close> is a \<^typ>\<open>32 word\<close>, so that \<open>++\<close> wraps as it does in Go. A Go
  \<open>map[string]string\<close> is an optional finite map, \<^term>\<open>None\<close> being the \<open>nil\<close> map, because
  \<open>reflect.DeepEqual\<close> and \<open>== nil\<close> tell \<open>nil\<close> from empty.
\<close>

named_theorems go_simps "the meaning of the standard library calls of the sources"
named_theorems status_simps "rewriting of the status bookkeeping"
named_theorems render_simps "rewriting of rendered configuration text"

type_synonym int32 = "32 word"
type_synonym gomap = "(string, string) fmap option"
type_synonym NamespacedName = "string \<times> string" \<comment> \<open>namespace, name\<close>

text \<open>
  Go's \<open>error\<close> values, as far as the sources build or inspect them: an API status error with its
  reason (\<open>"NotFound"\<close>, \<open>"Conflict"\<close>, ...), any other error with its text, and an error wrapped by
  \<open>fmt.Errorf\<close> with \<open>%w\<close>.
\<close>

datatype Err = StatusErr string string | OtherErr string | Errorf string Err

subsection \<open>Options and sums\<close>

lemma sum_case_eq_InrE:
  assumes "(case x of Inl e \<Rightarrow> Inl e | Inr a \<Rightarrow> f a) = Inr y"
  obtains a where "x = Inr a" and "f a = Inr y"
  using assms by (cases x) auto

subsection \<open>Lists\<close>

lemma length_dropWhile_le_length: "length (dropWhile P xs) \<le> length xs"
  by (induction xs) auto

lemma dropWhile_all_neq: "c \<notin> set xs \<Longrightarrow> dropWhile (\<lambda>x. x = c) xs = xs"
  by (cases xs) auto

lemma map_if_notin: "a \<notin> set xs \<Longrightarrow> map (\<lambda>x. if x = a then b else x) xs = xs"
  by (induction xs) auto

lemma suffix_append_longer:
  assumes "suffix p (q @ r)" and "\<not> suffix p r"
  obtains q1 q2 where "q = q1 @ q2" and "q2 \<noteq> []" and "p = q2 @ r"
proof -
  from assms(1) obtain z where z: "q @ r = z @ p" by (auto simp: suffix_def)
  then obtain us where "(q = z @ us \<and> us @ r = p) \<or> (q @ us = z \<and> r = us @ p)"
    by (auto simp: append_eq_append_conv2)
  with assms(2) have "q = z @ us" and "us @ r = p" by (auto simp: suffix_def)
  moreover from \<open>us @ r = p\<close> assms(2) have "us \<noteq> []" by auto
  ultimately show thesis using that by blast
qed

subsection \<open>32-bit integers\<close>

lemma sint_of_nat_int32: "n < 2 ^ 31 \<Longrightarrow> sint (of_nat n :: int32) = int n"
  by (simp add: signed_of_nat signed_take_bit_int_eq_self)

end
