(* ===== verification/Api_Types.thy ===== *)
theory Api_Types
  imports Prelude
begin

text \<open>
  The API types: the two custom resources of \<open>api/v1alpha1\<close> (\<open>SysctlProfile\<close>, \<open>ScriptProfile\<close>)
  with all their fields, and the Kubernetes types the sources build or read, with the fields the
  sources touch. Timestamps are natural numbers (\<open>0\<close> is the zero time of \<open>metav1.Time\<close>), durations
  are nanoseconds, pointers are options.
\<close>

type_synonym Time = nat

subsection \<open>Kubernetes object metadata\<close>

record OwnerReference =
  or_Kind :: string
  or_Name :: string
  or_UID :: string
  or_Controller :: bool

record ObjectMeta =
  Name :: string
  Namespace :: string
  UID :: string
  ResourceVersion :: nat
  Generation :: int
  DeletionTimestamp :: Time
  Labels :: gomap
  Finalizers :: "string list"
  OwnerReferences :: "OwnerReference list"

abbreviation key_of :: "ObjectMeta \<Rightarrow> NamespacedName" where
  "key_of m \<equiv> (Namespace m, Name m)"

datatype SelectorOp = OpIn | OpNotIn | OpExists | OpDoesNotExist | OpOther string

record LabelSelectorRequirement =
  req_Key :: string
  req_Operator :: SelectorOp
  req_Values :: "string list"

record LabelSelector =
  MatchLabels :: gomap
  MatchExpressions :: "LabelSelectorRequirement list"

record Toleration =
  tol_Key :: string
  tol_Operator :: string
  tol_Value :: string
  tol_Effect :: string
  tol_Seconds :: "int option"

datatype ConditionStatus = ConditionTrue | ConditionFalse | ConditionUnknown

record Condition =
  cond_Type :: string
  cond_Status :: ConditionStatus
  cond_ObservedGeneration :: int
  cond_LastTransitionTime :: Time
  cond_Reason :: string
  cond_Message :: string

record Node =
  node_Name :: string
  node_Labels :: gomap

subsection \<open>Types shared by both resources\<close>

text \<open>\<open>NodePhase\<close> is a Go type with underlying type \<open>string\<close>, with five constants.\<close>

datatype NodePhase = NodePhase string

definition NodePhasePending :: NodePhase where "NodePhasePending = NodePhase ''Pending''"
definition NodePhaseApplied :: NodePhase where "NodePhaseApplied = NodePhase ''Applied''"
definition NodePhaseFailed :: NodePhase where "NodePhaseFailed = NodePhase ''Failed''"
definition NodePhaseDrifted :: NodePhase where "NodePhaseDrifted = NodePhase ''Drifted''"
definition NodePhaseAudited :: NodePhase where "NodePhaseAudited = NodePhase ''Audited''"

lemma NodePhase_distinct [simp]: "NodePhaseApplied \<noteq> NodePhaseFailed" "NodePhaseFailed \<noteq> NodePhaseApplied"
  by (simp_all add: NodePhaseApplied_def NodePhaseFailed_def)

record NodeStatus =
  NodeName :: string
  Phase :: NodePhase
  AppliedHash :: string
  FailCount :: int32
  Message :: string
  LastTransitionTime :: Time

subsection \<open>SysctlProfile\<close>

text \<open>So is \<open>StrategyType\<close>.\<close>

datatype StrategyType = StrategyType string

definition StrategyAudit :: StrategyType where "StrategyAudit = StrategyType ''Audit''"
definition StrategyOnce :: StrategyType where "StrategyOnce = StrategyType ''Once''"
definition StrategyEnforce :: StrategyType where "StrategyEnforce = StrategyType ''Enforce''"

record InterfaceSelector =
  Prefixes :: "string list"
  Exclude :: "string list"

record Sysctl =
  sysctl_Name :: string
  sysctl_Value :: string
  Persistent :: bool
  InterfaceSelectorOf :: "InterfaceSelector option"

record RolloutSpec =
  BatchSize :: int32
  BatchInterval :: int
  FailureThreshold :: int32
  PauseOnFailure :: bool

record ScheduleSpec =
  DriftCheck :: string
  ReconcileCron :: string

record StrategySpec =
  Type :: StrategyType

record SysctlProfileSpec =
  sys_NodeSelector :: LabelSelector
  sys_Tolerations :: "Toleration list"
  Rollout :: RolloutSpec
  Schedule :: ScheduleSpec
  Strategy :: StrategySpec
  Sysctls :: "Sysctl list"
  RestoreOnDelete :: bool

record SysctlProfileStatus =
  sys_ObservedHash :: string
  sys_TeardownHash :: string
  sys_DesiredNodes :: int32
  sys_AppliedNodes :: int32
  sys_FailedNodes :: int32
  DriftedNodes :: int32
  ErroredPods :: int32
  LastRolloutTime :: "Time option"
  sys_NodeStatuses :: "NodeStatus list"
  sys_Conditions :: "Condition list"

record SysctlProfile =
  sys_meta :: ObjectMeta
  sys_Spec :: SysctlProfileSpec
  sys_Status :: SysctlProfileStatus

subsection \<open>ScriptProfile\<close>

record Script =
  script_Name :: string
  script_Content :: string
  script_Interpreter :: string

record ScriptProfileSpec =
  scr_NodeSelector :: LabelSelector
  scr_Tolerations :: "Toleration list"
  Scripts :: "Script list"

record ScriptProfileStatus =
  scr_ObservedHash :: string
  scr_TeardownHash :: string
  scr_DesiredNodes :: int32
  scr_AppliedNodes :: int32
  scr_FailedNodes :: int32
  scr_NodeStatuses :: "NodeStatus list"
  scr_Conditions :: "Condition list"

record ScriptProfile =
  scr_meta :: ObjectMeta
  scr_Spec :: ScriptProfileSpec
  scr_Status :: ScriptProfileStatus

subsection \<open>The owned resources: ConfigMap, DaemonSet, CronJob\<close>

record ConfigMap =
  cm_meta :: ObjectMeta
  cm_Data :: gomap

datatype VolumeSource = VolConfigMap string | VolHostPath string

record Volume =
  vol_Name :: string
  vol_Source :: VolumeSource

record VolumeMount =
  mount_Name :: string
  MountPath :: string
  ReadOnly :: bool

text \<open>An environment variable has a literal value or the path of a pod field it is read from.\<close>

datatype EnvValue = EnvLiteral string | EnvFieldRef string

record Container =
  ctr_Name :: string
  Image :: string
  ImagePullPolicy :: string
  Privileged :: "bool option"
  VolumeMounts :: "VolumeMount list"
  Env :: "(string \<times> EnvValue) list"

record PodSpec =
  pod_NodeSelector :: gomap
  pod_Tolerations :: "Toleration list"
  HostNetwork :: bool
  HostPID :: bool
  HostIPC :: bool
  DNSPolicy :: string
  RestartPolicy :: string
  Volumes :: "Volume list"
  Containers :: "Container list"

record PodTemplate =
  tmpl_Labels :: gomap
  Annotations :: gomap
  tmpl_Spec :: PodSpec

record DaemonSet =
  ds_meta :: ObjectMeta
  ds_Selector :: "LabelSelector option"
  ds_Template :: PodTemplate

record CronJob =
  cj_meta :: ObjectMeta
  cj_Schedule :: string
  ConcurrencyPolicy :: string
  SuccessfulJobsHistoryLimit :: "int32 option"
  FailedJobsHistoryLimit :: "int32 option"
  cj_Template :: PodTemplate

text \<open>The zero values that a Go composite literal leaves in the fields it does not name.\<close>

definition zeroMeta :: ObjectMeta where
  "zeroMeta = \<lparr>Name = [], Namespace = [], UID = [], ResourceVersion = 0, Generation = 0,
     DeletionTimestamp = 0, Labels = None, Finalizers = [], OwnerReferences = []\<rparr>"

definition objectMeta :: "string \<Rightarrow> string \<Rightarrow> ObjectMeta" where
  "objectMeta name namespace = zeroMeta\<lparr>Name := name, Namespace := namespace\<rparr>"

definition zeroPodSpec :: PodSpec where
  "zeroPodSpec = \<lparr>pod_NodeSelector = None, pod_Tolerations = [], HostNetwork = False, HostPID = False,
     HostIPC = False, DNSPolicy = [], RestartPolicy = [], Volumes = [], Containers = []\<rparr>"

definition zeroTemplate :: PodTemplate where
  "zeroTemplate = \<lparr>tmpl_Labels = None, Annotations = None, tmpl_Spec = zeroPodSpec\<rparr>"

definition newConfigMap :: "string \<Rightarrow> string \<Rightarrow> ConfigMap" where
  "newConfigMap name namespace = \<lparr>cm_meta = objectMeta name namespace, cm_Data = None\<rparr>"

definition newDaemonSet :: "string \<Rightarrow> string \<Rightarrow> DaemonSet" where
  "newDaemonSet name namespace =
     \<lparr>ds_meta = objectMeta name namespace, ds_Selector = None, ds_Template = zeroTemplate\<rparr>"

definition newCronJob :: "string \<Rightarrow> string \<Rightarrow> CronJob" where
  "newCronJob name namespace =
     \<lparr>cj_meta = objectMeta name namespace, cj_Schedule = [], ConcurrencyPolicy = [],
      SuccessfulJobsHistoryLimit = None, FailedJobsHistoryLimit = None, cj_Template = zeroTemplate\<rparr>"

lemma newObject_keys [simp]:
  "Name (objectMeta n ns) = n" "Namespace (objectMeta n ns) = ns"
  "cm_meta (newConfigMap n ns) = objectMeta n ns"
  "ds_meta (newDaemonSet n ns) = objectMeta n ns"
  "cj_meta (newCronJob n ns) = objectMeta n ns"
  by (simp_all add: objectMeta_def newConfigMap_def newDaemonSet_def newCronJob_def)

text \<open>Two profiles with everything left out, for the examples.\<close>

definition blankProfile :: SysctlProfile where
  "blankProfile =
     \<lparr>sys_meta = zeroMeta\<lparr>Name := ''p''\<rparr>,
      sys_Spec = \<lparr>sys_NodeSelector = \<lparr>MatchLabels = None, MatchExpressions = []\<rparr>, sys_Tolerations = [],
        Rollout = \<lparr>BatchSize = 0, BatchInterval = 0, FailureThreshold = 0, PauseOnFailure = False\<rparr>,
        Schedule = \<lparr>DriftCheck = [], ReconcileCron = []\<rparr>, Strategy = \<lparr>Type = StrategyEnforce\<rparr>,
        Sysctls = [], RestoreOnDelete = False\<rparr>,
      sys_Status = \<lparr>sys_ObservedHash = [], sys_TeardownHash = [], sys_DesiredNodes = 0, sys_AppliedNodes = 0,
        sys_FailedNodes = 0, DriftedNodes = 0, ErroredPods = 0, LastRolloutTime = None, sys_NodeStatuses = [],
        sys_Conditions = []\<rparr>\<rparr>"

definition blankScriptProfile :: ScriptProfile where
  "blankScriptProfile =
     \<lparr>scr_meta = zeroMeta\<lparr>Name := ''p''\<rparr>,
      scr_Spec = \<lparr>scr_NodeSelector = \<lparr>MatchLabels = None, MatchExpressions = []\<rparr>, scr_Tolerations = [], Scripts = []\<rparr>,
      scr_Status = \<lparr>scr_ObservedHash = [], scr_TeardownHash = [], scr_DesiredNodes = 0, scr_AppliedNodes = 0,
        scr_FailedNodes = 0, scr_NodeStatuses = [], scr_Conditions = []\<rparr>\<rparr>"

end
