(* ===== verification/Kube.thy ===== *)
theory Kube
  imports Api_Types
begin

text \<open>
  The imported Kubernetes packages, as a parameter of the model. The cluster (the API server, its
  caches and the metrics registry) has a state of some type \<open>'w\<close>; a \<^verbatim>\<open>Kube\<close> record holds the
  functions the sources call on it:
  \<^item> \<open>client.Client\<close>: \<open>Get\<close>, \<open>List\<close>, \<open>Update\<close>, \<open>Delete\<close> and \<open>Status().Update\<close> at the types used;
  \<^item> \<open>controllerutil\<close>: \<open>CreateOrUpdate\<close> with its mutate function, \<open>SetControllerReference\<close> and the
    finalizer functions;
  \<^item> \<open>client.IgnoreNotFound\<close>, \<open>meta.SetStatusCondition\<close>, \<open>metav1.LabelSelectorAsSelector\<close> (a selector
    is the function it matches label sets with), \<open>apiequality.Semantic.DeepEqual\<close> at the two status
    types, \<open>retry.RetryOnConflict\<close> with \<open>retry.DefaultRetry\<close>, \<open>metav1.Now\<close>, and the increment of a
    Prometheus counter.
  A call that can change the cluster returns the new state with its error (\<^term>\<open>None\<close> is \<open>nil\<close>).
  The definitions of the components hold for every such record; what a theorem needs to know of
  the packages is a law of one of the locales below.
\<close>

type_synonym Selector = "gomap \<Rightarrow> bool"
type_synonym 'w result = "Err option \<times> 'w"

record 'w Kube =
  GetSysctlProfile :: "NamespacedName \<Rightarrow> 'w \<Rightarrow> Err + SysctlProfile"
  ListSysctlProfiles :: "'w \<Rightarrow> Err + SysctlProfile list"
  UpdateSysctlProfile :: "SysctlProfile \<Rightarrow> 'w \<Rightarrow> 'w result"
  StatusUpdateSysctlProfile :: "SysctlProfile \<Rightarrow> 'w \<Rightarrow> 'w result"
  GetScriptProfile :: "NamespacedName \<Rightarrow> 'w \<Rightarrow> Err + ScriptProfile"
  ListScriptProfiles :: "'w \<Rightarrow> Err + ScriptProfile list"
  UpdateScriptProfile :: "ScriptProfile \<Rightarrow> 'w \<Rightarrow> 'w result"
  StatusUpdateScriptProfile :: "ScriptProfile \<Rightarrow> 'w \<Rightarrow> 'w result"
  ListNodes :: "Selector \<Rightarrow> 'w \<Rightarrow> Err + Node list"
  DeleteConfigMap :: "ConfigMap \<Rightarrow> 'w \<Rightarrow> 'w result"
  DeleteDaemonSet :: "DaemonSet \<Rightarrow> 'w \<Rightarrow> 'w result"
  DeleteCronJob :: "CronJob \<Rightarrow> 'w \<Rightarrow> 'w result"
  CreateOrUpdateConfigMap :: "ConfigMap \<Rightarrow> (ConfigMap \<Rightarrow> Err + ConfigMap) \<Rightarrow> 'w \<Rightarrow> 'w result"
  CreateOrUpdateDaemonSet :: "DaemonSet \<Rightarrow> (DaemonSet \<Rightarrow> Err + DaemonSet) \<Rightarrow> 'w \<Rightarrow> 'w result"
  CreateOrUpdateCronJob :: "CronJob \<Rightarrow> (CronJob \<Rightarrow> Err + CronJob) \<Rightarrow> 'w \<Rightarrow> 'w result"
  SetControllerReference :: "string \<Rightarrow> ObjectMeta \<Rightarrow> ObjectMeta \<Rightarrow> Err + ObjectMeta"
  ContainsFinalizer :: "ObjectMeta \<Rightarrow> string \<Rightarrow> bool"
  AddFinalizer :: "ObjectMeta \<Rightarrow> string \<Rightarrow> ObjectMeta"
  RemoveFinalizer :: "ObjectMeta \<Rightarrow> string \<Rightarrow> ObjectMeta"
  IgnoreNotFound :: "Err \<Rightarrow> Err option"
  SetStatusCondition :: "Time \<Rightarrow> Condition list \<Rightarrow> Condition \<Rightarrow> Condition list"
  LabelSelectorAsSelector :: "LabelSelector \<Rightarrow> Err + Selector"
  SysctlStatusDeepEqual :: "SysctlProfileStatus \<Rightarrow> SysctlProfileStatus \<Rightarrow> bool"
  ScriptStatusDeepEqual :: "ScriptProfileStatus \<Rightarrow> ScriptProfileStatus \<Rightarrow> bool"
  RetryOnConflict :: "('w \<Rightarrow> 'w result) \<Rightarrow> 'w \<Rightarrow> 'w result"
  Now :: "'w \<Rightarrow> Time"
  CounterInc :: "string list \<Rightarrow> 'w \<Rightarrow> 'w"

text \<open>
  Two shapes of Go code that recur: \<open>if err := f(); err != nil { return err }\<close> followed by the
  rest, and \<open>client.IgnoreNotFound(f())\<close>.
\<close>

definition onOK :: "'w result \<Rightarrow> ('w \<Rightarrow> 'w result) \<Rightarrow> 'w result" where
  "onOK r k = (case r of (Some err, w) \<Rightarrow> (Some err, w) | (None, w) \<Rightarrow> k w)"

definition ignoreNotFound :: "'w Kube \<Rightarrow> 'w result \<Rightarrow> 'w result" where
  "ignoreNotFound K r = (case r of (Some err, w) \<Rightarrow> (IgnoreNotFound K err, w) | (None, w) \<Rightarrow> (None, w))"

lemma onOK_simps [simp]: "onOK (Some e, w) k = (Some e, w)" "onOK (None, w) k = k w"
  by (simp_all add: onOK_def)

lemma onOK_NoneE:
  assumes "onOK r k = (None, w')"
  obtains w where "r = (None, w)" and "k w = (None, w')"
  using assms by (auto simp: onOK_def split: prod.splits option.splits)

lemma ignoreNotFound_simps [simp]:
  "ignoreNotFound K (None, w) = (None, w)"
  "ignoreNotFound K (Some e, w) = (IgnoreNotFound K e, w)"
  by (simp_all add: ignoreNotFound_def)

subsection \<open>What the sources rely on\<close>

text \<open>
  The objects stored in the cluster, as the laws speak of them. \<open>view\<close> reads them off the state.
\<close>

record Cluster =
  cl_SysctlProfiles :: "NamespacedName \<rightharpoonup> SysctlProfile"
  cl_ScriptProfiles :: "NamespacedName \<rightharpoonup> ScriptProfile"
  cl_ConfigMaps :: "NamespacedName \<rightharpoonup> ConfigMap"
  cl_DaemonSets :: "NamespacedName \<rightharpoonup> DaemonSet"
  cl_CronJobs :: "NamespacedName \<rightharpoonup> CronJob"
  cl_Nodes :: "Node list"

definition set_cm :: "NamespacedName \<Rightarrow> ConfigMap option \<Rightarrow> Cluster \<Rightarrow> Cluster" where
  "set_cm k x v = v\<lparr>cl_ConfigMaps := (cl_ConfigMaps v)(k := x)\<rparr>"

definition set_ds :: "NamespacedName \<Rightarrow> DaemonSet option \<Rightarrow> Cluster \<Rightarrow> Cluster" where
  "set_ds k x v = v\<lparr>cl_DaemonSets := (cl_DaemonSets v)(k := x)\<rparr>"

definition set_cj :: "NamespacedName \<Rightarrow> CronJob option \<Rightarrow> Cluster \<Rightarrow> Cluster" where
  "set_cj k x v = v\<lparr>cl_CronJobs := (cl_CronJobs v)(k := x)\<rparr>"

definition set_sysctl :: "NamespacedName \<Rightarrow> SysctlProfile option \<Rightarrow> Cluster \<Rightarrow> Cluster" where
  "set_sysctl k x v = v\<lparr>cl_SysctlProfiles := (cl_SysctlProfiles v)(k := x)\<rparr>"

definition set_script :: "NamespacedName \<Rightarrow> ScriptProfile option \<Rightarrow> Cluster \<Rightarrow> Cluster" where
  "set_script k x v = v\<lparr>cl_ScriptProfiles := (cl_ScriptProfiles v)(k := x)\<rparr>"

lemmas view_defs = set_cm_def set_ds_def set_cj_def set_sysctl_def set_script_def

subsection \<open>The footprint of a pass\<close>

text \<open>
  Two views that differ at most in the owned objects of the given keys: ConfigMaps, DaemonSets and
  CronJobs.
\<close>

definition same_except ::
  "NamespacedName \<Rightarrow> NamespacedName \<Rightarrow> NamespacedName \<Rightarrow> Cluster \<Rightarrow> Cluster \<Rightarrow> bool" where
  "same_except c d j v v' \<longleftrightarrow>
     (\<forall>k. k \<noteq> c \<longrightarrow> cl_ConfigMaps v' k = cl_ConfigMaps v k)
     \<and> (\<forall>k. k \<noteq> d \<longrightarrow> cl_DaemonSets v' k = cl_DaemonSets v k)
     \<and> (\<forall>k. k \<noteq> j \<longrightarrow> cl_CronJobs v' k = cl_CronJobs v k)
     \<and> cl_SysctlProfiles v' = cl_SysctlProfiles v \<and> cl_ScriptProfiles v' = cl_ScriptProfiles v
     \<and> cl_Nodes v' = cl_Nodes v"

lemma same_except_refl [simp]: "same_except c d j v v"
  by (simp add: same_except_def)

lemma same_except_trans [trans]:
  "same_except c d j u v \<Longrightarrow> same_except c d j v v' \<Longrightarrow> same_except c d j u v'"
  by (simp add: same_except_def)

lemma same_except_set [simp]:
  "same_except c d j v (set_cm c x v)"
  "same_except c d j v (set_ds d y v)"
  "same_except c d j v (set_cj j z v)"
  by (simp_all add: same_except_def view_defs)

lemma set_sel [simp]:
  "cl_ConfigMaps (set_cm k x v) = (cl_ConfigMaps v)(k := x)"
  "cl_DaemonSets (set_cm k x v) = cl_DaemonSets v"
  "cl_CronJobs (set_cm k x v) = cl_CronJobs v"
  "cl_SysctlProfiles (set_cm k x v) = cl_SysctlProfiles v"
  "cl_ScriptProfiles (set_cm k x v) = cl_ScriptProfiles v"
  "cl_Nodes (set_cm k x v) = cl_Nodes v"
  "cl_ConfigMaps (set_ds k y v) = cl_ConfigMaps v"
  "cl_DaemonSets (set_ds k y v) = (cl_DaemonSets v)(k := y)"
  "cl_CronJobs (set_ds k y v) = cl_CronJobs v"
  "cl_SysctlProfiles (set_ds k y v) = cl_SysctlProfiles v"
  "cl_ScriptProfiles (set_ds k y v) = cl_ScriptProfiles v"
  "cl_Nodes (set_ds k y v) = cl_Nodes v"
  "cl_ConfigMaps (set_cj k z v) = cl_ConfigMaps v"
  "cl_DaemonSets (set_cj k z v) = cl_DaemonSets v"
  "cl_CronJobs (set_cj k z v) = (cl_CronJobs v)(k := z)"
  "cl_SysctlProfiles (set_cj k z v) = cl_SysctlProfiles v"
  "cl_ScriptProfiles (set_cj k z v) = cl_ScriptProfiles v"
  "cl_Nodes (set_cj k z v) = cl_Nodes v"
  "cl_ConfigMaps (set_sysctl k p v) = cl_ConfigMaps v"
  "cl_DaemonSets (set_sysctl k p v) = cl_DaemonSets v"
  "cl_CronJobs (set_sysctl k p v) = cl_CronJobs v"
  "cl_SysctlProfiles (set_sysctl k p v) = (cl_SysctlProfiles v)(k := p)"
  "cl_ScriptProfiles (set_sysctl k p v) = cl_ScriptProfiles v"
  "cl_Nodes (set_sysctl k p v) = cl_Nodes v"
  "cl_ConfigMaps (set_script k s v) = cl_ConfigMaps v"
  "cl_DaemonSets (set_script k s v) = cl_DaemonSets v"
  "cl_CronJobs (set_script k s v) = cl_CronJobs v"
  "cl_SysctlProfiles (set_script k s v) = cl_SysctlProfiles v"
  "cl_ScriptProfiles (set_script k s v) = (cl_ScriptProfiles v)(k := s)"
  "cl_Nodes (set_script k s v) = cl_Nodes v"
  by (simp_all add: view_defs)

subsection \<open>The laws\<close>

text \<open>
  An object as the API server stores it: what was written, with the fields it manages itself (of the
  fields modelled).
\<close>

definition stamped :: "ObjectMeta \<Rightarrow> ObjectMeta \<Rightarrow> bool" where
  "stamped m m' \<longleftrightarrow> (\<exists>u v g. m' = m\<lparr>UID := u, ResourceVersion := v, Generation := g\<rparr>)"

text \<open>
  The object a successful \<open>Update\<close> of a resource with a status subresource leaves behind: metadata
  and spec of the object written, the stored status, a new resource version; nothing, when the
  object is being deleted and its last finalizer is gone.
\<close>

definition updated_sysctl :: "SysctlProfile \<Rightarrow> SysctlProfile \<Rightarrow> nat \<Rightarrow> SysctlProfile option" where
  "updated_sysctl old p v =
     (if DeletionTimestamp (sys_meta p) \<noteq> 0 \<and> Finalizers (sys_meta p) = [] then None
      else Some (old\<lparr>sys_meta := (sys_meta p)\<lparr>ResourceVersion := v\<rparr>, sys_Spec := sys_Spec p\<rparr>))"

definition updated_script :: "ScriptProfile \<Rightarrow> ScriptProfile \<Rightarrow> nat \<Rightarrow> ScriptProfile option" where
  "updated_script old p v =
     (if DeletionTimestamp (scr_meta p) \<noteq> 0 \<and> Finalizers (scr_meta p) = [] then None
      else Some (old\<lparr>scr_meta := (scr_meta p)\<lparr>ResourceVersion := v\<rparr>, scr_Spec := scr_Spec p\<rparr>))"

text \<open>
  The client's contract. A read of a profile returns an object of that name, which may be stale (the
  client reads from a cache); the resource version tells: a stored object of the same version is the
  same object. The nodes of the view are those the cache holds. A write that succeeds has its effect
  on the one object it names; one that fails may or may not have had it (a request can time out
  after it was served), but a conflict is a refusal and changes nothing. \<open>Update\<close> and
  \<open>Status().Update\<close> take effect only from the current resource version (optimistic concurrency),
  and write the main resource or the status subresource only.

  The laws of the calls on owned objects are those of a cluster in which nobody else puts finalizers on
  these objects and the client's cache of them is up to date: \<open>Delete\<close> is called without options, so it
  asks for background deletion, which removes an object without finalizers at once and not after its
  dependents; \<open>CreateOrUpdate\<close> reads the object from the cache, applies the mutate function to it and
  writes the result back if it differs (from a stale object the write is refused, but a stale object
  may also look as desired, and then nothing is written). The API server adds defaults to fields that
  the code leaves unset; the records have only fields that the code sets or reads, on which it does not.
\<close>

locale kube_objects =
  fixes K :: "'w Kube" and view :: "'w \<Rightarrow> Cluster"
  assumes get_sysctl: "GetSysctlProfile K k w = Inr p \<Longrightarrow> key_of (sys_meta p) = k"
    and get_sysctl_version: "GetSysctlProfile K k w = Inr p \<Longrightarrow> cl_SysctlProfiles (view w) k = Some q \<Longrightarrow>
      ResourceVersion (sys_meta q) = ResourceVersion (sys_meta p) \<Longrightarrow> q = p"
    and get_script: "GetScriptProfile K k w = Inr s \<Longrightarrow> key_of (scr_meta s) = k"
    and get_script_version: "GetScriptProfile K k w = Inr s \<Longrightarrow> cl_ScriptProfiles (view w) k = Some s' \<Longrightarrow>
      ResourceVersion (scr_meta s') = ResourceVersion (scr_meta s) \<Longrightarrow> s' = s"
    and list_nodes: "ListNodes K sel w = Inr ns \<Longrightarrow> ns = filter (\<lambda>n. sel (node_Labels n)) (cl_Nodes (view w))"
    and del_cm: "ignoreNotFound K (DeleteConfigMap K c w) = (None, w') \<Longrightarrow>
      view w' = set_cm (key_of (cm_meta c)) None (view w)"
    and del_cm_any: "DeleteConfigMap K c w = (r, w') \<Longrightarrow>
      view w' = view w \<or> view w' = set_cm (key_of (cm_meta c)) None (view w)"
    and del_ds: "ignoreNotFound K (DeleteDaemonSet K d w) = (None, w') \<Longrightarrow>
      view w' = set_ds (key_of (ds_meta d)) None (view w)"
    and del_ds_any: "DeleteDaemonSet K d w = (r, w') \<Longrightarrow>
      view w' = view w \<or> view w' = set_ds (key_of (ds_meta d)) None (view w)"
    and del_cj: "ignoreNotFound K (DeleteCronJob K j w) = (None, w') \<Longrightarrow>
      view w' = set_cj (key_of (cj_meta j)) None (view w)"
    and del_cj_any: "DeleteCronJob K j w = (r, w') \<Longrightarrow>
      view w' = view w \<or> view w' = set_cj (key_of (cj_meta j)) None (view w)"
    and cou_cm: "CreateOrUpdateConfigMap K c fc w = (None, w') \<Longrightarrow>
      \<exists>x m. fc (case cl_ConfigMaps (view w) (key_of (cm_meta c)) of None \<Rightarrow> c | Some y \<Rightarrow> y) = Inr x
        \<and> stamped (cm_meta x) m \<and> view w' = set_cm (key_of (cm_meta c)) (Some (x\<lparr>cm_meta := m\<rparr>)) (view w)"
    and cou_cm_any: "CreateOrUpdateConfigMap K c fc w = (r, w') \<Longrightarrow>
      view w' = view w \<or> (\<exists>x. view w' = set_cm (key_of (cm_meta c)) (Some x) (view w))"
    and cou_ds: "CreateOrUpdateDaemonSet K d fd w = (None, w') \<Longrightarrow>
      \<exists>x m. fd (case cl_DaemonSets (view w) (key_of (ds_meta d)) of None \<Rightarrow> d | Some y \<Rightarrow> y) = Inr x
        \<and> stamped (ds_meta x) m \<and> view w' = set_ds (key_of (ds_meta d)) (Some (x\<lparr>ds_meta := m\<rparr>)) (view w)"
    and cou_ds_any: "CreateOrUpdateDaemonSet K d fd w = (r, w') \<Longrightarrow>
      view w' = view w \<or> (\<exists>x. view w' = set_ds (key_of (ds_meta d)) (Some x) (view w))"
    and cou_cj: "CreateOrUpdateCronJob K j fj w = (None, w') \<Longrightarrow>
      \<exists>x m. fj (case cl_CronJobs (view w) (key_of (cj_meta j)) of None \<Rightarrow> j | Some y \<Rightarrow> y) = Inr x
        \<and> stamped (cj_meta x) m \<and> view w' = set_cj (key_of (cj_meta j)) (Some (x\<lparr>cj_meta := m\<rparr>)) (view w)"
    and cou_cj_any: "CreateOrUpdateCronJob K j fj w = (r, w') \<Longrightarrow>
      view w' = view w \<or> (\<exists>x. view w' = set_cj (key_of (cj_meta j)) (Some x) (view w))"
    and upd_sysctl: "UpdateSysctlProfile K p w = (r, w') \<Longrightarrow>
      r \<noteq> None \<and> view w' = view w \<or>
      (\<exists>old v. cl_SysctlProfiles (view w) (key_of (sys_meta p)) = Some old
        \<and> ResourceVersion (sys_meta old) = ResourceVersion (sys_meta p) \<and> ResourceVersion (sys_meta old) < v
        \<and> view w' = set_sysctl (key_of (sys_meta p)) (updated_sysctl old p v) (view w))"
    and upd_script: "UpdateScriptProfile K s w = (r, w') \<Longrightarrow>
      r \<noteq> None \<and> view w' = view w \<or>
      (\<exists>old v. cl_ScriptProfiles (view w) (key_of (scr_meta s)) = Some old
        \<and> ResourceVersion (scr_meta old) = ResourceVersion (scr_meta s) \<and> ResourceVersion (scr_meta old) < v
        \<and> view w' = set_script (key_of (scr_meta s)) (updated_script old s v) (view w))"
    and stat_sysctl: "StatusUpdateSysctlProfile K p w = (r, w') \<Longrightarrow>
      r \<noteq> None \<and> view w' = view w \<or>
      (\<exists>old v. cl_SysctlProfiles (view w) (key_of (sys_meta p)) = Some old
        \<and> ResourceVersion (sys_meta old) = ResourceVersion (sys_meta p) \<and> ResourceVersion (sys_meta old) < v
        \<and> view w' = set_sysctl (key_of (sys_meta p))
             (Some (old\<lparr>sys_meta := (sys_meta old)\<lparr>ResourceVersion := v\<rparr>, sys_Status := sys_Status p\<rparr>)) (view w))"
    and stat_script: "StatusUpdateScriptProfile K s w = (r, w') \<Longrightarrow>
      r \<noteq> None \<and> view w' = view w \<or>
      (\<exists>old v. cl_ScriptProfiles (view w) (key_of (scr_meta s)) = Some old
        \<and> ResourceVersion (scr_meta old) = ResourceVersion (scr_meta s) \<and> ResourceVersion (scr_meta old) < v
        \<and> view w' = set_script (key_of (scr_meta s))
             (Some (old\<lparr>scr_meta := (scr_meta old)\<lparr>ResourceVersion := v\<rparr>, scr_Status := scr_Status s\<rparr>)) (view w))"
    and stat_sysctl_conflict: "StatusUpdateSysctlProfile K p w = (Some (StatusErr ''Conflict'' msg), w') \<Longrightarrow> view w' = view w"
    and stat_script_conflict: "StatusUpdateScriptProfile K s w = (Some (StatusErr ''Conflict'' msg), w') \<Longrightarrow> view w' = view w"

text \<open>
  The helper packages' contract: finalizers as a list, controller references, conditions keyed by
  their type, semantic equality, and the retry loop.
\<close>

definition distinct_types :: "Condition list \<Rightarrow> bool" where
  "distinct_types cs \<longleftrightarrow> distinct (map cond_Type cs)"

locale kube_helpers =
  fixes K :: "'w Kube"
  assumes contains_finalizer: "ContainsFinalizer K m f \<longleftrightarrow> f \<in> set (Finalizers m)"
    and add_finalizer: "AddFinalizer K m f =
      (if f \<in> set (Finalizers m) then m else m\<lparr>Finalizers := Finalizers m @ [f]\<rparr>)"
    and remove_finalizer: "RemoveFinalizer K m f = m\<lparr>Finalizers := filter (\<lambda>g. g \<noteq> f) (Finalizers m)\<rparr>"
    and controller_reference: "SetControllerReference K kind owner m = Inr m' \<Longrightarrow>
      (\<exists>refs. m' = m\<lparr>OwnerReferences := refs\<rparr>
         \<and> (\<exists>ref\<in>set refs. or_Kind ref = kind \<and> or_Name ref = Name owner \<and> or_UID ref = UID owner \<and> or_Controller ref))"
    and condition_set: "\<exists>d\<in>set (SetStatusCondition K t cs c).
      cond_Type d = cond_Type c \<and> cond_Status d = cond_Status c \<and> cond_Reason d = cond_Reason c
      \<and> cond_Message d = cond_Message c \<and> cond_ObservedGeneration d = cond_ObservedGeneration c"
    and condition_idem: "SetStatusCondition K t' (SetStatusCondition K t cs c) c = SetStatusCondition K t cs c"
    and condition_others: "filter (\<lambda>d. cond_Type d \<noteq> cond_Type c) (SetStatusCondition K t cs c)
      = filter (\<lambda>d. cond_Type d \<noteq> cond_Type c) cs"
    and condition_types: "distinct_types cs \<Longrightarrow> distinct_types (SetStatusCondition K t cs c)"
    and sysctl_equal: "SysctlStatusDeepEqual K a b \<longleftrightarrow> a = b"
    and script_equal: "ScriptStatusDeepEqual K a' b' \<longleftrightarrow> a' = b'"

locale kube = kube_objects K view + kube_helpers K for K :: "'w Kube" and view

text \<open>\<open>retry.RetryOnConflict\<close>: repeat while the error is a conflict, a bounded number of times.\<close>

fun attempts :: "nat \<Rightarrow> ('w \<Rightarrow> 'w result) \<Rightarrow> 'w \<Rightarrow> 'w result" where
  "attempts 0 f w = f w"
| "attempts (Suc n) f w =
     (case f w of
        (Some (StatusErr reason msg), w1) \<Rightarrow>
          if reason = ''Conflict'' then attempts n f w1 else (Some (StatusErr reason msg), w1)
      | r \<Rightarrow> r)"

text \<open>
  Whatever every attempt keeps, the retry loop keeps; and its result is that of its last attempt.
\<close>

lemma attempts_invariant:
  assumes step: "\<And>w r w'. I w \<Longrightarrow> f w = (r, w') \<Longrightarrow> I w'" and "I w"
  shows "I (snd (attempts n f w))"
  using assms(2)
proof (induction n arbitrary: w)
  case 0
  then show ?case using step [of w "fst (f w)" "snd (f w)"] by simp
next
  case (Suc n)
  obtain r w1 where fw: "f w = (r, w1)" by fastforce
  from step [OF Suc.prems fw] have "I w1" .
  with Suc.IH show ?case by (auto simp: fw split: option.splits Err.splits)
qed

lemma attempts_last:
  assumes step: "\<And>w msg w'. I w \<Longrightarrow> f w = (Some (StatusErr ''Conflict'' msg), w') \<Longrightarrow> I w'" and "I w"
    and "attempts n f w = (r, w')"
  shows "\<exists>w0. I w0 \<and> f w0 = (r, w')"
  using assms(2,3)
proof (induction n arbitrary: w)
  case (Suc n)
  obtain r1 w1 where fw: "f w = (r1, w1)" by fastforce
  show ?case
  proof (cases "\<exists>msg. r1 = Some (StatusErr ''Conflict'' msg)")
    case True
    with fw have "I w1" and "attempts n f w1 = (r, w')"
      using step [OF Suc.prems(1)] Suc.prems(2) by auto
    then show ?thesis by (rule Suc.IH)
  next
    case False
    with fw Suc.prems(2) have "f w = (r, w')"
      by (auto split: option.splits Err.splits if_splits)
    with Suc.prems(1) show ?thesis by blast
  qed
qed auto

locale kube_retry =
  fixes K :: "'w Kube"
  assumes retry_attempts: "\<exists>n. RetryOnConflict K f w = attempts n f w"
begin

lemma retry_invariant:
  assumes "\<And>w r w'. I w \<Longrightarrow> f w = (r, w') \<Longrightarrow> I w'" and "I w" and "RetryOnConflict K f w = (r, w')"
  shows "I w'"
proof -
  from retry_attempts obtain n where "RetryOnConflict K f w = attempts n f w" by blast
  with assms(3) attempts_invariant [of I f w n, OF assms(1,2)] show ?thesis by simp
qed

lemma retry_last:
  assumes "\<And>w msg w'. I w \<Longrightarrow> f w = (Some (StatusErr ''Conflict'' msg), w') \<Longrightarrow> I w'" and "I w"
    and "RetryOnConflict K f w = (r, w')"
  shows "\<exists>w0. I w0 \<and> f w0 = (r, w')"
proof -
  from retry_attempts obtain n where "RetryOnConflict K f w = attempts n f w" by blast
  with assms(3) attempts_last [of I f w n, OF assms(1,2)] show ?thesis by simp
qed

end

text \<open>The metrics registry: a counter per label tuple, which no API call changes.\<close>

locale kube_metrics =
  fixes K :: "'w Kube" and counter :: "'w \<Rightarrow> string list \<Rightarrow> nat"
  assumes counter_inc: "counter (CounterInc K ls w) = (counter w)(ls := counter w ls + 1)"
    and counter_status_sysctl: "StatusUpdateSysctlProfile K p w = (r, w') \<Longrightarrow> counter w' = counter w"
    and counter_status_script: "StatusUpdateScriptProfile K s w = (r, w') \<Longrightarrow> counter w' = counter w"

end
