(* ===== verification/Go_Strings.thy ===== *)
theory Go_Strings
  imports Prelude
begin

text \<open>
  The functions of Go's \<open>strings\<close>, \<open>fmt\<close> and \<open>path/filepath\<close> packages that the sources call, on
  byte strings. White space is \<open>unicode.IsSpace\<close> on UTF-8: the six ASCII bytes and the encodings
  of U+0085, U+00A0, U+1680, U+2000..U+200A, U+2028, U+2029, U+202F, U+205F and U+3000. Because
  every such encoding starts with a byte that is no UTF-8 continuation byte, cutting one off at
  either end of a byte string is the same as decoding the first or the last rune.
\<close>

subsection \<open>Prefixes, suffixes, cutting and joining\<close>

definition HasPrefix :: "string \<Rightarrow> string \<Rightarrow> bool" where
  "HasPrefix s p \<longleftrightarrow> take (length p) s = p"

definition HasSuffix :: "string \<Rightarrow> string \<Rightarrow> bool" where
  "HasSuffix s p \<longleftrightarrow> HasPrefix (rev s) (rev p)"

definition TrimPrefix :: "string \<Rightarrow> string \<Rightarrow> string" where
  "TrimPrefix s p = (if HasPrefix s p then drop (length p) s else s)"

text \<open>\<open>strings.TrimLeft\<close> and \<open>strings.TrimRight\<close> for a cutset of one byte.\<close>

definition TrimLeft :: "string \<Rightarrow> char \<Rightarrow> string" where
  "TrimLeft s c = dropWhile (\<lambda>x. x = c) s"

definition TrimRight :: "string \<Rightarrow> char \<Rightarrow> string" where
  "TrimRight s c = rev (dropWhile (\<lambda>x. x = c) (rev s))"

text \<open>\<open>strings.Split\<close>, \<open>strings.Cut\<close> and \<open>strings.ReplaceAll\<close> for separators of one byte.\<close>

fun Split :: "string \<Rightarrow> char \<Rightarrow> string list" where
  "Split [] c = [[]]"
| "Split (x # xs) c =
     (if x = c then [] # Split xs c
      else case Split xs c of [] \<Rightarrow> [[x]] | y # ys \<Rightarrow> (x # y) # ys)"

fun Cut :: "string \<Rightarrow> char \<Rightarrow> string \<times> string \<times> bool" where
  "Cut [] c = ([], [], False)"
| "Cut (x # xs) c =
     (if x = c then ([], xs, True) else case Cut xs c of (a, b, ok) \<Rightarrow> (x # a, b, ok))"

definition ReplaceAll :: "string \<Rightarrow> char \<Rightarrow> char \<Rightarrow> string" where
  "ReplaceAll s old new = map (\<lambda>x. if x = old then new else x) s"

fun Join :: "string list \<Rightarrow> string \<Rightarrow> string" where
  "Join [] sep = []"
| "Join [x] sep = x"
| "Join (x # y # ys) sep = x @ sep @ Join (y # ys) sep"

text \<open>\<open>strings.Index\<close>, with \<^term>\<open>None\<close> for \<open>-1\<close>.\<close>

fun Index :: "string \<Rightarrow> string \<Rightarrow> nat option" where
  "Index [] sub = (if sub = [] then Some 0 else None)"
| "Index (x # xs) sub =
     (if HasPrefix (x # xs) sub then Some 0 else map_option Suc (Index xs sub))"

text \<open>\<open>%d\<close> of a length.\<close>

fun Itoa :: "nat \<Rightarrow> string" where
  "Itoa n = (if n < 10 then [char_of (48 + n)] else Itoa (n div 10) @ [char_of (48 + n mod 10)])"

declare Itoa.simps [simp del]

subsection \<open>White space\<close>

definition space_runes :: "string list" where
  "space_runes =
     [[CHR 0x20], [CHR 0x09], [CHR 0x0A], [CHR 0x0B], [CHR 0x0C], [CHR 0x0D],
      [CHR 0xC2, CHR 0x85], [CHR 0xC2, CHR 0xA0], [CHR 0xE1, CHR 0x9A, CHR 0x80],
      [CHR 0xE2, CHR 0x80, CHR 0x80], [CHR 0xE2, CHR 0x80, CHR 0x81], [CHR 0xE2, CHR 0x80, CHR 0x82],
      [CHR 0xE2, CHR 0x80, CHR 0x83], [CHR 0xE2, CHR 0x80, CHR 0x84], [CHR 0xE2, CHR 0x80, CHR 0x85],
      [CHR 0xE2, CHR 0x80, CHR 0x86], [CHR 0xE2, CHR 0x80, CHR 0x87], [CHR 0xE2, CHR 0x80, CHR 0x88],
      [CHR 0xE2, CHR 0x80, CHR 0x89], [CHR 0xE2, CHR 0x80, CHR 0x8A], [CHR 0xE2, CHR 0x80, CHR 0xA8],
      [CHR 0xE2, CHR 0x80, CHR 0xA9], [CHR 0xE2, CHR 0x80, CHR 0xAF], [CHR 0xE2, CHR 0x81, CHR 0x9F],
      [CHR 0xE3, CHR 0x80, CHR 0x80]]"

text \<open>Cut the first sequence of a list that the string starts with.\<close>

fun stripSeq :: "string list \<Rightarrow> string \<Rightarrow> string option" where
  "stripSeq [] s = None"
| "stripSeq (q # qs) s =
     (if q \<noteq> [] \<and> HasPrefix s q then Some (drop (length q) s) else stripSeq qs s)"

lemma HasPrefix_iff: "HasPrefix s p \<longleftrightarrow> prefix p s"
  by (auto simp: HasPrefix_def prefix_def) (metis append_take_drop_id)

lemma stripSeq_Some: "stripSeq qs s = Some r \<Longrightarrow> \<exists>q\<in>set qs. q \<noteq> [] \<and> s = q @ r"
  by (induction qs) (auto simp: HasPrefix_iff prefix_def split: if_splits)

lemma stripSeq_shorter: "stripSeq qs s = Some r \<Longrightarrow> length r < length s"
  by (drule stripSeq_Some) auto

function trimSeqs :: "string list \<Rightarrow> string \<Rightarrow> string" where
  "trimSeqs qs s = (case stripSeq qs s of None \<Rightarrow> s | Some r \<Rightarrow> trimSeqs qs r)"
  by pat_completeness auto
termination
  by (relation "measure (\<lambda>(qs, s). length s)") (auto dest: stripSeq_shorter)

declare trimSeqs.simps [simp del]

definition TrimLeftSpace :: "string \<Rightarrow> string" where
  "TrimLeftSpace s = trimSeqs space_runes s"

definition TrimRightSpace :: "string \<Rightarrow> string" where
  "TrimRightSpace s = rev (trimSeqs (map rev space_runes) (rev s))"

definition TrimSpace :: "string \<Rightarrow> string" where
  "TrimSpace s = TrimRightSpace (TrimLeftSpace s)"

text \<open>\<open>strings.Fields\<close>: the maximal runs without white space; \<open>cur\<close> is the current run, reversed.\<close>

function fieldsAcc :: "string \<Rightarrow> string \<Rightarrow> string list" where
  "fieldsAcc cur s =
     (case stripSeq space_runes s of
        Some r \<Rightarrow> (if cur = [] then fieldsAcc [] r else rev cur # fieldsAcc [] r)
      | None \<Rightarrow> (case s of
          [] \<Rightarrow> (if cur = [] then [] else [rev cur])
        | c # cs \<Rightarrow> fieldsAcc (c # cur) cs))"
  by pat_completeness auto
termination
  by (relation "measure (\<lambda>(cur, s). length s)") (auto dest: stripSeq_shorter)

declare fieldsAcc.simps [simp del]

definition Fields :: "string \<Rightarrow> string list" where
  "Fields s = fieldsAcc [] s"

subsection \<open>Paths\<close>

text \<open>
  \<open>filepath.Clean\<close> (Unix): empty and \<open>.\<close> elements vanish, \<open>..\<close> removes the element before it,
  at the start of a relative path it stays, at the root it vanishes. \<open>out\<close> is the stack of
  elements kept so far, topmost first.
\<close>

fun cleanElems :: "bool \<Rightarrow> string list \<Rightarrow> string list \<Rightarrow> string list" where
  "cleanElems rooted out [] = rev out"
| "cleanElems rooted out (e # es) =
     (if e = [] \<or> e = ''.'' then cleanElems rooted out es
      else if e = ''..'' then
        (case out of
           [] \<Rightarrow> (if rooted then cleanElems rooted [] es else cleanElems rooted [e] es)
         | t # ts \<Rightarrow> (if t = ''..'' then cleanElems rooted (e # out) es
                     else cleanElems rooted ts es))
      else cleanElems rooted (e # out) es)"

definition Clean :: "string \<Rightarrow> string" where
  "Clean path =
     (let rooted = HasPrefix path ''/'';
          elems = cleanElems rooted [] (Split path (CHR ''/''));
          body = Join elems ''/''
      in if rooted then CHR ''/'' # body else if body = [] then ''.'' else body)"

text \<open>\<open>filepath.Join\<close>: the non-empty elements from the first non-empty one on, joined and cleaned.\<close>

definition PathJoin :: "string list \<Rightarrow> string" where
  "PathJoin es =
     (case dropWhile (\<lambda>e. e = []) es of [] \<Rightarrow> [] | es' \<Rightarrow> Clean (Join es' ''/''))"

subsection \<open>Splitting and joining\<close>

lemma Split_not_Nil [simp]: "Split s c \<noteq> []"
  by (cases s) (auto split: list.splits)

lemma Split_append_sep: "Split (a @ c # b) c = Split a c @ Split b c"
proof (induction a)
  case (Cons x a)
  then show ?case by (cases "Split a c") auto
qed simp

lemma Split_notin [simp]: "c \<notin> set a \<Longrightarrow> Split a c = [a]"
  by (induction a) auto

lemma Split_line: "c \<notin> set a \<Longrightarrow> Split (a @ c # b) c = a # Split b c"
  by (simp add: Split_append_sep)

lemma Split_no_sep: "l \<in> set (Split s c) \<Longrightarrow> c \<notin> set l"
  by (induction s arbitrary: l) (auto split: list.splits if_splits)

lemma Join_Split: "Join (Split s c) [c] = s"
proof (induction s)
  case (Cons x s)
  then show ?case by (cases "Split s c"; cases "tl (Split s c)") auto
qed simp

lemma Cut_found: "c \<notin> set a \<Longrightarrow> Cut (a @ c # b) c = (a, b, True)"
  by (induction a) auto

lemma Cut_missing: "c \<notin> set a \<Longrightarrow> Cut a c = (a, [], False)"
  by (induction a) auto

lemma Cut_cases: "Cut s c = (a, b, ok) \<Longrightarrow> if ok then s = a @ c # b \<and> c \<notin> set a else a = s \<and> b = [] \<and> c \<notin> set s"
  by (induction s arbitrary: a b ok) (auto split: prod.splits if_splits)

lemma HasSuffix_iff: "HasSuffix s p \<longleftrightarrow> suffix p s"
  by (simp add: HasSuffix_def HasPrefix_iff suffix_to_prefix)

lemma TrimPrefix_append [simp]: "TrimPrefix (p @ s) p = s"
  by (simp add: TrimPrefix_def HasPrefix_def)

subsection \<open>White space at the ends of a string\<close>

text \<open>UTF-8 continuation bytes, and the shape of the white-space encodings.\<close>

definition cont_byte :: "char \<Rightarrow> bool" where
  "cont_byte c \<longleftrightarrow> 128 \<le> (of_char c :: nat) \<and> (of_char c :: nat) < 192"

lemma space_runes_shape:
  "list_all (\<lambda>q. q \<noteq> [] \<and> \<not> cont_byte (hd q) \<and> list_all cont_byte (tl q)) space_runes"
  by code_simp

lemma space_runes_prefix_free:
  "list_all (\<lambda>p. list_all (\<lambda>q. take (length p) q = p \<longrightarrow> p = q) space_runes) space_runes"
  by code_simp

lemma space_rune_shape:
  assumes "q \<in> set space_runes"
  shows "q \<noteq> []" and "\<not> cont_byte (hd q)" and "c \<in> set (tl q) \<Longrightarrow> cont_byte c"
  using space_runes_shape assms by (auto simp: list_all_iff)

lemma space_rune_prefix_eq:
  assumes "p \<in> set space_runes" and "q \<in> set space_runes" and "prefix p q"
  shows "p = q"
proof -
  from assms(3) have "take (length p) q = p" by (auto simp: prefix_def)
  with space_runes_prefix_free assms(1,2) show ?thesis by (auto simp: list_all_iff)
qed

lemma space_rune_tail:
  assumes "q \<in> set space_runes" and "q = a @ b" and "a \<noteq> []" and "b \<noteq> []"
  shows "cont_byte (hd b)"
proof -
  from assms(2-4) have "hd b \<in> set (tl q)" by (cases a; cases b) auto
  with assms(1) show ?thesis by (rule space_rune_shape(3))
qed

lemma space_rune_suffix_eq:
  assumes p: "p \<in> set space_runes" and q: "q \<in> set space_runes" and "suffix p q"
  shows "p = q"
proof (rule ccontr)
  assume "p \<noteq> q"
  with assms(3) obtain z where z: "q = z @ p" "z \<noteq> []" by (auto simp: suffix_def)
  from p have "p \<noteq> []" and "\<not> cont_byte (hd p)" by (auto dest: space_rune_shape)
  with space_rune_tail [OF q z(1,2)] show False by simp
qed

definition starts_space :: "string \<Rightarrow> bool" where
  "starts_space s \<longleftrightarrow> stripSeq space_runes s \<noteq> None"

lemma stripSeq_None: "stripSeq qs s = None \<longleftrightarrow> (\<forall>q\<in>set qs. q \<noteq> [] \<longrightarrow> \<not> prefix q s)"
  by (induction qs) (auto simp: HasPrefix_iff)

lemma starts_space_iff: "starts_space s \<longleftrightarrow> (\<exists>q\<in>set space_runes. prefix q s)"
  by (auto simp: starts_space_def stripSeq_None dest: space_rune_shape(1))

lemma strip_rune:
  assumes q: "q \<in> set space_runes"
  shows "stripSeq space_runes (q @ s) = Some s"
proof -
  have "starts_space (q @ s)" using q by (auto simp: starts_space_iff intro!: bexI [of _ q])
  then obtain r where r: "stripSeq space_runes (q @ s) = Some r" by (auto simp: starts_space_def)
  from stripSeq_Some [OF r] obtain p where p: "p \<in> set space_runes" "q @ s = p @ r" by auto
  then have "prefix p q \<or> prefix q p" by (metis prefix_same_cases prefixI)
  with p(1) q have "p = q" using space_rune_prefix_eq by blast
  with p(2) r show ?thesis by simp
qed

lemma strip_rune_right:
  assumes q: "q \<in> set space_runes"
  shows "stripSeq (map rev space_runes) (rev (s @ q)) = Some (rev s)"
proof -
  from q have "stripSeq (map rev space_runes) (rev (s @ q)) \<noteq> None"
    unfolding stripSeq_None using space_rune_shape(1) [OF q] by (auto intro!: bexI [of _ q])
  then obtain r where r: "stripSeq (map rev space_runes) (rev (s @ q)) = Some r" by auto
  from stripSeq_Some [OF r] obtain p where p: "p \<in> set space_runes" "rev (s @ q) = rev p @ r" by auto
  from p(2) have e: "s @ q = rev r @ p" by (metis rev_append rev_rev_ident)
  then have "suffix p q \<or> suffix q p" by (metis suffix_same_cases suffixI)
  with p(1) q have "p = q" using space_rune_suffix_eq by blast
  with e r show ?thesis by simp
qed

lemma TrimLeftSpace_rune: "q \<in> set space_runes \<Longrightarrow> TrimLeftSpace (q @ s) = TrimLeftSpace s"
  by (simp add: TrimLeftSpace_def trimSeqs.simps [of space_runes "q @ s"] strip_rune)

lemma TrimRightSpace_rune: "q \<in> set space_runes \<Longrightarrow> TrimRightSpace (s @ q) = TrimRightSpace s"
  using strip_rune_right [of q s]
  by (simp add: TrimRightSpace_def trimSeqs.simps [of _ "rev q @ rev s"])

lemma TrimLeftSpace_stop: "\<not> starts_space s \<Longrightarrow> TrimLeftSpace s = s"
  by (simp add: TrimLeftSpace_def starts_space_def trimSeqs.simps)

lemma TrimRightSpace_stop:
  assumes "\<forall>q\<in>set space_runes. \<not> suffix q s"
  shows "TrimRightSpace s = s"
proof -
  have "stripSeq (map rev space_runes) (rev s) = None"
    using assms by (auto simp: stripSeq_None suffix_to_prefix)
  then show ?thesis by (simp add: TrimRightSpace_def trimSeqs.simps)
qed

text \<open>Case analysis and induction over the white space at the right end.\<close>

lemma right_space_induct [case_names stop rune]:
  assumes stop: "\<And>s. \<forall>q\<in>set space_runes. \<not> suffix q s \<Longrightarrow> P s"
    and rune: "\<And>s q. q \<in> set space_runes \<Longrightarrow> P s \<Longrightarrow> P (s @ q)"
  shows "P s"
proof (induction s rule: length_induct)
  case (1 s)
  show ?case
  proof (cases "\<exists>q\<in>set space_runes. suffix q s")
    case True
    then obtain q z where q: "q \<in> set space_runes" and s: "s = z @ q" by (auto simp: suffix_def)
    from q have "length z < length s" using space_rune_shape(1) s by auto
    with "1" q s show ?thesis using rune by blast
  qed (use stop in blast)
qed

lemma left_space_induct [case_names stop rune]:
  assumes stop: "\<And>s. \<not> starts_space s \<Longrightarrow> P s"
    and rune: "\<And>s q. q \<in> set space_runes \<Longrightarrow> P s \<Longrightarrow> P (q @ s)"
  shows "P s"
proof (induction s rule: length_induct)
  case (1 s)
  show ?case
  proof (cases "starts_space s")
    case True
    then obtain q z where q: "q \<in> set space_runes" and s: "s = q @ z"
      by (auto simp: starts_space_iff prefix_def)
    from q have "length z < length s" using space_rune_shape(1) s by auto
    with "1" q s show ?thesis using rune by blast
  qed (use stop in blast)
qed

lemma TrimRightSpace_prefix: "prefix (TrimRightSpace s) s"
proof (induction s rule: right_space_induct)
  case (rune s q)
  then show ?case by (simp add: TrimRightSpace_rune)
qed (simp add: TrimRightSpace_stop)

lemma TrimLeftSpace_suffix: "suffix (TrimLeftSpace s) s"
proof (induction s rule: left_space_induct)
  case (rune s q)
  then show ?case by (simp add: TrimLeftSpace_rune suffix_appendI)
qed (simp add: TrimLeftSpace_stop)

lemma TrimLeftSpace_not_starts: "\<not> starts_space (TrimLeftSpace s)"
  by (induction s rule: left_space_induct) (simp_all add: TrimLeftSpace_stop TrimLeftSpace_rune)

lemma TrimLeftSpace_idem [simp]: "TrimLeftSpace (TrimLeftSpace s) = TrimLeftSpace s"
  by (simp add: TrimLeftSpace_stop TrimLeftSpace_not_starts)

lemma TrimRightSpace_idem [simp]: "TrimRightSpace (TrimRightSpace s) = TrimRightSpace s"
  by (induction s rule: right_space_induct) (simp_all add: TrimRightSpace_stop TrimRightSpace_rune)

text \<open>A white-space rune at the left end never overlaps one at the right end.\<close>

lemma rune_append_suffix:
  assumes q: "q \<in> set space_runes" and p: "p \<in> set space_runes" and "r \<noteq> []"
    and suf: "suffix p (q @ r)"
  shows "suffix p r"
proof (rule ccontr)
  assume "\<not> suffix p r"
  with suf obtain q1 q2 where q12: "q = q1 @ q2" "q2 \<noteq> []" "p = q2 @ r"
    by (rule suffix_append_longer)
  from q12 p have "\<not> cont_byte (hd q2)" by (auto dest: space_rune_shape(2))
  with space_rune_tail [OF q q12(1) _ q12(2)] have "q1 = []" by blast
  with q12 have "prefix q p" by simp
  with q p have "q = p" by (rule space_rune_prefix_eq)
  with q12 \<open>q1 = []\<close> \<open>r \<noteq> []\<close> show False by simp
qed

lemma TrimRightSpace_rune_append:
  assumes q: "q \<in> set space_runes"
  shows "TrimRightSpace (q @ r) = (if TrimRightSpace r = [] then [] else q @ TrimRightSpace r)"
proof (induction r rule: right_space_induct)
  case (stop r)
  show ?case
  proof (cases "r = []")
    case True
    have "TrimRightSpace ([] @ q) = TrimRightSpace []" by (rule TrimRightSpace_rune [OF q])
    moreover have "TrimRightSpace [] = []" using TrimRightSpace_prefix [of "[]"] by simp
    ultimately show ?thesis using True by simp
  next
    case False
    with stop q have "\<forall>p\<in>set space_runes. \<not> suffix p (q @ r)" by (blast dest: rune_append_suffix)
    with stop False show ?thesis by (simp add: TrimRightSpace_stop)
  qed
next
  case (rune r p)
  then show ?case
    using TrimRightSpace_rune [of p "q @ r"] by (simp add: TrimRightSpace_rune)
qed

lemma Trim_commute: "TrimLeftSpace (TrimRightSpace s) = TrimRightSpace (TrimLeftSpace s)"
proof (induction s rule: left_space_induct)
  case (stop s)
  have "\<not> starts_space (TrimRightSpace s)"
    using stop TrimRightSpace_prefix [of s] by (meson prefix_order.trans starts_space_iff)
  with stop show ?case by (simp add: TrimLeftSpace_stop)
next
  case (rune s q)
  then show ?case
    by (auto simp: TrimRightSpace_rune_append TrimLeftSpace_rune TrimLeftSpace_stop starts_space_iff
        dest: space_rune_shape(1) split: if_splits)
qed

lemma TrimSpace_left_rune: "q \<in> set space_runes \<Longrightarrow> TrimSpace (q @ s) = TrimSpace s"
  by (simp add: TrimSpace_def TrimLeftSpace_rune)

lemma TrimSpace_right_rune: "q \<in> set space_runes \<Longrightarrow> TrimSpace (s @ q) = TrimSpace s"
  by (simp add: TrimSpace_def Trim_commute [symmetric] TrimRightSpace_rune)

lemma TrimSpace_right [simp]: "TrimSpace (TrimRightSpace s) = TrimSpace s"
  by (simp add: TrimSpace_def Trim_commute)

lemma TrimSpace_idem [simp]: "TrimSpace (TrimSpace s) = TrimSpace s"
  by (simp add: TrimSpace_def Trim_commute)

text \<open>A byte that occurs in no white-space rune protects what is left of it.\<close>

lemma TrimRightSpace_barrier:
  assumes "\<forall>q\<in>set space_runes. c \<notin> set q"
  shows "TrimRightSpace (a @ c # b) = a @ c # TrimRightSpace b"
proof (induction b rule: right_space_induct)
  case (stop b)
  have "\<not> suffix q (a @ c # b)" if q: "q \<in> set space_runes" for q
  proof
    assume "suffix q (a @ c # b)"
    then have "suffix q ((a @ [c]) @ b)" by simp
    moreover from stop q have "\<not> suffix q b" by blast
    ultimately obtain q1 q2 where q2: "a @ [c] = q1 @ q2" "q2 \<noteq> []" "q = q2 @ b"
      by (rule suffix_append_longer)
    from q2(1,2) have "last q2 = c" by (metis last_appendR last_snoc)
    with q2(2,3) have "c \<in> set q" using last_in_set [of q2] by auto
    with assms q show False by blast
  qed
  with stop show ?case by (simp add: TrimRightSpace_stop)
next
  case (rune b q)
  then show ?case using TrimRightSpace_rune [of q "a @ c # b"] by (simp add: TrimRightSpace_rune)
qed

text \<open>A byte that continues no rune ends whatever a string starts with.\<close>

lemma starts_space_append:
  assumes "a \<noteq> []" and "\<not> cont_byte c"
  shows "starts_space (a @ c # b) \<longleftrightarrow> starts_space a"
proof -
  have "prefix q a" if q: "q \<in> set space_runes" and "prefix q (a @ c # b)" for q
  proof (rule ccontr)
    assume "\<not> prefix q a"
    with that(2) obtain z where z: "q = a @ z" "z \<noteq> []" "prefix z (c # b)"
      by (metis prefix_append append_Nil2 prefix_order.refl)
    then have "hd z = c" by (cases z) auto
    with space_rune_tail [OF q z(1) assms(1) z(2)] assms(2) show False by simp
  qed
  then show ?thesis by (auto simp: starts_space_iff intro: prefix_prefix)
qed

lemma trimmed_not_starts: "TrimSpace s = s \<Longrightarrow> \<not> starts_space s"
proof -
  assume s: "TrimSpace s = s"
  have "length (TrimSpace s) \<le> length (TrimLeftSpace s)"
    unfolding TrimSpace_def by (rule prefix_length_le [OF TrimRightSpace_prefix])
  with s have "length s \<le> length (TrimLeftSpace s)" by simp
  with TrimLeftSpace_suffix [of s] have "TrimLeftSpace s = s"
    by (metis suffix_length_less suffix_order.le_less leD)
  then show ?thesis using TrimLeftSpace_not_starts [of s] by simp
qed

lemma space_rune_blank [simp]: "'' '' \<in> set space_runes"
  by (simp add: space_runes_def)

lemma TrimSpace_blank [simp]: "TrimSpace (CHR '' '' # s) = TrimSpace s" "TrimSpace (s @ '' '') = TrimSpace s"
  using TrimSpace_left_rune [of "'' ''" s] TrimSpace_right_rune [of "'' ''" s] by simp_all

subsection \<open>Paths\<close>

lemma cleanElems_append: "cleanElems r out (a @ b) = cleanElems r (rev (cleanElems r out a)) b"
  by (induction r out a rule: cleanElems.induct) (auto split: list.splits)

lemma cleanElems_plain:
  "list_all (\<lambda>x. x \<noteq> ''.'' \<and> x \<noteq> ''..'') xs \<Longrightarrow> cleanElems r out xs = rev out @ filter (\<lambda>e. e \<noteq> []) xs"
  by (induction xs arbitrary: out) auto

lemma cleanElems_nonempty: "[] \<notin> set out \<Longrightarrow> [] \<notin> set (cleanElems r out xs)"
  by (induction r out xs rule: cleanElems.induct) (auto split: list.splits)

lemma cleanElems_subset: "set (cleanElems r out xs) \<subseteq> set out \<union> set xs"
  by (induction r out xs rule: cleanElems.induct) (auto split: list.splits)

lemma Split_Join:
  "xs \<noteq> [] \<Longrightarrow> list_all (\<lambda>x. c \<notin> set x) xs \<Longrightarrow> Split (Join xs [c]) c = xs"
  by (induction xs rule: induct_list012) (auto simp: Split_line)

lemma Join_append:
  "xs \<noteq> [] \<Longrightarrow> ys \<noteq> [] \<Longrightarrow> Join (xs @ ys) sep = Join xs sep @ sep @ Join ys sep"
  by (induction xs rule: induct_list012) (auto simp: neq_Nil_conv)

lemma Join_eq_Nil: "[] \<notin> set xs \<Longrightarrow> Join xs sep = [] \<longleftrightarrow> xs = []"
  by (induction xs rule: induct_list012) auto

lemma Join_Cons: "xs \<noteq> [] \<Longrightarrow> Join (x # xs) sep = x @ sep @ Join xs sep"
  by (cases xs) auto

text \<open>Joining a relative or rooted path of plain elements to a clean absolute path.\<close>

definition cleanRoot :: "string \<Rightarrow> bool" where
  "cleanRoot root \<longleftrightarrow> Clean root = root \<and> HasPrefix root ''/'' \<and> root \<noteq> ''/''"

lemma cleanRoot_elems:
  assumes "cleanRoot root"
  obtains es where "es = cleanElems True [] (Split root (CHR ''/''))" and "es \<noteq> []"
    and "root = CHR ''/'' # Join es ''/''"
proof -
  let ?es = "cleanElems True [] (Split root (CHR ''/''))"
  from assms have "HasPrefix root ''/''" and "Clean root = root" by (simp_all add: cleanRoot_def)
  then have "root = CHR ''/'' # Join ?es ''/''" by (simp add: Clean_def Let_def)
  moreover from this assms have "?es \<noteq> []" by (auto simp: cleanRoot_def)
  ultimately show thesis using that by blast
qed

lemma Clean_under_root:
  assumes "cleanRoot root" and "list_all (\<lambda>x. x \<noteq> ''..'') (Split s (CHR ''/''))"
  shows "Clean (root @ CHR ''/'' # s) =
    Join (root # filter (\<lambda>e. e \<noteq> [] \<and> e \<noteq> ''.'') (Split s (CHR ''/''))) ''/''"
proof -
  let ?ne = "filter (\<lambda>e. e \<noteq> [] \<and> e \<noteq> ''.'') (Split s (CHR ''/''))"
  obtain es where es: "es = cleanElems True [] (Split root (CHR ''/''))" "es \<noteq> []"
    "root = CHR ''/'' # Join es ''/''" using assms(1) by (rule cleanRoot_elems)
  have skip: "cleanElems True out xs = rev out @ filter (\<lambda>e. e \<noteq> [] \<and> e \<noteq> ''.'') xs"
    if "list_all (\<lambda>x. x \<noteq> ''..'') xs" for out xs
    using that by (induction xs arbitrary: out) auto
  have "cleanElems True [] (Split (root @ CHR ''/'' # s) (CHR ''/'')) = es @ ?ne"
    using es(1) assms(2) by (simp add: Split_append_sep cleanElems_append skip)
  moreover have "HasPrefix (root @ CHR ''/'' # s) ''/''" using es(3) by (simp add: HasPrefix_def)
  ultimately have "Clean (root @ CHR ''/'' # s) = CHR ''/'' # Join (es @ ?ne) ''/''"
    by (simp add: Clean_def Let_def)
  also have "\<dots> = Join (root # ?ne) ''/''"
  proof (cases "?ne = []")
    case True
    then show ?thesis by (simp only: True append_Nil2 Join.simps es(3) [symmetric])
  next
    case False
    have "Join (es @ ?ne) ''/'' = Join es ''/'' @ ''/'' @ Join ?ne ''/''"
      by (rule Join_append [OF es(2) False])
    moreover have "Join (root # ?ne) ''/'' = root @ ''/'' @ Join ?ne ''/''"
      by (rule Join_Cons [OF False])
    ultimately show ?thesis using es(3) by simp
  qed
  finally show ?thesis .
qed

text \<open>Cleaning a path of plain elements keeps the non-empty ones.\<close>

lemma Clean_plain_elems:
  assumes "list_all (\<lambda>x. x \<noteq> ''.'' \<and> x \<noteq> ''..'') (Split s (CHR ''/''))"
  shows "filter (\<lambda>e. e \<noteq> [] \<and> e \<noteq> ''.'') (Split (Clean s) (CHR ''/'')) = filter (\<lambda>e. e \<noteq> []) (Split s (CHR ''/''))"
    and "list_all (\<lambda>x. x \<noteq> ''..'') (Split (Clean s) (CHR ''/''))"
    and "Clean s \<noteq> []"
proof -
  let ?ne = "filter (\<lambda>e. e \<noteq> []) (Split s (CHR ''/''))"
  have body: "cleanElems r [] (Split s (CHR ''/'')) = ?ne" for r
    using assms by (simp add: cleanElems_plain)
  have no_slash: "list_all (\<lambda>x. CHR ''/'' \<notin> set x) ?ne"
    by (auto simp: list_all_iff dest: Split_no_sep)
  have ne: "list_all (\<lambda>x. x \<noteq> ''.'' \<and> x \<noteq> ''..'') ?ne" "[] \<notin> set ?ne"
    using assms by (auto simp: list_all_iff)
  have f: "filter (\<lambda>e. e \<noteq> [] \<and> e \<noteq> ''.'') ?ne = ?ne"
    using ne(1) unfolding filter_filter list_all_iff by (intro filter_cong) auto
  have split_body: "?ne \<noteq> [] \<Longrightarrow> Split (Join ?ne ''/'') (CHR ''/'') = ?ne"
    using no_slash Split_Join by blast
  consider (empty_rooted) "?ne = []" "HasPrefix s ''/''" | (empty_rel) "?ne = []" "\<not> HasPrefix s ''/''"
    | (rooted) "?ne \<noteq> []" "HasPrefix s ''/''" | (rel) "?ne \<noteq> []" "\<not> HasPrefix s ''/''" by blast
  then have "filter (\<lambda>e. e \<noteq> [] \<and> e \<noteq> ''.'') (Split (Clean s) (CHR ''/'')) = ?ne
      \<and> list_all (\<lambda>x. x \<noteq> ''..'') (Split (Clean s) (CHR ''/'')) \<and> Clean s \<noteq> []"
  proof cases
    case empty_rooted
    then show ?thesis by (simp add: Clean_def Let_def body)
  next
    case empty_rel
    then show ?thesis by (simp add: Clean_def Let_def body)
  next
    case rooted
    then have "Clean s = CHR ''/'' # Join ?ne ''/''" by (simp add: Clean_def Let_def body)
    then show ?thesis using f ne(1) split_body [OF rooted(1)] by (simp add: list_all_iff)
  next
    case rel
    then have "Clean s = Join ?ne ''/''" using ne(2) by (simp add: Clean_def Let_def body Join_eq_Nil)
    then show ?thesis using f ne split_body [OF rel(1)] rel(1) by (simp add: list_all_iff Join_eq_Nil)
  qed
  then show "filter (\<lambda>e. e \<noteq> [] \<and> e \<noteq> ''.'') (Split (Clean s) (CHR ''/'')) = ?ne"
    and "list_all (\<lambda>x. x \<noteq> ''..'') (Split (Clean s) (CHR ''/''))" and "Clean s \<noteq> []" by blast+
qed

end
