(* ===== verification/Sha256.thy ===== *)
theory Sha256
  imports Prelude
begin

unbundle bit_operations_syntax

text \<open>
  \<open>crypto/sha256\<close> and \<open>encoding/hex\<close>, which the controllers (\<open>hashContent\<close>) and the worker
  (\<open>HashBytes\<close>) both call: SHA-256 as FIPS 180-4 defines it, on 32-bit words with wrap-around
  addition, and lower-case hexadecimal. The two functions of the sources are then the first 16
  hexadecimal digits of the digest. The digest is computed by the simplifier on a test vector.
\<close>

subsection \<open>The compression function\<close>

definition rotr :: "nat \<Rightarrow> int32 \<Rightarrow> int32" where
  "rotr n x = drop_bit n x OR push_bit (32 - n) x"

definition Ch :: "int32 \<Rightarrow> int32 \<Rightarrow> int32 \<Rightarrow> int32" where
  "Ch x y z = (x AND y) XOR (NOT x AND z)"

definition Maj :: "int32 \<Rightarrow> int32 \<Rightarrow> int32 \<Rightarrow> int32" where
  "Maj x y z = (x AND y) XOR (x AND z) XOR (y AND z)"

definition Sigma0 :: "int32 \<Rightarrow> int32" where
  "Sigma0 x = rotr 2 x XOR rotr 13 x XOR rotr 22 x"

definition Sigma1 :: "int32 \<Rightarrow> int32" where
  "Sigma1 x = rotr 6 x XOR rotr 11 x XOR rotr 25 x"

definition sigma0 :: "int32 \<Rightarrow> int32" where
  "sigma0 x = rotr 7 x XOR rotr 18 x XOR drop_bit 3 x"

definition sigma1 :: "int32 \<Rightarrow> int32" where
  "sigma1 x = rotr 17 x XOR rotr 19 x XOR drop_bit 10 x"

definition round_constants :: "int32 list" where
  "round_constants =
     [1116352408, 1899447441, 3049323471, 3921009573, 961987163, 1508970993, 2453635748, 2870763221,
      3624381080, 310598401, 607225278, 1426881987, 1925078388, 2162078206, 2614888103, 3248222580,
      3835390401, 4022224774, 264347078, 604807628, 770255983, 1249150122, 1555081692, 1996064986,
      2554220882, 2821834349, 2952996808, 3210313671, 3336571891, 3584528711, 113926993, 338241895,
      666307205, 773529912, 1294757372, 1396182291, 1695183700, 1986661051, 2177026350, 2456956037,
      2730485921, 2820302411, 3259730800, 3345764771, 3516065817, 3600352804, 4094571909, 275423344,
      430227734, 506948616, 659060556, 883997877, 958139571, 1322822218, 1537002063, 1747873779,
      1955562222, 2024104815, 2227730452, 2361852424, 2428436474, 2756734187, 3204031479, 3329325298]"

type_synonym chain = "int32 \<times> int32 \<times> int32 \<times> int32 \<times> int32 \<times> int32 \<times> int32 \<times> int32"

definition initial_chain :: chain where
  "initial_chain = (0x6a09e667, 0xbb67ae85, 0x3c6ef372, 0xa54ff53a,
                    0x510e527f, 0x9b05688c, 0x1f83d9ab, 0x5be0cd19)"

text \<open>
  One round consumes a constant and the first word of the schedule window of sixteen words, and
  extends the window by the next word.
\<close>

definition schedule_next :: "int32 list \<Rightarrow> int32" where
  "schedule_next ws = sigma1 (ws ! 14) + ws ! 9 + sigma0 (ws ! 1) + ws ! 0"

definition round :: "int32 \<Rightarrow> int32 \<Rightarrow> chain \<Rightarrow> chain" where
  "round k w st =
     (case st of (a, b, c, d, e, f, g, h) \<Rightarrow>
        let t1 = h + Sigma1 e + Ch e f g + k + w; t2 = Sigma0 a + Maj a b c
        in (t1 + t2, a, b, c, d + t1, e, f, g))"

primrec rounds :: "int32 list \<Rightarrow> int32 list \<Rightarrow> chain \<Rightarrow> chain" where
  "rounds [] ws st = st"
| "rounds (k # ks) ws st = rounds ks (tl ws @ [schedule_next ws]) (round k (ws ! 0) st)"

definition compress :: "chain \<Rightarrow> int32 list \<Rightarrow> chain" where
  "compress st ws =
     (case (st, rounds round_constants ws st) of
        ((a, b, c, d, e, f, g, h), (a', b', c', d', e', f', g', h')) \<Rightarrow>
          (a + a', b + b', c + c', d + d', e + e', f + f', g + g', h + h'))"

subsection \<open>Padding and the digest\<close>

definition byte_of :: "char \<Rightarrow> int32" where
  "byte_of c = of_char c"

fun be_words :: "string \<Rightarrow> int32 list" where
  "be_words (a # b # c # d # bs) =
     (push_bit 24 (byte_of a) OR push_bit 16 (byte_of b) OR push_bit 8 (byte_of c) OR byte_of d)
       # be_words bs"
| "be_words _ = []"

text \<open>The bit length as eight bytes, most significant first (modulo \<open>2^64\<close>, as in Go).\<close>

definition be64 :: "64 word \<Rightarrow> string" where
  "be64 n = map (\<lambda>i. char_of (unat (drop_bit i n AND 255))) [56, 48, 40, 32, 24, 16, 8, 0]"

definition pad :: "string \<Rightarrow> string" where
  "pad m = m @ [CHR 0x80] @ replicate ((119 - length m mod 64) mod 64) (CHR 0x00) @ be64 (8 * of_nat (length m))"

function blocks :: "chain \<Rightarrow> int32 list \<Rightarrow> chain" where
  "blocks st ws = (if length ws < 16 then st else blocks (compress st (take 16 ws)) (drop 16 ws))"
  by pat_completeness auto
termination
  by (relation "measure (\<lambda>(st, ws). length ws)") auto

declare blocks.simps [simp del]

definition word_bytes :: "int32 \<Rightarrow> nat list" where
  "word_bytes w = map (\<lambda>i. unat (drop_bit i w AND 255)) [24, 16, 8, 0]"

text \<open>\<open>sha256.Sum256\<close>: 32 bytes, as numbers below 256.\<close>

definition Sum256 :: "string \<Rightarrow> nat list" where
  "Sum256 m =
     (case blocks initial_chain (be_words (pad m)) of
        (a, b, c, d, e, f, g, h) \<Rightarrow> concat (map word_bytes [a, b, c, d, e, f, g, h]))"

definition hex_digit :: "nat \<Rightarrow> char" where
  "hex_digit n = char_of (if n < 10 then 48 + n else 87 + n)"

text \<open>\<open>hex.EncodeToString\<close>.\<close>

definition EncodeToString :: "nat list \<Rightarrow> string" where
  "EncodeToString bs = concat (map (\<lambda>b. [hex_digit (b div 16), hex_digit (b mod 16)]) bs)"

subsection \<open>Shape of the result\<close>

lemma length_Sum256 [simp]: "length (Sum256 m) = 32"
  by (simp add: Sum256_def word_bytes_def split: prod.splits)

lemma length_EncodeToString [simp]: "length (EncodeToString bs) = 2 * length bs"
  by (induction bs) (auto simp: EncodeToString_def)

lemma Sum256_bytes: "b \<in> set (Sum256 m) \<Longrightarrow> b < 256"
proof -
  have "unat (x AND 255) < 256" for x :: int32
  proof -
    have "unat (x AND 255) \<le> unat (255 :: int32)"
      by (rule word_and_le1 [THEN word_le_nat_alt [THEN iffD1]])
    then show ?thesis by simp
  qed
  then show "b \<in> set (Sum256 m) \<Longrightarrow> b < 256"
    by (auto simp: Sum256_def word_bytes_def split: prod.splits)
qed

definition hex_chars :: "char set" where
  "hex_chars = set ''0123456789abcdef''"

lemma hex_digit_in: "n < 16 \<Longrightarrow> hex_digit n \<in> hex_chars"
proof -
  have "list_all (\<lambda>n. List.member ''0123456789abcdef'' (hex_digit n)) [0..<16]"
    by code_simp
  then show "n < 16 \<Longrightarrow> hex_digit n \<in> hex_chars" by (auto simp: list_all_iff hex_chars_def)
qed

lemma EncodeToString_hex: "(\<And>b. b \<in> set bs \<Longrightarrow> b < 256) \<Longrightarrow> set (EncodeToString bs) \<subseteq> hex_chars"
  by (auto simp: EncodeToString_def intro!: hex_digit_in less_mult_imp_div_less)

end
