(* ===== verification/Json.thy ===== *)
theory Json
  imports Go_Strings Sha256
begin

text \<open>
  \<open>encoding/json\<close>, as far as the worker's \<open>json.Marshal\<close> and the report server's \<open>json.Decoder\<close> use it:
  the text of a value, the scanner and the unquoting of strings, on bytes. Strings are UTF-8: invalid
  bytes become U+FFFD on both sides, and the encoder escapes what \<open>json.Marshal\<close> escapes (quotes,
  backslashes, control bytes, \<open><\<close>, \<open>>\<close>, \<open>&\<close>, U+2028 and U+2029).
\<close>

subsection \<open>UTF-8\<close>

abbreviation byteOf :: "char \<Rightarrow> nat" where
  "byteOf c \<equiv> of_char c"

text \<open>The shapes of the valid encodings of more than one byte, as ranges of bytes.\<close>

definition utf8_shapes :: "(nat \<times> nat) list list" where
  "utf8_shapes =
     [[(0xC2, 0xDF), (0x80, 0xBF)],
      [(0xE0, 0xE0), (0xA0, 0xBF), (0x80, 0xBF)],
      [(0xE1, 0xEC), (0x80, 0xBF), (0x80, 0xBF)],
      [(0xED, 0xED), (0x80, 0x9F), (0x80, 0xBF)],
      [(0xEE, 0xEF), (0x80, 0xBF), (0x80, 0xBF)],
      [(0xF0, 0xF0), (0x90, 0xBF), (0x80, 0xBF), (0x80, 0xBF)],
      [(0xF1, 0xF3), (0x80, 0xBF), (0x80, 0xBF), (0x80, 0xBF)],
      [(0xF4, 0xF4), (0x80, 0x8F), (0x80, 0xBF), (0x80, 0xBF)]]"

fun in_shape :: "(nat \<times> nat) list \<Rightarrow> string \<Rightarrow> bool" where
  "in_shape [] s = True"
| "in_shape ((lo, hi) # rs) [] = False"
| "in_shape ((lo, hi) # rs) (c # s) = (lo \<le> byteOf c \<and> byteOf c \<le> hi \<and> in_shape rs s)"

text \<open>\<open>utf8.DecodeRune\<close> at a byte that is not ASCII: the size of the encoding, or \<open>0\<close> for none.\<close>

definition runeLen :: "string \<Rightarrow> nat" where
  "runeLen s = (case find (\<lambda>sh. in_shape sh s) utf8_shapes of None \<Rightarrow> 0 | Some sh \<Rightarrow> length sh)"

definition replacement :: string where
  "replacement = [CHR 0xEF, CHR 0xBF, CHR 0xBD]"

text \<open>\<open>utf8.AppendRune\<close>.\<close>

definition encodeRune :: "nat \<Rightarrow> string" where
  "encodeRune r =
     (if r < 0x80 then [char_of r]
      else if r < 0x800 then [char_of (0xC0 + r div 64), char_of (0x80 + r mod 64)]
      else if r < 0x10000 then
        [char_of (0xE0 + r div 4096), char_of (0x80 + r div 64 mod 64), char_of (0x80 + r mod 64)]
      else
        [char_of (0xF0 + r div 262144), char_of (0x80 + r div 4096 mod 64), char_of (0x80 + r div 64 mod 64),
         char_of (0x80 + r mod 64)])"

text \<open>A string with every byte that belongs to no encoding replaced, as both sides of JSON do.\<close>

function toValid :: "string \<Rightarrow> string" where
  "toValid [] = []"
| "toValid (c # s) =
     (if byteOf c < 0x80 then c # toValid s
      else if runeLen (c # s) = 0 then replacement @ toValid s
      else take (runeLen (c # s)) (c # s) @ toValid (drop (runeLen (c # s)) (c # s)))"
  by pat_completeness auto
termination by (relation "measure length") auto

subsection \<open>Encoding\<close>

datatype Json = JNull | JBool bool | JNum string | JStr string | JArr "Json list" | JObj "(string \<times> Json) list"

definition escape :: "char \<Rightarrow> string" where
  "escape c =
     (if c = CHR 0x22 \<or> c = CHR 0x5C then [CHR 0x5C, c]
      else if c = CHR 0x08 then [CHR 0x5C, CHR ''b'']
      else if c = CHR 0x0C then [CHR 0x5C, CHR ''f'']
      else if c = CHR 0x0A then [CHR 0x5C, CHR ''n'']
      else if c = CHR 0x0D then [CHR 0x5C, CHR ''r'']
      else if c = CHR 0x09 then [CHR 0x5C, CHR ''t'']
      else if byteOf c < 0x20 \<or> c = CHR ''<'' \<or> c = CHR ''>'' \<or> c = CHR ''&'' then
        [CHR 0x5C, CHR ''u'', CHR ''0'', CHR ''0'', hex_digit (byteOf c div 16), hex_digit (byteOf c mod 16)]
      else [c])"

definition escapeRune :: "string \<Rightarrow> string" where
  "escapeRune u =
     (if u = [CHR 0xE2, CHR 0x80, CHR 0xA8] then CHR 0x5C # ''u2028''
      else if u = [CHR 0xE2, CHR 0x80, CHR 0xA9] then CHR 0x5C # ''u2029''
      else u)"

function encodeChars :: "string \<Rightarrow> string" where
  "encodeChars [] = []"
| "encodeChars (c # s) =
     (if byteOf c < 0x80 then escape c @ encodeChars s
      else if runeLen (c # s) = 0 then CHR 0x5C # ''ufffd'' @ encodeChars s
      else escapeRune (take (runeLen (c # s)) (c # s)) @ encodeChars (drop (runeLen (c # s)) (c # s)))"
  by pat_completeness auto
termination by (relation "measure length") auto

definition encodeString :: "string \<Rightarrow> string" where
  "encodeString s = CHR 0x22 # encodeChars s @ [CHR 0x22]"

fun encode :: "Json \<Rightarrow> string" where
  "encode JNull = ''null''"
| "encode (JBool b) = (if b then ''true'' else ''false'')"
| "encode (JNum n) = n"
| "encode (JStr s) = encodeString s"
| "encode (JArr xs) = ''['' @ Join (map encode xs) '','' @ '']''"
| "encode (JObj ms) = ''{'' @ Join (map (\<lambda>(k, v). encodeString k @ '':'' @ encode v) ms) '','' @ ''}''"

subsection \<open>Decoding: strings\<close>

definition hexVal :: "char \<Rightarrow> nat option" where
  "hexVal c =
     (if 48 \<le> byteOf c \<and> byteOf c \<le> 57 then Some (byteOf c - 48)
      else if 97 \<le> byteOf c \<and> byteOf c \<le> 102 then Some (byteOf c - 87)
      else if 65 \<le> byteOf c \<and> byteOf c \<le> 70 then Some (byteOf c - 55)
      else None)"

fun getu4 :: "string \<Rightarrow> (nat \<times> string) option" where
  "getu4 (a # b # c # d # s) =
     (case (hexVal a, hexVal b, hexVal c, hexVal d) of
        (Some x, Some y, Some z, Some w) \<Rightarrow> Some (((x * 16 + y) * 16 + z) * 16 + w, s)
      | _ \<Rightarrow> None)"
| "getu4 _ = None"

text \<open>
  What follows \<open>\u\<close> in a string: a code point, or the first half of a surrogate pair, which counts
  only with its second half.
\<close>

definition secondHalf :: "nat \<Rightarrow> string \<Rightarrow> (nat \<times> string) option" where
  "secondHalf r s =
     (if r < 0xDC00 \<and> take 2 s = CHR 0x5C # ''u'' then
        (case getu4 (drop 2 s) of
           Some (r1, t) \<Rightarrow>
             if 0xDC00 \<le> r1 \<and> r1 < 0xE000 then Some ((r - 0xD800) * 0x400 + (r1 - 0xDC00) + 0x10000, t) else None
         | None \<Rightarrow> None)
      else None)"

definition unescapeU :: "string \<Rightarrow> (string \<times> string) option" where
  "unescapeU s =
     (case getu4 s of
        None \<Rightarrow> None
      | Some (r, t) \<Rightarrow>
          if 0xD800 \<le> r \<and> r < 0xE000 then
            (case secondHalf r t of Some (q, u) \<Rightarrow> Some (encodeRune q, u) | None \<Rightarrow> Some (replacement, t))
          else Some (encodeRune r, t))"

definition unescape :: "char \<Rightarrow> char option" where
  "unescape e =
     (if e = CHR 0x22 \<or> e = CHR 0x5C \<or> e = CHR ''/'' then Some e
      else if e = CHR ''b'' then Some (CHR 0x08)
      else if e = CHR ''f'' then Some (CHR 0x0C)
      else if e = CHR ''n'' then Some (CHR 0x0A)
      else if e = CHR ''r'' then Some (CHR 0x0D)
      else if e = CHR ''t'' then Some (CHR 0x09)
      else None)"

lemma getu4_length: "getu4 s = Some (r, t) \<Longrightarrow> length t < length s"
  by (cases s rule: getu4.cases) (auto split: option.splits)

lemma unescapeU_length:
  assumes "unescapeU s = Some (x, t)"
  shows "length t < length s"
proof -
  from assms obtain r u where u: "getu4 s = Some (r, u)" by (auto simp: unescapeU_def split: option.splits)
  have "length v < length u" if "secondHalf r u = Some (q, v)" for q v
    using that getu4_length [of "drop 2 u"]
    by (auto simp: secondHalf_def split: if_splits option.splits)
  with assms u getu4_length [OF u] show ?thesis
    by (fastforce simp: unescapeU_def split: if_splits option.splits)
qed

definition prepend :: "string \<Rightarrow> (string \<times> string) option \<Rightarrow> (string \<times> string) option" where
  "prepend x r = map_option (\<lambda>(s, t). (x @ s, t)) r"

text \<open>The rest of a string literal after its opening quote: its value and what follows it.\<close>

function parseStr :: "string \<Rightarrow> (string \<times> string) option" where
  "parseStr [] = None"
| "parseStr (c # s) =
     (if c = CHR 0x22 then Some ([], s)
      else if byteOf c < 0x20 then None
      else if c = CHR 0x5C then
        (case s of
           [] \<Rightarrow> None
         | e # t \<Rightarrow>
             if e = CHR ''u'' then
               (case unescapeU t of None \<Rightarrow> None | Some (x, u) \<Rightarrow> prepend x (parseStr u))
             else
               (case unescape e of None \<Rightarrow> None | Some x \<Rightarrow> prepend [x] (parseStr t)))
      else if byteOf c < 0x80 then prepend [c] (parseStr s)
      else if runeLen (c # s) = 0 then prepend replacement (parseStr s)
      else prepend (take (runeLen (c # s)) (c # s)) (parseStr (drop (runeLen (c # s)) (c # s))))"
  by pat_completeness auto
termination by (relation "measure length") (auto dest: unescapeU_length)

subsection \<open>Decoding: values\<close>

definition skipWs :: "string \<Rightarrow> string" where
  "skipWs s = dropWhile (\<lambda>c. c = CHR 0x20 \<or> c = CHR 0x09 \<or> c = CHR 0x0A \<or> c = CHR 0x0D) s"

abbreviation isDigit :: "char \<Rightarrow> bool" where
  "isDigit c \<equiv> 48 \<le> byteOf c \<and> byteOf c \<le> 57"

text \<open>One or more digits; then the parts of a number literal, each returning what follows it.\<close>

definition digits :: "string \<Rightarrow> string option" where
  "digits s = (if s \<noteq> [] \<and> isDigit (hd s) then Some (dropWhile isDigit s) else None)"

definition numInt :: "string \<Rightarrow> string option" where
  "numInt s0 =
     (let s = (if take 1 s0 = ''-'' then drop 1 s0 else s0) in
      if take 1 s = ''0'' then Some (drop 1 s) else digits s)"

definition numFrac :: "string \<Rightarrow> string option" where
  "numFrac s = (if take 1 s = ''.'' then digits (drop 1 s) else Some s)"

definition numExp :: "string \<Rightarrow> string option" where
  "numExp s =
     (if take 1 s = ''e'' \<or> take 1 s = ''E'' then
        (let t = drop 1 s in digits (if take 1 t = ''+'' \<or> take 1 t = ''-'' then drop 1 t else t))
      else Some s)"

definition parseNum :: "string \<Rightarrow> (Json \<times> string) option" where
  "parseNum s =
     (case Option.bind (Option.bind (numInt s) numFrac) numExp of
        None \<Rightarrow> None
      | Some t \<Rightarrow> Some (JNum (take (length s - length t) s), t))"

definition maxNestingDepth :: nat where
  "maxNestingDepth = 10000"

text \<open>
  A value, the rest of a non-empty array and the rest of a non-empty object, with the number \<open>d\<close> of
  open brackets. The first argument bounds the recursion; every value consumes a byte, so twice the
  length of the input is enough (\<open>nextValue_fuel\<close> in \<open>Json_Roundtrip\<close>).
\<close>

fun parseValue :: "nat \<Rightarrow> nat \<Rightarrow> string \<Rightarrow> (Json \<times> string) option"
and parseElems :: "nat \<Rightarrow> nat \<Rightarrow> string \<Rightarrow> (Json list \<times> string) option"
and parseMembers :: "nat \<Rightarrow> nat \<Rightarrow> string \<Rightarrow> ((string \<times> Json) list \<times> string) option" where
  "parseValue 0 d s = None"
| "parseValue (Suc n) d s =
     (if s = [] then None
      else if hd s = CHR 0x22 then map_option (\<lambda>(x, t). (JStr x, t)) (parseStr (tl s))
      else if hd s = CHR ''{'' then
        (if d \<ge> maxNestingDepth then None
         else
           (let t = skipWs (tl s) in
            if take 1 t = ''}'' then Some (JObj [], drop 1 t)
            else map_option (\<lambda>(ms, u). (JObj ms, u)) (parseMembers n (Suc d) t)))
      else if hd s = CHR ''['' then
        (if d \<ge> maxNestingDepth then None
         else
           (let t = skipWs (tl s) in
            if take 1 t = '']'' then Some (JArr [], drop 1 t)
            else map_option (\<lambda>(xs, u). (JArr xs, u)) (parseElems n (Suc d) t)))
      else if take 4 s = ''true'' then Some (JBool True, drop 4 s)
      else if take 5 s = ''false'' then Some (JBool False, drop 5 s)
      else if take 4 s = ''null'' then Some (JNull, drop 4 s)
      else parseNum s)"
| "parseElems 0 d s = None"
| "parseElems (Suc n) d s =
     (case parseValue n d s of
        None \<Rightarrow> None
      | Some (x, t0) \<Rightarrow>
          (let t = skipWs t0 in
           if take 1 t = '']'' then Some ([x], drop 1 t)
           else if take 1 t = '','' then
             map_option (\<lambda>(xs, u). (x # xs, u)) (parseElems n d (skipWs (drop 1 t)))
           else None))"
| "parseMembers 0 d s = None"
| "parseMembers (Suc n) d s =
     (if take 1 s \<noteq> [CHR 0x22] then None
      else
        (case parseStr (drop 1 s) of
           None \<Rightarrow> None
         | Some (k, t0) \<Rightarrow>
             if take 1 (skipWs t0) \<noteq> '':'' then None
             else
               (case parseValue n d (skipWs (drop 1 (skipWs t0))) of
                  None \<Rightarrow> None
                | Some (v, u0) \<Rightarrow>
                    (let u = skipWs u0 in
                     if take 1 u = ''}'' then Some ([(k, v)], drop 1 u)
                     else if take 1 u = '','' then
                       map_option (\<lambda>(ms, w). ((k, v) # ms, w)) (parseMembers n d (skipWs (drop 1 u)))
                     else None))))"

text \<open>The next value of a stream, as \<open>json.Decoder\<close> reads it; what follows it is not looked at.\<close>

definition nextValue :: "string \<Rightarrow> Json option" where
  "nextValue s = map_option fst (parseValue (Suc (2 * length s)) 0 (skipWs s))"

end
