(* ===== verification/Json_Roundtrip.thy ===== *)
theory Json_Roundtrip
  imports Json
begin

text \<open>
  Decoding what was encoded gives the value back, with the bytes that are not UTF-8 replaced, and the
  bound on the recursion of the parser is enough.
\<close>

subsection \<open>UTF-8\<close>

lemma in_shape_take: "in_shape sh s \<Longrightarrow> in_shape sh (take (length sh) s @ t)"
  by (induction sh s rule: in_shape.induct) auto

lemma in_shape_length: "in_shape sh s \<Longrightarrow> length sh \<le> length s"
  by (induction sh s rule: in_shape.induct) auto

lemma shape_head:
  "sh \<in> set utf8_shapes \<Longrightarrow> sh' \<in> set utf8_shapes \<Longrightarrow> in_shape sh (c # s) \<Longrightarrow> in_shape sh' (c # s') \<Longrightarrow> sh = sh'"
  by (auto simp: utf8_shapes_def)

lemma shape_size: "sh \<in> set utf8_shapes \<Longrightarrow> 2 \<le> length sh"
  by (auto simp: utf8_shapes_def)

lemma shape_high: "sh \<in> set utf8_shapes \<Longrightarrow> in_shape sh (c # s) \<Longrightarrow> 128 \<le> byteOf c"
  by (auto simp: utf8_shapes_def)

lemma runeLen_shape:
  assumes "runeLen (c # s) \<noteq> 0"
  obtains sh where "sh \<in> set utf8_shapes" and "in_shape sh (c # s)" and "runeLen (c # s) = length sh"
  using assms by (auto simp: runeLen_def find_Some_iff in_set_conv_nth split: option.splits)

lemma runeLen_eqI:
  assumes "sh \<in> set utf8_shapes" and "in_shape sh (c # s)"
  shows "runeLen (c # s) = length sh"
proof (cases "find (\<lambda>sh. in_shape sh (c # s)) utf8_shapes")
  case None
  with assms show ?thesis by (auto simp: find_None_iff)
next
  case (Some sh')
  then have "sh' \<in> set utf8_shapes" "in_shape sh' (c # s)" by (auto simp: find_Some_iff in_set_conv_nth)
  with assms shape_head have "sh' = sh" by blast
  with Some show ?thesis by (simp add: runeLen_def)
qed

text \<open>An encoded rune keeps its size in any context.\<close>

lemma runeLen_unit:
  assumes "runeLen (c # s) = n" and "n \<noteq> 0"
  obtains u where "take n (c # s) = c # u" and "length u = n - 1" and "\<And>t. runeLen (c # u @ t) = n" and "128 \<le> byteOf c"
proof -
  from assms obtain sh where sh: "sh \<in> set utf8_shapes" "in_shape sh (c # s)" "n = length sh"
    by (metis runeLen_shape)
  from assms(2) obtain k where k: "n = Suc k" by (cases n) auto
  then have u: "take n (c # s) = c # take k s" by simp
  have "in_shape sh (c # take k s @ t)" for t
    using in_shape_take [OF sh(2), of t] sh(3) u by simp
  then have "runeLen (c # take k s @ t) = n" for t
    using runeLen_eqI [OF sh(1)] sh(3) by simp
  moreover have "length (take k s) = n - 1" using in_shape_length [OF sh(2)] sh(3) k by simp
  moreover have "128 \<le> byteOf c" using sh shape_high by blast
  ultimately show thesis using that u by blast
qed

subsection \<open>Strings\<close>

lemma hexVal_hex_digit: "n < 16 \<Longrightarrow> hexVal (hex_digit n) = Some n"
proof -
  have "list_all (\<lambda>n. hexVal (hex_digit n) = Some n) [0..<16]" by code_simp
  then show "n < 16 \<Longrightarrow> hexVal (hex_digit n) = Some n" by (simp add: list_all_iff)
qed

lemma parse_u00:
  assumes "byteOf c < 128"
  shows "parseStr (CHR 0x5C # CHR ''u'' # CHR ''0'' # CHR ''0'' # hex_digit (byteOf c div 16) # hex_digit (byteOf c mod 16) # t)
    = prepend [c] (parseStr t)"
proof -
  have "hexVal (CHR ''0'') = Some 0" by code_simp
  moreover have "byteOf c div 16 < 16" "byteOf c mod 16 < 16" "byteOf c div 16 * 16 + byteOf c mod 16 = byteOf c"
    using assms by (simp_all)
  ultimately have "getu4 (CHR ''0'' # CHR ''0'' # hex_digit (byteOf c div 16) # hex_digit (byteOf c mod 16) # t) = Some (byteOf c, t)"
    by (simp add: hexVal_hex_digit)
  then have "unescapeU (CHR ''0'' # CHR ''0'' # hex_digit (byteOf c div 16) # hex_digit (byteOf c mod 16) # t) = Some ([c], t)"
    using assms by (simp add: unescapeU_def encodeRune_def)
  then show ?thesis by simp
qed

lemma parse_escape:
  assumes "byteOf c < 128"
  shows "parseStr (escape c @ t) = prepend [c] (parseStr t)"
proof (cases "byteOf c < 0x20 \<or> c = CHR ''<'' \<or> c = CHR ''>'' \<or> c = CHR ''&'' \<or> c = CHR 0x22 \<or> c = CHR 0x5C")
  case False
  have "c \<noteq> CHR 0x08" "c \<noteq> CHR 0x0C" "c \<noteq> CHR 0x0A" "c \<noteq> CHR 0x0D" "c \<noteq> CHR 0x09"
    using False by (intro notI, simp)+
  with False have "escape c = [c]" by (simp add: escape_def)
  with False assms show ?thesis by simp
next
  case True
  show ?thesis
  proof (cases "c = CHR 0x22 \<or> c = CHR 0x5C \<or> c = CHR 0x08 \<or> c = CHR 0x0C \<or> c = CHR 0x0A \<or> c = CHR 0x0D \<or> c = CHR 0x09")
    case short: True
    then show ?thesis by (elim disjE) (simp_all add: escape_def unescape_def)
  next
    case long: False
    with True have "escape c =
        [CHR 0x5C, CHR ''u'', CHR ''0'', CHR ''0'', hex_digit (byteOf c div 16), hex_digit (byteOf c mod 16)]"
      by (simp add: escape_def)
    then show ?thesis using parse_u00 [OF assms, of t] by simp
  qed
qed

lemma parse_ufffd: "parseStr (CHR 0x5C # ''ufffd'' @ t) = prepend replacement (parseStr t)"
proof -
  have "hexVal (CHR ''f'') = Some 15" "hexVal (CHR ''d'') = Some 13" by code_simp+
  then have "unescapeU (''fffd'' @ t) = Some (encodeRune 0xFFFD, t)" by (simp add: unescapeU_def)
  moreover have "encodeRune 0xFFFD = replacement" by (simp add: encodeRune_def replacement_def char_of_def bit_Suc_0_iff)
  ultimately show ?thesis by simp
qed

lemma parse_u202:
  "parseStr (CHR 0x5C # ''u2028'' @ t) = prepend [CHR 0xE2, CHR 0x80, CHR 0xA8] (parseStr t)"
  "parseStr (CHR 0x5C # ''u2029'' @ t) = prepend [CHR 0xE2, CHR 0x80, CHR 0xA9] (parseStr t)"
proof -
  have "hexVal (CHR ''2'') = Some 2" "hexVal (CHR ''0'') = Some 0" "hexVal (CHR ''8'') = Some 8" "hexVal (CHR ''9'') = Some 9"
    by code_simp+
  then have "unescapeU (''2028'' @ t) = Some (encodeRune 0x2028, t)" "unescapeU (''2029'' @ t) = Some (encodeRune 0x2029, t)"
    by (simp_all add: unescapeU_def)
  moreover have "encodeRune 0x2028 = [CHR 0xE2, CHR 0x80, CHR 0xA8]" "encodeRune 0x2029 = [CHR 0xE2, CHR 0x80, CHR 0xA9]"
    by (simp_all add: encodeRune_def char_of_def bit_Suc_0_iff)
  ultimately show "parseStr (CHR 0x5C # ''u2028'' @ t) = prepend [CHR 0xE2, CHR 0x80, CHR 0xA8] (parseStr t)"
    and "parseStr (CHR 0x5C # ''u2029'' @ t) = prepend [CHR 0xE2, CHR 0x80, CHR 0xA9] (parseStr t)"
    by simp_all
qed

lemma parse_rune:
  assumes "runeLen (c # s) = n" and "n \<noteq> 0"
  shows "parseStr (escapeRune (take n (c # s)) @ t) = prepend (take n (c # s)) (parseStr t)"
proof -
  from assms obtain u where u: "take n (c # s) = c # u" "length u = n - 1" "\<And>t. runeLen (c # u @ t) = n" "128 \<le> byteOf c"
    using runeLen_unit [OF assms] by metis
  then have "c \<noteq> CHR 0x22" "c \<noteq> CHR 0x5C" by auto
  moreover have "take n (c # u @ t) = c # u" "drop n (c # u @ t) = t" using u(2) assms(2) by (cases n; simp)+
  ultimately have "parseStr ((c # u) @ t) = prepend (c # u) (parseStr t)"
    using u(3) [of t] u(4) assms(2) by (simp del: take_Suc_Cons drop_Suc_Cons)
  then show ?thesis using parse_u202 [of t] u(1) by (auto simp: escapeRune_def)
qed

lemma prepend_Some [simp]: "prepend x (Some (s, t)) = Some (x @ s, t)"
  by (simp add: prepend_def)

lemma parse_encodeChars: "parseStr (encodeChars s @ CHR 0x22 # t) = Some (toValid s, t)"
proof (induction s rule: encodeChars.induct)
  case (2 c s)
  consider (ascii) "byteOf c < 0x80" | (bad) "\<not> byteOf c < 0x80" "runeLen (c # s) = 0" | (rune) "\<not> byteOf c < 0x80" "runeLen (c # s) \<noteq> 0"
    by blast
  then show ?case
  proof cases
    case ascii
    then show ?thesis using 2(1) parse_escape [of c] by simp
  next
    case bad
    then show ?thesis using 2(2) parse_ufffd by simp
  next
    case rune
    then show ?thesis using 2(3) parse_rune [OF refl, of c s]
      by (simp del: take_Suc_Cons drop_Suc_Cons)
  qed
qed simp

lemma parse_encodeString: "parseStr (tl (encodeString s) @ t) = Some (toValid s, t)"
  by (simp add: encodeString_def parse_encodeChars)

subsection \<open>Values\<close>

text \<open>Values without numbers, their nesting depth, and what decoding makes of their strings.\<close>

fun no_numbers :: "Json \<Rightarrow> bool" where
  "no_numbers (JNum n) = False"
| "no_numbers (JArr xs) = list_all no_numbers xs"
| "no_numbers (JObj ms) = list_all (\<lambda>(k, v). no_numbers v) ms"
| "no_numbers j = True"

fun depth :: "Json \<Rightarrow> nat" where
  "depth (JArr xs) = Suc (foldr max (map depth xs) 0)"
| "depth (JObj ms) = Suc (foldr max (map (\<lambda>(k, v). depth v) ms) 0)"
| "depth j = 0"

fun validJson :: "Json \<Rightarrow> Json" where
  "validJson (JStr s) = JStr (toValid s)"
| "validJson (JArr xs) = JArr (map validJson xs)"
| "validJson (JObj ms) = JObj (map (\<lambda>(k, v). (toValid k, validJson v)) ms)"
| "validJson j = j"

lemma depth_member: "x \<in> set xs \<Longrightarrow> f x \<le> foldr max (map f xs) (0::nat)"
  by (induction xs) auto

lemma encode_start:
  assumes "no_numbers j"
  obtains c s where "encode j = c # s" and "c \<in> set ''nft[{'' \<union> {CHR 0x22}"
proof (cases j)
  case (JBool b)
  then show thesis using that by (cases b) auto
qed (use assms that in \<open>auto simp: encodeString_def\<close>)

lemma skipWs_encode: "no_numbers j \<Longrightarrow> skipWs (encode j @ t) = encode j @ t"
  by (erule encode_start) (auto simp: skipWs_def)

lemma skipWs_stop: "c \<notin> {CHR 0x20, CHR 0x09, CHR 0x0A, CHR 0x0D} \<Longrightarrow> skipWs (c # s) = c # s"
  by (simp add: skipWs_def)

lemma Join_first: "Join (x # xs) sep = x @ (if xs = [] then [] else sep @ Join xs sep)"
  by (cases xs) simp_all

text \<open>The parser undoes the encoder on the elements of an array and the members of an object.\<close>

lemma parseElems_encode:
  assumes "xs \<noteq> []" and "list_all no_numbers xs" and "length (Join (map encode xs) '','') + 1 < n"
    and "\<And>x n t. x \<in> set xs \<Longrightarrow> length (encode x) < n \<Longrightarrow> parseValue n d (encode x @ t) = Some (validJson x, t)"
  shows "parseElems n d (Join (map encode xs) '','' @ CHR '']'' # t) = Some (map validJson xs, t)"
  using assms
proof (induction xs arbitrary: n)
  case (Cons x xs)
  from Cons.prems(3) obtain m where n: "n = Suc m" by (cases n) auto
  show ?case
  proof (cases "xs = []")
    case True
    with Cons.prems n have "parseValue m d (encode x @ CHR '']'' # t) = Some (validJson x, CHR '']'' # t)" by simp
    with True n show ?thesis by (simp add: skipWs_stop)
  next
    case False
    let ?r = "Join (map encode xs) '','' @ CHR '']'' # t"
    from False Cons.prems(3) n have len: "length (encode x) < m" "length (Join (map encode xs) '','') + 1 < m"
      by (simp_all add: Join_first)
    from len(1) have "parseValue m d (encode x @ CHR '','' # ?r) = Some (validJson x, CHR '','' # ?r)"
      using Cons.prems(4) by simp
    moreover have "skipWs ?r = ?r"
      using False Cons.prems(2) by (cases xs) (auto simp: Join_first skipWs_encode)
    moreover have "parseElems m d ?r = Some (map validJson xs, t)"
      using False Cons.prems(2,4) len(2) by (intro Cons.IH) auto
    ultimately show ?thesis using False n by (simp add: Join_first skipWs_stop)
  qed
qed simp

lemma parseMembers_encode:
  assumes "ms \<noteq> []" and "list_all (\<lambda>(k, v). no_numbers v) ms"
    and "length (Join (map (\<lambda>(k, v). encodeString k @ '':'' @ encode v) ms) '','') + 1 < n"
    and "\<And>k v n t. (k, v) \<in> set ms \<Longrightarrow> length (encode v) < n \<Longrightarrow> parseValue n d (encode v @ t) = Some (validJson v, t)"
  shows "parseMembers n d (Join (map (\<lambda>(k, v). encodeString k @ '':'' @ encode v) ms) '','' @ CHR ''}'' # t)
    = Some (map (\<lambda>(k, v). (toValid k, validJson v)) ms, t)"
  using assms
proof (induction ms arbitrary: n)
  case (Cons m ms)
  obtain k v where m: "m = (k, v)" by fastforce
  from Cons.prems(3) obtain i where n: "n = Suc i" by (cases n) auto
  have key: "parseStr (encodeChars k @ CHR 0x22 # CHR '':'' # u) = Some (toValid k, CHR '':'' # u)" for u
    by (rule parse_encodeChars)
  show ?case
  proof (cases "ms = []")
    case True
    with Cons.prems n m have "parseValue i d (encode v @ CHR ''}'' # t) = Some (validJson v, CHR ''}'' # t)" by simp
    with True n m Cons.prems(2) key show ?thesis by (simp add: skipWs_stop skipWs_encode encodeString_def)
  next
    case False
    let ?r = "Join (map (\<lambda>(k, v). encodeString k @ '':'' @ encode v) ms) '','' @ CHR ''}'' # t"
    from False Cons.prems(3) n m have len: "length (encode v) < i"
      "length (Join (map (\<lambda>(k, v). encodeString k @ '':'' @ encode v) ms) '','') + 1 < i"
      by (simp_all add: Join_first)
    from len(1) have "parseValue i d (encode v @ CHR '','' # ?r) = Some (validJson v, CHR '','' # ?r)"
      using Cons.prems(4) [of k v] m by simp
    moreover have "skipWs ?r = ?r"
      using False by (cases ms) (auto simp: Join_first encodeString_def skipWs_stop)
    moreover have "parseMembers i d ?r = Some (map (\<lambda>(k, v). (toValid k, validJson v)) ms, t)"
      using False Cons.prems(2,4) len(2) by (intro Cons.IH) auto
    ultimately show ?thesis using False n m Cons.prems(2) key
      by (simp add: Join_first skipWs_stop skipWs_encode encodeString_def)
  qed
qed simp

lemma parseValue_encode:
  "no_numbers j \<Longrightarrow> depth j + d \<le> maxNestingDepth \<Longrightarrow> length (encode j) < n \<Longrightarrow>
     parseValue n d (encode j @ t) = Some (validJson j, t)"
proof (induction j arbitrary: d n t)
  case (JStr s)
  then show ?case by (cases n) (simp_all add: encodeString_def parse_encodeChars)
next
  case (JArr xs)
  from JArr.prems(3) obtain m where n: "n = Suc m" by (cases n) auto
  show ?case
  proof (cases "xs = []")
    case True
    with JArr.prems n show ?thesis by (simp add: skipWs_stop)
  next
    case False
    from False JArr.prems(1) obtain c s where cs: "Join (map encode xs) '','' = c # s" "c \<in> set ''nft[{'' \<union> {CHR 0x22}"
      by (cases xs) (auto simp: Join_first elim!: encode_start)
    have "parseElems m (Suc d) (Join (map encode xs) '','' @ CHR '']'' # t) = Some (map validJson xs, t)"
    proof (rule parseElems_encode [OF False])
      show "parseValue n (Suc d) (encode x @ t) = Some (validJson x, t)" if "x \<in> set xs" "length (encode x) < n" for x n t
        using JArr.IH [OF that(1), of "Suc d" n t] JArr.prems(1,2) depth_member [OF that(1), of depth] that
        by (auto simp: list_all_iff)
    qed (use JArr.prems n in auto)
    with cs JArr.prems n show ?thesis by (auto simp: skipWs_stop)
  qed
next
  case (JObj ms)
  from JObj.prems(3) obtain m where n: "n = Suc m" by (cases n) auto
  let ?txt = "Join (map (\<lambda>(k, v). encodeString k @ '':'' @ encode v) ms) '',''"
  show ?case
  proof (cases "ms = []")
    case True
    with JObj.prems n show ?thesis by (simp add: skipWs_stop)
  next
    case False
    then obtain s where s: "?txt = CHR 0x22 # s" by (cases ms) (auto simp: Join_first encodeString_def)
    have "parseMembers m (Suc d) (?txt @ CHR ''}'' # t) = Some (map (\<lambda>(k, v). (toValid k, validJson v)) ms, t)"
    proof (rule parseMembers_encode [OF False])
      show "parseValue n (Suc d) (encode v @ t) = Some (validJson v, t)" if "(k, v) \<in> set ms" "length (encode v) < n" for k v n t
        using JObj.IH [of "(k, v)" v "Suc d" n t] JObj.prems(1,2) depth_member [OF that(1), of "\<lambda>(k, v). depth v"] that
        by (auto simp: list_all_iff)
    qed (use JObj.prems n in auto)
    with s JObj.prems n show ?thesis by (auto simp: skipWs_stop)
  qed
next
  case (JBool b)
  then show ?case by (cases n) auto
next
  case JNull
  then show ?case by (cases n) auto
qed simp

lemma nextValue_encode:
  assumes "no_numbers j" and "depth j \<le> maxNestingDepth"
  shows "nextValue (encode j @ t) = Some (validJson j)"
  using assms parseValue_encode [of j 0 "Suc (2 * length (encode j @ t))" t] by (simp add: nextValue_def skipWs_encode)

subsection \<open>The bound on the recursion\<close>

text \<open>Every part of the parser consumes input.\<close>

lemma prepend_SomeD: "prepend x r = Some (s, t) \<Longrightarrow> \<exists>s'. r = Some (s', t)"
  by (auto simp: prepend_def)

lemma parseStr_length: "parseStr s = Some (x, t) \<Longrightarrow> length t < length s"
proof (induction s arbitrary: x t rule: measure_induct_rule [of length])
  case (less s)
  have IH: "length u < length s \<Longrightarrow> parseStr u = Some (y, t) \<Longrightarrow> length t < length s" for u y
    using less.IH by (meson less_trans)
  show ?case
  proof (cases s)
    case (Cons c s')
    with less.prems show ?thesis
      by (auto split: if_splits list.splits option.splits dest!: prepend_SomeD dest!: unescapeU_length IH [rotated])
  qed (use less.prems in simp)
qed

lemma skipWs_length: "length (skipWs s) \<le> length s"
  by (simp add: skipWs_def length_dropWhile_le)

lemma digits_length: "digits s = Some t \<Longrightarrow> length t < length s"
  using length_dropWhile_le [of _ "tl s"] by (cases s) (auto simp: digits_def less_Suc_eq_le split: if_splits)

lemma numInt_length: "numInt s = Some t \<Longrightarrow> length t < length s"
  by (cases s) (fastforce simp: numInt_def Let_def less_Suc_eq split: if_splits dest: digits_length)+

lemma numFrac_length: "numFrac s = Some t \<Longrightarrow> length t \<le> length s"
  by (auto simp: numFrac_def split: if_splits dest: digits_length)

lemma numExp_length: "numExp s = Some t \<Longrightarrow> length t \<le> length s"
  by (auto simp: numExp_def Let_def split: if_splits dest: digits_length)

lemma parseNum_length: "parseNum s = Some (j, t) \<Longrightarrow> length t < length s"
  by (auto simp: parseNum_def split: option.splits bind_splits dest!: numInt_length numFrac_length numExp_length)

lemma parse_length:
  "parseValue n d s = Some (x, t) \<Longrightarrow> length t < length s"
  "parseElems n d s = Some (xs, t) \<Longrightarrow> length t < length s"
  "parseMembers n d s = Some (ms, t) \<Longrightarrow> length t < length s"
proof (induction n arbitrary: d s x xs ms t)
  case (Suc n)
  {
    case 1
    have tl: "s \<noteq> [] \<Longrightarrow> length (skipWs (tl s)) < length s" "s \<noteq> [] \<Longrightarrow> length (drop 1 (skipWs (tl s))) < length s"
      using skipWs_length [of "tl s"] by (cases s; simp)+
    from 1 show ?case
      by (auto simp: Let_def split: if_splits dest!: parseStr_length Suc.IH(2,3) parseNum_length intro: less_trans [OF _ tl(1)] tl(2) [simplified])
  next
    case 2
    then obtain y u where u: "parseValue n d s = Some (y, u)" by (auto split: option.splits)
    from 2 u Suc.IH(1) [OF u] skipWs_length [of u] skipWs_length [of "drop 1 (skipWs u)"] show ?case
      by (auto simp: Let_def split: if_splits dest!: Suc.IH(2))
  next
    case 3
    then obtain k u v w where u: "parseStr (drop 1 s) = Some (k, u)"
      "parseValue n d (skipWs (drop 1 (skipWs u))) = Some (v, w)" by (auto split: option.splits if_splits)
    from 3 u Suc.IH(1) [OF u(2)] parseStr_length [OF u(1)] skipWs_length [of w] skipWs_length [of "drop 1 (skipWs w)"]
      skipWs_length [of "drop 1 (skipWs u)"] skipWs_length [of u] show ?case
      by (auto simp: Let_def split: if_splits dest!: Suc.IH(3))
  }
qed simp_all

text \<open>Twice the length of the input is enough: any larger bound gives the same result.\<close>

lemma parse_fuel_step:
  "2 * length s < n \<Longrightarrow> 2 * length s < m \<Longrightarrow> parseValue n d s = parseValue m d s"
  "2 * length s + 1 < n \<Longrightarrow> 2 * length s + 1 < m \<Longrightarrow> parseElems n d s = parseElems m d s"
  "2 * length s + 1 < n \<Longrightarrow> 2 * length s + 1 < m \<Longrightarrow> parseMembers n d s = parseMembers m d s"
proof (induction n arbitrary: m d s)
  case (Suc n)
  {
    case 1
    then obtain k where m: "m = Suc k" by (cases m) auto
    have len: "2 * length (skipWs (tl s)) + 1 < n" "2 * length (skipWs (tl s)) + 1 < k" if "s \<noteq> []"
      using skipWs_length [of "tl s"] 1 m that by (cases s; simp)+
    have "parseElems n (Suc d) (skipWs (tl s)) = parseElems k (Suc d) (skipWs (tl s))"
      "parseMembers n (Suc d) (skipWs (tl s)) = parseMembers k (Suc d) (skipWs (tl s))" if "s \<noteq> []"
      using len [OF that] by (rule Suc.IH(2) Suc.IH(3))+
    then show ?case
      unfolding m parseValue.simps by (cases "s = []") (simp, simp only: Let_def not_False_eq_True)
  next
    case 2
    then obtain k where m: "m = Suc k" by (cases m) auto
    from 2 m have "parseValue n d s = parseValue k d s" by (intro Suc.IH(1)) auto
    moreover have "parseElems n d (skipWs (drop 1 (skipWs u))) = parseElems k d (skipWs (drop 1 (skipWs u)))"
      if "parseValue k d s = Some (y, u)" for y u
      using parse_length(1) [OF that] skipWs_length [of u] skipWs_length [of "drop 1 (skipWs u)"] 2 m
      by (intro Suc.IH(2)) auto
    ultimately show ?case
      unfolding m parseElems.simps by (auto simp: Let_def split: option.split)
  next
    case 3
    then obtain k where m: "m = Suc k" by (cases m) auto
    have val: "parseValue n d (skipWs (drop 1 (skipWs u))) = parseValue k d (skipWs (drop 1 (skipWs u)))"
      if "parseStr (drop 1 s) = Some (x, u)" for x u
      using parseStr_length [OF that] skipWs_length [of u] skipWs_length [of "drop 1 (skipWs u)"] 3 m
      by (intro Suc.IH(1)) auto
    have "parseMembers n d (skipWs (drop 1 (skipWs w))) = parseMembers k d (skipWs (drop 1 (skipWs w)))"
      if "parseStr (drop 1 s) = Some (x, u)" "parseValue k d (skipWs (drop 1 (skipWs u))) = Some (v, w)" for x u v w
      using parseStr_length [OF that(1)] parse_length(1) [OF that(2)] skipWs_length [of w] skipWs_length [of "drop 1 (skipWs w)"]
        skipWs_length [of u] skipWs_length [of "drop 1 (skipWs u)"] 3 m
      by (intro Suc.IH(3)) auto
    with val show ?case
      unfolding m parseMembers.simps by (auto simp: Let_def split: option.split)
  }
qed simp_all

lemma nextValue_fuel: "2 * length s < n \<Longrightarrow> nextValue s = map_option fst (parseValue n 0 (skipWs s))"
  using skipWs_length [of s] parse_fuel_step(1) [of "skipWs s" "Suc (2 * length s)" n 0] by (simp add: nextValue_def)

end
