(* ===== verification/Report_Format.thy ===== *)
theory Report_Format
  imports Json_Roundtrip
begin

text \<open>
  The report on the wire: the two structs with their \<open>json\<close> tags (\<open>Report\<close> of
  \<open>internal/worker/report.go\<close>, \<open>StatusReport\<close> of \<open>internal/server/server.go\<close>), the text that the worker's
  \<open>json.Marshal\<close> writes, and what the server's \<open>json.Decoder\<close> makes of a request body: field names
  matched exactly or else regardless of case, \<open>null\<close> leaving a field as it is, unknown fields refused,
  and at most \<open>1 << 20\<close> bytes read.
\<close>

subsection \<open>The structs\<close>

record Report =
  wr_Profile :: string
  wr_Namespace :: string
  wr_Kind :: string
  wr_Node :: string
  wr_Pod :: string
  wr_Hash :: string
  wr_Success :: bool
  wr_Applied :: "string list"
  wr_Failed :: "string list"
  wr_Message :: string

record StatusReport =
  rep_Profile :: string
  rep_Namespace :: string
  rep_Kind :: string
  rep_Node :: string
  rep_Pod :: string
  rep_Hash :: string
  rep_Success :: bool
  rep_Applied :: "string list"
  rep_Failed :: "string list"
  rep_Message :: string

definition zeroReport :: StatusReport where
  "zeroReport =
     \<lparr>rep_Profile = [], rep_Namespace = [], rep_Kind = [], rep_Node = [], rep_Pod = [], rep_Hash = [],
      rep_Success = False, rep_Applied = [], rep_Failed = [], rep_Message = []\<rparr>"

subsection \<open>Marshalling\<close>

definition omitemptyString :: "string \<Rightarrow> string \<Rightarrow> (string \<times> Json) list" where
  "omitemptyString key s = (if s = [] then [] else [(key, JStr s)])"

definition omitemptyList :: "string \<Rightarrow> string list \<Rightarrow> (string \<times> Json) list" where
  "omitemptyList key xs = (if xs = [] then [] else [(key, JArr (map JStr xs))])"

definition reportMembers :: "Report \<Rightarrow> (string \<times> Json) list" where
  "reportMembers rep =
     [(''profile'', JStr (wr_Profile rep)), (''namespace'', JStr (wr_Namespace rep))]
     @ omitemptyString ''kind'' (wr_Kind rep)
     @ [(''node'', JStr (wr_Node rep))]
     @ omitemptyString ''pod'' (wr_Pod rep)
     @ omitemptyString ''hash'' (wr_Hash rep)
     @ [(''success'', JBool (wr_Success rep))]
     @ omitemptyList ''applied'' (wr_Applied rep)
     @ omitemptyList ''failed'' (wr_Failed rep)
     @ omitemptyString ''message'' (wr_Message rep)"

definition marshalReport :: "Report \<Rightarrow> string" where
  "marshalReport rep = encode (JObj (reportMembers rep))"

subsection \<open>Decoding\<close>

definition reportFields :: "string list" where
  "reportFields =
     [''profile'', ''namespace'', ''kind'', ''node'', ''pod'', ''hash'', ''success'', ''applied'', ''failed'', ''message'']"

text \<open>
  The folding of names of \<open>encoding/json\<close>: ASCII letters in upper case, and the two other runes that
  fold to an ASCII letter (U+017F and U+212A). Other runes are kept; they match no field.
\<close>

fun foldName :: "string \<Rightarrow> string" where
  "foldName [] = []"
| "foldName (a # s) =
     (if a = CHR 0xC5 \<and> take 1 s = [CHR 0xBF] then CHR ''S'' # foldName (drop 1 s)
      else if a = CHR 0xE2 \<and> take 2 s = [CHR 0x84, CHR 0xAA] then CHR ''K'' # foldName (drop 2 s)
      else if 97 \<le> byteOf a \<and> byteOf a \<le> 122 then char_of (byteOf a - 32) # foldName s
      else a # foldName s)"

definition fieldOf :: "string \<Rightarrow> string option" where
  "fieldOf key =
     (if key \<in> set reportFields then Some key
      else find (\<lambda>f. foldName f = foldName key) reportFields)"

text \<open>One field: \<open>null\<close> is a no-op on a string and on a boolean, and a value of another type is an error.\<close>

fun decodeString :: "string \<Rightarrow> Json \<Rightarrow> string option" where
  "decodeString old (JStr s) = Some s"
| "decodeString old JNull = Some old"
| "decodeString old _ = None"

fun decodeBool :: "bool \<Rightarrow> Json \<Rightarrow> bool option" where
  "decodeBool old (JBool b) = Some b"
| "decodeBool old JNull = Some old"
| "decodeBool old _ = None"

text \<open>
  A slice of strings is decoded into the array it already has, which matters when a field occurs more
  than once: a \<open>null\<close> element keeps what the array holds at its index, also beyond the current length.
  A slice is the list of its elements and what its array holds after them.
\<close>

type_synonym slice = "string list \<times> string list"

fun decodeElems :: "string list \<Rightarrow> Json list \<Rightarrow> slice option" where
  "decodeElems old [] = Some ([], old)"
| "decodeElems old (x # xs) =
     (case decodeString (if old = [] then [] else hd old) x of
        None \<Rightarrow> None
      | Some s \<Rightarrow> map_option (\<lambda>(ys, rest). (s # ys, rest)) (decodeElems (tl old) xs))"

fun decodeSlice :: "slice \<Rightarrow> Json \<Rightarrow> slice option" where
  "decodeSlice old JNull = Some ([], [])"
| "decodeSlice old (JArr xs) = (if xs = [] then Some ([], []) else decodeElems (fst old @ snd old) xs)"
| "decodeSlice old _ = None"

text \<open>The decoder's target: the report, with the arrays of its two slices beyond their lengths.\<close>

record Target =
  tgt_Report :: StatusReport
  tgt_Applied :: "string list"
  tgt_Failed :: "string list"

definition storeField :: "string \<Rightarrow> Json \<Rightarrow> Target \<Rightarrow> Target option" where
  "storeField f v tgt =
     (let r = tgt_Report tgt;
          str = (\<lambda>old upd. map_option (\<lambda>s. tgt\<lparr>tgt_Report := upd s\<rparr>) (decodeString old v))
      in if f = ''profile'' then str (rep_Profile r) (\<lambda>s. r\<lparr>rep_Profile := s\<rparr>)
         else if f = ''namespace'' then str (rep_Namespace r) (\<lambda>s. r\<lparr>rep_Namespace := s\<rparr>)
         else if f = ''kind'' then str (rep_Kind r) (\<lambda>s. r\<lparr>rep_Kind := s\<rparr>)
         else if f = ''node'' then str (rep_Node r) (\<lambda>s. r\<lparr>rep_Node := s\<rparr>)
         else if f = ''pod'' then str (rep_Pod r) (\<lambda>s. r\<lparr>rep_Pod := s\<rparr>)
         else if f = ''hash'' then str (rep_Hash r) (\<lambda>s. r\<lparr>rep_Hash := s\<rparr>)
         else if f = ''success'' then
           map_option (\<lambda>b. tgt\<lparr>tgt_Report := r\<lparr>rep_Success := b\<rparr>\<rparr>) (decodeBool (rep_Success r) v)
         else if f = ''applied'' then
           map_option (\<lambda>(xs, rest). tgt\<lparr>tgt_Report := r\<lparr>rep_Applied := xs\<rparr>, tgt_Applied := rest\<rparr>)
             (decodeSlice (rep_Applied r, tgt_Applied tgt) v)
         else if f = ''failed'' then
           map_option (\<lambda>(xs, rest). tgt\<lparr>tgt_Report := r\<lparr>rep_Failed := xs\<rparr>, tgt_Failed := rest\<rparr>)
             (decodeSlice (rep_Failed r, tgt_Failed tgt) v)
         else str (rep_Message r) (\<lambda>s. r\<lparr>rep_Message := s\<rparr>))"

primrec storeMembers :: "(string \<times> Json) list \<Rightarrow> Target \<Rightarrow> Target option" where
  "storeMembers [] tgt = Some tgt"
| "storeMembers (m # ms) tgt =
     (case fieldOf (fst m) of
        None \<Rightarrow> None
      | Some f \<Rightarrow> (case storeField f (snd m) tgt of None \<Rightarrow> None | Some tgt' \<Rightarrow> storeMembers ms tgt'))"

fun storeReport :: "Json \<Rightarrow> StatusReport option" where
  "storeReport JNull = Some zeroReport"
| "storeReport (JObj ms) =
     map_option tgt_Report (storeMembers ms \<lparr>tgt_Report = zeroReport, tgt_Applied = [], tgt_Failed = []\<rparr>)"
| "storeReport _ = None"

definition maxReportBytes :: nat where
  "maxReportBytes = 2 ^ 20"

definition decodeReport :: "string \<Rightarrow> StatusReport option" where
  "decodeReport body = Option.bind (nextValue (take maxReportBytes body)) storeReport"

subsection \<open>The round trip\<close>

text \<open>The report as the server sees it.\<close>

definition received :: "Report \<Rightarrow> StatusReport" where
  "received rep =
     \<lparr>rep_Profile = toValid (wr_Profile rep), rep_Namespace = toValid (wr_Namespace rep),
      rep_Kind = toValid (wr_Kind rep), rep_Node = toValid (wr_Node rep), rep_Pod = toValid (wr_Pod rep),
      rep_Hash = toValid (wr_Hash rep), rep_Success = wr_Success rep,
      rep_Applied = map toValid (wr_Applied rep), rep_Failed = map toValid (wr_Failed rep),
      rep_Message = toValid (wr_Message rep)\<rparr>"

lemma toValid_ascii: "list_all (\<lambda>c. byteOf c < 128) s \<Longrightarrow> toValid s = s"
  by (induction s) auto

lemma toValid_hex: "set s \<subseteq> hex_chars \<Longrightarrow> toValid s = s"
proof -
  have "byteOf c < 128" if "c \<in> hex_chars" for c using that by (auto simp: hex_chars_def)
  then show "set s \<subseteq> hex_chars \<Longrightarrow> toValid s = s" by (intro toValid_ascii) (auto simp: list_all_iff)
qed

lemma storeMembers_append:
  "storeMembers (ms @ ns) tgt = Option.bind (storeMembers ms tgt) (storeMembers ns)"
  by (induction ms arbitrary: tgt) (auto split: option.split)

lemma storeMembers_unknown: "(k, v) \<in> set ms \<Longrightarrow> fieldOf k = None \<Longrightarrow> storeMembers ms tgt = None"
  by (induction ms arbitrary: tgt) (auto split: option.split)

lemma fieldOf_known [simp]: "f \<in> set reportFields \<Longrightarrow> fieldOf f = Some f"
  by (simp add: fieldOf_def)

lemma no_numbers_report: "no_numbers (JObj (reportMembers rep))"
  by (auto simp: reportMembers_def omitemptyString_def omitemptyList_def list_all_iff)

lemma depth_strings: "foldr max (map (depth \<circ> JStr) xs) 0 = 0"
  by (induction xs) auto

lemma depth_report: "depth (JObj (reportMembers rep)) \<le> 2"
  by (auto simp: reportMembers_def omitemptyString_def omitemptyList_def depth_strings)

text \<open>The members of a valid report, stored one after the other.\<close>

lemma store_members:
  "storeMembers (map (\<lambda>(k, v). (toValid k, validJson v)) (reportMembers rep))
     \<lparr>tgt_Report = zeroReport, tgt_Applied = [], tgt_Failed = []\<rparr>
   = Some \<lparr>tgt_Report = received rep, tgt_Applied = [], tgt_Failed = []\<rparr>"
proof -
  have keys: "toValid f = f" if "f \<in> set reportFields" for f
    using that by (intro toValid_ascii) (auto simp: reportFields_def)
  have known: "fieldOf (toValid f) = Some f" if "f \<in> set reportFields" for f
    using that keys by simp
  have strings: "decodeElems [] (map (validJson \<circ> JStr) xs) = Some (map toValid xs, [])" for xs
    by (induction xs) auto
  show ?thesis
    by (simp add: reportMembers_def omitemptyString_def omitemptyList_def known reportFields_def storeMembers_append
        storeField_def Let_def strings received_def zeroReport_def)
qed

lemma decode_marshalReport:
  assumes "length (marshalReport rep) \<le> maxReportBytes"
  shows "decodeReport (marshalReport rep) = Some (received rep)"
proof -
  have "maxNestingDepth \<ge> 2" by (simp add: maxNestingDepth_def)
  with nextValue_encode [OF no_numbers_report, of rep "[]"] depth_report [of rep] assms show ?thesis
    by (simp add: decodeReport_def marshalReport_def store_members del: encode.simps)
qed

subsection \<open>The size of a report\<close>

lemma escape_length: "length (escape c) \<le> 6"
  by (simp add: escape_def)

lemma encodeChars_length: "length (encodeChars s) \<le> 6 * length s"
proof (induction s rule: encodeChars.induct)
  case (2 c s)
  consider (ascii) "byteOf c < 0x80" | (bad) "\<not> byteOf c < 0x80" "runeLen (c # s) = 0" | (rune) "\<not> byteOf c < 0x80" "runeLen (c # s) \<noteq> 0"
    by blast
  then show ?case
  proof cases
    case ascii
    then show ?thesis using 2(1) escape_length [of c] by simp
  next
    case bad
    then show ?thesis using 2(2) by simp
  next
    case rune
    obtain sh where "in_shape sh (c # s)" "runeLen (c # s) = length sh" using rune(2) by (rule runeLen_shape)
    with rune have n: "runeLen (c # s) \<noteq> 0" "runeLen (c # s) \<le> length (c # s)"
      using in_shape_length [of sh "c # s"] by simp_all
    have "length (escapeRune (take (runeLen (c # s)) (c # s))) \<le> 6 * runeLen (c # s)"
      using n by (auto simp: escapeRune_def)
    moreover have "length (drop (runeLen (c # s)) (c # s)) + runeLen (c # s) = length (c # s)" using n(2) by simp
    ultimately show ?thesis using rune 2(3) by (simp del: take_Suc_Cons drop_Suc_Cons length_drop)
  qed
qed simp

lemma encodeString_length: "length (encodeString s) \<le> 6 * length s + 2"
  using encodeChars_length [of s] by (simp add: encodeString_def)

lemma Join_length: "length (Join xs '','') \<le> sum_list (map (\<lambda>x. length x + 1) xs)"
  by (induction xs) (auto simp: Join_first)

definition stringsSize :: "string list \<Rightarrow> nat" where
  "stringsSize xs = sum_list (map (\<lambda>x. 6 * length x + 3) xs)"

lemma encode_strings_length: "length (encode (JArr (map JStr xs))) \<le> stringsSize xs + 2"
proof -
  have "sum_list (map (\<lambda>x. length (encodeString x) + 1) xs) \<le> stringsSize xs"
    unfolding stringsSize_def by (rule sum_list_mono) (use encodeString_length in \<open>simp add: le_SucI\<close>)
  with Join_length [of "map encodeString xs"] show ?thesis by (simp add: comp_def)
qed

lemma omitted_length:
  "sum_list (map (\<lambda>(k, v). length (encodeString k @ '':'' @ encode v) + 1) (omitemptyString key s)) \<le> 6 * length key + 6 * length s + 6"
  "sum_list (map (\<lambda>(k, v). length (encodeString k @ '':'' @ encode v) + 1) (omitemptyList key xs)) \<le> 6 * length key + stringsSize xs + 6"
  using encodeString_length [of key] encodeString_length [of s] encode_strings_length [of xs]
  by (auto simp: omitemptyString_def omitemptyList_def)

text \<open>A byte of a string takes at most six bytes of JSON.\<close>

lemma marshalReport_length:
  "length (marshalReport rep) \<le> 500 + stringsSize (wr_Applied rep) + stringsSize (wr_Failed rep)
     + 6 * (length (wr_Profile rep) + length (wr_Namespace rep) + length (wr_Kind rep) + length (wr_Node rep)
            + length (wr_Pod rep) + length (wr_Hash rep) + length (wr_Message rep))"
proof -
  let ?len = "\<lambda>(k, v). length (encodeString k @ '':'' @ encode v) + 1"
  have "length (marshalReport rep) \<le> 2 + sum_list (map ?len (reportMembers rep))"
    using Join_length [of "map (\<lambda>(k, v). encodeString k @ '':'' @ encode v) (reportMembers rep)"]
    by (simp add: marshalReport_def comp_def case_prod_unfold)
  also have "\<dots> \<le> 500 + stringsSize (wr_Applied rep) + stringsSize (wr_Failed rep)
     + 6 * (length (wr_Profile rep) + length (wr_Namespace rep) + length (wr_Kind rep) + length (wr_Node rep)
            + length (wr_Pod rep) + length (wr_Hash rep) + length (wr_Message rep))"
    unfolding reportMembers_def map_append sum_list_append
    using omitted_length(1) [of "''kind''" "wr_Kind rep"] omitted_length(1) [of "''pod''" "wr_Pod rep"]
      omitted_length(1) [of "''hash''" "wr_Hash rep"] omitted_length(1) [of "''message''" "wr_Message rep"]
      omitted_length(2) [of "''applied''" "wr_Applied rep"] omitted_length(2) [of "''failed''" "wr_Failed rep"]
      encodeString_length [of "wr_Profile rep"] encodeString_length [of "wr_Namespace rep"] encodeString_length [of "wr_Node rep"]
      encodeString_length [of "''profile''"] encodeString_length [of "''namespace''"] encodeString_length [of "''node''"]
      encodeString_length [of "''success''"]
    by simp
  finally show ?thesis .
qed

subsection \<open>Properties\<close>

text \<open>C12: Every report that the worker posts within the server's size limit is accepted by the server's
  decoder, and the server sees the fields that the worker set, with the bytes that are not UTF-8
  replaced; fields left out as empty come out empty.\<close>

theorem report_roundtrip:
  assumes "length (marshalReport rep) \<le> 2 ^ 20"
  shows "\<exists>r. decodeReport (marshalReport rep) = Some r
    \<and> rep_Profile r = toValid (wr_Profile rep) \<and> rep_Namespace r = toValid (wr_Namespace rep)
    \<and> rep_Kind r = toValid (wr_Kind rep) \<and> rep_Node r = toValid (wr_Node rep) \<and> rep_Pod r = toValid (wr_Pod rep)
    \<and> rep_Hash r = toValid (wr_Hash rep) \<and> rep_Success r = wr_Success rep
    \<and> rep_Applied r = map toValid (wr_Applied rep) \<and> rep_Failed r = map toValid (wr_Failed rep)
    \<and> rep_Message r = toValid (wr_Message rep)"
  using assms decode_marshalReport [of rep] by (simp add: received_def maxReportBytes_def)

definition exSent :: Report where
  "exSent =
     \<lparr>wr_Profile = ''tuning'', wr_Namespace = ''ops'', wr_Kind = [], wr_Node = ''n1'', wr_Pod = [], wr_Hash = ''abc'',
      wr_Success = False, wr_Applied = [''a.b''], wr_Failed = [''c <'' @ [CHR 0xC3, CHR 0x28]], wr_Message = [CHR 0x0A]\<rparr>"

theorem report_roundtrip_witness:
  "\<exists>r. decodeReport (marshalReport exSent) = Some r \<and> rep_Node r = ''n1'' \<and> rep_Kind r = []
     \<and> rep_Applied r = [''a.b''] \<and> rep_Failed r = [''c <'' @ replacement @ ''('']"
proof -
  have "length (marshalReport exSent) \<le> 200" by code_simp
  then have "length (marshalReport exSent) \<le> 2 ^ 20" by simp
  moreover have "toValid (''c <'' @ [CHR 0xC3, CHR 0x28]) = ''c <'' @ replacement @ ''(''" by code_simp
  ultimately show ?thesis using report_roundtrip [of exSent] by (auto simp: exSent_def)
qed

end
