(* ===== verification/Report_Server.thy ===== *)
theory Report_Server
  imports Kube Report_Format
begin

text \<open>
  \<open>internal/server/server.go\<close> and \<open>internal/metrics/metrics.go\<close>: the HTTP API that worker pods
  report to, the bookkeeping of per-node status it does on the owning profile, and the counter of
  errored pods. Responses are the status code and the text written.
\<close>

definition kindScriptProfile :: string where
  "kindScriptProfile = ''ScriptProfile''"

subsection \<open>Per-node status\<close>

text \<open>The entry of the reporting node after the report, and the entry made for a new node.\<close>

definition touchNodeStatus :: "StatusReport \<Rightarrow> NodePhase \<Rightarrow> Time \<Rightarrow> NodeStatus \<Rightarrow> NodeStatus" where
  "touchNodeStatus report phase now ns0 =
     (let ns = (if \<not> rep_Success report then ns0\<lparr>FailCount := FailCount ns0 + 1\<rparr>
                else ns0\<lparr>FailCount := 0, AppliedHash := rep_Hash report\<rparr>)
      in ns\<lparr>Phase := phase, Message := rep_Message report, LastTransitionTime := now\<rparr>)"

definition newNodeStatus :: "StatusReport \<Rightarrow> NodePhase \<Rightarrow> Time \<Rightarrow> NodeStatus" where
  "newNodeStatus report phase now =
     \<lparr>NodeName = rep_Node report, Phase = phase,
      AppliedHash = (if rep_Success report then rep_Hash report else []),
      FailCount = (if rep_Success report then 0 else 1),
      Message = rep_Message report, LastTransitionTime = now\<rparr>"

text \<open>
  The search of the upsert functions: the list with the first entry of the node updated, or
  \<^term>\<open>None\<close> when the loop ends without finding one.
\<close>

fun updateFirst :: "StatusReport \<Rightarrow> NodePhase \<Rightarrow> Time \<Rightarrow> NodeStatus list \<Rightarrow> NodeStatus list option" where
  "updateFirst report phase now [] = None"
| "updateFirst report phase now (ns # rest) =
     (if NodeName ns \<noteq> rep_Node report then map_option ((#) ns) (updateFirst report phase now rest)
      else Some (touchNodeStatus report phase now ns # rest))"

definition upsertNodeStatus :: "SysctlProfile \<Rightarrow> StatusReport \<Rightarrow> NodePhase \<Rightarrow> Time \<Rightarrow> SysctlProfile" where
  "upsertNodeStatus profile report phase now =
     (let st = sys_Status profile;
          errored = (if \<not> rep_Success report then ErroredPods st + 1 else ErroredPods st)
      in case updateFirst report phase now (sys_NodeStatuses st) of
           Some nss \<Rightarrow> profile\<lparr>sys_Status := st\<lparr>sys_NodeStatuses := nss, ErroredPods := errored\<rparr>\<rparr>
         | None \<Rightarrow>
             profile\<lparr>sys_Status :=
               st\<lparr>sys_NodeStatuses := sys_NodeStatuses st @ [newNodeStatus report phase now],
                  ErroredPods := errored\<rparr>\<rparr>)"

definition upsertScriptNodeStatus :: "ScriptProfile \<Rightarrow> StatusReport \<Rightarrow> NodePhase \<Rightarrow> Time \<Rightarrow> ScriptProfile" where
  "upsertScriptNodeStatus profile report phase now =
     (let st = scr_Status profile
      in case updateFirst report phase now (scr_NodeStatuses st) of
           Some nss \<Rightarrow> profile\<lparr>scr_Status := st\<lparr>scr_NodeStatuses := nss\<rparr>\<rparr>
         | None \<Rightarrow>
             profile\<lparr>scr_Status :=
               st\<lparr>scr_NodeStatuses := scr_NodeStatuses st @ [newNodeStatus report phase now]\<rparr>\<rparr>)"

text \<open>The counting loop, with the two \<open>int32\<close> counters.\<close>

primrec countPhases :: "NodeStatus list \<Rightarrow> int32 \<Rightarrow> int32 \<Rightarrow> int32 \<times> int32" where
  "countPhases [] applied failed = (applied, failed)"
| "countPhases (ns # rest) applied failed =
     (if Phase ns = NodePhaseApplied then countPhases rest (applied + 1) failed
      else if Phase ns = NodePhaseFailed then countPhases rest applied (failed + 1)
      else countPhases rest applied failed)"

definition recomputeCounts :: "SysctlProfile \<Rightarrow> SysctlProfile" where
  "recomputeCounts profile =
     (case countPhases (sys_NodeStatuses (sys_Status profile)) 0 0 of
        (applied, failed) \<Rightarrow>
          profile\<lparr>sys_Status :=
            (sys_Status profile)\<lparr>sys_AppliedNodes := applied, sys_FailedNodes := failed\<rparr>\<rparr>)"

definition recomputeScriptCounts :: "ScriptProfile \<Rightarrow> ScriptProfile" where
  "recomputeScriptCounts profile =
     (case countPhases (scr_NodeStatuses (scr_Status profile)) 0 0 of
        (applied, failed) \<Rightarrow>
          profile\<lparr>scr_Status :=
            (scr_Status profile)\<lparr>scr_AppliedNodes := applied, scr_FailedNodes := failed\<rparr>\<rparr>)"

subsection \<open>Recording a report\<close>

text \<open>The bodies of the closures passed to \<open>retry.RetryOnConflict\<close>.\<close>

definition reportPhase :: "StatusReport \<Rightarrow> NodePhase" where
  "reportPhase report = (if \<not> rep_Success report then NodePhaseFailed else NodePhaseApplied)"

definition recordSysctl :: "StatusReport \<Rightarrow> Time \<Rightarrow> SysctlProfile \<Rightarrow> SysctlProfile" where
  "recordSysctl report now profile =
     recomputeCounts (upsertNodeStatus profile report (reportPhase report) now)"

definition recordScript :: "StatusReport \<Rightarrow> Time \<Rightarrow> ScriptProfile \<Rightarrow> ScriptProfile" where
  "recordScript report now profile =
     recomputeScriptCounts (upsertScriptNodeStatus profile report (reportPhase report) now)"

definition sysctlReportAttempt :: "'w Kube \<Rightarrow> StatusReport \<Rightarrow> 'w \<Rightarrow> 'w result" where
  "sysctlReportAttempt K report w =
     (case GetSysctlProfile K (rep_Namespace report, rep_Profile report) w of
        Inl err \<Rightarrow> (Some err, w)
      | Inr profile \<Rightarrow> StatusUpdateSysctlProfile K (recordSysctl report (Now K w) profile) w)"

definition scriptReportAttempt :: "'w Kube \<Rightarrow> StatusReport \<Rightarrow> 'w \<Rightarrow> 'w result" where
  "scriptReportAttempt K report w =
     (case GetScriptProfile K (rep_Namespace report, rep_Profile report) w of
        Inl err \<Rightarrow> (Some err, w)
      | Inr profile \<Rightarrow> StatusUpdateScriptProfile K (recordScript report (Now K w) profile) w)"

definition applyScriptReport :: "'w Kube \<Rightarrow> StatusReport \<Rightarrow> 'w \<Rightarrow> 'w result" where
  "applyScriptReport K report w = RetryOnConflict K (scriptReportAttempt K report) w"

definition applyReport :: "'w Kube \<Rightarrow> StatusReport \<Rightarrow> 'w \<Rightarrow> 'w result" where
  "applyReport K report w =
     (if rep_Kind report = kindScriptProfile then applyScriptReport K report w
      else RetryOnConflict K (sysctlReportAttempt K report) w)"

definition IncErrored :: "'w Kube \<Rightarrow> string \<Rightarrow> string \<Rightarrow> string \<Rightarrow> 'w \<Rightarrow> 'w" where
  "IncErrored K profile namespace node w = CounterInc K [profile, namespace, node] w"

subsection \<open>The request handler\<close>

text \<open>
  The handler returns the status code of the response and the new cluster state; the text of the
  response is not modelled.
\<close>

definition handleReport ::
  "'w Kube \<Rightarrow> string \<Rightarrow> string \<Rightarrow> 'w \<Rightarrow> nat \<times> 'w" where
  "handleReport K method body w =
     (if method \<noteq> ''POST'' then (405, w)
      else case decodeReport body of
        None \<Rightarrow> (400, w)
      | Some report \<Rightarrow>
          if rep_Profile report = [] \<or> rep_Namespace report = [] \<or> rep_Node report = [] then (400, w)
          else
            (case applyReport K report w of
               (Some err, w1) \<Rightarrow> if IgnoreNotFound K err = None then (200, w1) else (500, w1)
             | (None, w1) \<Rightarrow>
                 (200,
                  if \<not> rep_Success report
                  then IncErrored K (rep_Profile report) (rep_Namespace report) (rep_Node report) w1
                  else w1)))"

subsection \<open>The search loop\<close>

lemma touchNodeStatus_name [simp]: "NodeName (touchNodeStatus r ph t ns) = NodeName ns"
  by (simp add: touchNodeStatus_def Let_def)

lemma newNodeStatus_name [simp]: "NodeName (newNodeStatus r ph t) = rep_Node r"
  by (simp add: newNodeStatus_def)

lemma updateFirst_None: "updateFirst r ph t nss = None \<longleftrightarrow> rep_Node r \<notin> NodeName ` set nss"
  by (induction nss) auto

lemma updateFirst_Some:
  "updateFirst r ph t nss = Some nss' \<Longrightarrow>
     \<exists>pre ns post. nss = pre @ ns # post \<and> NodeName ns = rep_Node r \<and> rep_Node r \<notin> NodeName ` set pre
       \<and> nss' = pre @ touchNodeStatus r ph t ns # post"
proof (induction nss arbitrary: nss')
  case (Cons ns nss)
  show ?case
  proof (cases "NodeName ns = rep_Node r")
    case True
    with Cons.prems show ?thesis by (intro exI [of _ "[]"]) auto
  next
    case False
    with Cons.prems obtain nss1 where nss1: "updateFirst r ph t nss = Some nss1" "nss' = ns # nss1"
      by auto
    from Cons.IH [OF nss1(1)] obtain pre x post where
      "nss = pre @ x # post" "NodeName x = rep_Node r" "rep_Node r \<notin> NodeName ` set pre"
      "nss1 = pre @ touchNodeStatus r ph t x # post" by blast
    with False nss1(2) show ?thesis by (intro exI [of _ "ns # pre"]) auto
  qed
qed simp

text \<open>Both upsert functions do the same to the list of entries.\<close>

definition upsertList :: "StatusReport \<Rightarrow> Time \<Rightarrow> NodeStatus list \<Rightarrow> NodeStatus list" where
  "upsertList r t nss =
     (case updateFirst r (reportPhase r) t nss of
        Some nss' \<Rightarrow> nss' | None \<Rightarrow> nss @ [newNodeStatus r (reportPhase r) t])"

lemma upsertList_names:
  "map NodeName (upsertList r t nss) =
     (if rep_Node r \<in> NodeName ` set nss then map NodeName nss else map NodeName nss @ [rep_Node r])"
proof (cases "updateFirst r (reportPhase r) t nss")
  case None
  then have "rep_Node r \<notin> NodeName ` set nss" by (simp add: updateFirst_None)
  with None show ?thesis by (simp add: upsertList_def)
next
  case (Some nss')
  from updateFirst_Some [OF Some] show ?thesis using Some by (auto simp: upsertList_def)
qed

lemma recordSysctl_NodeStatuses [status_simps]:
  "sys_NodeStatuses (sys_Status (recordSysctl r t p)) = upsertList r t (sys_NodeStatuses (sys_Status p))"
  by (simp add: recordSysctl_def recomputeCounts_def upsertNodeStatus_def upsertList_def Let_def
      split: option.splits prod.splits)

lemma recordScript_NodeStatuses [status_simps]:
  "scr_NodeStatuses (scr_Status (recordScript r t p)) = upsertList r t (scr_NodeStatuses (scr_Status p))"
  by (simp add: recordScript_def recomputeScriptCounts_def upsertScriptNodeStatus_def upsertList_def Let_def
      split: option.splits prod.splits)

subsection \<open>The counting loop\<close>

lemma countPhases_eq:
  "countPhases nss a f =
     (a + of_nat (length (filter (\<lambda>ns. Phase ns = NodePhaseApplied) nss)),
      f + of_nat (length (filter (\<lambda>ns. Phase ns = NodePhaseFailed) nss)))"
  by (induction nss arbitrary: a f) (auto simp: add.assoc)

lemma recordSysctl_counts [status_simps]:
  "sys_AppliedNodes (sys_Status (recordSysctl r t p)) =
     of_nat (length (filter (\<lambda>ns. Phase ns = NodePhaseApplied) (upsertList r t (sys_NodeStatuses (sys_Status p)))))"
  "sys_FailedNodes (sys_Status (recordSysctl r t p)) =
     of_nat (length (filter (\<lambda>ns. Phase ns = NodePhaseFailed) (upsertList r t (sys_NodeStatuses (sys_Status p)))))"
  by (simp_all add: recordSysctl_def recomputeCounts_def upsertNodeStatus_def upsertList_def Let_def countPhases_eq
      split: option.splits prod.splits)

lemma recordScript_counts [status_simps]:
  "scr_AppliedNodes (scr_Status (recordScript r t p)) =
     of_nat (length (filter (\<lambda>ns. Phase ns = NodePhaseApplied) (upsertList r t (scr_NodeStatuses (scr_Status p)))))"
  "scr_FailedNodes (scr_Status (recordScript r t p)) =
     of_nat (length (filter (\<lambda>ns. Phase ns = NodePhaseFailed) (upsertList r t (scr_NodeStatuses (scr_Status p)))))"
  by (simp_all add: recordScript_def recomputeScriptCounts_def upsertScriptNodeStatus_def upsertList_def Let_def countPhases_eq
      split: option.splits prod.splits)

end
