(* ===== verification/Node_Predicate.thy ===== *)
theory Node_Predicate
  imports Api_Types
begin

text \<open>
  \<open>internal/controller/node_predicate.go\<close>: the filter on node events that both controllers put
  in front of their work queues.
\<close>

text \<open>A watched object: a node, or any other type (for which the type assertion fails).\<close>

datatype ClientObject = NodeObject Node | OtherObject

text \<open>\<open>node_predicate.go\<close>: which node events reach the reconcile queue.\<close>

datatype NodeEvent = CreateEvent | UpdateEvent ClientObject ClientObject | DeleteEvent | GenericEvent

fun nodeLabelChanged :: "NodeEvent \<Rightarrow> bool" where
  "nodeLabelChanged CreateEvent = True"
| "nodeLabelChanged (UpdateEvent (NodeObject oldNode) (NodeObject newNode)) =
     (node_Labels oldNode \<noteq> node_Labels newNode)"
| "nodeLabelChanged (UpdateEvent _ _) = False"
| "nodeLabelChanged DeleteEvent = False"
| "nodeLabelChanged GenericEvent = False"

text \<open>Only a creation, or an update between two nodes whose labels differ, passes.\<close>

lemma nodeLabelChanged_iff:
  "nodeLabelChanged e \<longleftrightarrow>
     e = CreateEvent \<or>
     (\<exists>old new. e = UpdateEvent (NodeObject old) (NodeObject new) \<and> node_Labels old \<noteq> node_Labels new)"
  by (cases e rule: nodeLabelChanged.cases) auto

end
