(* ===== verification/Sysctl_Controller.thy ===== *)
theory Sysctl_Controller
  imports Kube Node_Predicate Go_Strings Sha256
begin

text \<open>
  \<open>internal/controller/sysctlprofile_controller.go\<close>: rendering a profile, building the applier
  DaemonSet and the drift-check CronJob, and the reconcile handler. The reconciler's fields are the
  first arguments: the Kubernetes packages \<open>K\<close> and the configured worker image \<open>WorkerImage\<close>. Log
  calls are left out; the zero \<open>ctrl.Result\<close> every path returns is not repeated, so a handler
  returns its error and the new cluster state.
\<close>

subsection \<open>Constants\<close>

definition configVolumeName :: string where "configVolumeName = ''sysctl-config''"
definition imagePullPolicy :: string where "imagePullPolicy = ''Always''"
definition configMountPath :: string where "configMountPath = ''/etc/sysctl.d''"
definition configFileName :: string where "configFileName = ''99-sysctl-operator.conf''"
definition hostSystemdVolumeName :: string where "hostSystemdVolumeName = ''host-systemd''"
definition hostDbusVolumeName :: string where "hostDbusVolumeName = ''host-dbus''"
definition hostSystemdPath :: string where "hostSystemdPath = ''/run/systemd''"
definition hostDbusPath :: string where "hostDbusPath = ''/run/dbus''"
definition DefaultWorkerImage :: string where
  "DefaultWorkerImage = ''emirozbir/sysctl-operator-worker:v10-amd64''"
definition reportURL :: string where
  "reportURL = ''http://sysctl-operator-report.sysctl-operator-system:9090/api/v1/reports''"
definition labelProfile :: string where "labelProfile = ''sysctl.k8s.io/profile''"
definition configHashAnn :: string where "configHashAnn = ''sysctl.k8s.io/config-hash''"
definition finalizer :: string where "finalizer = ''sysctl.k8s.io/finalizer''"
definition DNSClusterFirstWithHostNet :: string where
  "DNSClusterFirstWithHostNet = ''ClusterFirstWithHostNet''"

definition workerImage :: "string \<Rightarrow> string" where
  "workerImage WorkerImage = (if WorkerImage \<noteq> [] then WorkerImage else DefaultWorkerImage)"

definition privilegedSecurityContext :: "bool option" where
  "privilegedSecurityContext = Some True"

subsection \<open>Rendering, hashing and naming\<close>

primrec renderEntries :: "Sysctl list \<Rightarrow> string \<Rightarrow> string" where
  "renderEntries [] b = b"
| "renderEntries (s # ss) b =
     renderEntries ss (b @ sysctl_Name s @ '' = '' @ sysctl_Value s @ [CHR 0x0A])"

definition renderSysctlConf :: "SysctlProfile \<Rightarrow> string" where
  "renderSysctlConf p = renderEntries (Sysctls (sys_Spec p)) []"

definition hashContent :: "string \<Rightarrow> string" where
  "hashContent s = take 16 (EncodeToString (Sum256 s))"

definition resourceName :: "SysctlProfile \<Rightarrow> string" where
  "resourceName p = Name (sys_meta p) @ ''-sysctl''"

definition cronJobName :: "SysctlProfile \<Rightarrow> string" where
  "cronJobName p = Name (sys_meta p) @ ''-drift''"

definition labelsFor :: "SysctlProfile \<Rightarrow> gomap" where
  "labelsFor p = Some (fmap_of_list
     [(''app.kubernetes.io/name'', ''sysctl-operator''),
      (''app.kubernetes.io/managed-by'', ''sysctl-operator''),
      (labelProfile, Name (sys_meta p))])"

subsection \<open>The ConfigMap\<close>

definition mutateConfigMap ::
  "'w Kube \<Rightarrow> SysctlProfile \<Rightarrow> string \<Rightarrow> gomap \<Rightarrow> ConfigMap \<Rightarrow> Err + ConfigMap" where
  "mutateConfigMap K profile content labels cm0 =
     (let cm = cm0\<lparr>cm_meta := (cm_meta cm0)\<lparr>Labels := labels\<rparr>,
                   cm_Data := Some (fmap_of_list [(configFileName, content)])\<rparr>
      in case SetControllerReference K ''SysctlProfile'' (sys_meta profile) (cm_meta cm) of
           Inl err \<Rightarrow> Inl err
         | Inr m \<Rightarrow> Inr (cm\<lparr>cm_meta := m\<rparr>))"

subsection \<open>The applier DaemonSet\<close>

definition workerVolumes :: "string \<Rightarrow> Volume list" where
  "workerVolumes configMap =
     [\<lparr>vol_Name = configVolumeName, vol_Source = VolConfigMap configMap\<rparr>,
      \<lparr>vol_Name = hostSystemdVolumeName, vol_Source = VolHostPath hostSystemdPath\<rparr>,
      \<lparr>vol_Name = hostDbusVolumeName, vol_Source = VolHostPath hostDbusPath\<rparr>]"

definition workerEnv :: "SysctlProfile \<Rightarrow> string \<Rightarrow> (string \<times> EnvValue) list" where
  "workerEnv profile hash =
     [(''PROFILE'', EnvLiteral (Name (sys_meta profile))),
      (''NAMESPACE'', EnvLiteral (Namespace (sys_meta profile))),
      (''CONFIG_HASH'', EnvLiteral hash),
      (''REPORT_URL'', EnvLiteral reportURL),
      (''NODE_NAME'', EnvFieldRef ''spec.nodeName'')]"

definition mutateDaemonSet ::
  "'w Kube \<Rightarrow> string \<Rightarrow> SysctlProfile \<Rightarrow> string \<Rightarrow> string \<Rightarrow> gomap \<Rightarrow> DaemonSet \<Rightarrow> Err + DaemonSet" where
  "mutateDaemonSet K WorkerImage profile name hash labels ds0 =
     (let anns = (case Annotations (ds_Template ds0) of None \<Rightarrow> fmempty | Some a \<Rightarrow> a);
          podSpec = (tmpl_Spec (ds_Template ds0))
            \<lparr>pod_NodeSelector := MatchLabels (sys_NodeSelector (sys_Spec profile)),
             pod_Tolerations := sys_Tolerations (sys_Spec profile),
             HostNetwork := True, HostPID := True, HostIPC := True,
             DNSPolicy := DNSClusterFirstWithHostNet,
             Volumes := workerVolumes name,
             Containers :=
               [\<lparr>ctr_Name = ''applier'', Image = workerImage WorkerImage,
                 ImagePullPolicy = imagePullPolicy, Privileged = privilegedSecurityContext,
                 VolumeMounts = [\<lparr>mount_Name = configVolumeName, MountPath = configMountPath, ReadOnly = True\<rparr>],
                 Env = workerEnv profile hash\<rparr>]\<rparr>;
          ds = ds0\<lparr>ds_meta := (ds_meta ds0)\<lparr>Labels := labels\<rparr>,
                   ds_Selector := Some \<lparr>MatchLabels = Some (fmap_of_list [(labelProfile, Name (sys_meta profile))]),
                                        MatchExpressions = []\<rparr>,
                   ds_Template := \<lparr>tmpl_Labels = labels, Annotations = Some (fmupd configHashAnn hash anns),
                                   tmpl_Spec = podSpec\<rparr>\<rparr>
      in case SetControllerReference K ''SysctlProfile'' (sys_meta profile) (ds_meta ds) of
           Inl err \<Rightarrow> Inl err
         | Inr m \<Rightarrow> Inr (ds\<lparr>ds_meta := m\<rparr>))"

definition ensureDaemonSet ::
  "'w Kube \<Rightarrow> string \<Rightarrow> SysctlProfile \<Rightarrow> string \<Rightarrow> string \<Rightarrow> gomap \<Rightarrow> 'w \<Rightarrow> 'w result" where
  "ensureDaemonSet K WorkerImage profile name hash labels w =
     CreateOrUpdateDaemonSet K (newDaemonSet name (Namespace (sys_meta profile)))
       (mutateDaemonSet K WorkerImage profile name hash labels) w"

definition deleteDaemonSet :: "'w Kube \<Rightarrow> SysctlProfile \<Rightarrow> 'w \<Rightarrow> 'w result" where
  "deleteDaemonSet K profile w =
     ignoreNotFound K (DeleteDaemonSet K (newDaemonSet (resourceName profile) (Namespace (sys_meta profile))) w)"

subsection \<open>The drift-check CronJob\<close>

definition mutateCronJob ::
  "'w Kube \<Rightarrow> string \<Rightarrow> SysctlProfile \<Rightarrow> string \<Rightarrow> gomap \<Rightarrow> CronJob \<Rightarrow> Err + CronJob" where
  "mutateCronJob K WorkerImage profile hash labels cj0 =
     (let name = cronJobName profile;
          podSpec = (tmpl_Spec (cj_Template cj0))
            \<lparr>RestartPolicy := ''OnFailure'',
             pod_NodeSelector := MatchLabels (sys_NodeSelector (sys_Spec profile)),
             pod_Tolerations := sys_Tolerations (sys_Spec profile),
             HostNetwork := True, HostPID := True, HostIPC := True,
             DNSPolicy := DNSClusterFirstWithHostNet,
             Volumes := workerVolumes name,
             Containers :=
               [\<lparr>ctr_Name = ''drift-checker'', Image = workerImage WorkerImage,
                 ImagePullPolicy = imagePullPolicy, Privileged = privilegedSecurityContext,
                 VolumeMounts = [\<lparr>mount_Name = configVolumeName, MountPath = configMountPath, ReadOnly = True\<rparr>],
                 Env = workerEnv profile hash\<rparr>]\<rparr>;
          cj = cj0\<lparr>cj_meta := (cj_meta cj0)\<lparr>Labels := labels\<rparr>,
                   cj_Schedule := DriftCheck (Schedule (sys_Spec profile)),
                   ConcurrencyPolicy := ''Forbid'',
                   SuccessfulJobsHistoryLimit := Some 3,
                   FailedJobsHistoryLimit := Some 1,
                   cj_Template := (cj_Template cj0)\<lparr>tmpl_Labels := labels, tmpl_Spec := podSpec\<rparr>\<rparr>
      in case SetControllerReference K ''SysctlProfile'' (sys_meta profile) (cj_meta cj) of
           Inl err \<Rightarrow> Inl err
         | Inr m \<Rightarrow> Inr (cj\<lparr>cj_meta := m\<rparr>))"

definition ensureCronJob ::
  "'w Kube \<Rightarrow> string \<Rightarrow> SysctlProfile \<Rightarrow> string \<Rightarrow> gomap \<Rightarrow> 'w \<Rightarrow> 'w result" where
  "ensureCronJob K WorkerImage profile hash labels w =
     CreateOrUpdateCronJob K (newCronJob (cronJobName profile) (Namespace (sys_meta profile)))
       (mutateCronJob K WorkerImage profile hash labels) w"

definition ensureNoCronJob :: "'w Kube \<Rightarrow> SysctlProfile \<Rightarrow> 'w \<Rightarrow> 'w result" where
  "ensureNoCronJob K profile w =
     ignoreNotFound K (DeleteCronJob K (newCronJob (cronJobName profile) (Namespace (sys_meta profile))) w)"

subsection \<open>Node selection and rollout progress\<close>

definition selectedNodeNames :: "'w Kube \<Rightarrow> SysctlProfile \<Rightarrow> 'w \<Rightarrow> Err + string list" where
  "selectedNodeNames K profile w =
     (case LabelSelectorAsSelector K (sys_NodeSelector (sys_Spec profile)) of
        Inl err \<Rightarrow> Inl err
      | Inr sel \<Rightarrow>
          (case ListNodes K sel w of
             Inl err \<Rightarrow> Inl err
           | Inr nodes \<Rightarrow> Inr (map node_Name nodes)))"

text \<open>The first loop of \<open>allNodesApplied\<close> builds the map \<open>applied\<close> (absent keys read as \<open>false\<close>).\<close>

primrec appliedMap :: "NodeStatus list \<Rightarrow> string \<Rightarrow> (string \<Rightarrow> bool) \<Rightarrow> (string \<Rightarrow> bool)" where
  "appliedMap [] hash applied = applied"
| "appliedMap (ns # nss) hash applied =
     appliedMap nss hash
       (if Phase ns = NodePhaseApplied \<and> AppliedHash ns = hash then applied(NodeName ns := True) else applied)"

primrec allIn :: "(string \<Rightarrow> bool) \<Rightarrow> string list \<Rightarrow> bool" where
  "allIn applied [] = True"
| "allIn applied (n # ns) = (if \<not> applied n then False else allIn applied ns)"

definition allNodesApplied :: "SysctlProfile \<Rightarrow> string list \<Rightarrow> string \<Rightarrow> bool" where
  "allNodesApplied profile selected hash =
     (if length selected = 0 then False
      else allIn (appliedMap (sys_NodeStatuses (sys_Status profile)) hash (\<lambda>_. False)) selected)"

definition cleanup :: "'w Kube \<Rightarrow> SysctlProfile \<Rightarrow> 'w \<Rightarrow> 'w result" where
  "cleanup K profile w =
     (let name = resourceName profile; ns = Namespace (sys_meta profile) in
      case DeleteDaemonSet K (newDaemonSet name ns) w of
        (err1, w1) \<Rightarrow>
          if Option.bind err1 (IgnoreNotFound K) \<noteq> None then
            (Some (Errorf (''deleting DaemonSet '' @ name) (the err1)), w1)
          else
            (case DeleteCronJob K (newCronJob (cronJobName profile) ns) w1 of
               (err2, w2) \<Rightarrow>
                 if Option.bind err2 (IgnoreNotFound K) \<noteq> None then
                   (Some (Errorf (''deleting CronJob '' @ cronJobName profile) (the err2)), w2)
                 else
                   (case DeleteConfigMap K (newConfigMap name ns) w2 of
                      (err3, w3) \<Rightarrow>
                        if Option.bind err3 (IgnoreNotFound K) \<noteq> None then
                          (Some (Errorf (''deleting ConfigMap '' @ name) (the err3)), w3)
                        else (None, w3))))"

subsection \<open>Reconcile\<close>

definition readyCondition :: "string \<Rightarrow> string \<Rightarrow> int \<Rightarrow> Condition" where
  "readyCondition reason msg gen =
     \<lparr>cond_Type = ''Ready'', cond_Status = ConditionTrue, cond_ObservedGeneration = gen,
      cond_LastTransitionTime = 0, cond_Reason = reason, cond_Message = msg\<rparr>"

text \<open>Step 4: roll out or tear down. The status is the profile's in-memory status after the step.\<close>

definition rollOut ::
  "'w Kube \<Rightarrow> string \<Rightarrow> SysctlProfile \<Rightarrow> string list \<Rightarrow> string \<Rightarrow> 'w \<Rightarrow> (Err + SysctlProfileStatus) \<times> 'w" where
  "rollOut K WorkerImage profile selected hash w =
     (let st = sys_Status profile; gen = Generation (sys_meta profile) in
      if allNodesApplied profile selected hash then
        (case deleteDaemonSet K profile w of
           (Some err, w1) \<Rightarrow> (Inl err, w1)
         | (None, w1) \<Rightarrow>
             (Inr (st\<lparr>sys_TeardownHash := hash,
                      sys_Conditions := SetStatusCondition K (Now K w1) (sys_Conditions st)
                        (readyCondition ''RolloutComplete''
                           ''all selected nodes applied; applier DaemonSet torn down'' gen)\<rparr>), w1))
      else
        (case ensureDaemonSet K WorkerImage profile (resourceName profile) hash (labelsFor profile) w of
           (Some err, w1) \<Rightarrow> (Inl err, w1)
         | (None, w1) \<Rightarrow>
             (Inr (st\<lparr>sys_Conditions := SetStatusCondition K (Now K w1) (sys_Conditions st)
                        (readyCondition ''RollingOut'' ''applier DaemonSet active'' gen)\<rparr>), w1)))"

text \<open>Step 5: write the status back only when it changed.\<close>

definition writeStatus ::
  "'w Kube \<Rightarrow> SysctlProfile \<Rightarrow> SysctlProfileStatus \<Rightarrow> string list \<Rightarrow> string \<Rightarrow> 'w \<Rightarrow> 'w result" where
  "writeStatus K profile st selected hash w =
     (let st' = st\<lparr>sys_ObservedHash := hash, sys_DesiredNodes := of_nat (length selected)\<rparr> in
      if \<not> SysctlStatusDeepEqual K (sys_Status profile) st'
      then StatusUpdateSysctlProfile K (profile\<lparr>sys_Status := st'\<rparr>) w
      else (None, w))"

text \<open>Steps 1 to 5 for a live profile that carries the finalizer.\<close>

definition reconcileLive :: "'w Kube \<Rightarrow> string \<Rightarrow> SysctlProfile \<Rightarrow> 'w \<Rightarrow> 'w result" where
  "reconcileLive K WorkerImage profile w =
     (let content = renderSysctlConf profile;
          hash = hashContent content;
          name = resourceName profile;
          labels = labelsFor profile
      in onOK (CreateOrUpdateConfigMap K (newConfigMap name (Namespace (sys_meta profile)))
                 (mutateConfigMap K profile content labels) w)
         (\<lambda>w1. onOK (if DriftCheck (Schedule (sys_Spec profile)) \<noteq> []
                     then ensureCronJob K WorkerImage profile hash labels w1
                     else ensureNoCronJob K profile w1)
         (\<lambda>w2. case selectedNodeNames K profile w2 of
                  Inl err \<Rightarrow> (Some err, w2)
                | Inr selected \<Rightarrow>
                    (case rollOut K WorkerImage profile selected hash w2 of
                       (Inl err, w3) \<Rightarrow> (Some err, w3)
                     | (Inr st, w3) \<Rightarrow> writeStatus K profile st selected hash w3))))"

definition Reconcile :: "'w Kube \<Rightarrow> string \<Rightarrow> NamespacedName \<Rightarrow> 'w \<Rightarrow> 'w result" where
  "Reconcile K WorkerImage req w =
     (case GetSysctlProfile K req w of
        Inl err \<Rightarrow> (IgnoreNotFound K err, w)
      | Inr profile \<Rightarrow>
          if DeletionTimestamp (sys_meta profile) \<noteq> 0 then
            (if ContainsFinalizer K (sys_meta profile) finalizer then
               onOK (cleanup K profile w)
                 (\<lambda>w1. UpdateSysctlProfile K
                    (profile\<lparr>sys_meta := RemoveFinalizer K (sys_meta profile) finalizer\<rparr>) w1)
             else (None, w))
          else if \<not> ContainsFinalizer K (sys_meta profile) finalizer then
            UpdateSysctlProfile K (profile\<lparr>sys_meta := AddFinalizer K (sys_meta profile) finalizer\<rparr>) w
          else reconcileLive K WorkerImage profile w)"

subsection \<open>Node events\<close>

primrec matchingProfiles :: "'w Kube \<Rightarrow> Node \<Rightarrow> SysctlProfile list \<Rightarrow> NamespacedName list \<Rightarrow> NamespacedName list" where
  "matchingProfiles K node [] reqs = reqs"
| "matchingProfiles K node (p # ps) reqs =
     (case LabelSelectorAsSelector K (sys_NodeSelector (sys_Spec p)) of
        Inl err \<Rightarrow> matchingProfiles K node ps reqs
      | Inr sel \<Rightarrow>
          if sel (node_Labels node) then matchingProfiles K node ps (reqs @ [key_of (sys_meta p)])
          else matchingProfiles K node ps reqs)"

definition profilesForNode :: "'w Kube \<Rightarrow> ClientObject \<Rightarrow> 'w \<Rightarrow> NamespacedName list" where
  "profilesForNode K obj w =
     (case obj of
        OtherObject \<Rightarrow> []
      | NodeObject node \<Rightarrow>
          (case ListSysctlProfiles K w of
             Inl err \<Rightarrow> []
           | Inr items \<Rightarrow> matchingProfiles K node items []))"

subsection \<open>The hash\<close>

lemma length_hashContent [simp]: "length (hashContent s) = 16"
  by (simp add: hashContent_def)

lemma hashContent_hex: "set (hashContent s) \<subseteq> hex_chars"
proof -
  have "set (EncodeToString (Sum256 s)) \<subseteq> hex_chars"
    by (rule EncodeToString_hex) (rule Sum256_bytes)
  then show ?thesis unfolding hashContent_def by (rule order_trans [OF set_take_subset])
qed

subsection \<open>The rollout decision\<close>

text \<open>
  What the decision to tear down is to be: some node is selected, and every selected node has an entry in
  phase \<open>Applied\<close> at the hash.
\<close>

definition rolloutDone :: "NodeStatus list \<Rightarrow> string list \<Rightarrow> string \<Rightarrow> bool" where
  "rolloutDone nss selected hash \<longleftrightarrow>
     selected \<noteq> [] \<and> (\<forall>n\<in>set selected. \<exists>ns\<in>set nss. NodeName ns = n \<and> Phase ns = NodePhaseApplied \<and> AppliedHash ns = hash)"

lemma appliedMap_iff:
  "appliedMap nss h f n \<longleftrightarrow>
     f n \<or> (\<exists>ns\<in>set nss. NodeName ns = n \<and> Phase ns = NodePhaseApplied \<and> AppliedHash ns = h)"
  by (induction nss arbitrary: f) auto

lemma allIn_iff: "allIn f ns \<longleftrightarrow> (\<forall>n\<in>set ns. f n)"
  by (induction ns) auto

lemma allNodesApplied_iff: "allNodesApplied p sel h \<longleftrightarrow> rolloutDone (sys_NodeStatuses (sys_Status p)) sel h"
  by (simp add: allNodesApplied_def allIn_iff appliedMap_iff rolloutDone_def)

end
