(* ===== verification/Script_Controller.thy ===== *)
theory Script_Controller
  imports Sysctl_Controller
begin

text \<open>
  \<open>internal/controller/scriptprofile_controller.go\<close>: the same life cycle as the sysctl controller
  for script profiles, without the CronJob. It shares the package's constants, \<open>hashContent\<close>,
  \<open>privilegedSecurityContext\<close> and the node-event filter with the sysctl controller.
\<close>

subsection \<open>Constants, rendering and naming\<close>

definition scriptConfigMountPath :: string where "scriptConfigMountPath = ''/etc/sysctl-operator/scripts''"
definition scriptConfigFileName :: string where "scriptConfigFileName = ''scripts.txt''"
definition scriptReportURL :: string where
  "scriptReportURL = ''http://sysctl-operator-report.sysctl-operator-system:9090/api/v1/reports''"
definition labelScriptProfile :: string where "labelScriptProfile = ''sysctl.k8s.io/script-profile''"

definition scriptWorkerImage :: "string \<Rightarrow> string" where
  "scriptWorkerImage WorkerImage = (if WorkerImage \<noteq> [] then WorkerImage else DefaultWorkerImage)"

text \<open>The text of one script block, then the loop of \<open>renderScripts\<close>.\<close>

definition renderScript :: "Script \<Rightarrow> string" where
  "renderScript s =
     (let interp = (if script_Interpreter s = [] then ''/bin/sh'' else script_Interpreter s)
      in ''#!script name='' @ script_Name s @ '' interpreter='' @ interp @ [CHR 0x0A]
         @ script_Content s
         @ (if \<not> HasSuffix (script_Content s) [CHR 0x0A] then [CHR 0x0A] else [])
         @ ''#!endscript'' @ [CHR 0x0A])"

primrec renderScriptList :: "Script list \<Rightarrow> string \<Rightarrow> string" where
  "renderScriptList [] b = b"
| "renderScriptList (s # ss) b = renderScriptList ss (b @ renderScript s)"

definition renderScripts :: "ScriptProfile \<Rightarrow> string" where
  "renderScripts p = renderScriptList (Scripts (scr_Spec p)) []"

definition scriptResourceName :: "ScriptProfile \<Rightarrow> string" where
  "scriptResourceName p = Name (scr_meta p) @ ''-script''"

definition scriptLabelsFor :: "ScriptProfile \<Rightarrow> gomap" where
  "scriptLabelsFor p = Some (fmap_of_list
     [(''app.kubernetes.io/name'', ''sysctl-operator''),
      (''app.kubernetes.io/managed-by'', ''sysctl-operator''),
      (labelScriptProfile, Name (scr_meta p))])"

subsection \<open>The ConfigMap and the runner DaemonSet\<close>

definition mutateScriptConfigMap ::
  "'w Kube \<Rightarrow> ScriptProfile \<Rightarrow> string \<Rightarrow> gomap \<Rightarrow> ConfigMap \<Rightarrow> Err + ConfigMap" where
  "mutateScriptConfigMap K profile content labels cm0 =
     (let cm = cm0\<lparr>cm_meta := (cm_meta cm0)\<lparr>Labels := labels\<rparr>,
                   cm_Data := Some (fmap_of_list [(scriptConfigFileName, content)])\<rparr>
      in case SetControllerReference K ''ScriptProfile'' (scr_meta profile) (cm_meta cm) of
           Inl err \<Rightarrow> Inl err
         | Inr m \<Rightarrow> Inr (cm\<lparr>cm_meta := m\<rparr>))"

definition scriptVolumes :: "string \<Rightarrow> Volume list" where
  "scriptVolumes configMap =
     [\<lparr>vol_Name = configVolumeName, vol_Source = VolConfigMap configMap\<rparr>,
      \<lparr>vol_Name = hostSystemdVolumeName, vol_Source = VolHostPath hostSystemdPath\<rparr>,
      \<lparr>vol_Name = hostDbusVolumeName, vol_Source = VolHostPath hostDbusPath\<rparr>,
      \<lparr>vol_Name = ''cgroup-path'', vol_Source = VolHostPath ''/sys/fs/cgroup''\<rparr>]"

definition scriptMounts :: "VolumeMount list" where
  "scriptMounts =
     [\<lparr>mount_Name = configVolumeName, MountPath = scriptConfigMountPath, ReadOnly = True\<rparr>,
      \<lparr>mount_Name = hostSystemdVolumeName, MountPath = hostSystemdPath, ReadOnly = True\<rparr>,
      \<lparr>mount_Name = hostDbusVolumeName, MountPath = hostDbusPath, ReadOnly = True\<rparr>,
      \<lparr>mount_Name = ''cgroup-path'', MountPath = ''/sys/fs/cgroup'', ReadOnly = True\<rparr>]"

definition scriptEnv :: "ScriptProfile \<Rightarrow> string \<Rightarrow> (string \<times> EnvValue) list" where
  "scriptEnv profile hash =
     [(''MODE'', EnvLiteral ''script''),
      (''CONFIG_PATH'', EnvLiteral (scriptConfigMountPath @ ''/'' @ scriptConfigFileName)),
      (''PROFILE'', EnvLiteral (Name (scr_meta profile))),
      (''NAMESPACE'', EnvLiteral (Namespace (scr_meta profile))),
      (''CONFIG_HASH'', EnvLiteral hash),
      (''REPORT_URL'', EnvLiteral scriptReportURL),
      (''NODE_NAME'', EnvFieldRef ''spec.nodeName'')]"

definition mutateScriptDaemonSet ::
  "'w Kube \<Rightarrow> string \<Rightarrow> ScriptProfile \<Rightarrow> string \<Rightarrow> string \<Rightarrow> gomap \<Rightarrow> DaemonSet \<Rightarrow> Err + DaemonSet" where
  "mutateScriptDaemonSet K WorkerImage profile name hash labels ds0 =
     (let anns = (case Annotations (ds_Template ds0) of None \<Rightarrow> fmempty | Some a \<Rightarrow> a);
          podSpec = (tmpl_Spec (ds_Template ds0))
            \<lparr>pod_NodeSelector := MatchLabels (scr_NodeSelector (scr_Spec profile)),
             pod_Tolerations := scr_Tolerations (scr_Spec profile),
             HostNetwork := True, HostPID := True, HostIPC := True,
             DNSPolicy := DNSClusterFirstWithHostNet,
             Volumes := scriptVolumes name,
             Containers :=
               [\<lparr>ctr_Name = ''runner'', Image = scriptWorkerImage WorkerImage,
                 ImagePullPolicy = imagePullPolicy, Privileged = privilegedSecurityContext,
                 VolumeMounts = scriptMounts, Env = scriptEnv profile hash\<rparr>]\<rparr>;
          ds = ds0\<lparr>ds_meta := (ds_meta ds0)\<lparr>Labels := labels\<rparr>,
                   ds_Selector := Some \<lparr>MatchLabels = Some (fmap_of_list [(labelScriptProfile, Name (scr_meta profile))]),
                                        MatchExpressions = []\<rparr>,
                   ds_Template := \<lparr>tmpl_Labels = labels, Annotations = Some (fmupd configHashAnn hash anns),
                                   tmpl_Spec = podSpec\<rparr>\<rparr>
      in case SetControllerReference K ''ScriptProfile'' (scr_meta profile) (ds_meta ds) of
           Inl err \<Rightarrow> Inl err
         | Inr m \<Rightarrow> Inr (ds\<lparr>ds_meta := m\<rparr>))"

definition ensureScriptDaemonSet ::
  "'w Kube \<Rightarrow> string \<Rightarrow> ScriptProfile \<Rightarrow> string \<Rightarrow> string \<Rightarrow> gomap \<Rightarrow> 'w \<Rightarrow> 'w result" where
  "ensureScriptDaemonSet K WorkerImage profile name hash labels w =
     CreateOrUpdateDaemonSet K (newDaemonSet name (Namespace (scr_meta profile)))
       (mutateScriptDaemonSet K WorkerImage profile name hash labels) w"

definition deleteScriptDaemonSet :: "'w Kube \<Rightarrow> ScriptProfile \<Rightarrow> 'w \<Rightarrow> 'w result" where
  "deleteScriptDaemonSet K profile w =
     ignoreNotFound K (DeleteDaemonSet K (newDaemonSet (scriptResourceName profile) (Namespace (scr_meta profile))) w)"

subsection \<open>Node selection, rollout progress and cleanup\<close>

definition scriptSelectedNodeNames :: "'w Kube \<Rightarrow> ScriptProfile \<Rightarrow> 'w \<Rightarrow> Err + string list" where
  "scriptSelectedNodeNames K profile w =
     (case LabelSelectorAsSelector K (scr_NodeSelector (scr_Spec profile)) of
        Inl err \<Rightarrow> Inl err
      | Inr sel \<Rightarrow>
          (case ListNodes K sel w of
             Inl err \<Rightarrow> Inl err
           | Inr nodes \<Rightarrow> Inr (map node_Name nodes)))"

definition scriptAllNodesApplied :: "ScriptProfile \<Rightarrow> string list \<Rightarrow> string \<Rightarrow> bool" where
  "scriptAllNodesApplied profile selected hash =
     (if length selected = 0 then False
      else allIn (appliedMap (scr_NodeStatuses (scr_Status profile)) hash (\<lambda>_. False)) selected)"

definition cleanupScript :: "'w Kube \<Rightarrow> ScriptProfile \<Rightarrow> 'w \<Rightarrow> 'w result" where
  "cleanupScript K profile w =
     (let name = scriptResourceName profile; ns = Namespace (scr_meta profile) in
      case DeleteDaemonSet K (newDaemonSet name ns) w of
        (err1, w1) \<Rightarrow>
          if Option.bind err1 (IgnoreNotFound K) \<noteq> None then
            (Some (Errorf (''deleting DaemonSet '' @ name) (the err1)), w1)
          else
            (case DeleteConfigMap K (newConfigMap name ns) w1 of
               (err2, w2) \<Rightarrow>
                 if Option.bind err2 (IgnoreNotFound K) \<noteq> None then
                   (Some (Errorf (''deleting ConfigMap '' @ name) (the err2)), w2)
                 else (None, w2)))"

subsection \<open>Reconcile\<close>

definition rollOutScript ::
  "'w Kube \<Rightarrow> string \<Rightarrow> ScriptProfile \<Rightarrow> string list \<Rightarrow> string \<Rightarrow> 'w \<Rightarrow> (Err + ScriptProfileStatus) \<times> 'w" where
  "rollOutScript K WorkerImage profile selected hash w =
     (let st = scr_Status profile; gen = Generation (scr_meta profile) in
      if scriptAllNodesApplied profile selected hash then
        (case deleteScriptDaemonSet K profile w of
           (Some err, w1) \<Rightarrow> (Inl err, w1)
         | (None, w1) \<Rightarrow>
             (Inr (st\<lparr>scr_TeardownHash := hash,
                      scr_Conditions := SetStatusCondition K (Now K w1) (scr_Conditions st)
                        (readyCondition ''RolloutComplete''
                           ''all selected nodes ran the scripts; runner DaemonSet torn down'' gen)\<rparr>), w1))
      else
        (case ensureScriptDaemonSet K WorkerImage profile (scriptResourceName profile) hash (scriptLabelsFor profile) w of
           (Some err, w1) \<Rightarrow> (Inl err, w1)
         | (None, w1) \<Rightarrow>
             (Inr (st\<lparr>scr_Conditions := SetStatusCondition K (Now K w1) (scr_Conditions st)
                        (readyCondition ''RollingOut'' ''runner DaemonSet active'' gen)\<rparr>), w1)))"

definition writeScriptStatus ::
  "'w Kube \<Rightarrow> ScriptProfile \<Rightarrow> ScriptProfileStatus \<Rightarrow> string list \<Rightarrow> string \<Rightarrow> 'w \<Rightarrow> 'w result" where
  "writeScriptStatus K profile st selected hash w =
     (let st' = st\<lparr>scr_ObservedHash := hash, scr_DesiredNodes := of_nat (length selected)\<rparr> in
      if \<not> ScriptStatusDeepEqual K (scr_Status profile) st'
      then StatusUpdateScriptProfile K (profile\<lparr>scr_Status := st'\<rparr>) w
      else (None, w))"

definition reconcileLiveScript :: "'w Kube \<Rightarrow> string \<Rightarrow> ScriptProfile \<Rightarrow> 'w \<Rightarrow> 'w result" where
  "reconcileLiveScript K WorkerImage profile w =
     (let content = renderScripts profile;
          hash = hashContent content;
          name = scriptResourceName profile;
          labels = scriptLabelsFor profile
      in onOK (CreateOrUpdateConfigMap K (newConfigMap name (Namespace (scr_meta profile)))
                 (mutateScriptConfigMap K profile content labels) w)
         (\<lambda>w1. case scriptSelectedNodeNames K profile w1 of
                  Inl err \<Rightarrow> (Some err, w1)
                | Inr selected \<Rightarrow>
                    (case rollOutScript K WorkerImage profile selected hash w1 of
                       (Inl err, w2) \<Rightarrow> (Some err, w2)
                     | (Inr st, w2) \<Rightarrow> writeScriptStatus K profile st selected hash w2)))"

definition ReconcileScript :: "'w Kube \<Rightarrow> string \<Rightarrow> NamespacedName \<Rightarrow> 'w \<Rightarrow> 'w result" where
  "ReconcileScript K WorkerImage req w =
     (case GetScriptProfile K req w of
        Inl err \<Rightarrow> (IgnoreNotFound K err, w)
      | Inr profile \<Rightarrow>
          if DeletionTimestamp (scr_meta profile) \<noteq> 0 then
            (if ContainsFinalizer K (scr_meta profile) finalizer then
               onOK (cleanupScript K profile w)
                 (\<lambda>w1. UpdateScriptProfile K
                    (profile\<lparr>scr_meta := RemoveFinalizer K (scr_meta profile) finalizer\<rparr>) w1)
             else (None, w))
          else if \<not> ContainsFinalizer K (scr_meta profile) finalizer then
            UpdateScriptProfile K (profile\<lparr>scr_meta := AddFinalizer K (scr_meta profile) finalizer\<rparr>) w
          else reconcileLiveScript K WorkerImage profile w)"

subsection \<open>Node events\<close>

primrec matchingScriptProfiles :: "'w Kube \<Rightarrow> Node \<Rightarrow> ScriptProfile list \<Rightarrow> NamespacedName list \<Rightarrow> NamespacedName list" where
  "matchingScriptProfiles K node [] reqs = reqs"
| "matchingScriptProfiles K node (p # ps) reqs =
     (case LabelSelectorAsSelector K (scr_NodeSelector (scr_Spec p)) of
        Inl err \<Rightarrow> matchingScriptProfiles K node ps reqs
      | Inr sel \<Rightarrow>
          if sel (node_Labels node) then matchingScriptProfiles K node ps (reqs @ [key_of (scr_meta p)])
          else matchingScriptProfiles K node ps reqs)"

definition scriptProfilesForNode :: "'w Kube \<Rightarrow> ClientObject \<Rightarrow> 'w \<Rightarrow> NamespacedName list" where
  "scriptProfilesForNode K obj w =
     (case obj of
        OtherObject \<Rightarrow> []
      | NodeObject node \<Rightarrow>
          (case ListScriptProfiles K w of
             Inl err \<Rightarrow> []
           | Inr items \<Rightarrow> matchingScriptProfiles K node items []))"

subsection \<open>The rollout decision\<close>

lemma scriptAllNodesApplied_iff: "scriptAllNodesApplied p sel h \<longleftrightarrow> rolloutDone (scr_NodeStatuses (scr_Status p)) sel h"
  by (simp add: scriptAllNodesApplied_def allIn_iff appliedMap_iff rolloutDone_def)

end
