(* ===== verification/Node_Ledger.thy ===== *)
theory Node_Ledger
  imports Report_Server Script_Controller
begin

text \<open>
  What the report server and the controllers agree on: the list of node entries of a profile is a
  ledger that maps each node to its last known state, the report server updates the entry of the
  reporting node and no other, and a controller may tear its DaemonSet down exactly when every
  selected node has an \<open>Applied\<close> entry at the current hash. The interface is the locale
  \<open>node_ledger\<close>; the two kinds of profiles are its interpretations.
\<close>

subsection \<open>The abstract ledger\<close>

text \<open>The specification: a partial map from node names to entries.\<close>

definition ledger :: "NodeStatus list \<Rightarrow> string \<Rightarrow> NodeStatus option" where
  "ledger nss n = find (\<lambda>ns. NodeName ns = n) nss"

definition ledger_record :: "StatusReport \<Rightarrow> Time \<Rightarrow> (string \<Rightarrow> NodeStatus option) \<Rightarrow> (string \<Rightarrow> NodeStatus option)" where
  "ledger_record r t L = L(rep_Node r \<mapsto>
     (case L (rep_Node r) of
        None \<Rightarrow> newNodeStatus r (reportPhase r) t
      | Some ns \<Rightarrow> touchNodeStatus r (reportPhase r) t ns))"

lemma find_append: "find P (xs @ ys) = (case find P xs of None \<Rightarrow> find P ys | Some x \<Rightarrow> Some x)"
  by (induction xs) auto

lemma find_name_None: "find (\<lambda>ns. NodeName ns = n) nss = None \<longleftrightarrow> n \<notin> NodeName ` set nss"
  by (auto simp: find_None_iff)

text \<open>The list update implements the map update.\<close>

lemma ledger_upsertList: "ledger (upsertList r t nss) = ledger_record r t (ledger nss)"
proof (rule ext)
  fix n
  show "ledger (upsertList r t nss) n = ledger_record r t (ledger nss) n"
  proof (cases "updateFirst r (reportPhase r) t nss")
    case None
    then have "ledger nss (rep_Node r) = None" by (simp add: updateFirst_None ledger_def find_name_None)
    with None show ?thesis
      by (auto simp: upsertList_def ledger_def ledger_record_def find_append split: option.splits)
  next
    case (Some nss')
    from updateFirst_Some [OF Some] obtain pre ns post where s: "nss = pre @ ns # post"
      "NodeName ns = rep_Node r" "rep_Node r \<notin> NodeName ` set pre"
      "nss' = pre @ touchNodeStatus r (reportPhase r) t ns # post" by blast
    then have "find (\<lambda>ns. NodeName ns = rep_Node r) pre = None" by (simp add: find_name_None)
    with s Some show ?thesis
      by (auto simp: upsertList_def ledger_def ledger_record_def find_append split: option.splits)
  qed
qed

lemma ledger_in_set: "ledger nss n = Some ns \<Longrightarrow> ns \<in> set nss \<and> NodeName ns = n"
  by (auto simp: ledger_def find_Some_iff)

lemma ledger_distinct:
  assumes "distinct (map NodeName nss)" and "ns \<in> set nss"
  shows "ledger nss (NodeName ns) = Some ns"
  using assms
proof (induction nss)
  case (Cons x nss)
  then show ?case by (auto simp: ledger_def rev_image_eqI)
qed simp

lemma phase_counts_le:
  "length (filter (\<lambda>ns. Phase ns = NodePhaseApplied) nss) + length (filter (\<lambda>ns. Phase ns = NodePhaseFailed) nss)
     \<le> length nss"
  by (induction nss) auto

definition applied_at :: "string \<Rightarrow> NodeStatus option \<Rightarrow> bool" where
  "applied_at hash e = (case e of None \<Rightarrow> False | Some ns \<Rightarrow> Phase ns = NodePhaseApplied \<and> AppliedHash ns = hash)"

lemma ledger_applied:
  assumes "distinct (map NodeName nss)"
  shows "(\<exists>ns\<in>set nss. NodeName ns = n \<and> Phase ns = NodePhaseApplied \<and> AppliedHash ns = h)
    \<longleftrightarrow> applied_at h (ledger nss n)"
proof
  assume "\<exists>ns\<in>set nss. NodeName ns = n \<and> Phase ns = NodePhaseApplied \<and> AppliedHash ns = h"
  then obtain ns where ns: "ns \<in> set nss" "NodeName ns = n" "Phase ns = NodePhaseApplied" "AppliedHash ns = h"
    by blast
  from ledger_distinct [OF assms ns(1)] ns(2-4) show "applied_at h (ledger nss n)"
    by (simp add: applied_at_def)
next
  assume "applied_at h (ledger nss n)"
  then obtain ns where "ledger nss n = Some ns" "Phase ns = NodePhaseApplied" "AppliedHash ns = h"
    by (auto simp: applied_at_def split: option.splits)
  with ledger_in_set show "\<exists>ns\<in>set nss. NodeName ns = n \<and> Phase ns = NodePhaseApplied \<and> AppliedHash ns = h"
    by blast
qed

text \<open>The last report of a node in a sequence of reports.\<close>

definition last_report :: "string \<Rightarrow> (StatusReport \<times> Time) list \<Rightarrow> StatusReport option" where
  "last_report n rts = map_option fst (find (\<lambda>rt. rep_Node (fst rt) = n) (rev rts))"

lemma last_report_Nil [simp]: "last_report n [] = None"
  by (simp add: last_report_def)

lemma last_report_snoc [simp]:
  "last_report n (rts @ [(r, t)]) = (if rep_Node r = n then Some r else last_report n rts)"
  by (simp add: last_report_def)

lemma applied_at_record:
  "applied_at h (ledger_record r t L n) =
     (if rep_Node r = n then rep_Success r \<and> rep_Hash r = h else applied_at h (L n))"
  by (auto simp: applied_at_def ledger_record_def reportPhase_def newNodeStatus_def touchNodeStatus_def
      Let_def split: option.splits)

text \<open>
  The history of a node in a sequence of reports: the entry it must have after them, if it had none
  before. The phase, the message and the time are those of the last report, the hash that of the last
  success, and the fail count is the number of failures since.
\<close>

definition reports_of :: "string \<Rightarrow> (StatusReport \<times> Time) list \<Rightarrow> (StatusReport \<times> Time) list" where
  "reports_of n rts = filter (\<lambda>rt. rep_Node (fst rt) = n) rts"

definition history :: "string \<Rightarrow> (StatusReport \<times> Time) list \<Rightarrow> NodeStatus option" where
  "history n rts =
     (let rs = reports_of n rts in
      if rs = [] then None
      else Some \<lparr>NodeName = n, Phase = reportPhase (fst (last rs)),
        AppliedHash = (case find (\<lambda>rt. rep_Success (fst rt)) (rev rs) of None \<Rightarrow> [] | Some rt \<Rightarrow> rep_Hash (fst rt)),
        FailCount = of_nat (length (takeWhile (\<lambda>rt. \<not> rep_Success (fst rt)) (rev rs))),
        Message = rep_Message (fst (last rs)), LastTransitionTime = snd (last rs)\<rparr>)"

lemma history_step: "(\<lambda>n. history n (rts @ [(r, t)])) = ledger_record r t (\<lambda>n. history n rts)"
  by (auto simp: history_def reports_of_def ledger_record_def newNodeStatus_def touchNodeStatus_def
      reportPhase_def Let_def find_append split: option.splits)

subsection \<open>The interface\<close>

locale node_ledger =
  fixes statuses :: "'p \<Rightarrow> NodeStatus list"
    and record_report :: "StatusReport \<Rightarrow> Time \<Rightarrow> 'p \<Rightarrow> 'p"
    and all_applied :: "'p \<Rightarrow> string list \<Rightarrow> string \<Rightarrow> bool"
    and applied_nodes :: "'p \<Rightarrow> int32"
    and failed_nodes :: "'p \<Rightarrow> int32"
  assumes record_statuses: "statuses (record_report r t p) = upsertList r t (statuses p)"
    and all_applied_iff: "all_applied p sel h \<longleftrightarrow>
      sel \<noteq> [] \<and> (\<forall>n\<in>set sel. \<exists>ns\<in>set (statuses p). NodeName ns = n \<and> Phase ns = NodePhaseApplied \<and> AppliedHash ns = h)"
    and record_applied: "applied_nodes (record_report r t p) =
      of_nat (length (filter (\<lambda>ns. Phase ns = NodePhaseApplied) (statuses (record_report r t p))))"
    and record_failed: "failed_nodes (record_report r t p) =
      of_nat (length (filter (\<lambda>ns. Phase ns = NodePhaseFailed) (statuses (record_report r t p))))"
begin

definition well_formed :: "'p \<Rightarrow> bool" where
  "well_formed p \<longleftrightarrow> distinct (map NodeName (statuses p))"

definition record_all :: "(StatusReport \<times> Time) list \<Rightarrow> 'p \<Rightarrow> 'p" where
  "record_all rts p = foldl (\<lambda>p (r, t). record_report r t p) p rts"

lemma record_all_Nil [simp]: "record_all [] p = p"
  by (simp add: record_all_def)

lemma record_all_snoc [simp]: "record_all (rts @ [(r, t)]) p = record_report r t (record_all rts p)"
  by (simp add: record_all_def)

lemma record_names:
  "NodeName ` set (statuses (record_report r t p)) = insert (rep_Node r) (NodeName ` set (statuses p))"
proof -
  have "set (map NodeName (upsertList r t (statuses p))) = insert (rep_Node r) (NodeName ` set (statuses p))"
    by (auto simp: upsertList_names)
  then show ?thesis by (simp add: record_statuses)
qed

lemma record_well_formed: "well_formed p \<Longrightarrow> well_formed (record_report r t p)"
  by (auto simp: well_formed_def record_statuses upsertList_names)

lemma record_all_well_formed: "well_formed p \<Longrightarrow> well_formed (record_all rts p)"
  by (induction rts rule: rev_induct) (auto intro: record_well_formed)

lemma record_ledger: "ledger (statuses (record_report r t p)) = ledger_record r t (ledger (statuses p))"
  by (simp add: record_statuses ledger_upsertList)

lemma all_applied_ledger:
  assumes "well_formed p"
  shows "all_applied p sel h \<longleftrightarrow> sel \<noteq> [] \<and> (\<forall>n\<in>set sel. applied_at h (ledger (statuses p) n))"
proof -
  have "(\<exists>ns\<in>set (statuses p). NodeName ns = n \<and> Phase ns = NodePhaseApplied \<and> AppliedHash ns = h)
      \<longleftrightarrow> applied_at h (ledger (statuses p) n)" for n
    using ledger_applied [of "statuses p"] assms by (simp add: well_formed_def)
  then show ?thesis by (simp add: all_applied_iff)
qed

lemma record_all_ledger:
  "applied_at h (ledger (statuses (record_all rts p)) n) =
     (case last_report n rts of
        Some r \<Rightarrow> rep_Success r \<and> rep_Hash r = h
      | None \<Rightarrow> applied_at h (ledger (statuses p) n))"
proof (induction rts rule: rev_induct)
  case (snoc rt rts)
  then show ?case by (cases rt) (simp add: record_ledger applied_at_record)
qed simp

lemma record_all_history:
  assumes "statuses p = []"
  shows "ledger (statuses (record_all rts p)) = (\<lambda>n. history n rts)"
proof (induction rts rule: rev_induct)
  case Nil
  with assms show ?case by (simp add: ledger_def history_def reports_of_def)
next
  case (snoc rt rts)
  then show ?case by (cases rt) (simp only: record_all_snoc record_ledger history_step ext)
qed

text \<open>Rollout progress is decided by the last report of every selected node.\<close>

lemma all_applied_after_reports:
  assumes "well_formed p"
  shows "all_applied (record_all rts p) sel h \<longleftrightarrow>
    sel \<noteq> [] \<and> (\<forall>n\<in>set sel.
      case last_report n rts of
        Some r \<Rightarrow> rep_Success r \<and> rep_Hash r = h
      | None \<Rightarrow> applied_at h (ledger (statuses p) n))"
  using all_applied_ledger [OF record_all_well_formed [OF assms]] by (simp add: record_all_ledger)

lemma counts_exact:
  assumes "length (statuses (record_report r t p)) < 2 ^ 31"
  shows "sint (applied_nodes (record_report r t p)) =
      int (length (filter (\<lambda>ns. Phase ns = NodePhaseApplied) (statuses (record_report r t p))))"
    and "sint (failed_nodes (record_report r t p)) =
      int (length (filter (\<lambda>ns. Phase ns = NodePhaseFailed) (statuses (record_report r t p))))"
proof -
  let ?l = "statuses (record_report r t p)"
  let ?a = "length (filter (\<lambda>ns. Phase ns = NodePhaseApplied) ?l)"
  let ?f = "length (filter (\<lambda>ns. Phase ns = NodePhaseFailed) ?l)"
  have "?a + ?f \<le> length ?l" by (rule phase_counts_le)
  with assms have "?a < 2 ^ 31" "?f < 2 ^ 31" by linarith+
  then show "sint (applied_nodes (record_report r t p)) = int ?a" and "sint (failed_nodes (record_report r t p)) = int ?f"
    by (simp_all only: record_applied record_failed sint_of_nat_int32)
qed

lemma counts_bounded:
  assumes "length (statuses (record_report r t p)) < 2 ^ 31"
  shows "0 \<le> sint (applied_nodes (record_report r t p))"
    and "0 \<le> sint (failed_nodes (record_report r t p))"
    and "sint (applied_nodes (record_report r t p)) + sint (failed_nodes (record_report r t p))
      \<le> int (length (statuses (record_report r t p)))"
  using counts_exact [OF assms] phase_counts_le [of "statuses (record_report r t p)"] by simp_all

end

subsection \<open>The two kinds of profiles\<close>

interpretation sysctl_ledger: node_ledger "\<lambda>p. sys_NodeStatuses (sys_Status p)" recordSysctl allNodesApplied
  "\<lambda>p. sys_AppliedNodes (sys_Status p)" "\<lambda>p. sys_FailedNodes (sys_Status p)"
  by unfold_locales (auto simp: status_simps allNodesApplied_iff rolloutDone_def)

interpretation script_ledger: node_ledger "\<lambda>p. scr_NodeStatuses (scr_Status p)" recordScript scriptAllNodesApplied
  "\<lambda>p. scr_AppliedNodes (scr_Status p)" "\<lambda>p. scr_FailedNodes (scr_Status p)"
  by unfold_locales (auto simp: status_simps scriptAllNodesApplied_iff rolloutDone_def)

subsection \<open>Properties\<close>

text \<open>C14: The rollout decision of a sysctl profile after any sequence of recorded reports is
  decided by the last report of each selected node: \<open>allNodesApplied\<close> holds exactly when there is
  a selected node and every selected node's last report succeeded at the given hash (a node that
  never reported counts as it did before).\<close>

theorem allNodesApplied_after_reports:
  assumes "distinct (map NodeName (sys_NodeStatuses (sys_Status p)))"
  shows "allNodesApplied (foldl (\<lambda>p (r, t). recordSysctl r t p) p rts) selected hash \<longleftrightarrow>
    selected \<noteq> [] \<and> (\<forall>n\<in>set selected.
      case last_report n rts of
        Some r \<Rightarrow> rep_Success r \<and> rep_Hash r = hash
      | None \<Rightarrow> applied_at hash (ledger (sys_NodeStatuses (sys_Status p)) n))"
  using sysctl_ledger.all_applied_after_reports assms
  unfolding sysctl_ledger.well_formed_def sysctl_ledger.record_all_def .

definition nodeReport :: "string \<Rightarrow> bool \<Rightarrow> string \<Rightarrow> StatusReport" where
  "nodeReport n success hash =
     \<lparr>rep_Profile = ''p'', rep_Namespace = ''ns'', rep_Kind = [], rep_Node = n, rep_Pod = [], rep_Hash = hash,
      rep_Success = success, rep_Applied = [], rep_Failed = [], rep_Message = []\<rparr>"

theorem allNodesApplied_after_reports_witness:
  "allNodesApplied (foldl (\<lambda>p (r, t). recordSysctl r t p) blankProfile
      [(nodeReport ''a'' False ''h'', 1), (nodeReport ''b'' True ''h'', 2), (nodeReport ''a'' True ''h'', 3)]) [''a'', ''b''] ''h''"
  by (subst allNodesApplied_after_reports) (simp_all add: blankProfile_def nodeReport_def last_report_def)

text \<open>The same for script profiles.\<close>

theorem scriptAllNodesApplied_after_reports:
  assumes "distinct (map NodeName (scr_NodeStatuses (scr_Status p)))"
  shows "scriptAllNodesApplied (foldl (\<lambda>p (r, t). recordScript r t p) p rts) selected hash \<longleftrightarrow>
    selected \<noteq> [] \<and> (\<forall>n\<in>set selected.
      case last_report n rts of
        Some r \<Rightarrow> rep_Success r \<and> rep_Hash r = hash
      | None \<Rightarrow> applied_at hash (ledger (scr_NodeStatuses (scr_Status p)) n))"
  using script_ledger.all_applied_after_reports assms
  unfolding script_ledger.well_formed_def script_ledger.record_all_def .

theorem scriptAllNodesApplied_after_reports_witness:
  "\<not> scriptAllNodesApplied (foldl (\<lambda>p (r, t). recordScript r t p) blankScriptProfile
      [(nodeReport ''a'' True ''h'', 1), (nodeReport ''a'' False ''h'', 2)]) [''a''] ''h''"
  by (subst scriptAllNodesApplied_after_reports) (simp_all add: blankScriptProfile_def nodeReport_def last_report_def)

text \<open>After any sequence of reports on a profile without entries, the entry of every node is its
  history: the phase, message and time of its last report, the hash of its last success (empty if it
  never succeeded), and as fail count the number of failures since then, modulo \<open>2 ^ 32\<close>; a node that
  never reported has no entry.\<close>

theorem recorded_history:
  assumes "sys_NodeStatuses (sys_Status p) = []"
  shows "ledger (sys_NodeStatuses (sys_Status (foldl (\<lambda>p (r, t). recordSysctl r t p) p rts))) n = history n rts"
  using sysctl_ledger.record_all_history [of p rts, OF assms]
  unfolding sysctl_ledger.record_all_def by (rule fun_cong)

theorem recorded_history_witness:
  "map_option FailCount (ledger (sys_NodeStatuses (sys_Status (foldl (\<lambda>p (r, t). recordSysctl r t p) blankProfile
      [(nodeReport ''a'' True ''h'', 1), (nodeReport ''a'' False ''k'', 2), (nodeReport ''a'' False ''k'', 3)]))) ''a'') = Some 2"
  by (subst recorded_history) (simp_all add: blankProfile_def nodeReport_def history_def reports_of_def Let_def)

text \<open>Recording a report keeps at most one entry per node, and after it the applied and failed
  counters of the profile are the numbers of entries in these phases, non-negative and together at
  most the number of entries, as long as there are fewer than \<open>2 ^ 31\<close> of them.\<close>

theorem recordSysctl_invariant:
  assumes "distinct (map NodeName (sys_NodeStatuses (sys_Status p)))"
    and "length (sys_NodeStatuses (sys_Status (recordSysctl r t p))) < 2 ^ 31"
  shows "let st = sys_Status (recordSysctl r t p) in
    distinct (map NodeName (sys_NodeStatuses st))
    \<and> sint (sys_AppliedNodes st) = int (length (filter (\<lambda>ns. Phase ns = NodePhaseApplied) (sys_NodeStatuses st)))
    \<and> sint (sys_FailedNodes st) = int (length (filter (\<lambda>ns. Phase ns = NodePhaseFailed) (sys_NodeStatuses st)))
    \<and> sint (sys_AppliedNodes st) + sint (sys_FailedNodes st) \<le> int (length (sys_NodeStatuses st))"
  using sysctl_ledger.record_well_formed [of p r t] sysctl_ledger.counts_exact [of r t p] assms
    sysctl_ledger.counts_bounded(3) [of r t p]
  by (simp add: sysctl_ledger.well_formed_def Let_def)

theorem recordSysctl_invariant_witness:
  "let st = sys_Status (recordSysctl (nodeReport ''a'' True ''h'') 1 blankProfile) in
   distinct (map NodeName (sys_NodeStatuses st)) \<and> sint (sys_AppliedNodes st) = 1"
  using recordSysctl_invariant [of blankProfile "nodeReport ''a'' True ''h''" 1]
  by (simp add: Let_def blankProfile_def nodeReport_def status_simps upsertList_def newNodeStatus_def reportPhase_def)

end
