(* ===== verification/Memory_Kube.thy ===== *)
theory Memory_Kube
  imports Kube
begin

text \<open>
  A concrete cluster, used to show that the laws assumed of the Kubernetes packages can hold
  together and to evaluate the components on examples: an object store in memory with resource
  versions and optimistic concurrency, a clock, the counters, and a list of faults that the next
  status writes are to fail with.
\<close>

record World =
  world_objects :: Cluster
  world_clock :: Time
  world_faults :: "Err list"
  world_counters :: "string list \<Rightarrow> nat"

definition errNotFound :: Err where "errNotFound = StatusErr ''NotFound'' ''not found''"
definition errConflict :: Err where "errConflict = StatusErr ''Conflict'' ''the object has been modified''"

definition on_objects :: "(Cluster \<Rightarrow> Cluster) \<Rightarrow> World \<Rightarrow> World" where
  "on_objects f w = w\<lparr>world_objects := f (world_objects w)\<rparr>"

lemma on_objects_view [simp]: "world_objects (on_objects f w) = f (world_objects w)"
  and on_objects_counters [simp]: "world_counters (on_objects f w) = world_counters w"
  by (simp_all add: on_objects_def)

subsection \<open>The client\<close>

definition memGetSysctl :: "NamespacedName \<Rightarrow> World \<Rightarrow> Err + SysctlProfile" where
  "memGetSysctl k w =
     (case cl_SysctlProfiles (world_objects w) k of
        Some p \<Rightarrow> if key_of (sys_meta p) = k then Inr p else Inl errNotFound
      | None \<Rightarrow> Inl errNotFound)"

definition memGetScript :: "NamespacedName \<Rightarrow> World \<Rightarrow> Err + ScriptProfile" where
  "memGetScript k w =
     (case cl_ScriptProfiles (world_objects w) k of
        Some p \<Rightarrow> if key_of (scr_meta p) = k then Inr p else Inl errNotFound
      | None \<Rightarrow> Inl errNotFound)"

definition memUpdateSysctl :: "SysctlProfile \<Rightarrow> World \<Rightarrow> World result" where
  "memUpdateSysctl p w =
     (case cl_SysctlProfiles (world_objects w) (key_of (sys_meta p)) of
        None \<Rightarrow> (Some errNotFound, w)
      | Some old \<Rightarrow>
          if ResourceVersion (sys_meta old) \<noteq> ResourceVersion (sys_meta p) then (Some errConflict, w)
          else (None, on_objects (set_sysctl (key_of (sys_meta p))
                 (updated_sysctl old p (Suc (ResourceVersion (sys_meta old))))) w))"

definition memUpdateScript :: "ScriptProfile \<Rightarrow> World \<Rightarrow> World result" where
  "memUpdateScript p w =
     (case cl_ScriptProfiles (world_objects w) (key_of (scr_meta p)) of
        None \<Rightarrow> (Some errNotFound, w)
      | Some old \<Rightarrow>
          if ResourceVersion (scr_meta old) \<noteq> ResourceVersion (scr_meta p) then (Some errConflict, w)
          else (None, on_objects (set_script (key_of (scr_meta p))
                 (updated_script old p (Suc (ResourceVersion (scr_meta old))))) w))"

definition memStatusSysctl :: "SysctlProfile \<Rightarrow> World \<Rightarrow> World result" where
  "memStatusSysctl p w =
     (case world_faults w of
        e # es \<Rightarrow> (Some e, w\<lparr>world_faults := es\<rparr>)
      | [] \<Rightarrow>
          (case cl_SysctlProfiles (world_objects w) (key_of (sys_meta p)) of
             None \<Rightarrow> (Some errNotFound, w)
           | Some old \<Rightarrow>
               if ResourceVersion (sys_meta old) \<noteq> ResourceVersion (sys_meta p) then (Some errConflict, w)
               else (None, on_objects (set_sysctl (key_of (sys_meta p))
                      (Some (old\<lparr>sys_meta := (sys_meta old)\<lparr>ResourceVersion := Suc (ResourceVersion (sys_meta old))\<rparr>,
                                 sys_Status := sys_Status p\<rparr>))) w)))"

definition memStatusScript :: "ScriptProfile \<Rightarrow> World \<Rightarrow> World result" where
  "memStatusScript p w =
     (case world_faults w of
        e # es \<Rightarrow> (Some e, w\<lparr>world_faults := es\<rparr>)
      | [] \<Rightarrow>
          (case cl_ScriptProfiles (world_objects w) (key_of (scr_meta p)) of
             None \<Rightarrow> (Some errNotFound, w)
           | Some old \<Rightarrow>
               if ResourceVersion (scr_meta old) \<noteq> ResourceVersion (scr_meta p) then (Some errConflict, w)
               else (None, on_objects (set_script (key_of (scr_meta p))
                      (Some (old\<lparr>scr_meta := (scr_meta old)\<lparr>ResourceVersion := Suc (ResourceVersion (scr_meta old))\<rparr>,
                                 scr_Status := scr_Status p\<rparr>))) w)))"

definition memDeleteCM :: "ConfigMap \<Rightarrow> World \<Rightarrow> World result" where
  "memDeleteCM c w =
     (if cl_ConfigMaps (world_objects w) (key_of (cm_meta c)) = None then (Some errNotFound, w)
      else (None, on_objects (set_cm (key_of (cm_meta c)) None) w))"

definition memDeleteDS :: "DaemonSet \<Rightarrow> World \<Rightarrow> World result" where
  "memDeleteDS d w =
     (if cl_DaemonSets (world_objects w) (key_of (ds_meta d)) = None then (Some errNotFound, w)
      else (None, on_objects (set_ds (key_of (ds_meta d)) None) w))"

definition memDeleteCJ :: "CronJob \<Rightarrow> World \<Rightarrow> World result" where
  "memDeleteCJ j w =
     (if cl_CronJobs (world_objects w) (key_of (cj_meta j)) = None then (Some errNotFound, w)
      else (None, on_objects (set_cj (key_of (cj_meta j)) None) w))"

definition memStamp :: "ObjectMeta \<Rightarrow> ObjectMeta" where
  "memStamp m = m\<lparr>UID := Namespace m @ ''/'' @ Name m, ResourceVersion := Suc (ResourceVersion m)\<rparr>"

definition memCreateOrUpdateCM :: "ConfigMap \<Rightarrow> (ConfigMap \<Rightarrow> Err + ConfigMap) \<Rightarrow> World \<Rightarrow> World result" where
  "memCreateOrUpdateCM c f w =
     (let k = key_of (cm_meta c) in
      case f (case cl_ConfigMaps (world_objects w) k of None \<Rightarrow> c | Some y \<Rightarrow> y) of
        Inl e \<Rightarrow> (Some e, w)
      | Inr x \<Rightarrow> (None, on_objects (set_cm k (Some (x\<lparr>cm_meta := memStamp (cm_meta x)\<rparr>))) w))"

definition memCreateOrUpdateDS :: "DaemonSet \<Rightarrow> (DaemonSet \<Rightarrow> Err + DaemonSet) \<Rightarrow> World \<Rightarrow> World result" where
  "memCreateOrUpdateDS d f w =
     (let k = key_of (ds_meta d) in
      case f (case cl_DaemonSets (world_objects w) k of None \<Rightarrow> d | Some y \<Rightarrow> y) of
        Inl e \<Rightarrow> (Some e, w)
      | Inr x \<Rightarrow> (None, on_objects (set_ds k (Some (x\<lparr>ds_meta := memStamp (ds_meta x)\<rparr>))) w))"

definition memCreateOrUpdateCJ :: "CronJob \<Rightarrow> (CronJob \<Rightarrow> Err + CronJob) \<Rightarrow> World \<Rightarrow> World result" where
  "memCreateOrUpdateCJ j f w =
     (let k = key_of (cj_meta j) in
      case f (case cl_CronJobs (world_objects w) k of None \<Rightarrow> j | Some y \<Rightarrow> y) of
        Inl e \<Rightarrow> (Some e, w)
      | Inr x \<Rightarrow> (None, on_objects (set_cj k (Some (x\<lparr>cj_meta := memStamp (cj_meta x)\<rparr>))) w))"

subsection \<open>The helpers\<close>

definition memIgnoreNotFound :: "Err \<Rightarrow> Err option" where
  "memIgnoreNotFound e = (if e = errNotFound then None else Some e)"

definition memSetControllerReference :: "string \<Rightarrow> ObjectMeta \<Rightarrow> ObjectMeta \<Rightarrow> Err + ObjectMeta" where
  "memSetControllerReference kind owner m =
     (if \<exists>r\<in>set (OwnerReferences m). or_Controller r \<and> or_UID r \<noteq> UID owner
      then Inl (OtherErr ''already owned by another controller'')
      else Inr (m\<lparr>OwnerReferences :=
        \<lparr>or_Kind = kind, or_Name = Name owner, or_UID = UID owner, or_Controller = True\<rparr>
        # filter (\<lambda>r. or_UID r \<noteq> UID owner) (OwnerReferences m)\<rparr>))"

definition sameCondition :: "Condition \<Rightarrow> Condition \<Rightarrow> bool" where
  "sameCondition d c \<longleftrightarrow> cond_Type d = cond_Type c \<and> cond_Status d = cond_Status c
     \<and> cond_Reason d = cond_Reason c \<and> cond_Message d = cond_Message c
     \<and> cond_ObservedGeneration d = cond_ObservedGeneration c"

fun memSetStatusCondition :: "Time \<Rightarrow> Condition list \<Rightarrow> Condition \<Rightarrow> Condition list" where
  "memSetStatusCondition t [] c = [c\<lparr>cond_LastTransitionTime := t\<rparr>]"
| "memSetStatusCondition t (d # ds) c =
     (if cond_Type d = cond_Type c then
        c\<lparr>cond_LastTransitionTime :=
            (if cond_Status d = cond_Status c then cond_LastTransitionTime d else t)\<rparr> # ds
      else d # memSetStatusCondition t ds c)"

fun memRequirement :: "LabelSelectorRequirement \<Rightarrow> (string \<Rightarrow> string option) \<Rightarrow> bool" where
  "memRequirement r m =
     (case req_Operator r of
        OpIn \<Rightarrow> (case m (req_Key r) of Some v \<Rightarrow> v \<in> set (req_Values r) | None \<Rightarrow> False)
      | OpNotIn \<Rightarrow> (case m (req_Key r) of Some v \<Rightarrow> v \<notin> set (req_Values r) | None \<Rightarrow> True)
      | OpExists \<Rightarrow> m (req_Key r) \<noteq> None
      | OpDoesNotExist \<Rightarrow> m (req_Key r) = None
      | OpOther _ \<Rightarrow> False)"

definition lookup_label :: "gomap \<Rightarrow> string \<Rightarrow> string option" where
  "lookup_label m k = (case m of None \<Rightarrow> None | Some f \<Rightarrow> fmlookup f k)"

definition memSelector :: "LabelSelector \<Rightarrow> Err + Selector" where
  "memSelector s =
     (if \<exists>r\<in>set (MatchExpressions s). (case req_Operator r of OpOther _ \<Rightarrow> True | _ \<Rightarrow> False)
      then Inl (OtherErr ''not a valid label selector operator'')
      else Inr (\<lambda>ls.
        (case MatchLabels s of None \<Rightarrow> True
         | Some m \<Rightarrow> fmpred (\<lambda>k v. lookup_label ls k = Some v) m)
        \<and> list_all (\<lambda>r. memRequirement r (lookup_label ls)) (MatchExpressions s)))"

definition mem :: "World Kube" where
  "mem =
     \<lparr>GetSysctlProfile = memGetSysctl,
      ListSysctlProfiles = (\<lambda>w. Inr []),
      UpdateSysctlProfile = memUpdateSysctl,
      StatusUpdateSysctlProfile = memStatusSysctl,
      GetScriptProfile = memGetScript,
      ListScriptProfiles = (\<lambda>w. Inr []),
      UpdateScriptProfile = memUpdateScript,
      StatusUpdateScriptProfile = memStatusScript,
      ListNodes = (\<lambda>sel w. Inr (filter (\<lambda>n. sel (node_Labels n)) (cl_Nodes (world_objects w)))),
      DeleteConfigMap = memDeleteCM,
      DeleteDaemonSet = memDeleteDS,
      DeleteCronJob = memDeleteCJ,
      CreateOrUpdateConfigMap = memCreateOrUpdateCM,
      CreateOrUpdateDaemonSet = memCreateOrUpdateDS,
      CreateOrUpdateCronJob = memCreateOrUpdateCJ,
      SetControllerReference = memSetControllerReference,
      ContainsFinalizer = (\<lambda>m f. f \<in> set (Finalizers m)),
      AddFinalizer = (\<lambda>m f. if f \<in> set (Finalizers m) then m else m\<lparr>Finalizers := Finalizers m @ [f]\<rparr>),
      RemoveFinalizer = (\<lambda>m f. m\<lparr>Finalizers := filter (\<lambda>g. g \<noteq> f) (Finalizers m)\<rparr>),
      IgnoreNotFound = memIgnoreNotFound,
      SetStatusCondition = memSetStatusCondition,
      LabelSelectorAsSelector = memSelector,
      SysctlStatusDeepEqual = (\<lambda>a b. a = b),
      ScriptStatusDeepEqual = (\<lambda>a b. a = b),
      RetryOnConflict = attempts 4,
      Now = world_clock,
      CounterInc = (\<lambda>ls w. w\<lparr>world_counters := (world_counters w)(ls := world_counters w ls + 1)\<rparr>)\<rparr>"

subsection \<open>It satisfies the laws\<close>

lemmas mem_defs = memGetSysctl_def memGetScript_def memUpdateSysctl_def memUpdateScript_def
  memStatusSysctl_def memStatusScript_def memDeleteCM_def memDeleteDS_def memDeleteCJ_def
  memCreateOrUpdateCM_def memCreateOrUpdateDS_def memCreateOrUpdateCJ_def memIgnoreNotFound_def

lemma set_absent:
  "cl_ConfigMaps v k = None \<Longrightarrow> set_cm k None v = v"
  "cl_DaemonSets v k = None \<Longrightarrow> set_ds k None v = v"
  "cl_CronJobs v k = None \<Longrightarrow> set_cj k None v = v"
  by (simp_all add: view_defs fun_upd_idem)

lemma stamped_memStamp [simp]: "stamped m (memStamp m)"
  by (cases m) (auto simp: stamped_def memStamp_def)

interpretation mem_objects: kube_objects mem world_objects
  by unfold_locales
    (auto simp: mem_def mem_defs Let_def set_absent split: option.splits if_splits sum.splits list.splits,
      (intro exI conjI, rule stamped_memStamp, rule refl)+)

lemma memSetStatusCondition_set: "\<exists>d\<in>set (memSetStatusCondition t cs c). sameCondition d c"
  by (induction t cs c rule: memSetStatusCondition.induct) (auto simp: sameCondition_def)

lemma memSetStatusCondition_types:
  assumes "distinct_types cs"
  shows "distinct_types (memSetStatusCondition t cs c)"
proof -
  have "map cond_Type (memSetStatusCondition t cs c) = (if cond_Type c \<in> cond_Type ` set cs then map cond_Type cs else map cond_Type cs @ [cond_Type c])"
    by (induction t cs c rule: memSetStatusCondition.induct) auto
  with assms show ?thesis by (auto simp: distinct_types_def)
qed

lemma memSetStatusCondition_others:
  "filter (\<lambda>d. cond_Type d \<noteq> cond_Type c) (memSetStatusCondition t cs c) = filter (\<lambda>d. cond_Type d \<noteq> cond_Type c) cs"
  by (induction t cs c rule: memSetStatusCondition.induct) auto

lemma memSetStatusCondition_idem:
  "memSetStatusCondition t' (memSetStatusCondition t cs c) c = memSetStatusCondition t cs c"
  by (induction t cs c rule: memSetStatusCondition.induct) auto

interpretation mem_helpers: kube_helpers mem
proof unfold_locales
  show "SetControllerReference mem kind owner m = Inr m' \<Longrightarrow>
      (\<exists>refs. m' = m\<lparr>OwnerReferences := refs\<rparr>
         \<and> (\<exists>ref\<in>set refs. or_Kind ref = kind \<and> or_Name ref = Name owner \<and> or_UID ref = UID owner \<and> or_Controller ref))"
    for kind owner m m'
    by (auto simp: mem_def memSetControllerReference_def split: if_splits)
  show "\<exists>d\<in>set (SetStatusCondition mem t cs c).
      cond_Type d = cond_Type c \<and> cond_Status d = cond_Status c \<and> cond_Reason d = cond_Reason c
      \<and> cond_Message d = cond_Message c \<and> cond_ObservedGeneration d = cond_ObservedGeneration c" for t cs c
    using memSetStatusCondition_set [of t cs c] by (simp add: mem_def sameCondition_def)
qed (auto simp: mem_def memSetStatusCondition_idem memSetStatusCondition_types memSetStatusCondition_others)

interpretation mem_kube: kube mem world_objects
  by unfold_locales

interpretation mem_retry: kube_retry mem
  by unfold_locales (auto simp: mem_def)

interpretation mem_metrics: kube_metrics mem world_counters
  by unfold_locales (auto simp: mem_def mem_defs split: option.splits if_splits list.splits)

end
