(* ===== verification/Reconcile_Flow.thy ===== *)
theory Reconcile_Flow
  imports Script_Controller Memory_Kube
begin

text \<open>
  The life cycle that the two reconcile handlers share: fetch, clean up and drop the finalizer when
  the object is being deleted, add the finalizer before anything else, and only then reconcile the
  owned resources. The interface is the locale \<open>reconcile_flow\<close>; in every cluster that satisfies the
  contract \<open>kube\<close>, both handlers are instances of it.
\<close>

text \<open>The owned objects of a profile, by key: its ConfigMap, its DaemonSet and its CronJob.\<close>

definition configKey :: "SysctlProfile \<Rightarrow> NamespacedName" where
  "configKey p = (Namespace (sys_meta p), resourceName p)"

definition jobKey :: "SysctlProfile \<Rightarrow> NamespacedName" where
  "jobKey p = (Namespace (sys_meta p), cronJobName p)"

definition scriptKey :: "ScriptProfile \<Rightarrow> NamespacedName" where
  "scriptKey p = (Namespace (scr_meta p), scriptResourceName p)"

definition owns_nothing :: "NamespacedName \<Rightarrow> NamespacedName \<Rightarrow> NamespacedName \<Rightarrow> Cluster \<Rightarrow> bool" where
  "owns_nothing c d j v \<longleftrightarrow> cl_ConfigMaps v c = None \<and> cl_DaemonSets v d = None \<and> cl_CronJobs v j = None"

abbreviation same_unowned :: "SysctlProfile \<Rightarrow> Cluster \<Rightarrow> Cluster \<Rightarrow> bool" where
  "same_unowned p \<equiv> same_except (configKey p) (configKey p) (jobKey p)"

abbreviation same_unowned_script :: "ScriptProfile \<Rightarrow> Cluster \<Rightarrow> Cluster \<Rightarrow> bool" where
  "same_unowned_script p v v' \<equiv> same_except (scriptKey p) (scriptKey p) (scriptKey p) v v' \<and> cl_CronJobs v' = cl_CronJobs v"

subsection \<open>The interface\<close>

locale reconcile_flow =
  fixes view :: "'w \<Rightarrow> Cluster"
    and get :: "NamespacedName \<Rightarrow> 'w \<Rightarrow> Err + 'p"
    and ignore :: "Err \<Rightarrow> Err option"
    and meta :: "'p \<Rightarrow> ObjectMeta"
    and with_meta :: "ObjectMeta \<Rightarrow> 'p \<Rightarrow> 'p"
    and stored :: "Cluster \<Rightarrow> NamespacedName \<Rightarrow> 'p option"
    and update :: "'p \<Rightarrow> 'w \<Rightarrow> 'w result"
    and cleaned :: "'p \<Rightarrow> 'w \<Rightarrow> 'w result"
    and live :: "'p \<Rightarrow> 'w \<Rightarrow> 'w result"
    and reconcile :: "NamespacedName \<Rightarrow> 'w \<Rightarrow> 'w result"
    and frame :: "'p \<Rightarrow> Cluster \<Rightarrow> Cluster \<Rightarrow> bool"
    and gone :: "'p \<Rightarrow> Cluster \<Rightarrow> bool"
  assumes reconcile_eq: "reconcile req w =
      (case get req w of
         Inl err \<Rightarrow> (ignore err, w)
       | Inr p \<Rightarrow>
           if DeletionTimestamp (meta p) \<noteq> 0 then
             (if finalizer \<in> set (Finalizers (meta p)) then
                onOK (cleaned p w)
                  (update (with_meta ((meta p)\<lparr>Finalizers := filter (\<lambda>g. g \<noteq> finalizer) (Finalizers (meta p))\<rparr>) p))
              else (None, w))
           else if finalizer \<notin> set (Finalizers (meta p)) then
             update (with_meta ((meta p)\<lparr>Finalizers := Finalizers (meta p) @ [finalizer]\<rparr>) p) w
           else live p w)"
    and get_key: "get req w = Inr p \<Longrightarrow> key_of (meta p) = req"
    and meta_with [simp]: "meta (with_meta m p) = m"
    and update_frame: "update p w = (r, w') \<Longrightarrow>
      cl_ConfigMaps (view w') = cl_ConfigMaps (view w) \<and> cl_DaemonSets (view w') = cl_DaemonSets (view w)
      \<and> cl_CronJobs (view w') = cl_CronJobs (view w)
      \<and> (\<forall>k. k \<noteq> key_of (meta p) \<longrightarrow> stored (view w') k = stored (view w) k)
      \<and> (r = None \<longrightarrow> (case stored (view w') (key_of (meta p)) of
           None \<Rightarrow> True | Some q \<Rightarrow> Finalizers (meta q) = Finalizers (meta p)))"
    and cleaned_frame: "cleaned p w = (r, w') \<Longrightarrow> stored (view w') = stored (view w) \<and> frame p (view w) (view w')"
    and cleaned_ok: "cleaned p w = (None, w') \<Longrightarrow> gone p (view w')"
    and gone_cong: "gone p v \<Longrightarrow> cl_ConfigMaps v' = cl_ConfigMaps v \<Longrightarrow> cl_DaemonSets v' = cl_DaemonSets v \<Longrightarrow>
      cl_CronJobs v' = cl_CronJobs v \<Longrightarrow> gone p v'"
begin

lemma reconcile_error: "get req w = Inl err \<Longrightarrow> reconcile req w = (ignore err, w)"
  by (simp add: reconcile_eq)

lemma reconcile_released:
  assumes "get req w = Inr p" and "DeletionTimestamp (meta p) \<noteq> 0" and "finalizer \<notin> set (Finalizers (meta p))"
  shows "reconcile req w = (None, w)"
  using assms by (simp add: reconcile_eq)

text \<open>The finalizer comes before any owned object.\<close>

lemma finalizer_first:
  assumes "get req w = Inr p" and "DeletionTimestamp (meta p) = 0" and "finalizer \<notin> set (Finalizers (meta p))"
    and "reconcile req w = (r, w')"
  shows "cl_ConfigMaps (view w') = cl_ConfigMaps (view w) \<and> cl_DaemonSets (view w') = cl_DaemonSets (view w)
      \<and> cl_CronJobs (view w') = cl_CronJobs (view w)
      \<and> (r = None \<longrightarrow> (case stored (view w') req of None \<Rightarrow> True | Some q \<Rightarrow> finalizer \<in> set (Finalizers (meta q))))"
proof -
  let ?p = "with_meta ((meta p)\<lparr>Finalizers := Finalizers (meta p) @ [finalizer]\<rparr>) p"
  have "update ?p w = (r, w')" using assms by (simp add: reconcile_eq)
  from update_frame [OF this] get_key [OF assms(1)] show ?thesis by (auto split: option.splits)
qed

text \<open>A deletion whose cleanup fails changes no profile; one that succeeds leaves nothing owned.\<close>

lemma deletion:
  assumes "get req w = Inr p" and "DeletionTimestamp (meta p) \<noteq> 0" and "finalizer \<in> set (Finalizers (meta p))"
    and rec: "reconcile req w = (r, w')"
  shows "stored (view w') = stored (view w) \<or> gone p (view w')"
    and "r = None \<Longrightarrow> gone p (view w')
      \<and> (case stored (view w') req of None \<Rightarrow> True | Some q \<Rightarrow> finalizer \<notin> set (Finalizers (meta q)))"
proof -
  let ?p = "with_meta ((meta p)\<lparr>Finalizers := filter (\<lambda>g. g \<noteq> finalizer) (Finalizers (meta p))\<rparr>) p"
  have eq: "onOK (cleaned p w) (update ?p) = (r, w')" using assms by (simp add: reconcile_eq)
  obtain r1 w1 where c: "cleaned p w = (r1, w1)" by fastforce
  have key: "key_of (meta ?p) = req" using get_key [OF assms(1)] by simp
  have ok: "gone p (view w') \<and> (r = None \<longrightarrow>
      (case stored (view w') req of None \<Rightarrow> True | Some q \<Rightarrow> finalizer \<notin> set (Finalizers (meta q))))"
    if "r1 = None"
  proof -
    from c that eq have u: "update ?p w1 = (r, w')" by simp
    from c that have "gone p (view w1)" using cleaned_ok by simp
    with update_frame [OF u] key show ?thesis by (auto intro: gone_cong split: option.splits)
  qed
  show "stored (view w') = stored (view w) \<or> gone p (view w')"
  proof (cases r1)
    case (Some e)
    with c eq have "w' = w1" by simp
    then show ?thesis using cleaned_frame [OF c] by simp
  qed (use ok in simp)
  show "gone p (view w') \<and> (case stored (view w') req of None \<Rightarrow> True | Some q \<Rightarrow> finalizer \<notin> set (Finalizers (meta q)))"
    if "r = None"
    using ok that c eq by (cases r1) auto
qed

end

subsection \<open>The two handlers\<close>

lemma ignored: "(Option.bind e (IgnoreNotFound K) = None) = (fst (ignoreNotFound K (e, w)) = None)"
  by (cases e) simp_all

context kube
begin

lemma del_cm_step: "DeleteConfigMap K c w = (e, w') \<Longrightarrow> Option.bind e (IgnoreNotFound K) = None \<Longrightarrow>
    view w' = set_cm (key_of (cm_meta c)) None (view w)"
  by (rule del_cm) (cases e; simp)

lemma del_ds_step: "DeleteDaemonSet K d w = (e, w') \<Longrightarrow> Option.bind e (IgnoreNotFound K) = None \<Longrightarrow>
    view w' = set_ds (key_of (ds_meta d)) None (view w)"
  by (rule del_ds) (cases e; simp)

lemma del_cj_step: "DeleteCronJob K j w = (e, w') \<Longrightarrow> Option.bind e (IgnoreNotFound K) = None \<Longrightarrow>
    view w' = set_cj (key_of (cj_meta j)) None (view w)"
  by (rule del_cj) (cases e; simp)

lemma cleanup_ok:
  "cleanup K p w = (None, w') \<Longrightarrow> owns_nothing (configKey p) (configKey p) (jobKey p) (view w')"
  by (auto simp: cleanup_def Let_def owns_nothing_def configKey_def jobKey_def
      split: prod.splits if_splits dest!: del_cm_step del_ds_step del_cj_step)

lemma cleanupScript_ok:
  "cleanupScript K p w = (None, w') \<Longrightarrow> cl_ConfigMaps (view w') (scriptKey p) = None \<and> cl_DaemonSets (view w') (scriptKey p) = None"
  by (auto simp: cleanupScript_def Let_def scriptKey_def
      split: prod.splits if_splits dest!: del_cm_step del_ds_step)

lemma cleanup_frame:
  assumes "cleanup K p w = (r, w')"
  shows "same_unowned p (view w) (view w')"
proof -
  let ?n = "resourceName p" and ?ns = "Namespace (sys_meta p)"
  obtain e1 w1 where c1: "DeleteDaemonSet K (newDaemonSet ?n ?ns) w = (e1, w1)" by fastforce
  obtain e2 w2 where c2: "DeleteCronJob K (newCronJob (cronJobName p) ?ns) w1 = (e2, w2)" by fastforce
  obtain e3 w3 where c3: "DeleteConfigMap K (newConfigMap ?n ?ns) w2 = (e3, w3)" by fastforce
  have s1: "same_unowned p (view w) (view w1)" using del_ds_any [OF c1] by (auto simp: configKey_def)
  have s2: "same_unowned p (view w1) (view w2)" using del_cj_any [OF c2] by (auto simp: jobKey_def)
  have s3: "same_unowned p (view w2) (view w3)" using del_cm_any [OF c3] by (auto simp: configKey_def)
  from assms c1 c2 c3 have "w' = w1 \<or> w' = w2 \<or> w' = w3"
    by (auto simp: cleanup_def Let_def split: if_splits)
  with s1 same_except_trans [OF s1 s2] same_except_trans [OF same_except_trans [OF s1 s2] s3]
  show ?thesis by blast
qed

lemma cleanupScript_frame:
  assumes "cleanupScript K p w = (r, w')"
  shows "same_unowned_script p (view w) (view w')"
proof -
  let ?n = "scriptResourceName p" and ?ns = "Namespace (scr_meta p)"
  obtain e1 w1 where c1: "DeleteDaemonSet K (newDaemonSet ?n ?ns) w = (e1, w1)" by fastforce
  obtain e2 w2 where c2: "DeleteConfigMap K (newConfigMap ?n ?ns) w1 = (e2, w2)" by fastforce
  have s1: "same_unowned_script p (view w) (view w1)" using del_ds_any [OF c1] by (auto simp: scriptKey_def)
  have s2: "same_unowned_script p (view w1) (view w2)" using del_cm_any [OF c2] by (auto simp: scriptKey_def)
  from assms c1 c2 have "w' = w1 \<or> w' = w2"
    by (auto simp: cleanupScript_def Let_def split: if_splits)
  with s1 s2 same_except_trans [OF s1 [THEN conjunct1] s2 [THEN conjunct1]] show ?thesis by auto
qed

lemma update_sysctl_frame:
  "UpdateSysctlProfile K p w = (r, w') \<Longrightarrow>
    cl_ConfigMaps (view w') = cl_ConfigMaps (view w) \<and> cl_DaemonSets (view w') = cl_DaemonSets (view w)
    \<and> cl_CronJobs (view w') = cl_CronJobs (view w)
    \<and> (\<forall>k. k \<noteq> key_of (sys_meta p) \<longrightarrow> cl_SysctlProfiles (view w') k = cl_SysctlProfiles (view w) k)
    \<and> (r = None \<longrightarrow> (case cl_SysctlProfiles (view w') (key_of (sys_meta p)) of
         None \<Rightarrow> True | Some q \<Rightarrow> Finalizers (sys_meta q) = Finalizers (sys_meta p)))"
  by (drule upd_sysctl) (auto simp: updated_sysctl_def)

lemma update_script_frame:
  "UpdateScriptProfile K p w = (r, w') \<Longrightarrow>
    cl_ConfigMaps (view w') = cl_ConfigMaps (view w) \<and> cl_DaemonSets (view w') = cl_DaemonSets (view w)
    \<and> cl_CronJobs (view w') = cl_CronJobs (view w)
    \<and> (\<forall>k. k \<noteq> key_of (scr_meta p) \<longrightarrow> cl_ScriptProfiles (view w') k = cl_ScriptProfiles (view w) k)
    \<and> (r = None \<longrightarrow> (case cl_ScriptProfiles (view w') (key_of (scr_meta p)) of
         None \<Rightarrow> True | Some q \<Rightarrow> Finalizers (scr_meta q) = Finalizers (scr_meta p)))"
  by (drule upd_script) (auto simp: updated_script_def)

end

sublocale kube < sysctl_flow: reconcile_flow view "GetSysctlProfile K" "IgnoreNotFound K" sys_meta
  "\<lambda>m p. p\<lparr>sys_meta := m\<rparr>" cl_SysctlProfiles "UpdateSysctlProfile K" "cleanup K" "reconcileLive K image"
  "Reconcile K image" same_unowned "\<lambda>p. owns_nothing (configKey p) (configKey p) (jobKey p)" for image
proof unfold_locales
  show "Reconcile K image req w =
      (case GetSysctlProfile K req w of
         Inl err \<Rightarrow> (IgnoreNotFound K err, w)
       | Inr p \<Rightarrow>
           if DeletionTimestamp (sys_meta p) \<noteq> 0 then
             (if finalizer \<in> set (Finalizers (sys_meta p)) then
                onOK (cleanup K p w)
                  (UpdateSysctlProfile K (p\<lparr>sys_meta := (sys_meta p)\<lparr>Finalizers := filter (\<lambda>g. g \<noteq> finalizer) (Finalizers (sys_meta p))\<rparr>\<rparr>))
              else (None, w))
           else if finalizer \<notin> set (Finalizers (sys_meta p)) then
             UpdateSysctlProfile K (p\<lparr>sys_meta := (sys_meta p)\<lparr>Finalizers := Finalizers (sys_meta p) @ [finalizer]\<rparr>\<rparr>) w
           else reconcileLive K image p w)" for req w
    by (auto simp: Reconcile_def contains_finalizer add_finalizer remove_finalizer split: sum.splits)
qed (auto simp: get_sysctl dest: cleanup_ok cleanup_frame update_sysctl_frame simp: owns_nothing_def same_except_def)

sublocale kube < script_flow: reconcile_flow view "GetScriptProfile K" "IgnoreNotFound K" scr_meta
  "\<lambda>m p. p\<lparr>scr_meta := m\<rparr>" cl_ScriptProfiles "UpdateScriptProfile K" "cleanupScript K" "reconcileLiveScript K image"
  "ReconcileScript K image" same_unowned_script
  "\<lambda>p v. cl_ConfigMaps v (scriptKey p) = None \<and> cl_DaemonSets v (scriptKey p) = None" for image
proof unfold_locales
  show "ReconcileScript K image req w =
      (case GetScriptProfile K req w of
         Inl err \<Rightarrow> (IgnoreNotFound K err, w)
       | Inr p \<Rightarrow>
           if DeletionTimestamp (scr_meta p) \<noteq> 0 then
             (if finalizer \<in> set (Finalizers (scr_meta p)) then
                onOK (cleanupScript K p w)
                  (UpdateScriptProfile K (p\<lparr>scr_meta := (scr_meta p)\<lparr>Finalizers := filter (\<lambda>g. g \<noteq> finalizer) (Finalizers (scr_meta p))\<rparr>\<rparr>))
              else (None, w))
           else if finalizer \<notin> set (Finalizers (scr_meta p)) then
             UpdateScriptProfile K (p\<lparr>scr_meta := (scr_meta p)\<lparr>Finalizers := Finalizers (scr_meta p) @ [finalizer]\<rparr>\<rparr>) w
           else reconcileLiveScript K image p w)" for req w
    by (auto simp: ReconcileScript_def contains_finalizer add_finalizer remove_finalizer split: sum.splits)
qed (auto simp: get_script dest: cleanupScript_ok cleanupScript_frame update_script_frame simp: same_except_def)

end
