(* ===== verification/Example_Cluster.thy ===== *)
theory Example_Cluster
  imports Reconcile_Flow
begin

text \<open>
  A small cluster for the examples: two nodes of which one is selected, a sysctl profile and a script
  profile that are in their first rollout, and the same profiles while they are being deleted.
\<close>

definition exSelector :: LabelSelector where
  "exSelector = \<lparr>MatchLabels = Some (fmap_of_list [(''pool'', ''web'')]), MatchExpressions = []\<rparr>"

definition exMeta :: ObjectMeta where
  "exMeta = zeroMeta\<lparr>Name := ''tuning'', Namespace := ''ops'', UID := ''u1'', ResourceVersion := 7,
     Generation := 1, Finalizers := [finalizer]\<rparr>"

definition exSpec :: SysctlProfileSpec where
  "exSpec = \<lparr>sys_NodeSelector = exSelector, sys_Tolerations = [],
     Rollout = \<lparr>BatchSize = 0, BatchInterval = 0, FailureThreshold = 0, PauseOnFailure = False\<rparr>,
     Schedule = \<lparr>DriftCheck = ''@hourly'', ReconcileCron = []\<rparr>,
     Strategy = \<lparr>Type = StrategyEnforce\<rparr>,
     Sysctls = [\<lparr>sysctl_Name = ''vm.swappiness'', sysctl_Value = ''10'', Persistent = True, InterfaceSelectorOf = None\<rparr>],
     RestoreOnDelete = False\<rparr>"

definition exStatus :: SysctlProfileStatus where
  "exStatus = \<lparr>sys_ObservedHash = [], sys_TeardownHash = [], sys_DesiredNodes = 0, sys_AppliedNodes = 0,
     sys_FailedNodes = 0, DriftedNodes = 0, ErroredPods = 0, LastRolloutTime = None, sys_NodeStatuses = [],
     sys_Conditions = []\<rparr>"

definition exProfile :: SysctlProfile where
  "exProfile = \<lparr>sys_meta = exMeta, sys_Spec = exSpec, sys_Status = exStatus\<rparr>"

definition exScriptProfile :: ScriptProfile where
  "exScriptProfile =
     \<lparr>scr_meta = exMeta,
      scr_Spec = \<lparr>scr_NodeSelector = exSelector, scr_Tolerations = [],
        Scripts = [\<lparr>script_Name = ''thp'', script_Content = ''echo never'', script_Interpreter = []\<rparr>]\<rparr>,
      scr_Status = \<lparr>scr_ObservedHash = [], scr_TeardownHash = [], scr_DesiredNodes = 0, scr_AppliedNodes = 0,
        scr_FailedNodes = 0, scr_NodeStatuses = [], scr_Conditions = []\<rparr>\<rparr>"

definition exNodes :: "Node list" where
  "exNodes = [\<lparr>node_Name = ''n1'', node_Labels = Some (fmap_of_list [(''pool'', ''web'')])\<rparr>,
              \<lparr>node_Name = ''n2'', node_Labels = Some (fmap_of_list [(''pool'', ''db'')])\<rparr>]"

definition exKey :: NamespacedName where
  "exKey = (''ops'', ''tuning'')"

definition worldWith :: "SysctlProfile \<Rightarrow> ScriptProfile \<Rightarrow> Err list \<Rightarrow> World" where
  "worldWith p s faults =
     \<lparr>world_objects = \<lparr>cl_SysctlProfiles = [exKey \<mapsto> p], cl_ScriptProfiles = [exKey \<mapsto> s],
        cl_ConfigMaps = Map.empty, cl_DaemonSets = Map.empty, cl_CronJobs = Map.empty, cl_Nodes = exNodes\<rparr>,
      world_clock = 5, world_faults = faults, world_counters = (\<lambda>_. 0)\<rparr>"

definition exWorld :: World where
  "exWorld = worldWith exProfile exScriptProfile []"

definition deletingMeta :: ObjectMeta where
  "deletingMeta = exMeta\<lparr>DeletionTimestamp := 4\<rparr>"

definition exDeleting :: World where
  "exDeleting =
     on_objects (set_ds (''ops'', ''tuning-sysctl'') (Some (newDaemonSet ''tuning-sysctl'' ''ops'')))
       (on_objects (set_ds (''ops'', ''tuning-script'') (Some (newDaemonSet ''tuning-script'' ''ops'')))
         (worldWith (exProfile\<lparr>sys_meta := deletingMeta\<rparr>) (exScriptProfile\<lparr>scr_meta := deletingMeta\<rparr>) []))"

definition freshMeta :: ObjectMeta where
  "freshMeta = exMeta\<lparr>Finalizers := []\<rparr>"

definition exFresh :: World where
  "exFresh = worldWith (exProfile\<lparr>sys_meta := freshMeta\<rparr>) (exScriptProfile\<lparr>scr_meta := freshMeta\<rparr>) []"

lemmas ex_defs = exSelector_def exMeta_def exSpec_def exStatus_def exProfile_def exScriptProfile_def exNodes_def
  exKey_def worldWith_def exWorld_def exDeleting_def deletingMeta_def exFresh_def freshMeta_def zeroMeta_def

lemmas mem_eval = mem_def mem_defs memSelector_def lookup_label_def memSetControllerReference_def
  on_objects_def view_defs memStamp_def

subsection \<open>Passes over it\<close>

lemma exGet: "GetSysctlProfile mem exKey exWorld = Inr exProfile" "cl_SysctlProfiles (world_objects exWorld) exKey = Some exProfile"
  by (simp_all add: mem_eval ex_defs)

lemma exLive: "DeletionTimestamp (sys_meta exProfile) = 0" "finalizer \<in> set (Finalizers (sys_meta exProfile))"
  by (simp_all add: ex_defs)

lemmas reconcile_eval = Reconcile_def reconcileLive_def mutateConfigMap_def ensureCronJob_def mutateCronJob_def
  selectedNodeNames_def rollOut_def writeStatus_def ensureDaemonSet_def mutateDaemonSet_def allNodesApplied_def
  cleanup_def newConfigMap_def newDaemonSet_def newCronJob_def objectMeta_def resourceName_def cronJobName_def

lemma exReconcile: "fst (Reconcile mem img exKey exWorld) = None"
  by (simp add: reconcile_eval mem_eval ex_defs Let_def split: if_splits)

lemma exReconcile_stored:
  "\<exists>q. GetSysctlProfile mem exKey (snd (Reconcile mem img exKey exWorld)) = Inr q
     \<and> cl_SysctlProfiles (world_objects (snd (Reconcile mem img exKey exWorld))) exKey = Some q"
  by (simp add: reconcile_eval mem_eval ex_defs Let_def split: if_splits)

lemma exDeletingGet: "GetSysctlProfile mem exKey exDeleting = Inr (exProfile\<lparr>sys_meta := deletingMeta\<rparr>)"
  by (simp add: mem_eval ex_defs)

lemma exDeletingMeta:
  "DeletionTimestamp (sys_meta (exProfile\<lparr>sys_meta := deletingMeta\<rparr>)) \<noteq> 0"
  "finalizer \<in> set (Finalizers (sys_meta (exProfile\<lparr>sys_meta := deletingMeta\<rparr>)))"
  by (simp_all add: ex_defs)

lemma exDeletes:
  "fst (Reconcile mem img exKey exDeleting) = None"
  "cl_SysctlProfiles (world_objects (snd (Reconcile mem img exKey exDeleting))) exKey = None"
  by (simp_all add: reconcile_eval mem_eval ex_defs updated_sysctl_def Let_def split: if_splits)

lemma exFreshGet: "GetSysctlProfile mem exKey exFresh = Inr (exProfile\<lparr>sys_meta := freshMeta\<rparr>)"
  by (simp add: mem_eval ex_defs)

lemma exFreshMeta:
  "DeletionTimestamp (sys_meta (exProfile\<lparr>sys_meta := freshMeta\<rparr>)) = 0"
  "finalizer \<notin> set (Finalizers (sys_meta (exProfile\<lparr>sys_meta := freshMeta\<rparr>)))"
  by (simp_all add: ex_defs)

lemma exMarks: "fst (Reconcile mem img exKey exFresh) = None"
  by (simp add: reconcile_eval mem_eval ex_defs split: if_splits)

subsection \<open>Passes of the script controller\<close>

lemmas script_reconcile_eval = ReconcileScript_def reconcileLiveScript_def mutateScriptConfigMap_def
  scriptSelectedNodeNames_def rollOutScript_def writeScriptStatus_def ensureScriptDaemonSet_def
  mutateScriptDaemonSet_def scriptAllNodesApplied_def cleanupScript_def newConfigMap_def newDaemonSet_def
  objectMeta_def scriptResourceName_def

lemma exScriptGet: "GetScriptProfile mem exKey exWorld = Inr exScriptProfile"
  by (simp add: mem_eval ex_defs)

lemma exScriptLive:
  "DeletionTimestamp (scr_meta exScriptProfile) = 0" "finalizer \<in> set (Finalizers (scr_meta exScriptProfile))"
  by (simp_all add: ex_defs)

lemma exScriptReconcile: "fst (ReconcileScript mem img exKey exWorld) = None"
  by (simp add: script_reconcile_eval mem_eval ex_defs Let_def split: if_splits)

lemma exScriptDeletingGet: "GetScriptProfile mem exKey exDeleting = Inr (exScriptProfile\<lparr>scr_meta := deletingMeta\<rparr>)"
  by (simp add: mem_eval ex_defs)

lemma exScriptDeletingMeta:
  "DeletionTimestamp (scr_meta (exScriptProfile\<lparr>scr_meta := deletingMeta\<rparr>)) \<noteq> 0"
  "finalizer \<in> set (Finalizers (scr_meta (exScriptProfile\<lparr>scr_meta := deletingMeta\<rparr>)))"
  by (simp_all add: ex_defs)

lemma exScriptDeletes: "fst (ReconcileScript mem img exKey exDeleting) = None"
  by (simp add: script_reconcile_eval mem_eval ex_defs updated_script_def Let_def split: if_splits)

lemma exScriptKey: "scriptKey exScriptProfile = (''ops'', ''tuning-script'')"
  by (simp add: scriptKey_def scriptResourceName_def ex_defs)

lemma exScriptStatus: "scr_NodeStatuses (scr_Status exScriptProfile) = []"
  by (simp add: ex_defs)

end
