(* ===== verification/Report_Service.thy ===== *)
theory Report_Service
  imports Node_Ledger Example_Cluster
begin

text \<open>
  What a request to the report API does to the cluster and to the metrics, from the contract of the
  Kubernetes packages (\<open>report_cluster\<close>): a report is recorded once in the status of the profile of
  its kind, whatever conflicts the retry loop went through, and an errored pod is counted once.
\<close>

subsection \<open>The interface\<close>

locale report_cluster = kube_objects K view + kube_retry K + kube_metrics K counter
  for K :: "'w Kube" and view and counter +
  assumes view_inc: "view (CounterInc K ls w) = view w"

interpretation mem_report: report_cluster mem world_objects world_counters
  by unfold_locales (simp add: mem_def)

text \<open>The views before and after a report was recorded in the status of its profile.\<close>

definition recordedSysctl :: "StatusReport \<Rightarrow> Cluster \<Rightarrow> Cluster \<Rightarrow> bool" where
  "recordedSysctl r v v' \<longleftrightarrow>
     (\<exists>old t rv. cl_SysctlProfiles v (rep_Namespace r, rep_Profile r) = Some old
        \<and> v' = set_sysctl (rep_Namespace r, rep_Profile r)
             (Some (old\<lparr>sys_meta := (sys_meta old)\<lparr>ResourceVersion := rv\<rparr>,
                        sys_Status := sys_Status (recordSysctl r t old)\<rparr>)) v)"

definition recordedScript :: "StatusReport \<Rightarrow> Cluster \<Rightarrow> Cluster \<Rightarrow> bool" where
  "recordedScript r v v' \<longleftrightarrow>
     (\<exists>old t rv. cl_ScriptProfiles v (rep_Namespace r, rep_Profile r) = Some old
        \<and> v' = set_script (rep_Namespace r, rep_Profile r)
             (Some (old\<lparr>scr_meta := (scr_meta old)\<lparr>ResourceVersion := rv\<rparr>,
                        scr_Status := scr_Status (recordScript r t old)\<rparr>)) v)"

definition recorded :: "StatusReport \<Rightarrow> Cluster \<Rightarrow> Cluster \<Rightarrow> bool" where
  "recorded r = (if rep_Kind r = kindScriptProfile then recordedScript r else recordedSysctl r)"

lemma recordSysctl_meta [simp]: "sys_meta (recordSysctl r t p) = sys_meta p"
  by (simp add: recordSysctl_def recomputeCounts_def upsertNodeStatus_def Let_def split: prod.split option.split)

lemma recordScript_meta [simp]: "scr_meta (recordScript r t p) = scr_meta p"
  by (simp add: recordScript_def recomputeScriptCounts_def upsertScriptNodeStatus_def Let_def split: prod.split option.split)

text \<open>What recording leaves of the status.\<close>

lemma recordSysctl_keeps:
  "sys_ObservedHash (sys_Status (recordSysctl r t p)) = sys_ObservedHash (sys_Status p)"
  "sys_TeardownHash (sys_Status (recordSysctl r t p)) = sys_TeardownHash (sys_Status p)"
  "sys_DesiredNodes (sys_Status (recordSysctl r t p)) = sys_DesiredNodes (sys_Status p)"
  "sys_Conditions (sys_Status (recordSysctl r t p)) = sys_Conditions (sys_Status p)"
  "DriftedNodes (sys_Status (recordSysctl r t p)) = DriftedNodes (sys_Status p)"
  "LastRolloutTime (sys_Status (recordSysctl r t p)) = LastRolloutTime (sys_Status p)"
  by (simp_all add: recordSysctl_def recomputeCounts_def upsertNodeStatus_def Let_def split: prod.split option.split)

lemma recordScript_keeps:
  "scr_ObservedHash (scr_Status (recordScript r t p)) = scr_ObservedHash (scr_Status p)"
  "scr_TeardownHash (scr_Status (recordScript r t p)) = scr_TeardownHash (scr_Status p)"
  "scr_DesiredNodes (scr_Status (recordScript r t p)) = scr_DesiredNodes (scr_Status p)"
  "scr_Conditions (scr_Status (recordScript r t p)) = scr_Conditions (scr_Status p)"
  by (simp_all add: recordScript_def recomputeScriptCounts_def upsertScriptNodeStatus_def Let_def split: prod.split option.split)

subsection \<open>One attempt, and the retry loop\<close>

context report_cluster
begin

definition attempt :: "StatusReport \<Rightarrow> 'w \<Rightarrow> 'w result" where
  "attempt r = (if rep_Kind r = kindScriptProfile then scriptReportAttempt K r else sysctlReportAttempt K r)"

lemma applyReport_retry: "applyReport K r = RetryOnConflict K (attempt r)"
  by (simp add: fun_eq_iff applyReport_def applyScriptReport_def attempt_def)

lemma sysctlAttempt_effect:
  assumes "sysctlReportAttempt K r w = (e, w')"
  shows "e \<noteq> None \<and> view w' = view w \<or> recordedSysctl r (view w) (view w')"
proof (cases "GetSysctlProfile K (rep_Namespace r, rep_Profile r) w")
  case (Inr p)
  with assms have "StatusUpdateSysctlProfile K (recordSysctl r (Now K w) p) w = (e, w')"
    by (simp add: sysctlReportAttempt_def)
  from stat_sysctl [OF this] get_sysctl [OF Inr] get_sysctl_version [OF Inr] show ?thesis
    by (fastforce simp: recordedSysctl_def)
qed (use assms in \<open>auto simp: sysctlReportAttempt_def\<close>)

lemma scriptAttempt_effect:
  assumes "scriptReportAttempt K r w = (e, w')"
  shows "e \<noteq> None \<and> view w' = view w \<or> recordedScript r (view w) (view w')"
proof (cases "GetScriptProfile K (rep_Namespace r, rep_Profile r) w")
  case (Inr p)
  with assms have "StatusUpdateScriptProfile K (recordScript r (Now K w) p) w = (e, w')"
    by (simp add: scriptReportAttempt_def)
  from stat_script [OF this] get_script [OF Inr] get_script_version [OF Inr] show ?thesis
    by (fastforce simp: recordedScript_def)
qed (use assms in \<open>auto simp: scriptReportAttempt_def\<close>)

lemma attempt_effect:
  "attempt r w = (e, w') \<Longrightarrow> e \<noteq> None \<and> view w' = view w \<or> recorded r (view w) (view w')"
  using sysctlAttempt_effect scriptAttempt_effect by (auto simp: attempt_def recorded_def split: if_splits)

lemma attempt_conflict: "attempt r w = (Some (StatusErr ''Conflict'' msg), w') \<Longrightarrow> view w' = view w"
  by (auto simp: attempt_def sysctlReportAttempt_def scriptReportAttempt_def split: if_splits sum.splits
      dest: stat_sysctl_conflict stat_script_conflict)

lemma attempt_counter: "attempt r w = (e, w') \<Longrightarrow> counter w' = counter w"
  by (auto simp: attempt_def sysctlReportAttempt_def scriptReportAttempt_def split: if_splits sum.splits
      dest: counter_status_sysctl counter_status_script)

lemma applyReport_effect:
  assumes "applyReport K r w = (e, w')"
  shows "e \<noteq> None \<and> view w' = view w \<or> recorded r (view w) (view w')"
proof -
  have "\<exists>w0. view w0 = view w \<and> attempt r w0 = (e, w')"
    by (rule retry_last [of "\<lambda>w0. view w0 = view w"])
      (use assms attempt_conflict in \<open>simp_all add: applyReport_retry\<close>)
  with attempt_effect show ?thesis by metis
qed

lemma applyReport_counter:
  assumes "applyReport K r w = (e, w')"
  shows "counter w' = counter w"
  by (rule retry_invariant [of "\<lambda>w'. counter w' = counter w"])
    (use assms attempt_counter in \<open>simp_all add: applyReport_retry\<close>)

subsection \<open>The handler\<close>

lemma handleReport_cases:
  assumes "handleReport K method body w = (code, w')"
  obtains (rejected) "w' = w" and "code = 405 \<or> code = 400"
    | (failed) r e where "decodeReport body = Some r" "applyReport K r w = (Some e, w')"
        "code = (if IgnoreNotFound K e = None then 200 else 500)"
    | (accepted) r w1 where "decodeReport body = Some r" "applyReport K r w = (None, w1)" "code = 200"
        "w' = (if rep_Success r then w1 else IncErrored K (rep_Profile r) (rep_Namespace r) (rep_Node r) w1)"
  using assms by (auto simp: handleReport_def split: if_splits option.splits prod.splits)

lemma counter_IncErrored:
  "counter (IncErrored K p ns n w) = (counter w)([p, ns, n] := counter w [p, ns, n] + 1)"
  by (simp add: IncErrored_def counter_inc)

lemma view_IncErrored: "view (IncErrored K p ns n w) = view w"
  by (simp add: IncErrored_def view_inc)

lemma handleReport_effect:
  assumes "decodeReport body = Some r" and "handleReport K method body w = (code, w')"
  shows "(view w' = view w \<or> recorded r (view w) (view w'))
    \<and> (counter w' = counter w \<or>
       code = 200 \<and> \<not> rep_Success r \<and> recorded r (view w) (view w')
       \<and> counter w' = (counter w)([rep_Profile r, rep_Namespace r, rep_Node r] :=
            counter w [rep_Profile r, rep_Namespace r, rep_Node r] + 1))"
  using assms(2)
proof (cases rule: handleReport_cases)
  case (failed r' e)
  with assms(1) applyReport_effect [OF failed(2)] applyReport_counter [OF failed(2)] show ?thesis by auto
next
  case (accepted r' w1)
  with assms(1) applyReport_effect [OF accepted(2)] applyReport_counter [OF accepted(2)] show ?thesis
    by (auto simp: view_IncErrored counter_IncErrored)
qed simp

lemma handleReport_recorded:
  assumes "decodeReport body = Some r" and "rep_Profile r \<noteq> []" and "rep_Namespace r \<noteq> []" and "rep_Node r \<noteq> []"
    and "applyReport K r w = (None, w1)"
  shows "\<exists>w'. handleReport K ''POST'' body w = (200, w') \<and> recorded r (view w) (view w')
    \<and> counter w' = (if rep_Success r then counter w
        else (counter w)([rep_Profile r, rep_Namespace r, rep_Node r] :=
          counter w [rep_Profile r, rep_Namespace r, rep_Node r] + 1))"
  using assms applyReport_effect [OF assms(5)] applyReport_counter [OF assms(5)]
  by (auto simp: handleReport_def view_IncErrored counter_IncErrored)

end

subsection \<open>Properties\<close>

definition exReport :: "bool \<Rightarrow> string \<Rightarrow> StatusReport" where
  "exReport success kind =
     \<lparr>rep_Profile = ''tuning'', rep_Namespace = ''ops'', rep_Kind = kind, rep_Node = ''n1'', rep_Pod = ''p1'',
      rep_Hash = ''abc'', rep_Success = success, rep_Applied = [], rep_Failed = [], rep_Message = []\<rparr>"

text \<open>The report as a worker posts it, and its text.\<close>

definition exPosted :: "bool \<Rightarrow> string \<Rightarrow> string \<Rightarrow> Report" where
  "exPosted success kind node =
     \<lparr>wr_Profile = ''tuning'', wr_Namespace = ''ops'', wr_Kind = kind, wr_Node = node, wr_Pod = ''p1'',
      wr_Hash = ''abc'', wr_Success = success, wr_Applied = [], wr_Failed = [], wr_Message = []\<rparr>"

abbreviation exBody :: "bool \<Rightarrow> string \<Rightarrow> string" where
  "exBody success kind \<equiv> marshalReport (exPosted success kind ''n1'')"

lemma exDecode_any:
  assumes "kind \<in> {[], ''ScriptProfile''}" and "node \<in> {[], ''n1''}"
  shows "decodeReport (marshalReport (exPosted success kind node)) = Some ((exReport success kind)\<lparr>rep_Node := node\<rparr>)"
proof -
  have "list_all (\<lambda>(s, k, n). length (marshalReport (exPosted s k n)) \<le> 150)
      (List.product [True, False] (List.product [[], ''ScriptProfile''] [[], ''n1'']))"
    by code_simp
  with assms have "length (marshalReport (exPosted success kind node)) \<le> 150" by (cases success) auto
  then have "length (marshalReport (exPosted success kind node)) \<le> maxReportBytes" by (simp add: maxReportBytes_def)
  from decode_marshalReport [OF this] assms show ?thesis
    by (auto simp: received_def exPosted_def exReport_def)
qed

lemma exDecode [simp]:
  "decodeReport (exBody success []) = Some (exReport success [])"
  "decodeReport (exBody success ''ScriptProfile'') = Some (exReport success ''ScriptProfile'')"
  "decodeReport (marshalReport (exPosted success [] [])) = Some ((exReport success [])\<lparr>rep_Node := []\<rparr>)"
  by (simp_all add: exDecode_any) (simp_all add: exReport_def)

definition exConflicts :: World where
  "exConflicts = worldWith exProfile exScriptProfile [errConflict, errConflict]"

lemma exReport_sel [simp]:
  "rep_Profile (exReport s k) = ''tuning''" "rep_Namespace (exReport s k) = ''ops''" "rep_Node (exReport s k) = ''n1''"
  "rep_Kind (exReport s k) = k" "rep_Success (exReport s k) = s"
  by (simp_all add: exReport_def)

lemma exConflicts_sel [simp]:
  "world_counters exConflicts ls = 0" "cl_SysctlProfiles (world_objects exConflicts) exKey = Some exProfile"
  by (simp_all add: exConflicts_def worldWith_def)

lemma exApplyReport: "fst (applyReport mem (exReport False []) exConflicts) = None"
  by (simp add: applyReport_def kindScriptProfile_def sysctlReportAttempt_def exReport_def exConflicts_def
      errConflict_def mem_def memGetSysctl_def memStatusSysctl_def ex_defs numeral_eq_Suc)

text \<open>C5: A well-formed report whose recording succeeds (possibly after conflicts that the retry loop
  went through) is answered with 200, is recorded exactly once in the status of the profile it names,
  of the kind it names, and changes nothing else; the errored-pods counter of its profile and node
  goes up by one if the report says the pod failed, and stays as it is otherwise.\<close>

theorem handleReport_records_once:
  assumes "report_cluster K view counter" and "decodeReport body = Some r"
    and "rep_Profile r \<noteq> []" and "rep_Namespace r \<noteq> []" and "rep_Node r \<noteq> []"
    and "applyReport K r w = (None, w1)"
  shows "\<exists>w'. handleReport K ''POST'' body w = (200, w') \<and> recorded r (view w) (view w')
    \<and> counter w' = (if rep_Success r then counter w
        else (counter w)([rep_Profile r, rep_Namespace r, rep_Node r] :=
          counter w [rep_Profile r, rep_Namespace r, rep_Node r] + 1))"
  using report_cluster.handleReport_recorded [OF assms(1), of body r w w1] assms(2-) by blast

theorem handleReport_records_once_witness:
  "\<exists>w'. handleReport mem ''POST'' (exBody False []) exConflicts = (200, w')
    \<and> recordedSysctl (exReport False []) (world_objects exConflicts) (world_objects w')
    \<and> world_counters w' [''tuning'', ''ops'', ''n1''] = 1"
proof -
  have "applyReport mem (exReport False []) exConflicts = (None, snd (applyReport mem (exReport False []) exConflicts))"
    using exApplyReport by (metis prod.collapse)
  with handleReport_records_once [OF mem_report.report_cluster_axioms, of "exBody False []"
      "exReport False []" exConflicts "snd (applyReport mem (exReport False []) exConflicts)"]
  show ?thesis by (auto simp: recorded_def kindScriptProfile_def)
qed

text \<open>C37: Requests that are not a POST of a decodable report with a profile, a namespace and a node
  are refused, with 405 or 400, and change nothing; in particular bodies whose first \<open>1 << 20\<close> bytes do
  not hold a JSON value, and objects with a field that a report does not have.\<close>

theorem handleReport_refuses:
  "(method \<noteq> ''POST'' \<longrightarrow> handleReport K method body w = (405, w))
   \<and> (nextValue (take (2 ^ 20) body) = None \<longrightarrow> handleReport K ''POST'' body w = (400, w))
   \<and> (\<forall>ms k v. nextValue (take (2 ^ 20) body) = Some (JObj ms) \<and> (k, v) \<in> set ms \<and> fieldOf k = None \<longrightarrow>
        handleReport K ''POST'' body w = (400, w))
   \<and> (decodeReport body = None \<longrightarrow> handleReport K ''POST'' body w = (400, w))
   \<and> (\<forall>r. decodeReport body = Some r \<and> (rep_Profile r = [] \<or> rep_Namespace r = [] \<or> rep_Node r = []) \<longrightarrow>
        handleReport K ''POST'' body w = (400, w))"
  by (auto simp: handleReport_def decodeReport_def maxReportBytes_def storeMembers_unknown)

theorem handleReport_refuses_witness:
  "handleReport mem ''GET'' ''{}'' exWorld = (405, exWorld)
   \<and> handleReport mem ''POST'' ''{'' exWorld = (400, exWorld)
   \<and> handleReport mem ''POST'' (marshalReport (exPosted True [] [])) exWorld = (400, exWorld)"
proof -
  have "nextValue ''{'' = None" by code_simp
  then have "nextValue (take (2 ^ 20) ''{'') = None" by simp
  then show ?thesis
    using handleReport_refuses [of "''GET''" mem "''{}''" exWorld] handleReport_refuses [of "''GET''" mem "''{''" exWorld]
      handleReport_refuses [of "''GET''" mem "marshalReport (exPosted True [] [])" exWorld]
    by simp
qed

text \<open>C23: A request changes at most one object of the cluster, the profile its report names, of the kind
  it names (\<open>ScriptProfile\<close>, or a sysctl profile for every other value); and of that profile only the
  resource version and the part of the status that belongs to the report server: spec, other metadata
  (finalizers, deletion timestamp, owners), conditions, the hashes and the number of selected nodes stay as they were. So do
  all other profiles, of both kinds, the owned objects and the nodes.\<close>

theorem handleReport_routes_by_kind:
  assumes "report_cluster K view counter" and "handleReport K method body w = (code, w')"
  shows "view w' = view w
    \<or> (\<exists>r rv. decodeReport body = Some r \<and>
        (let k = (rep_Namespace r, rep_Profile r) in
         if rep_Kind r = ''ScriptProfile''
         then \<exists>old st. cl_ScriptProfiles (view w) k = Some old
            \<and> view w' = (view w)\<lparr>cl_ScriptProfiles := (cl_ScriptProfiles (view w))
                (k \<mapsto> old\<lparr>scr_meta := (scr_meta old)\<lparr>ResourceVersion := rv\<rparr>, scr_Status := st\<rparr>)\<rparr>
            \<and> scr_ObservedHash st = scr_ObservedHash (scr_Status old) \<and> scr_TeardownHash st = scr_TeardownHash (scr_Status old)
            \<and> scr_DesiredNodes st = scr_DesiredNodes (scr_Status old) \<and> scr_Conditions st = scr_Conditions (scr_Status old)
         else \<exists>old st. cl_SysctlProfiles (view w) k = Some old
            \<and> view w' = (view w)\<lparr>cl_SysctlProfiles := (cl_SysctlProfiles (view w))
                (k \<mapsto> old\<lparr>sys_meta := (sys_meta old)\<lparr>ResourceVersion := rv\<rparr>, sys_Status := st\<rparr>)\<rparr>
            \<and> sys_ObservedHash st = sys_ObservedHash (sys_Status old) \<and> sys_TeardownHash st = sys_TeardownHash (sys_Status old)
            \<and> sys_DesiredNodes st = sys_DesiredNodes (sys_Status old) \<and> sys_Conditions st = sys_Conditions (sys_Status old)
            \<and> DriftedNodes st = DriftedNodes (sys_Status old) \<and> LastRolloutTime st = LastRolloutTime (sys_Status old)))"
proof (cases "decodeReport body")
  case None
  with assms(2) have "w' = w" by (auto simp: handleReport_def split: if_splits)
  then show ?thesis by simp
next
  case (Some r)
  from report_cluster.handleReport_effect [OF assms(1) Some assms(2)]
  have "view w' = view w \<or> recorded r (view w) (view w')" by blast
  then show ?thesis
  proof
    assume rec: "recorded r (view w) (view w')"
    show ?thesis
    proof (cases "rep_Kind r = ''ScriptProfile''")
      case True
      with rec obtain old t rv where "cl_ScriptProfiles (view w) (rep_Namespace r, rep_Profile r) = Some old"
        "view w' = set_script (rep_Namespace r, rep_Profile r)
          (Some (old\<lparr>scr_meta := (scr_meta old)\<lparr>ResourceVersion := rv\<rparr>, scr_Status := scr_Status (recordScript r t old)\<rparr>)) (view w)"
        by (auto simp: recorded_def recordedScript_def kindScriptProfile_def)
      with Some True show ?thesis
        by (intro disjI2 exI [of _ r] exI [of _ rv])
          (simp add: set_script_def recordScript_keeps exI [of _ "scr_Status (recordScript r t old)"])
    next
      case False
      with rec obtain old t rv where "cl_SysctlProfiles (view w) (rep_Namespace r, rep_Profile r) = Some old"
        "view w' = set_sysctl (rep_Namespace r, rep_Profile r)
          (Some (old\<lparr>sys_meta := (sys_meta old)\<lparr>ResourceVersion := rv\<rparr>, sys_Status := sys_Status (recordSysctl r t old)\<rparr>)) (view w)"
        by (auto simp: recorded_def recordedSysctl_def kindScriptProfile_def)
      with Some False show ?thesis
        by (intro disjI2 exI [of _ r] exI [of _ rv])
          (simp add: set_sysctl_def recordSysctl_keeps exI [of _ "sys_Status (recordSysctl r t old)"])
    qed
  qed simp
qed

theorem handleReport_routes_by_kind_witness:
  "cl_SysctlProfiles (world_objects
     (snd (handleReport mem ''POST'' (exBody True ''ScriptProfile'') exConflicts))) exKey = Some exProfile"
  using handleReport_routes_by_kind [OF mem_report.report_cluster_axioms prod.collapse [symmetric],
      of "''POST''" "exBody True ''ScriptProfile''" exConflicts]
  using exConflicts_sel(2) by (auto simp: exKey_def Let_def)

end
