(* ===== verification/Report_Endpoint.thy ===== *)
theory Report_Endpoint
  imports Report_Service
begin

text \<open>
  \<open>ReportServer.Start\<close> of \<open>internal/server/server.go\<close>: the routes of the HTTP server, and how serving,
  cancellation and shutdown interleave. \<open>Start\<close> runs \<open>ListenAndServe\<close>, and a goroutine that waits for
  the cancellation and then calls \<open>Shutdown\<close> with a time limit.
\<close>

subsection \<open>Routes\<close>

record ReportServer =
  Addr :: string

definition NeedLeaderElection :: "ReportServer \<Rightarrow> bool" where
  "NeedLeaderElection s = False"

definition healthzPath :: string where
  "healthzPath = ''/healthz''"

definition reportsPath :: string where
  "reportsPath = ''/api/v1/reports''"

text \<open>The path that \<open>net/http\<close> redirects to: absolute and clean, with the trailing slash kept.\<close>

definition cleanPath :: "string \<Rightarrow> string" where
  "cleanPath p0 =
     (let p = (if take 1 p0 = ''/'' then p0 else CHR ''/'' # p0); np = Clean p in
      if HasSuffix p ''/'' \<and> np \<noteq> ''/'' then np @ ''/'' else np)"

datatype Route = HealthzRoute | ReportsRoute | NotFoundRoute | RedirectRoute | BadRequestRoute

text \<open>
  The multiplexer for the two patterns, which have neither a method nor a host nor a trailing slash.
  \<open>path\<close> is the decoded path of the request (\<open>*\<close> for a request without one).
\<close>

definition route :: "string \<Rightarrow> string \<Rightarrow> Route" where
  "route method path =
     (if path = ''*'' then BadRequestRoute
      else if method \<noteq> ''CONNECT'' \<and> cleanPath path \<noteq> path then RedirectRoute
      else if path = healthzPath then HealthzRoute
      else if path = reportsPath then ReportsRoute
      else NotFoundRoute)"

datatype Reply = Redirected | Replied nat

definition serve :: "'w Kube \<Rightarrow> string \<Rightarrow> string \<Rightarrow> string \<Rightarrow> 'w \<Rightarrow> Reply \<times> 'w" where
  "serve K method path body w =
     (case route method path of
        HealthzRoute \<Rightarrow> (Replied 200, w)
      | ReportsRoute \<Rightarrow> (case handleReport K method body w of (status, w') \<Rightarrow> (Replied status, w'))
      | NotFoundRoute \<Rightarrow> (Replied 404, w)
      | RedirectRoute \<Rightarrow> (Redirected, w)
      | BadRequestRoute \<Rightarrow> (Replied 400, w))"

lemma clean_paths: "cleanPath reportsPath = reportsPath" "cleanPath healthzPath = healthzPath"
  by code_simp+

lemma serve_reports: "serve K method reportsPath body w = apfst Replied (handleReport K method body w)"
proof -
  have "route method reportsPath = ReportsRoute"
    by (simp add: route_def clean_paths) (simp add: reportsPath_def healthzPath_def)
  then show ?thesis by (simp add: serve_def split: prod.split)
qed

lemma serve_elsewhere:
  assumes "path \<noteq> reportsPath"
  shows "snd (serve K method path body w) = w"
proof -
  have "route method path \<noteq> ReportsRoute" using assms by (simp add: route_def)
  then show ?thesis by (simp add: serve_def split: Route.split)
qed

subsection \<open>Serving and shutting down\<close>

definition ErrServerClosed :: Err where
  "ErrServerClosed = OtherErr ''http: Server closed''"

fun ErrorsIs :: "Err \<Rightarrow> Err \<Rightarrow> bool" where
  "ErrorsIs (Errorf msg err) target = (Errorf msg err = target \<or> ErrorsIs err target)"
| "ErrorsIs err target = (err = target)"

text \<open>What \<open>Start\<close> returns when \<open>ListenAndServe\<close> returned \<open>err\<close>.\<close>

definition startResult :: "Err option \<Rightarrow> Err option" where
  "startResult r =
     (case r of None \<Rightarrow> None | Some err \<Rightarrow> if \<not> ErrorsIs err ErrServerClosed then Some err else None)"

datatype ShutdownPhase = AwaitsCancel | ShuttingDown | ShutdownDone "Err option"
datatype StartPhase = Serving | Returned "Err option"

record Endpoint =
  ep_Cancelled :: bool
  ep_Accepting :: bool
  ep_InFlight :: nat
  ep_Shutdown :: ShutdownPhase
  ep_Start :: StartPhase

definition startEndpoint :: Endpoint where
  "startEndpoint =
     \<lparr>ep_Cancelled = False, ep_Accepting = True, ep_InFlight = 0, ep_Shutdown = AwaitsCancel, ep_Start = Serving\<rparr>"

definition deadlineExceeded :: Err where
  "deadlineExceeded = OtherErr ''context deadline exceeded''"

text \<open>
  The steps: a request arrives or is answered; the manager cancels the context; the goroutine calls
  \<open>Shutdown\<close>, which closes the listener at once and returns when no request is in flight or its ten
  seconds are over; \<open>ListenAndServe\<close> returns \<open>ErrServerClosed\<close> as soon as the shutdown has begun, or
  another error while it has not.
\<close>

inductive endpoint_step :: "Endpoint \<Rightarrow> Endpoint \<Rightarrow> bool" where
  accepts: "ep_Accepting s \<Longrightarrow> endpoint_step s (s\<lparr>ep_InFlight := Suc (ep_InFlight s)\<rparr>)"
| answers: "ep_InFlight s = Suc n \<Longrightarrow> endpoint_step s (s\<lparr>ep_InFlight := n\<rparr>)"
| cancels: "endpoint_step s (s\<lparr>ep_Cancelled := True\<rparr>)"
| shuts_down: "ep_Cancelled s \<Longrightarrow> ep_Shutdown s = AwaitsCancel \<Longrightarrow>
     endpoint_step s (s\<lparr>ep_Shutdown := ShuttingDown, ep_Accepting := False\<rparr>)"
| drained: "ep_Shutdown s = ShuttingDown \<Longrightarrow> ep_InFlight s = 0 \<Longrightarrow> endpoint_step s (s\<lparr>ep_Shutdown := ShutdownDone None\<rparr>)"
| times_out: "ep_Shutdown s = ShuttingDown \<Longrightarrow> endpoint_step s (s\<lparr>ep_Shutdown := ShutdownDone (Some deadlineExceeded)\<rparr>)"
| closed: "ep_Start s = Serving \<Longrightarrow> ep_Shutdown s \<noteq> AwaitsCancel \<Longrightarrow>
     endpoint_step s (s\<lparr>ep_Start := Returned (startResult (Some ErrServerClosed))\<rparr>)"
| fails: "ep_Start s = Serving \<Longrightarrow> ep_Shutdown s = AwaitsCancel \<Longrightarrow> \<not> ErrorsIs err ErrServerClosed \<Longrightarrow>
     endpoint_step s (s\<lparr>ep_Start := Returned (startResult (Some err)), ep_Accepting := False\<rparr>)"

abbreviation endpoint_reaches :: "Endpoint \<Rightarrow> Endpoint \<Rightarrow> bool" where
  "endpoint_reaches \<equiv> rtranclp endpoint_step"

text \<open>The invariant: a shutdown was asked for, stops the listener, and is what ends \<open>Start\<close> without an error.\<close>

definition endpoint_inv :: "Endpoint \<Rightarrow> bool" where
  "endpoint_inv s \<longleftrightarrow>
     (ep_Shutdown s \<noteq> AwaitsCancel \<longrightarrow> ep_Cancelled s \<and> \<not> ep_Accepting s)
     \<and> (ep_Shutdown s = ShutdownDone None \<longrightarrow> ep_InFlight s = 0)
     \<and> (ep_Start s = Returned None \<longrightarrow> ep_Shutdown s \<noteq> AwaitsCancel)
     \<and> (\<forall>err. ep_Start s = Returned (Some err) \<longrightarrow> \<not> ep_Accepting s \<and> \<not> ErrorsIs err ErrServerClosed)"

lemma startResult_closed [simp]: "startResult (Some ErrServerClosed) = None"
  by (simp add: startResult_def ErrServerClosed_def)

lemma startResult_failed: "\<not> ErrorsIs err ErrServerClosed \<Longrightarrow> startResult (Some err) = Some err"
  by (simp add: startResult_def)

lemma endpoint_step_inv: "endpoint_step s s' \<Longrightarrow> endpoint_inv s \<Longrightarrow> endpoint_inv s'"
  by (induction rule: endpoint_step.induct) (auto simp: endpoint_inv_def startResult_failed)

lemma endpoint_reaches_inv: "endpoint_reaches startEndpoint s \<Longrightarrow> endpoint_inv s"
proof (induction rule: rtranclp_induct)
  case base
  show ?case by (simp add: endpoint_inv_def startEndpoint_def)
qed (rule endpoint_step_inv)

lemma endpoint_shuts_down:
  assumes "ep_Cancelled s"
  shows "\<exists>s'. endpoint_reaches s s' \<and> ep_Shutdown s' \<noteq> AwaitsCancel"
proof (cases "ep_Shutdown s = AwaitsCancel")
  case True
  from shuts_down [OF assms True] show ?thesis
    by (intro exI [of _ "s\<lparr>ep_Shutdown := ShuttingDown, ep_Accepting := False\<rparr>"]) auto
qed auto

lemma endpoint_returns:
  assumes "ep_Cancelled s"
  shows "\<exists>s' r. endpoint_reaches s s' \<and> ep_Start s' = Returned r"
proof -
  from endpoint_shuts_down [OF assms] obtain s1 where s1: "endpoint_reaches s s1" "ep_Shutdown s1 \<noteq> AwaitsCancel" by blast
  show ?thesis
  proof (cases "ep_Start s1")
    case Serving
    from closed [OF this s1(2)] s1(1) have "endpoint_reaches s (s1\<lparr>ep_Start := Returned None\<rparr>)"
      by (simp add: rtranclp.rtrancl_into_rtrancl)
    then show ?thesis by (intro exI [of _ "s1\<lparr>ep_Start := Returned None\<rparr>"] exI [of _ None]) simp
  next
    case (Returned r)
    with s1(1) show ?thesis by blast
  qed
qed

subsection \<open>Properties\<close>

text \<open>C39: The API routes requests by their path: those for \<open>/api/v1/reports\<close>, which is where the report
  URLs of both kinds of worker pods lead, on the port that the manager's default address has, go to
  the report handler; \<open>/healthz\<close> answers 200 to every method; and no request for another path
  changes anything.\<close>

theorem serve_routes:
  "serve K method ''/api/v1/reports'' body w = apfst Replied (handleReport K method body w)
   \<and> serve K method ''/healthz'' body w = (Replied 200, w)
   \<and> (path \<noteq> ''/api/v1/reports'' \<longrightarrow> snd (serve K method path body w) = w)
   \<and> (\<exists>host. reportURL = ''http://'' @ host @ '':9090'' @ reportsPath)
   \<and> (\<exists>host. scriptReportURL = ''http://'' @ host @ '':9090'' @ reportsPath)"
proof -
  have "serve K method healthzPath body w = (Replied 200, w)"
    by (simp add: serve_def route_def clean_paths) (simp add: healthzPath_def)
  moreover have "\<exists>host. reportURL = ''http://'' @ host @ '':9090'' @ reportsPath"
    by (rule exI [of _ "''sysctl-operator-report.sysctl-operator-system''"]) (simp add: reportURL_def reportsPath_def)
  moreover have "\<exists>host. scriptReportURL = ''http://'' @ host @ '':9090'' @ reportsPath"
    by (rule exI [of _ "''sysctl-operator-report.sysctl-operator-system''"]) (simp add: scriptReportURL_def reportsPath_def)
  ultimately show ?thesis
    using serve_reports [of K "method" "body" w] serve_elsewhere [of path K "method" "body" w]
    by (simp add: reportsPath_def healthzPath_def)
qed

theorem serve_routes_witness:
  "serve mem ''POST'' ''/healthz'' [] exWorld = (Replied 200, exWorld)
   \<and> snd (serve mem ''POST'' ''/api/v1/reports/'' (exBody True []) exWorld) = exWorld"
  using serve_routes [of mem "''POST''" "[]" exWorld "''/healthz''"]
    serve_routes [of mem "''POST''" "exBody True []" exWorld "''/api/v1/reports/''"] by simp

text \<open>C24: In every interleaving of requests, cancellation and shutdown, \<open>Start\<close> returns without an error
  only after the context was cancelled and the server stopped to accept requests, and with an error
  only for one that is not the regular end of the server; a shutdown that reports no error left no
  request unanswered; and from every state in which the context is cancelled \<open>Start\<close> can come to
  its end.\<close>

theorem Start_ends_by_shutdown:
  assumes "endpoint_reaches startEndpoint s"
  shows "(ep_Start s = Returned None \<longrightarrow> ep_Cancelled s \<and> \<not> ep_Accepting s)
    \<and> (\<forall>err. ep_Start s = Returned (Some err) \<longrightarrow> \<not> ErrorsIs err ErrServerClosed)
    \<and> (ep_Shutdown s = ShutdownDone None \<longrightarrow> ep_InFlight s = 0 \<and> \<not> ep_Accepting s)
    \<and> (ep_Cancelled s \<longrightarrow> (\<exists>s' r. endpoint_reaches s s' \<and> ep_Start s' = Returned r))"
  using endpoint_reaches_inv [OF assms] endpoint_returns by (auto simp: endpoint_inv_def)

text \<open>A request is in flight when the context is cancelled; the shutdown begins, and \<open>Start\<close> returns.\<close>

definition exCut :: Endpoint where
  "exCut = \<lparr>ep_Cancelled = True, ep_Accepting = False, ep_InFlight = 1, ep_Shutdown = ShuttingDown, ep_Start = Returned None\<rparr>"

lemma exCut_reached: "endpoint_reaches startEndpoint exCut"
proof -
  let ?s1 = "startEndpoint\<lparr>ep_InFlight := Suc (ep_InFlight startEndpoint)\<rparr>"
  let ?s2 = "?s1\<lparr>ep_Cancelled := True\<rparr>"
  let ?s3 = "?s2\<lparr>ep_Shutdown := ShuttingDown, ep_Accepting := False\<rparr>"
  have "endpoint_step startEndpoint ?s1" by (rule accepts) (simp add: startEndpoint_def)
  moreover have "endpoint_step ?s1 ?s2" by (rule cancels)
  moreover have "endpoint_step ?s2 ?s3" by (rule shuts_down) (simp_all add: startEndpoint_def)
  moreover have "endpoint_step ?s3 (?s3\<lparr>ep_Start := Returned (startResult (Some ErrServerClosed))\<rparr>)"
    by (rule closed) (simp_all add: startEndpoint_def)
  moreover have "?s3\<lparr>ep_Start := Returned (startResult (Some ErrServerClosed))\<rparr> = exCut"
    by (simp add: exCut_def startEndpoint_def)
  ultimately show ?thesis by (metis converse_rtranclp_into_rtranclp rtranclp.rtrancl_refl)
qed

theorem Start_ends_by_shutdown_witness: "ep_Cancelled exCut \<and> \<not> ep_Accepting exCut"
  using Start_ends_by_shutdown [OF exCut_reached] by (simp add: exCut_def)

text \<open>\<open>Start\<close> does not wait for the graceful shutdown: it can return while the shutdown is still
  waiting for a request that is in flight, which is cut off when the manager's process then ends.\<close>

theorem Start_returns_before_drained:
  "\<exists>s. endpoint_reaches startEndpoint s \<and> ep_Start s = Returned None \<and> ep_Shutdown s = ShuttingDown \<and> ep_InFlight s > 0"
  using exCut_reached by (intro exI [of _ exCut]) (simp add: exCut_def)

end
