(* ===== verification/Sysctl_Reconcile.thy ===== *)
theory Sysctl_Reconcile
  imports Reconcile_Flow Example_Cluster
begin

text \<open>
  What a pass of the sysctl controller does to the cluster, from the contract of the Kubernetes
  packages (\<open>kube\<close>): which objects it may touch at all, what a successful pass establishes, that a
  deletion drops the finalizer only after the cleanup, that no status write loses a worker's report,
  and that a second pass writes nothing.
\<close>

subsection \<open>Specification\<close>

text \<open>The nodes a selector targets, in the order of the view.\<close>

definition targets :: "'w Kube \<Rightarrow> LabelSelector \<Rightarrow> Cluster \<Rightarrow> string list" where
  "targets K s v =
     (case LabelSelectorAsSelector K s of
        Inl _ \<Rightarrow> []
      | Inr f \<Rightarrow> map node_Name (filter (\<lambda>n. f (node_Labels n)) (cl_Nodes v)))"

definition owned_by :: "string \<Rightarrow> ObjectMeta \<Rightarrow> ObjectMeta \<Rightarrow> bool" where
  "owned_by kind owner m \<longleftrightarrow>
     (\<exists>ref\<in>set (OwnerReferences m). or_Kind ref = kind \<and> or_Name ref = Name owner \<and> or_UID ref = UID owner \<and> or_Controller ref)"

text \<open>The DaemonSet that applies the profile at a hash, and the CronJob that checks it.\<close>

definition applierFor :: "string \<Rightarrow> SysctlProfile \<Rightarrow> string \<Rightarrow> DaemonSet \<Rightarrow> bool" where
  "applierFor img p hash d \<longleftrightarrow>
     owned_by ''SysctlProfile'' (sys_meta p) (ds_meta d)
     \<and> Option.bind (Annotations (ds_Template d)) (\<lambda>a. fmlookup a configHashAnn) = Some hash
     \<and> pod_NodeSelector (tmpl_Spec (ds_Template d)) = MatchLabels (sys_NodeSelector (sys_Spec p))
     \<and> Volumes (tmpl_Spec (ds_Template d)) = workerVolumes (resourceName p)
     \<and> map Env (Containers (tmpl_Spec (ds_Template d))) = [workerEnv p hash]
     \<and> map Image (Containers (tmpl_Spec (ds_Template d))) = [workerImage img]"

definition checkerFor :: "string \<Rightarrow> SysctlProfile \<Rightarrow> string \<Rightarrow> CronJob \<Rightarrow> bool" where
  "checkerFor img p hash j \<longleftrightarrow>
     owned_by ''SysctlProfile'' (sys_meta p) (cj_meta j)
     \<and> cj_Schedule j = DriftCheck (Schedule (sys_Spec p)) \<and> ConcurrencyPolicy j = ''Forbid''
     \<and> Volumes (tmpl_Spec (cj_Template j)) = workerVolumes (cronJobName p)
     \<and> map Env (Containers (tmpl_Spec (cj_Template j))) = [workerEnv p hash]
     \<and> map Image (Containers (tmpl_Spec (cj_Template j))) = [workerImage img]"

abbreviation desiredHash :: "SysctlProfile \<Rightarrow> string" where
  "desiredHash p \<equiv> hashContent (renderSysctlConf p)"

abbreviation targetsOf :: "'w Kube \<Rightarrow> SysctlProfile \<Rightarrow> Cluster \<Rightarrow> string list" where
  "targetsOf K p v \<equiv> targets K (sys_NodeSelector (sys_Spec p)) v"

text \<open>The part of the status that belongs to the report server.\<close>

definition reported :: "SysctlProfileStatus \<Rightarrow> NodeStatus list \<times> int32 \<times> int32 \<times> int32" where
  "reported st = (sys_NodeStatuses st, sys_AppliedNodes st, sys_FailedNodes st, ErroredPods st)"

text \<open>
  The effect of a status write of the controller: none, or the stored profile gets a new version and
  a new status, with the part of the report server as it was.
\<close>

definition status_written :: "SysctlProfile \<Rightarrow> Cluster \<Rightarrow> Cluster \<Rightarrow> bool" where
  "status_written p v v' \<longleftrightarrow>
     (\<exists>old rv st. cl_SysctlProfiles v (key_of (sys_meta p)) = Some old
        \<and> ResourceVersion (sys_meta old) = ResourceVersion (sys_meta p)
        \<and> reported st = reported (sys_Status p)
        \<and> (distinct_types (sys_Conditions (sys_Status p)) \<longrightarrow> distinct_types (sys_Conditions st))
        \<and> v' = set_sysctl (key_of (sys_meta p))
             (Some (old\<lparr>sys_meta := (sys_meta old)\<lparr>ResourceVersion := rv\<rparr>, sys_Status := st\<rparr>)) v)"

text \<open>
  The effect of any pass, whatever its result: the owned objects of the profile change, and the
  stored profile is left alone, or gone because it is being deleted, or has the spec and the reports
  it had, and one condition of a type if it had.
\<close>

definition pass_effect :: "SysctlProfile \<Rightarrow> Cluster \<Rightarrow> Cluster \<Rightarrow> bool" where
  "pass_effect p v v' \<longleftrightarrow>
     (\<exists>u. same_unowned p v u \<and>
        (v' = u \<or>
         (\<exists>old new. cl_SysctlProfiles v (key_of (sys_meta p)) = Some old \<and> v' = set_sysctl (key_of (sys_meta p)) new u
            \<and> (case new of
                 None \<Rightarrow> DeletionTimestamp (sys_meta old) \<noteq> 0
               | Some q \<Rightarrow> sys_Spec q = sys_Spec old \<and> reported (sys_Status q) = reported (sys_Status old)
                   \<and> (distinct_types (sys_Conditions (sys_Status old)) \<longrightarrow> distinct_types (sys_Conditions (sys_Status q)))))))"

text \<open>The status a successful pass ends with.\<close>

definition readyReason :: "SysctlProfile \<Rightarrow> bool \<Rightarrow> Condition" where
  "readyReason p fin =
     (if fin then readyCondition ''RolloutComplete'' ''all selected nodes applied; applier DaemonSet torn down''
                     (Generation (sys_meta p))
      else readyCondition ''RollingOut'' ''applier DaemonSet active'' (Generation (sys_meta p)))"

definition rolledOut :: "'w Kube \<Rightarrow> SysctlProfile \<Rightarrow> bool \<Rightarrow> string \<Rightarrow> Time \<Rightarrow> SysctlProfileStatus" where
  "rolledOut K p fin hash t =
     (sys_Status p)\<lparr>sys_TeardownHash := (if fin then hash else sys_TeardownHash (sys_Status p)),
       sys_Conditions := SetStatusCondition K t (sys_Conditions (sys_Status p)) (readyReason p fin)\<rparr>"

definition finalStatus ::
  "'w Kube \<Rightarrow> SysctlProfile \<Rightarrow> bool \<Rightarrow> string list \<Rightarrow> string \<Rightarrow> Time \<Rightarrow> SysctlProfileStatus" where
  "finalStatus K p fin sel hash t =
     (rolledOut K p fin hash t)\<lparr>sys_ObservedHash := hash, sys_DesiredNodes := of_nat (length sel)\<rparr>"

text \<open>The profile as a successful pass leaves it, with the version \<open>rv\<close> and the time \<open>t\<close> of the pass.\<close>

definition settled :: "'w Kube \<Rightarrow> SysctlProfile \<Rightarrow> Cluster \<Rightarrow> nat \<Rightarrow> Time \<Rightarrow> SysctlProfile" where
  "settled K p v rv t =
     p\<lparr>sys_meta := (sys_meta p)\<lparr>ResourceVersion := rv\<rparr>,
       sys_Status := finalStatus K p (allNodesApplied p (targetsOf K p v) (desiredHash p))
         (targetsOf K p v) (desiredHash p) t\<rparr>"

abbreviation writeFinal :: "'w Kube \<Rightarrow> SysctlProfile \<Rightarrow> Cluster \<Rightarrow> Time \<Rightarrow> 'w \<Rightarrow> 'w result" where
  "writeFinal K p v t \<equiv>
     writeStatus K p (rolledOut K p (allNodesApplied p (targetsOf K p v) (desiredHash p)) (desiredHash p) t)
       (targetsOf K p v) (desiredHash p)"

lemma reported_rolledOut [simp]: "reported (rolledOut K p b h t) = reported (sys_Status p)"
  by (simp add: reported_def rolledOut_def)

lemma stamped_owned: "stamped m m' \<Longrightarrow> owned_by kind owner m' = owned_by kind owner m"
  by (auto simp: stamped_def owned_by_def)

lemma same_except_targets: "same_except c d j v v' \<Longrightarrow> targets K s v' = targets K s v"
  unfolding same_except_def targets_def by presburger

lemma targets_cong: "cl_Nodes v' = cl_Nodes v \<Longrightarrow> targets K s v' = targets K s v"
  by (simp only: targets_def)

lemma targets_set [simp]:
  "targets K s (set_cm k x v) = targets K s v" "targets K s (set_ds k y v) = targets K s v"
  "targets K s (set_cj k z v) = targets K s v" "targets K s (set_sysctl k q v) = targets K s v"
  "targets K s (set_script k r v) = targets K s v"
  by (simp_all add: targets_def split: sum.split)

lemma allNodesApplied_cong:
  "sys_NodeStatuses (sys_Status p) = sys_NodeStatuses (sys_Status q) \<Longrightarrow> allNodesApplied p sel h = allNodesApplied q sel h"
  by (simp add: allNodesApplied_def)

subsection \<open>The steps of a pass\<close>

context kube
begin

lemma controller_reference_owned:
  assumes "SetControllerReference K kind owner m = Inr m'"
  shows "owned_by kind owner m'"
  using controller_reference [OF assms] by (auto simp: owned_by_def)

lemma mutateConfigMap_ok:
  "mutateConfigMap K p content labels c = Inr x \<Longrightarrow>
     owned_by ''SysctlProfile'' (sys_meta p) (cm_meta x) \<and> cm_Data x = Some (fmap_of_list [(configFileName, content)])"
  by (auto simp: mutateConfigMap_def Let_def split: sum.splits dest: controller_reference_owned)

lemma mutateDaemonSet_ok:
  "mutateDaemonSet K img p (resourceName p) hash labels d = Inr x \<Longrightarrow> applierFor img p hash x"
  by (auto simp: mutateDaemonSet_def applierFor_def Let_def split: sum.splits dest: controller_reference_owned)

lemma mutateCronJob_ok:
  "mutateCronJob K img p hash labels d = Inr x \<Longrightarrow> checkerFor img p hash x"
  by (auto simp: mutateCronJob_def checkerFor_def Let_def split: sum.splits dest: controller_reference_owned)

lemma applierFor_stamped:
  "stamped (ds_meta x) m \<Longrightarrow> applierFor img p hash (x\<lparr>ds_meta := m\<rparr>) = applierFor img p hash x"
  by (simp add: applierFor_def stamped_owned)

lemma checkerFor_stamped:
  "stamped (cj_meta x) m \<Longrightarrow> checkerFor img p hash (x\<lparr>cj_meta := m\<rparr>) = checkerFor img p hash x"
  by (simp add: checkerFor_def stamped_owned)

lemma ensureDaemonSet_ok:
  assumes "ensureDaemonSet K img p (resourceName p) hash labels w = (None, w')"
  shows "\<exists>d. applierFor img p hash d \<and> view w' = set_ds (configKey p) (Some d) (view w)"
proof -
  from cou_ds [OF assms [unfolded ensureDaemonSet_def]] obtain d0 x m where
    "mutateDaemonSet K img p (resourceName p) hash labels d0 = Inr x" "stamped (ds_meta x) m"
    "view w' = set_ds (configKey p) (Some (x\<lparr>ds_meta := m\<rparr>)) (view w)" by (auto simp: configKey_def)
  with mutateDaemonSet_ok applierFor_stamped show ?thesis by blast
qed

lemma deleteDaemonSet_ok:
  "deleteDaemonSet K p w = (None, w') \<Longrightarrow> view w' = set_ds (configKey p) None (view w)"
  unfolding deleteDaemonSet_def by (drule del_ds) (simp add: configKey_def)

lemma ensureCronJob_ok:
  assumes "ensureCronJob K img p hash labels w = (None, w')"
  shows "\<exists>j. checkerFor img p hash j \<and> view w' = set_cj (jobKey p) (Some j) (view w)"
proof -
  from cou_cj [OF assms [unfolded ensureCronJob_def]] obtain j0 x m where
    "mutateCronJob K img p hash labels j0 = Inr x" "stamped (cj_meta x) m"
    "view w' = set_cj (jobKey p) (Some (x\<lparr>cj_meta := m\<rparr>)) (view w)" by (auto simp: jobKey_def)
  with mutateCronJob_ok checkerFor_stamped show ?thesis by blast
qed

lemma ensureNoCronJob_ok:
  "ensureNoCronJob K p w = (None, w') \<Longrightarrow> view w' = set_cj (jobKey p) None (view w)"
  unfolding ensureNoCronJob_def by (drule del_cj) (simp add: jobKey_def)

lemma configMap_ok:
  assumes "CreateOrUpdateConfigMap K (newConfigMap (resourceName p) (Namespace (sys_meta p)))
      (mutateConfigMap K p content labels) w = (None, w')"
  shows "\<exists>c. owned_by ''SysctlProfile'' (sys_meta p) (cm_meta c) \<and> cm_Data c = Some (fmap_of_list [(configFileName, content)])
    \<and> view w' = set_cm (configKey p) (Some c) (view w)"
proof -
  from cou_cm [OF assms] obtain c0 x m where
    "mutateConfigMap K p content labels c0 = Inr x" "stamped (cm_meta x) m"
    "view w' = set_cm (configKey p) (Some (x\<lparr>cm_meta := m\<rparr>)) (view w)" by (auto simp: configKey_def)
  with mutateConfigMap_ok [OF this(1)] stamped_owned [OF this(2)] show ?thesis
    by (intro exI [of _ "x\<lparr>cm_meta := m\<rparr>"]) simp
qed

lemma selectedNodeNames_ok:
  "selectedNodeNames K p w = Inr sel \<Longrightarrow> sel = targetsOf K p (view w)"
  by (auto simp: selectedNodeNames_def targets_def split: sum.splits dest: list_nodes)

subsection \<open>Any pass\<close>

lemma ensureDaemonSet_any:
  "ensureDaemonSet K img p (resourceName p) hash labels w = (r, w') \<Longrightarrow> same_unowned p (view w) (view w')"
  unfolding ensureDaemonSet_def by (drule cou_ds_any) (auto simp: configKey_def)

lemma deleteDaemonSet_any: "deleteDaemonSet K p w = (r, w') \<Longrightarrow> same_unowned p (view w) (view w')"
  unfolding deleteDaemonSet_def ignoreNotFound_def
  by (auto split: prod.splits option.splits dest!: del_ds_any simp: configKey_def)

lemma cronJob_any:
  "(if DriftCheck (Schedule (sys_Spec p)) \<noteq> [] then ensureCronJob K img p hash labels w else ensureNoCronJob K p w) = (r, w') \<Longrightarrow>
     same_unowned p (view w) (view w')"
  unfolding ensureNoCronJob_def ignoreNotFound_def ensureCronJob_def
  by (auto split: prod.splits option.splits if_splits dest!: del_cj_any cou_cj_any simp: jobKey_def)

lemma configMap_any:
  "CreateOrUpdateConfigMap K (newConfigMap (resourceName p) (Namespace (sys_meta p))) f w = (r, w') \<Longrightarrow>
     same_unowned p (view w) (view w')"
  by (drule cou_cm_any) (auto simp: configKey_def)

lemma rollOut_any:
  "rollOut K img p sel hash w = (r, w') \<Longrightarrow>
     same_unowned p (view w) (view w')
     \<and> (\<forall>st. r = Inr st \<longrightarrow> (\<exists>t. st = rolledOut K p (allNodesApplied p sel hash) hash t))"
  by (auto simp: rollOut_def Let_def rolledOut_def readyReason_def split: if_splits prod.splits option.splits
      dest: ensureDaemonSet_any deleteDaemonSet_any)

lemma types_rolledOut:
  "distinct_types (sys_Conditions (sys_Status p)) \<Longrightarrow> distinct_types (sys_Conditions (rolledOut K p fin hash t))"
  by (simp add: rolledOut_def condition_types)

lemma writeStatus_any:
  assumes "writeStatus K p st sel hash w = (r, w')" and "reported st = reported (sys_Status p)"
    and "distinct_types (sys_Conditions (sys_Status p)) \<Longrightarrow> distinct_types (sys_Conditions st)"
  shows "view w' = view w \<or> status_written p (view w) (view w')"
proof (cases "StatusUpdateSysctlProfile K (p\<lparr>sys_Status := st\<lparr>sys_ObservedHash := hash, sys_DesiredNodes := of_nat (length sel)\<rparr>\<rparr>) w = (r, w')")
  case True
  let ?st = "st\<lparr>sys_ObservedHash := hash, sys_DesiredNodes := of_nat (length sel)\<rparr>"
  have "reported ?st = reported (sys_Status p)
      \<and> (distinct_types (sys_Conditions (sys_Status p)) \<longrightarrow> distinct_types (sys_Conditions ?st))"
    using assms(2,3) by (simp add: reported_def)
  with stat_sysctl [OF True] show ?thesis unfolding status_written_def by (simp, metis)
next
  case False
  with assms(1) show ?thesis by (auto simp: writeStatus_def Let_def split: if_splits)
qed

lemma reconcileLive_any:
  assumes "reconcileLive K img p w = (r, w')"
  shows "\<exists>w3. same_unowned p (view w) (view w3) \<and> (w' = w3 \<or> (\<exists>t. writeFinal K p (view w) t w3 = (r, w')))"
proof -
  let ?hash = "desiredHash p"
  obtain e1 w1 where c1: "CreateOrUpdateConfigMap K (newConfigMap (resourceName p) (Namespace (sys_meta p)))
      (mutateConfigMap K p (renderSysctlConf p) (labelsFor p)) w = (e1, w1)" by fastforce
  obtain e2 w2 where c2: "(if DriftCheck (Schedule (sys_Spec p)) \<noteq> [] then ensureCronJob K img p ?hash (labelsFor p) w1
      else ensureNoCronJob K p w1) = (e2, w2)" by fastforce
  note f1 = configMap_any [OF c1] and f2 = same_except_trans [OF configMap_any [OF c1] cronJob_any [OF c2]]
  note eq = assms [unfolded reconcileLive_def Let_def c1]
  show ?thesis
  proof (cases "e1 = None \<and> e2 = None \<and> (\<exists>sel. selectedNodeNames K p w2 = Inr sel)")
    case False
    with eq c2 have "w' = w1 \<or> w' = w2" by (cases e1; cases e2; cases "selectedNodeNames K p w2") auto
    with f1 f2 show ?thesis by blast
  next
    case True
    then obtain sel where sel: "selectedNodeNames K p w2 = Inr sel" by blast
    obtain st w3 where c3: "rollOut K img p sel ?hash w2 = (st, w3)" by fastforce
    from selectedNodeNames_ok [OF sel] same_except_targets [OF f2] have tg: "sel = targetsOf K p (view w)" by simp
    from rollOut_any [OF c3] have f3: "same_unowned p (view w) (view w3)"
      and st: "\<forall>s. st = Inr s \<longrightarrow> (\<exists>t. s = rolledOut K p (allNodesApplied p sel ?hash) ?hash t)"
      using same_except_trans [OF f2] by blast+
    from True eq c2 sel c3 have "w' = w3 \<or> (\<exists>s. st = Inr s \<and> writeStatus K p s sel ?hash w3 = (r, w'))"
      by (cases st) auto
    with f3 st tg show ?thesis by blast
  qed
qed

lemma reconcileLive_effect:
  assumes "reconcileLive K img p w = (r, w')"
  shows "\<exists>v. same_unowned p (view w) v \<and> (view w' = v \<or> status_written p v (view w'))"
  using reconcileLive_any [OF assms] writeStatus_any [OF _ reported_rolledOut types_rolledOut] by blast

subsection \<open>A successful pass\<close>

lemma rollOut_ok:
  assumes "rollOut K img p sel hash w = (Inr st, w')"
  obtains d t where "view w' = set_ds (configKey p) d (view w)"
    and "if allNodesApplied p sel hash then d = None else \<exists>x. d = Some x \<and> applierFor img p hash x"
    and "st = rolledOut K p (allNodesApplied p sel hash) hash t"
proof (cases "allNodesApplied p sel hash")
  case True
  with assms obtain t where "deleteDaemonSet K p w = (None, w')" "st = rolledOut K p True hash t"
    by (auto simp: rollOut_def Let_def rolledOut_def readyReason_def split: prod.splits option.splits)
  with True that [of None t] show thesis by (simp add: deleteDaemonSet_ok)
next
  case False
  with assms obtain t where "ensureDaemonSet K img p (resourceName p) hash (labelsFor p) w = (None, w')"
    "st = rolledOut K p False hash t"
    by (auto simp: rollOut_def Let_def rolledOut_def readyReason_def split: prod.splits option.splits)
  moreover from this(1) obtain d where "applierFor img p hash d" "view w' = set_ds (configKey p) (Some d) (view w)"
    using ensureDaemonSet_ok by blast
  ultimately show thesis using False that [of "Some d" t] by simp
qed

lemma cronJob_ok:
  assumes "(if DriftCheck (Schedule (sys_Spec p)) \<noteq> [] then ensureCronJob K img p hash labels w else ensureNoCronJob K p w) = (None, w')"
  obtains j where "view w' = set_cj (jobKey p) j (view w)"
    and "if DriftCheck (Schedule (sys_Spec p)) = [] then j = None else \<exists>x. j = Some x \<and> checkerFor img p hash x"
  using assms ensureCronJob_ok ensureNoCronJob_ok by (metis (mono_tags, lifting))

lemma reconcileLive_ok:
  assumes "reconcileLive K img p w = (None, w')"
  obtains c j d t w3 where "owned_by ''SysctlProfile'' (sys_meta p) (cm_meta c)"
    and "cm_Data c = Some (fmap_of_list [(configFileName, renderSysctlConf p)])"
    and "if DriftCheck (Schedule (sys_Spec p)) = [] then j = None else \<exists>x. j = Some x \<and> checkerFor img p (desiredHash p) x"
    and "if allNodesApplied p (targetsOf K p (view w)) (desiredHash p) then d = None
      else \<exists>x. d = Some x \<and> applierFor img p (desiredHash p) x"
    and "view w3 = set_ds (configKey p) d (set_cj (jobKey p) j (set_cm (configKey p) (Some c) (view w)))"
    and "writeFinal K p (view w) t w3 = (None, w')"
proof -
  let ?hash = "desiredHash p"
  from assms obtain w1 w2 where
    c1: "CreateOrUpdateConfigMap K (newConfigMap (resourceName p) (Namespace (sys_meta p)))
      (mutateConfigMap K p (renderSysctlConf p) (labelsFor p)) w = (None, w1)"
    and c2: "(if DriftCheck (Schedule (sys_Spec p)) \<noteq> [] then ensureCronJob K img p ?hash (labelsFor p) w1
      else ensureNoCronJob K p w1) = (None, w2)"
    and rest: "(case selectedNodeNames K p w2 of
                  Inl err \<Rightarrow> (Some err, w2)
                | Inr selected \<Rightarrow>
                    (case rollOut K img p selected ?hash w2 of
                       (Inl err, w3) \<Rightarrow> (Some err, w3)
                     | (Inr st, w3) \<Rightarrow> writeStatus K p st selected ?hash w3)) = (None, w')"
    unfolding reconcileLive_def Let_def by (elim onOK_NoneE)
  from rest obtain sel st w3 where sel: "selectedNodeNames K p w2 = Inr sel"
    and c3: "rollOut K img p sel ?hash w2 = (Inr st, w3)" and c4: "writeStatus K p st sel ?hash w3 = (None, w')"
    by (auto split: sum.splits prod.splits)
  from configMap_ok [OF c1] obtain c where c: "owned_by ''SysctlProfile'' (sys_meta p) (cm_meta c)"
    "cm_Data c = Some (fmap_of_list [(configFileName, renderSysctlConf p)])" "view w1 = set_cm (configKey p) (Some c) (view w)"
    by blast
  from cronJob_ok [OF c2] obtain j where j: "view w2 = set_cj (jobKey p) j (view w1)"
    "if DriftCheck (Schedule (sys_Spec p)) = [] then j = None else \<exists>x. j = Some x \<and> checkerFor img p ?hash x"
    by blast
  from rollOut_ok [OF c3] obtain d t where d: "view w3 = set_ds (configKey p) d (view w2)"
    "if allNodesApplied p sel ?hash then d = None else \<exists>x. d = Some x \<and> applierFor img p ?hash x"
    "st = rolledOut K p (allNodesApplied p sel ?hash) ?hash t" by blast
  from selectedNodeNames_ok [OF sel] have "sel = targetsOf K p (view w)"
    by (simp add: j(1) c(3))
  with c j d c4 that show thesis by (metis (no_types, lifting))
qed

lemma Reconcile_live:
  assumes "GetSysctlProfile K req w = Inr p" and "DeletionTimestamp (sys_meta p) = 0"
    and "finalizer \<in> set (Finalizers (sys_meta p))"
  shows "Reconcile K img req w = reconcileLive K img p w"
  using assms by (simp add: Reconcile_def contains_finalizer)

text \<open>The writing of the status: the stored profile ends with the final status.\<close>

lemma writeStatus_ok:
  assumes "writeStatus K p (rolledOut K p fin hash t) sel hash w = (None, w')"
    and "cl_SysctlProfiles (view w) (key_of (sys_meta p)) = Some p"
  shows "\<exists>v. view w' = set_sysctl (key_of (sys_meta p))
    (Some (p\<lparr>sys_meta := (sys_meta p)\<lparr>ResourceVersion := v\<rparr>, sys_Status := finalStatus K p fin sel hash t\<rparr>)) (view w)"
proof (cases "sys_Status p = finalStatus K p fin sel hash t")
  case True
  then have "p\<lparr>sys_meta := (sys_meta p)\<lparr>ResourceVersion := ResourceVersion (sys_meta p)\<rparr>,
      sys_Status := finalStatus K p fin sel hash t\<rparr> = p" by (metis ObjectMeta.surjective ObjectMeta.update_convs(4) SysctlProfile.surjective SysctlProfile.update_convs(1,3))
  moreover from True assms(1) have "w' = w" by (simp add: writeStatus_def Let_def sysctl_equal finalStatus_def)
  ultimately show ?thesis using assms(2) by (metis set_sysctl_def fun_upd_triv Cluster.surjective Cluster.update_convs(1))
next
  case False
  with assms(1) have "StatusUpdateSysctlProfile K (p\<lparr>sys_Status := finalStatus K p fin sel hash t\<rparr>) w = (None, w')"
    by (simp add: writeStatus_def Let_def sysctl_equal finalStatus_def)
  from stat_sysctl [OF this] assms(2) show ?thesis by auto
qed

lemma finalStatus_again:
  assumes "sys_Status q = finalStatus K p fin sel hash t" and "Generation (sys_meta q) = Generation (sys_meta p)"
  shows "finalStatus K q fin sel hash t' = sys_Status q"
  using assms by (simp add: finalStatus_def rolledOut_def readyReason_def condition_idem)

lemma Reconcile_ok:
  assumes "GetSysctlProfile K req w = Inr p" and "DeletionTimestamp (sys_meta p) = 0"
    and "finalizer \<in> set (Finalizers (sys_meta p))" and "Reconcile K img req w = (None, w')"
  shows "(\<exists>c. cl_ConfigMaps (view w') (configKey p) = Some c \<and> owned_by ''SysctlProfile'' (sys_meta p) (cm_meta c)
        \<and> cm_Data c = Some (fmap_of_list [(configFileName, renderSysctlConf p)]))
    \<and> (if DriftCheck (Schedule (sys_Spec p)) = [] then cl_CronJobs (view w') (jobKey p) = None
       else \<exists>j. cl_CronJobs (view w') (jobKey p) = Some j \<and> checkerFor img p (desiredHash p) j)
    \<and> (if allNodesApplied p (targetsOf K p (view w)) (desiredHash p) then cl_DaemonSets (view w') (configKey p) = None
       else \<exists>d. cl_DaemonSets (view w') (configKey p) = Some d \<and> applierFor img p (desiredHash p) d)"
proof -
  from assms have "reconcileLive K img p w = (None, w')" by (simp add: Reconcile_live)
  then obtain c j d t w3 where
    g: "owned_by ''SysctlProfile'' (sys_meta p) (cm_meta c)" "cm_Data c = Some (fmap_of_list [(configFileName, renderSysctlConf p)])"
    "if DriftCheck (Schedule (sys_Spec p)) = [] then j = None else \<exists>x. j = Some x \<and> checkerFor img p (desiredHash p) x"
    "if allNodesApplied p (targetsOf K p (view w)) (desiredHash p) then d = None else \<exists>x. d = Some x \<and> applierFor img p (desiredHash p) x"
    "view w3 = set_ds (configKey p) d (set_cj (jobKey p) j (set_cm (configKey p) (Some c) (view w)))"
    and ws: "writeFinal K p (view w) t w3 = (None, w')"
    by (rule reconcileLive_ok)
  from writeStatus_any [OF ws reported_rolledOut types_rolledOut] have "cl_ConfigMaps (view w') = cl_ConfigMaps (view w3)" "cl_DaemonSets (view w') = cl_DaemonSets (view w3)"
    "cl_CronJobs (view w') = cl_CronJobs (view w3)"
    by (auto simp: status_written_def)
  with g show ?thesis by (auto split: if_splits)
qed

lemma Reconcile_status:
  assumes "GetSysctlProfile K req w = Inr p" and "cl_SysctlProfiles (view w) req = Some p"
    and "DeletionTimestamp (sys_meta p) = 0" and "finalizer \<in> set (Finalizers (sys_meta p))"
    and "Reconcile K img req w = (None, w')"
  shows "\<exists>rv t. cl_SysctlProfiles (view w') = (cl_SysctlProfiles (view w))(req \<mapsto> settled K p (view w) rv t)"
    and "cl_Nodes (view w') = cl_Nodes (view w)"
proof -
  from assms have "reconcileLive K img p w = (None, w')" by (simp add: Reconcile_live)
  then obtain c j d t w3 where
    v: "view w3 = set_ds (configKey p) d (set_cj (jobKey p) j (set_cm (configKey p) (Some c) (view w)))"
    and ws: "writeFinal K p (view w) t w3 = (None, w')"
    by (rule reconcileLive_ok)
  have key: "key_of (sys_meta p) = req" using assms(1) by (rule get_sysctl)
  with v assms(2) have "cl_SysctlProfiles (view w3) (key_of (sys_meta p)) = Some p" by simp
  from writeStatus_ok [OF ws this] obtain rv where
    "view w' = set_sysctl req (Some (settled K p (view w) rv t)) (view w3)"
    by (auto simp: key settled_def)
  with v show "\<exists>rv t. cl_SysctlProfiles (view w') = (cl_SysctlProfiles (view w))(req \<mapsto> settled K p (view w) rv t)"
    and "cl_Nodes (view w') = cl_Nodes (view w)" by auto
qed

text \<open>A second pass over the profile as the first left it does not write it.\<close>

lemma Reconcile_twice:
  assumes first: "GetSysctlProfile K req w = Inr p" "cl_SysctlProfiles (view w) req = Some p"
      "DeletionTimestamp (sys_meta p) = 0" "finalizer \<in> set (Finalizers (sys_meta p))" "Reconcile K img req w = (None, w')"
    and second: "GetSysctlProfile K req w' = Inr q" "cl_SysctlProfiles (view w') req = Some q" "Reconcile K img req w' = (r, w2)"
  shows "cl_SysctlProfiles (view w2) = cl_SysctlProfiles (view w')"
proof -
  from Reconcile_status [OF first] obtain rv t where
    q: "q = settled K p (view w) rv t" and nodes: "cl_Nodes (view w') = cl_Nodes (view w)"
    using second(2) by auto
  note tg = targets_cong [OF nodes, of K "sys_NodeSelector (sys_Spec p)"]
  have q_eq: "sys_Spec q = sys_Spec p" "DeletionTimestamp (sys_meta q) = 0" "finalizer \<in> set (Finalizers (sys_meta q))"
    "sys_NodeStatuses (sys_Status q) = sys_NodeStatuses (sys_Status p)" "Generation (sys_meta q) = Generation (sys_meta p)"
    "key_of (sys_meta q) = req"
    using first(3,4) get_sysctl [OF first(1)] by (simp_all add: q settled_def finalStatus_def rolledOut_def)
  then have h: "desiredHash q = desiredHash p" "targetsOf K q (view w') = targetsOf K p (view w)"
    "allNodesApplied q s hh = allNodesApplied p s hh" for s hh
    by (simp_all add: renderSysctlConf_def tg cong: allNodesApplied_cong)
  have again: "finalStatus K q (allNodesApplied p (targetsOf K p (view w)) (desiredHash p)) (targetsOf K p (view w)) (desiredHash p) t'
      = sys_Status q" for t'
    by (rule finalStatus_again [OF _ q_eq(5)]) (simp add: q settled_def)
  from Reconcile_live [OF second(1) q_eq(2,3)] second(3) have "reconcileLive K img q w' = (r, w2)" by simp
  from reconcileLive_any [OF this] obtain w3 where f: "same_unowned q (view w') (view w3)"
    and "w2 = w3 \<or> (\<exists>t. writeFinal K q (view w') t w3 = (r, w2))" by blast
  then have "w2 = w3"
    using again h by (auto simp: writeStatus_def Let_def sysctl_equal finalStatus_def)
  with f show ?thesis by (simp add: same_except_def)
qed

lemma update_effect:
  assumes get: "GetSysctlProfile K req w = Inr p" and pre: "same_unowned p (view w) (view w1)"
    and upd: "UpdateSysctlProfile K (p\<lparr>sys_meta := m\<rparr>) w1 = (r, w')"
    and m: "key_of m = key_of (sys_meta p)" "ResourceVersion m = ResourceVersion (sys_meta p)"
      "DeletionTimestamp m = DeletionTimestamp (sys_meta p)"
  shows "pass_effect p (view w) (view w')"
  using upd_sysctl [OF upd]
proof (elim disjE exE conjE)
  assume "view w' = view w1"
  with pre show ?thesis by (auto simp: pass_effect_def)
next
  fix old v
  assume old: "cl_SysctlProfiles (view w1) (key_of (sys_meta (p\<lparr>sys_meta := m\<rparr>))) = Some old"
    "ResourceVersion (sys_meta old) = ResourceVersion (sys_meta (p\<lparr>sys_meta := m\<rparr>))"
    and v': "view w' = set_sysctl (key_of (sys_meta (p\<lparr>sys_meta := m\<rparr>))) (updated_sysctl old (p\<lparr>sys_meta := m\<rparr>) v) (view w1)"
  from pre have "cl_SysctlProfiles (view w1) = cl_SysctlProfiles (view w)" by (simp add: same_except_def)
  with old m get_sysctl [OF get] have "cl_SysctlProfiles (view w) req = Some old" by simp
  with get_sysctl_version [OF get] old(2) m(2) have "old = p" by simp
  with \<open>cl_SysctlProfiles (view w) req = Some old\<close> v' pre m get_sysctl [OF get]
  show ?thesis unfolding pass_effect_def updated_sysctl_def
    by (intro exI [of _ "view w1"] conjI disjI2 exI [of _ old]) (auto split: if_splits)
qed

lemma Reconcile_effect:
  assumes get: "GetSysctlProfile K req w = Inr p" and rec: "Reconcile K img req w = (r, w')"
  shows "pass_effect p (view w) (view w')"
proof -
  have refl: "pass_effect p (view w) (view w)" unfolding pass_effect_def using same_except_refl by blast
  consider (gone) "w' = w"
    | (clean) w1 where "cleanup K p w = (None, w1)"
        "UpdateSysctlProfile K (p\<lparr>sys_meta := RemoveFinalizer K (sys_meta p) finalizer\<rparr>) w1 = (r, w')"
    | (unclean) "cleanup K p w = (r, w')"
    | (add) "UpdateSysctlProfile K (p\<lparr>sys_meta := AddFinalizer K (sys_meta p) finalizer\<rparr>) w = (r, w')"
    | (live) "reconcileLive K img p w = (r, w')"
    using get rec by (auto simp: Reconcile_def onOK_def split: if_splits prod.splits option.splits)
  then show ?thesis
  proof cases
    case gone
    with refl show ?thesis by simp
  next
    case clean
    from update_effect [OF get cleanup_frame [OF clean(1)] clean(2)] show ?thesis by (simp add: remove_finalizer)
  next
    case unclean
    from cleanup_frame [OF this] show ?thesis by (auto simp: pass_effect_def)
  next
    case add
    from update_effect [OF get same_except_refl add] show ?thesis by (simp add: add_finalizer)
  next
    case live
    from reconcileLive_effect [OF this] obtain v where v: "same_unowned p (view w) v"
      "view w' = v \<or> status_written p v (view w')" by blast
    then have "cl_SysctlProfiles v = cl_SysctlProfiles (view w)" by (simp add: same_except_def)
    with v get_sysctl [OF get] get_sysctl_version [OF get] show ?thesis
      unfolding pass_effect_def status_written_def by (intro exI [of _ v]) fastforce
  qed
qed

lemmas Reconcile_cleans = sysctl_flow.deletion
lemmas Reconcile_marks = sysctl_flow.finalizer_first

end

subsection \<open>Properties\<close>

text \<open>C3: A successful pass over a live profile that carries the finalizer establishes the desired
  objects: the ConfigMap holds the rendered drop-in and is owned by the profile; the drift-check
  CronJob exists exactly when the profile has a drift-check schedule; and the applier DaemonSet is gone
  exactly when some node is selected and every selected node has an entry in phase \<open>Applied\<close> at the hash
  of the rendered drop-in, and is there at that hash otherwise. So with no node selected it is kept.\<close>

theorem Reconcile_establishes:
  assumes "kube K view" and "GetSysctlProfile K req w = Inr p" and "DeletionTimestamp (sys_meta p) = 0"
    and "finalizer \<in> set (Finalizers (sys_meta p))" and "Reconcile K img req w = (None, w')"
  shows "(\<exists>c. cl_ConfigMaps (view w') (configKey p) = Some c \<and> owned_by ''SysctlProfile'' (sys_meta p) (cm_meta c)
        \<and> cm_Data c = Some (fmap_of_list [(configFileName, renderSysctlConf p)]))
    \<and> (if DriftCheck (Schedule (sys_Spec p)) = [] then cl_CronJobs (view w') (jobKey p) = None
       else \<exists>j. cl_CronJobs (view w') (jobKey p) = Some j \<and> checkerFor img p (desiredHash p) j)
    \<and> (if targetsOf K p (view w) \<noteq> [] \<and> (\<forall>n\<in>set (targetsOf K p (view w)). \<exists>ns\<in>set (sys_NodeStatuses (sys_Status p)).
            NodeName ns = n \<and> Phase ns = NodePhaseApplied \<and> AppliedHash ns = desiredHash p)
       then cl_DaemonSets (view w') (configKey p) = None
       else \<exists>d. cl_DaemonSets (view w') (configKey p) = Some d \<and> applierFor img p (desiredHash p) d)"
  using kube.Reconcile_ok [OF assms] unfolding allNodesApplied_iff rolloutDone_def .


lemma exTargets: "targetsOf mem exProfile (world_objects exWorld) = [''n1'']"
  by (simp add: targets_def mem_eval ex_defs fmpred_iff)

theorem Reconcile_establishes_witness:
  "let w' = world_objects (snd (Reconcile mem ''img'' exKey exWorld)) in
   (\<exists>c. cl_ConfigMaps w' (''ops'', ''tuning-sysctl'') = Some c
      \<and> cm_Data c = Some (fmap_of_list [(configFileName, renderSysctlConf exProfile)]))
   \<and> (\<exists>j. cl_CronJobs w' (''ops'', ''tuning-drift'') = Some j \<and> cj_Schedule j = ''@hourly'')
   \<and> (\<exists>d. cl_DaemonSets w' (''ops'', ''tuning-sysctl'') = Some d \<and> applierFor ''img'' exProfile (desiredHash exProfile) d)"
proof -
  have "Reconcile mem ''img'' exKey exWorld = (None, snd (Reconcile mem ''img'' exKey exWorld))"
    using exReconcile by (metis prod.collapse)
  from Reconcile_establishes [OF mem_kube.kube_axioms exGet(1) exLive this] exTargets
  show ?thesis
    by (auto simp: Let_def configKey_def jobKey_def resourceName_def cronJobName_def checkerFor_def ex_defs)
qed

text \<open>C11: Whatever its result, a pass touches only the ConfigMap, the DaemonSet and the CronJob of its
  own profile, and of the custom resources only that profile: it never changes its spec or what the
  report server recorded in its status (so no report is lost to a concurrent pass that read the
  profile from a stale cache), and removes it only while it is being deleted.\<close>

theorem Reconcile_touches_only_own:
  assumes "kube K view" and "GetSysctlProfile K req w = Inr p" and "Reconcile K img req w = (r, w')"
  shows "(\<forall>k. k \<noteq> configKey p \<longrightarrow> cl_ConfigMaps (view w') k = cl_ConfigMaps (view w) k
              \<and> cl_DaemonSets (view w') k = cl_DaemonSets (view w) k)
    \<and> (\<forall>k. k \<noteq> jobKey p \<longrightarrow> cl_CronJobs (view w') k = cl_CronJobs (view w) k)
    \<and> cl_ScriptProfiles (view w') = cl_ScriptProfiles (view w)
    \<and> (\<forall>k. k \<noteq> req \<longrightarrow> cl_SysctlProfiles (view w') k = cl_SysctlProfiles (view w) k)
    \<and> (case (cl_SysctlProfiles (view w) req, cl_SysctlProfiles (view w') req) of
         (Some old, Some q) \<Rightarrow> sys_Spec q = sys_Spec old \<and> reported (sys_Status q) = reported (sys_Status old)
       | (Some old, None) \<Rightarrow> DeletionTimestamp (sys_meta old) \<noteq> 0
       | (None, q) \<Rightarrow> q = None)"
proof -
  have key: "key_of (sys_meta p) = req" by (rule kube_objects.get_sysctl [OF kube.axioms(1) [OF assms(1)] assms(2)])
  from kube.Reconcile_effect [OF assms] obtain u where u: "same_unowned p (view w) u"
    and eff: "view w' = u \<or> (\<exists>old new. cl_SysctlProfiles (view w) req = Some old \<and> view w' = set_sysctl req new u
            \<and> (case new of None \<Rightarrow> DeletionTimestamp (sys_meta old) \<noteq> 0
               | Some q \<Rightarrow> sys_Spec q = sys_Spec old \<and> reported (sys_Status q) = reported (sys_Status old)
                   \<and> (distinct_types (sys_Conditions (sys_Status old)) \<longrightarrow> distinct_types (sys_Conditions (sys_Status q)))))"
    unfolding pass_effect_def key by blast
  show ?thesis
    using eff u by (elim disjE exE conjE) (auto simp: same_except_def split: option.splits)
qed

theorem Reconcile_touches_only_own_witness:
  "let w' = world_objects (snd (Reconcile mem ''img'' exKey exWorld)) in
   cl_ScriptProfiles w' = [exKey \<mapsto> exScriptProfile] \<and> cl_ConfigMaps w' (''ops'', ''other'') = None
   \<and> (case cl_SysctlProfiles w' exKey of Some q \<Rightarrow> sys_Spec q = exSpec | None \<Rightarrow> False)"
  using Reconcile_touches_only_own [OF mem_kube.kube_axioms exGet(1) prod.collapse [symmetric], of "''img''"]
  by (auto simp: Let_def exGet(2) exLive configKey_def resourceName_def split: option.splits)
    (simp_all add: ex_defs)



text \<open>C9: A pass over the profile as a successful pass left it, with the same nodes, writes the profile
  no more, so its status updates do not re-trigger it forever.\<close>

theorem Reconcile_no_hot_loop:
  assumes "kube K view" and "GetSysctlProfile K req w = Inr p" and "cl_SysctlProfiles (view w) req = Some p"
    and "DeletionTimestamp (sys_meta p) = 0" and "finalizer \<in> set (Finalizers (sys_meta p))"
    and "Reconcile K img req w = (None, w1)"
    and "GetSysctlProfile K req w1 = Inr q" and "cl_SysctlProfiles (view w1) req = Some q"
    and "Reconcile K img req w1 = (r, w2)"
  shows "cl_SysctlProfiles (view w2) = cl_SysctlProfiles (view w1)"
  by (rule kube.Reconcile_twice [OF assms])

theorem Reconcile_no_hot_loop_witness:
  "let w1 = snd (Reconcile mem ''img'' exKey exWorld); w2 = snd (Reconcile mem ''img'' exKey w1) in
   cl_SysctlProfiles (world_objects w2) = cl_SysctlProfiles (world_objects w1)"
proof -
  let ?w1 = "snd (Reconcile mem ''img'' exKey exWorld)"
  let ?w2 = "snd (Reconcile mem ''img'' exKey ?w1)"
  have 1: "Reconcile mem ''img'' exKey exWorld = (None, ?w1)"
    using exReconcile by (metis prod.collapse)
  from exReconcile_stored obtain q where "GetSysctlProfile mem exKey ?w1 = Inr q" "cl_SysctlProfiles (world_objects ?w1) exKey = Some q"
    by blast
  from Reconcile_no_hot_loop [OF mem_kube.kube_axioms exGet exLive 1 this prod.collapse [symmetric]] show ?thesis by (simp add: Let_def)
qed

text \<open>C10: While a profile with the finalizer is being deleted, the profile changes only if all the
  objects it owned are gone: a failed cleanup keeps the finalizer. A pass that reports success has
  removed them and taken the finalizer off.\<close>

theorem Reconcile_deletion:
  assumes "kube K view" and "GetSysctlProfile K req w = Inr p" and "DeletionTimestamp (sys_meta p) \<noteq> 0"
    and "finalizer \<in> set (Finalizers (sys_meta p))" and "Reconcile K img req w = (r, w')"
  shows "(cl_SysctlProfiles (view w') = cl_SysctlProfiles (view w)
       \<or> owns_nothing (configKey p) (configKey p) (jobKey p) (view w'))
    \<and> (r = None \<longrightarrow> owns_nothing (configKey p) (configKey p) (jobKey p) (view w')
       \<and> (case cl_SysctlProfiles (view w') req of
            None \<Rightarrow> True | Some q \<Rightarrow> finalizer \<notin> set (Finalizers (sys_meta q))))"
  using kube.Reconcile_cleans [OF assms] by blast

theorem Reconcile_deletion_witness:
  "let w' = world_objects (snd (Reconcile mem ''img'' exKey exDeleting)) in
   cl_DaemonSets (world_objects exDeleting) (''ops'', ''tuning-sysctl'') \<noteq> None
   \<and> cl_DaemonSets w' (''ops'', ''tuning-sysctl'') = None \<and> cl_SysctlProfiles w' exKey = None"
proof -
  have r: "Reconcile mem ''img'' exKey exDeleting = (None, snd (Reconcile mem ''img'' exKey exDeleting))"
    using exDeletes by (metis prod.collapse)
  from Reconcile_deletion [OF mem_kube.kube_axioms exDeletingGet exDeletingMeta r] exDeletes
  show ?thesis by (simp add: Let_def owns_nothing_def configKey_def resourceName_def) (simp add: ex_defs view_defs on_objects_def)
qed

text \<open>C33: A pass over a live profile without the finalizer creates and changes no owned object; when
  it succeeds the stored profile has the finalizer.\<close>

theorem Reconcile_finalizer_first:
  assumes "kube K view" and "GetSysctlProfile K req w = Inr p" and "DeletionTimestamp (sys_meta p) = 0"
    and "finalizer \<notin> set (Finalizers (sys_meta p))" and "Reconcile K img req w = (r, w')"
  shows "cl_ConfigMaps (view w') = cl_ConfigMaps (view w) \<and> cl_DaemonSets (view w') = cl_DaemonSets (view w)
    \<and> cl_CronJobs (view w') = cl_CronJobs (view w)
    \<and> (r = None \<longrightarrow> (case cl_SysctlProfiles (view w') req of
         None \<Rightarrow> True | Some q \<Rightarrow> finalizer \<in> set (Finalizers (sys_meta q))))"
  by (rule kube.Reconcile_marks [OF assms])

theorem Reconcile_finalizer_first_witness:
  "let w' = world_objects (snd (Reconcile mem ''img'' exKey exFresh)) in
   cl_ConfigMaps w' = Map.empty
   \<and> (case cl_SysctlProfiles w' exKey of None \<Rightarrow> True | Some q \<Rightarrow> finalizer \<in> set (Finalizers (sys_meta q)))"
proof -
  have r: "Reconcile mem ''img'' exKey exFresh = (None, snd (Reconcile mem ''img'' exKey exFresh))"
    using exMarks by (metis prod.collapse)
  from Reconcile_finalizer_first [OF mem_kube.kube_axioms exFreshGet exFreshMeta r]
  show ?thesis by (simp add: Let_def) (simp add: ex_defs)
qed

end
