(* ===== verification/Script_Reconcile.thy ===== *)
theory Script_Reconcile
  imports Sysctl_Reconcile
begin

text \<open>
  What a pass of the script controller does to the cluster, from the contract of the Kubernetes
  packages: the counterpart of \<open>Sysctl_Reconcile\<close> for script profiles, which have no CronJob.
\<close>

subsection \<open>Specification\<close>

definition runnerFor :: "string \<Rightarrow> ScriptProfile \<Rightarrow> string \<Rightarrow> DaemonSet \<Rightarrow> bool" where
  "runnerFor img p hash d \<longleftrightarrow>
     owned_by ''ScriptProfile'' (scr_meta p) (ds_meta d)
     \<and> Option.bind (Annotations (ds_Template d)) (\<lambda>a. fmlookup a configHashAnn) = Some hash
     \<and> pod_NodeSelector (tmpl_Spec (ds_Template d)) = MatchLabels (scr_NodeSelector (scr_Spec p))
     \<and> Volumes (tmpl_Spec (ds_Template d)) = scriptVolumes (scriptResourceName p)
     \<and> map Env (Containers (tmpl_Spec (ds_Template d))) = [scriptEnv p hash]
     \<and> map Image (Containers (tmpl_Spec (ds_Template d))) = [scriptWorkerImage img]"

abbreviation desiredScriptHash :: "ScriptProfile \<Rightarrow> string" where
  "desiredScriptHash p \<equiv> hashContent (renderScripts p)"

abbreviation scriptTargetsOf :: "'w Kube \<Rightarrow> ScriptProfile \<Rightarrow> Cluster \<Rightarrow> string list" where
  "scriptTargetsOf K p v \<equiv> targets K (scr_NodeSelector (scr_Spec p)) v"

definition reportedScript :: "ScriptProfileStatus \<Rightarrow> NodeStatus list \<times> int32 \<times> int32" where
  "reportedScript st = (scr_NodeStatuses st, scr_AppliedNodes st, scr_FailedNodes st)"

text \<open>The status a pass computes: after the rollout step, and with the last two fields.\<close>

definition scriptReason :: "ScriptProfile \<Rightarrow> bool \<Rightarrow> Condition" where
  "scriptReason p fin =
     (if fin then readyCondition ''RolloutComplete'' ''all selected nodes ran the scripts; runner DaemonSet torn down''
                     (Generation (scr_meta p))
      else readyCondition ''RollingOut'' ''runner DaemonSet active'' (Generation (scr_meta p)))"

definition rolledOutScript :: "'w Kube \<Rightarrow> ScriptProfile \<Rightarrow> bool \<Rightarrow> string \<Rightarrow> Time \<Rightarrow> ScriptProfileStatus" where
  "rolledOutScript K p fin hash t =
     (scr_Status p)\<lparr>scr_TeardownHash := (if fin then hash else scr_TeardownHash (scr_Status p)),
       scr_Conditions := SetStatusCondition K t (scr_Conditions (scr_Status p)) (scriptReason p fin)\<rparr>"

abbreviation writeFinalScript :: "'w Kube \<Rightarrow> ScriptProfile \<Rightarrow> Cluster \<Rightarrow> Time \<Rightarrow> 'w \<Rightarrow> 'w result" where
  "writeFinalScript K p v t \<equiv>
     writeScriptStatus K p
       (rolledOutScript K p (scriptAllNodesApplied p (scriptTargetsOf K p v) (desiredScriptHash p)) (desiredScriptHash p) t)
       (scriptTargetsOf K p v) (desiredScriptHash p)"

text \<open>The effect of any pass on the view, as for sysctl profiles.\<close>

definition script_pass_effect :: "ScriptProfile \<Rightarrow> Cluster \<Rightarrow> Cluster \<Rightarrow> bool" where
  "script_pass_effect p v v' \<longleftrightarrow>
     (\<exists>u. same_unowned_script p v u \<and>
        (v' = u \<or>
         (\<exists>old new. cl_ScriptProfiles v (key_of (scr_meta p)) = Some old \<and> v' = set_script (key_of (scr_meta p)) new u
            \<and> (case new of
                 None \<Rightarrow> DeletionTimestamp (scr_meta old) \<noteq> 0
               | Some q \<Rightarrow> scr_Spec q = scr_Spec old \<and> reportedScript (scr_Status q) = reportedScript (scr_Status old)
                   \<and> (distinct_types (scr_Conditions (scr_Status old)) \<longrightarrow> distinct_types (scr_Conditions (scr_Status q)))))))"

lemma same_unowned_script_trans:
  "same_unowned_script p u v \<Longrightarrow> same_unowned_script p v v' \<Longrightarrow> same_unowned_script p u v'"
  by (simp add: same_except_def)

subsection \<open>The steps of a pass\<close>

context kube
begin

lemma scriptConfigMap_any:
  "CreateOrUpdateConfigMap K (newConfigMap (scriptResourceName p) (Namespace (scr_meta p))) f w = (r, w') \<Longrightarrow>
     same_unowned_script p (view w) (view w')"
  by (drule cou_cm_any) (auto simp: scriptKey_def)

lemma scriptConfigMap_ok:
  assumes "CreateOrUpdateConfigMap K (newConfigMap (scriptResourceName p) (Namespace (scr_meta p)))
      (mutateScriptConfigMap K p content labels) w = (None, w')"
  shows "\<exists>c. owned_by ''ScriptProfile'' (scr_meta p) (cm_meta c)
    \<and> cm_Data c = Some (fmap_of_list [(scriptConfigFileName, content)]) \<and> view w' = set_cm (scriptKey p) (Some c) (view w)"
proof -
  from cou_cm [OF assms] obtain c0 x m where mut: "mutateScriptConfigMap K p content labels c0 = Inr x"
    and st: "stamped (cm_meta x) m" and v: "view w' = set_cm (scriptKey p) (Some (x\<lparr>cm_meta := m\<rparr>)) (view w)"
    by (auto simp: scriptKey_def)
  from mut have "owned_by ''ScriptProfile'' (scr_meta p) (cm_meta x) \<and> cm_Data x = Some (fmap_of_list [(scriptConfigFileName, content)])"
    by (auto simp: mutateScriptConfigMap_def Let_def split: sum.splits dest: controller_reference_owned)
  with v stamped_owned [OF st] show ?thesis by (intro exI [of _ "x\<lparr>cm_meta := m\<rparr>"]) simp
qed

lemma ensureScriptDaemonSet_ok:
  assumes "ensureScriptDaemonSet K img p (scriptResourceName p) hash labels w = (None, w')"
  shows "\<exists>d. runnerFor img p hash d \<and> view w' = set_ds (scriptKey p) (Some d) (view w)"
proof -
  from cou_ds [OF assms [unfolded ensureScriptDaemonSet_def]] obtain d0 x m where
    mut: "mutateScriptDaemonSet K img p (scriptResourceName p) hash labels d0 = Inr x" and st: "stamped (ds_meta x) m"
    and v: "view w' = set_ds (scriptKey p) (Some (x\<lparr>ds_meta := m\<rparr>)) (view w)" by (auto simp: scriptKey_def)
  from mut have "runnerFor img p hash x"
    by (auto simp: mutateScriptDaemonSet_def runnerFor_def Let_def split: sum.splits dest: controller_reference_owned)
  with v stamped_owned [OF st] show ?thesis by (intro exI [of _ "x\<lparr>ds_meta := m\<rparr>"]) (simp add: runnerFor_def)
qed

lemma deleteScriptDaemonSet_ok:
  "deleteScriptDaemonSet K p w = (None, w') \<Longrightarrow> view w' = set_ds (scriptKey p) None (view w)"
  unfolding deleteScriptDaemonSet_def by (drule del_ds) (simp add: scriptKey_def)

lemma ensureScriptDaemonSet_any:
  "ensureScriptDaemonSet K img p (scriptResourceName p) hash labels w = (r, w') \<Longrightarrow> same_unowned_script p (view w) (view w')"
  unfolding ensureScriptDaemonSet_def by (drule cou_ds_any) (auto simp: scriptKey_def)

lemma deleteScriptDaemonSet_any: "deleteScriptDaemonSet K p w = (r, w') \<Longrightarrow> same_unowned_script p (view w) (view w')"
  unfolding deleteScriptDaemonSet_def ignoreNotFound_def
  by (auto split: prod.splits option.splits dest!: del_ds_any simp: scriptKey_def)

lemma scriptSelectedNodeNames_ok:
  "scriptSelectedNodeNames K p w = Inr sel \<Longrightarrow> sel = scriptTargetsOf K p (view w)"
  by (auto simp: scriptSelectedNodeNames_def targets_def split: sum.splits dest: list_nodes)

lemma rollOutScript_any:
  "rollOutScript K img p sel hash w = (r, w') \<Longrightarrow>
     same_unowned_script p (view w) (view w')
     \<and> (\<forall>st. r = Inr st \<longrightarrow> (\<exists>t. st = rolledOutScript K p (scriptAllNodesApplied p sel hash) hash t)
         \<and> (\<exists>d. view w' = set_ds (scriptKey p) d (view w) \<and>
             (if scriptAllNodesApplied p sel hash then d = None else \<exists>x. d = Some x \<and> runnerFor img p hash x)))"
  by (auto simp: rollOutScript_def Let_def rolledOutScript_def scriptReason_def
      split: if_splits prod.splits option.splits
      dest: ensureScriptDaemonSet_any deleteScriptDaemonSet_any deleteScriptDaemonSet_ok dest!: ensureScriptDaemonSet_ok)

text \<open>
  A pass over a live profile: it stops after the ConfigMap, or goes through the rollout step and
  writes the final status.
\<close>

lemma reconcileLiveScript_any:
  assumes "reconcileLiveScript K img p w = (r, w')"
  shows "\<exists>w2. same_unowned_script p (view w) (view w2)
    \<and> (w' = w2 \<and> r \<noteq> None \<or>
       (\<exists>t c d. view w2 = set_ds (scriptKey p) d (set_cm (scriptKey p) (Some c) (view w))
          \<and> owned_by ''ScriptProfile'' (scr_meta p) (cm_meta c)
          \<and> cm_Data c = Some (fmap_of_list [(scriptConfigFileName, renderScripts p)])
          \<and> (if scriptAllNodesApplied p (scriptTargetsOf K p (view w)) (desiredScriptHash p) then d = None
             else \<exists>x. d = Some x \<and> runnerFor img p (desiredScriptHash p) x)
          \<and> writeFinalScript K p (view w) t w2 = (r, w')))"
proof -
  let ?hash = "desiredScriptHash p"
  obtain e1 w1 where c1: "CreateOrUpdateConfigMap K (newConfigMap (scriptResourceName p) (Namespace (scr_meta p)))
      (mutateScriptConfigMap K p (renderScripts p) (scriptLabelsFor p)) w = (e1, w1)" by fastforce
  note f1 = scriptConfigMap_any [OF c1] and eq = assms [unfolded reconcileLiveScript_def Let_def c1]
  show ?thesis
  proof (cases "e1 = None \<and> (\<exists>sel. scriptSelectedNodeNames K p w1 = Inr sel)")
    case False
    with eq have "w' = w1 \<and> r \<noteq> None" by (cases e1; cases "scriptSelectedNodeNames K p w1") auto
    with f1 show ?thesis by blast
  next
    case True
    then obtain sel where sel: "scriptSelectedNodeNames K p w1 = Inr sel" and e1: "e1 = None" by blast
    obtain st w2 where c2: "rollOutScript K img p sel ?hash w1 = (st, w2)" by fastforce
    note f2 = same_unowned_script_trans [OF f1 conjunct1 [OF rollOutScript_any [OF c2]]]
    from scriptSelectedNodeNames_ok [OF sel] f1 have tg: "sel = scriptTargetsOf K p (view w)"
      using same_except_targets by metis
    show ?thesis
    proof (cases st)
      case (Inl e)
      with eq e1 sel c2 have "w' = w2 \<and> r \<noteq> None" by auto
      with f2 show ?thesis by blast
    next
      case (Inr s)
      with eq e1 sel c2 have "writeScriptStatus K p s sel ?hash w2 = (r, w')" by simp
      with Inr f2 tg rollOutScript_any [OF c2] scriptConfigMap_ok [OF c1 [unfolded e1]] show ?thesis by metis
    qed
  qed
qed

lemma ReconcileScript_live:
  assumes "GetScriptProfile K req w = Inr p" and "DeletionTimestamp (scr_meta p) = 0"
    and "finalizer \<in> set (Finalizers (scr_meta p))"
  shows "ReconcileScript K img req w = reconcileLiveScript K img p w"
  using assms by (simp add: ReconcileScript_def contains_finalizer)

lemma writeFinalScript_effect:
  assumes get: "GetScriptProfile K req w = Inr p" and pre: "same_unowned_script p (view w) (view w2)"
    and "writeFinalScript K p v t w2 = (r, w')"
  shows "script_pass_effect p (view w) (view w')"
proof (cases "view w' = view w2")
  case True
  with pre show ?thesis unfolding script_pass_effect_def by blast
next
  case False
  let ?fin = "scriptAllNodesApplied p (scriptTargetsOf K p v) (desiredScriptHash p)"
  let ?st = "(rolledOutScript K p ?fin (desiredScriptHash p) t)\<lparr>scr_ObservedHash := desiredScriptHash p,
    scr_DesiredNodes := of_nat (length (scriptTargetsOf K p v))\<rparr>"
  from False assms(3) have "StatusUpdateScriptProfile K (p\<lparr>scr_Status := ?st\<rparr>) w2 = (r, w')"
    by (auto simp: writeScriptStatus_def Let_def split: if_splits)
  from stat_script [OF this] False obtain old rv where old: "cl_ScriptProfiles (view w2) (key_of (scr_meta p)) = Some old"
    "ResourceVersion (scr_meta old) = ResourceVersion (scr_meta p)"
    and v': "view w' = set_script (key_of (scr_meta p))
      (Some (old\<lparr>scr_meta := (scr_meta old)\<lparr>ResourceVersion := rv\<rparr>, scr_Status := ?st\<rparr>)) (view w2)" by auto
  from old(1) pre have stored: "cl_ScriptProfiles (view w) (key_of (scr_meta p)) = Some old" by (simp add: same_except_def)
  with get_script [OF get] get_script_version [OF get] old(2) have "old = p" by simp
  then have "reportedScript ?st = reportedScript (scr_Status old)
    \<and> (distinct_types (scr_Conditions (scr_Status old)) \<longrightarrow> distinct_types (scr_Conditions ?st))"
    by (simp add: reportedScript_def rolledOutScript_def condition_types)
  with stored v' pre show ?thesis unfolding script_pass_effect_def
    by (intro exI [of _ "view w2"] conjI disjI2 exI [of _ old]) auto
qed

lemma script_update_effect:
  assumes get: "GetScriptProfile K req w = Inr p" and pre: "same_unowned_script p (view w) (view w1)"
    and upd: "UpdateScriptProfile K (p\<lparr>scr_meta := m\<rparr>) w1 = (r, w')"
    and m: "key_of m = key_of (scr_meta p)" "ResourceVersion m = ResourceVersion (scr_meta p)"
      "DeletionTimestamp m = DeletionTimestamp (scr_meta p)"
  shows "script_pass_effect p (view w) (view w')"
proof (cases "view w' = view w1")
  case True
  with pre show ?thesis unfolding script_pass_effect_def by blast
next
  case False
  with upd_script [OF upd] m obtain old v where old: "cl_ScriptProfiles (view w1) (key_of (scr_meta p)) = Some old"
    "ResourceVersion (scr_meta old) = ResourceVersion (scr_meta p)"
    and v': "view w' = set_script (key_of (scr_meta p)) (updated_script old (p\<lparr>scr_meta := m\<rparr>) v) (view w1)"
    by auto
  from old(1) pre have stored: "cl_ScriptProfiles (view w) (key_of (scr_meta p)) = Some old" by (simp add: same_except_def)
  with get_script [OF get] get_script_version [OF get] old(2) have "old = p" by simp
  with stored v' pre m show ?thesis unfolding script_pass_effect_def updated_script_def
    by (intro exI [of _ "view w1"] conjI disjI2 exI [of _ old]) (auto split: if_splits)
qed

lemma writeScriptStatus_owned:
  assumes "writeScriptStatus K p st sel hash w = (r, w')"
  shows "cl_ConfigMaps (view w') = cl_ConfigMaps (view w)" and "cl_DaemonSets (view w') = cl_DaemonSets (view w)"
  using assms by (auto simp: writeScriptStatus_def Let_def split: if_splits dest!: stat_script)

lemma ReconcileScript_ok:
  assumes "GetScriptProfile K req w = Inr p" and "DeletionTimestamp (scr_meta p) = 0"
    and "finalizer \<in> set (Finalizers (scr_meta p))" and "ReconcileScript K img req w = (None, w')"
  shows "(\<exists>c. cl_ConfigMaps (view w') (scriptKey p) = Some c \<and> owned_by ''ScriptProfile'' (scr_meta p) (cm_meta c)
        \<and> cm_Data c = Some (fmap_of_list [(scriptConfigFileName, renderScripts p)]))
    \<and> (if scriptAllNodesApplied p (scriptTargetsOf K p (view w)) (desiredScriptHash p)
       then cl_DaemonSets (view w') (scriptKey p) = None
       else \<exists>d. cl_DaemonSets (view w') (scriptKey p) = Some d \<and> runnerFor img p (desiredScriptHash p) d)"
proof -
  from assms(4) ReconcileScript_live [OF assms(1-3)] have "reconcileLiveScript K img p w = (None, w')" by simp
  from reconcileLiveScript_any [OF this] obtain w2 t c d where f: "same_unowned_script p (view w) (view w2)"
    and g: "view w2 = set_ds (scriptKey p) d (set_cm (scriptKey p) (Some c) (view w))"
      "owned_by ''ScriptProfile'' (scr_meta p) (cm_meta c)"
      "cm_Data c = Some (fmap_of_list [(scriptConfigFileName, renderScripts p)])"
      "if scriptAllNodesApplied p (scriptTargetsOf K p (view w)) (desiredScriptHash p) then d = None
       else \<exists>x. d = Some x \<and> runnerFor img p (desiredScriptHash p) x"
    and ws: "writeFinalScript K p (view w) t w2 = (None, w')" by blast
  from writeScriptStatus_owned [OF ws] g show ?thesis by (auto split: if_splits)
qed

text \<open>The status that a successful pass from a fresh read leaves.\<close>

lemma ReconcileScript_status:
  assumes "GetScriptProfile K req w = Inr p" and "cl_ScriptProfiles (view w) req = Some p"
    and "DeletionTimestamp (scr_meta p) = 0" and "finalizer \<in> set (Finalizers (scr_meta p))"
    and "ReconcileScript K img req w = (None, w')"
  obtains q t where "cl_ScriptProfiles (view w') req = Some q"
    and "scr_Status q = (rolledOutScript K p (scriptAllNodesApplied p (scriptTargetsOf K p (view w)) (desiredScriptHash p)) (desiredScriptHash p) t)
      \<lparr>scr_ObservedHash := desiredScriptHash p, scr_DesiredNodes := of_nat (length (scriptTargetsOf K p (view w)))\<rparr>"
proof -
  from assms(5) ReconcileScript_live [OF assms(1,3,4)] have "reconcileLiveScript K img p w = (None, w')" by simp
  from reconcileLiveScript_any [OF this] obtain w2 t where f: "same_unowned_script p (view w) (view w2)"
    and ws: "writeFinalScript K p (view w) t w2 = (None, w')" by blast
  let ?st = "(rolledOutScript K p (scriptAllNodesApplied p (scriptTargetsOf K p (view w)) (desiredScriptHash p)) (desiredScriptHash p) t)
      \<lparr>scr_ObservedHash := desiredScriptHash p, scr_DesiredNodes := of_nat (length (scriptTargetsOf K p (view w)))\<rparr>"
  from f assms(2) get_script [OF assms(1)] have stored: "cl_ScriptProfiles (view w2) (key_of (scr_meta p)) = Some p"
    and key: "key_of (scr_meta p) = req" by (simp_all add: same_except_def)
  show thesis
  proof (cases "scr_Status p = ?st")
    case True
    with ws have "w' = w2" by (simp add: writeScriptStatus_def Let_def script_equal)
    with True stored key that [of p t] show thesis by simp
  next
    case False
    with ws have "StatusUpdateScriptProfile K (p\<lparr>scr_Status := ?st\<rparr>) w2 = (None, w')"
      by (simp add: writeScriptStatus_def Let_def script_equal)
    from stat_script [OF this] stored key that show thesis by auto
  qed
qed

lemma ReconcileScript_effect:
  assumes get: "GetScriptProfile K req w = Inr p" and rec: "ReconcileScript K img req w = (r, w')"
  shows "script_pass_effect p (view w) (view w')"
proof -
  have framed: "script_pass_effect p (view w) v" if "same_unowned_script p (view w) v" for v
    using that unfolding script_pass_effect_def by blast
  consider (gone) "w' = w"
    | (clean) w1 where "cleanupScript K p w = (None, w1)"
        "UpdateScriptProfile K (p\<lparr>scr_meta := RemoveFinalizer K (scr_meta p) finalizer\<rparr>) w1 = (r, w')"
    | (unclean) "cleanupScript K p w = (r, w')"
    | (add) "UpdateScriptProfile K (p\<lparr>scr_meta := AddFinalizer K (scr_meta p) finalizer\<rparr>) w = (r, w')"
    | (live) "reconcileLiveScript K img p w = (r, w')"
    using get rec by (auto simp: ReconcileScript_def onOK_def split: if_splits prod.splits option.splits)
  then show ?thesis
  proof cases
    case clean
    from script_update_effect [OF get cleanupScript_frame [OF clean(1)] clean(2)] show ?thesis by (simp add: remove_finalizer)
  next
    case add
    from script_update_effect [OF get _ add] show ?thesis by (simp add: add_finalizer)
  next
    case live
    from reconcileLiveScript_any [OF this] framed writeFinalScript_effect [OF get] show ?thesis by blast
  qed (use framed cleanupScript_frame in auto)
qed

lemmas ReconcileScript_cleans = script_flow.deletion
lemmas ReconcileScript_marks = script_flow.finalizer_first

end

subsection \<open>Properties\<close>

text \<open>C19: A successful pass over a live script profile that carries the finalizer leaves the ConfigMap
  with the rendered scripts, owned by the profile; the runner DaemonSet is gone exactly when some node is
  selected and every selected node has an entry in phase \<open>Applied\<close> at the hash of the rendered scripts, and is
  there at that hash otherwise. So with no node selected it is kept.\<close>

theorem ReconcileScript_establishes:
  assumes "kube K view" and "GetScriptProfile K req w = Inr p" and "DeletionTimestamp (scr_meta p) = 0"
    and "finalizer \<in> set (Finalizers (scr_meta p))" and "ReconcileScript K img req w = (None, w')"
  shows "(\<exists>c. cl_ConfigMaps (view w') (scriptKey p) = Some c \<and> owned_by ''ScriptProfile'' (scr_meta p) (cm_meta c)
        \<and> cm_Data c = Some (fmap_of_list [(scriptConfigFileName, renderScripts p)]))
    \<and> (if scriptTargetsOf K p (view w) \<noteq> [] \<and> (\<forall>n\<in>set (scriptTargetsOf K p (view w)). \<exists>ns\<in>set (scr_NodeStatuses (scr_Status p)).
            NodeName ns = n \<and> Phase ns = NodePhaseApplied \<and> AppliedHash ns = desiredScriptHash p)
       then cl_DaemonSets (view w') (scriptKey p) = None
       else \<exists>d. cl_DaemonSets (view w') (scriptKey p) = Some d \<and> runnerFor img p (desiredScriptHash p) d)"
  using kube.ReconcileScript_ok [OF assms] unfolding scriptAllNodesApplied_iff rolloutDone_def .

theorem ReconcileScript_establishes_witness:
  "let w' = world_objects (snd (ReconcileScript mem ''img'' exKey exWorld)) in
   (\<exists>c. cl_ConfigMaps w' (''ops'', ''tuning-script'') = Some c
      \<and> cm_Data c = Some (fmap_of_list [(scriptConfigFileName, renderScripts exScriptProfile)]))
   \<and> (\<exists>d. cl_DaemonSets w' (''ops'', ''tuning-script'') = Some d
      \<and> runnerFor ''img'' exScriptProfile (desiredScriptHash exScriptProfile) d)"
proof -
  have "ReconcileScript mem ''img'' exKey exWorld = (None, snd (ReconcileScript mem ''img'' exKey exWorld))"
    using exScriptReconcile by (metis prod.collapse)
  from ReconcileScript_establishes [OF mem_kube.kube_axioms exScriptGet exScriptLive this]
  show ?thesis by (auto simp: Let_def exScriptKey exScriptStatus)
qed

text \<open>C20: Whatever its result, a pass of the script controller touches only the ConfigMap and the
  DaemonSet of its own profile, no CronJob, and of the custom resources only that profile, whose spec
  and recorded reports it keeps, and which it removes only while it is being deleted.\<close>

theorem ReconcileScript_touches_only_own:
  assumes "kube K view" and "GetScriptProfile K req w = Inr p" and "ReconcileScript K img req w = (r, w')"
  shows "(\<forall>k. k \<noteq> scriptKey p \<longrightarrow> cl_ConfigMaps (view w') k = cl_ConfigMaps (view w) k
              \<and> cl_DaemonSets (view w') k = cl_DaemonSets (view w) k)
    \<and> cl_CronJobs (view w') = cl_CronJobs (view w) \<and> cl_SysctlProfiles (view w') = cl_SysctlProfiles (view w)
    \<and> (\<forall>k. k \<noteq> req \<longrightarrow> cl_ScriptProfiles (view w') k = cl_ScriptProfiles (view w) k)
    \<and> (case (cl_ScriptProfiles (view w) req, cl_ScriptProfiles (view w') req) of
         (Some old, Some q) \<Rightarrow> scr_Spec q = scr_Spec old \<and> reportedScript (scr_Status q) = reportedScript (scr_Status old)
       | (Some old, None) \<Rightarrow> DeletionTimestamp (scr_meta old) \<noteq> 0
       | (None, q) \<Rightarrow> q = None)"
proof -
  have key: "key_of (scr_meta p) = req" by (rule kube_objects.get_script [OF kube.axioms(1) [OF assms(1)] assms(2)])
  from kube.ReconcileScript_effect [OF assms] obtain u where u: "same_unowned_script p (view w) u"
    and eff: "view w' = u \<or> (\<exists>old new. cl_ScriptProfiles (view w) req = Some old \<and> view w' = set_script req new u
            \<and> (case new of None \<Rightarrow> DeletionTimestamp (scr_meta old) \<noteq> 0
               | Some q \<Rightarrow> scr_Spec q = scr_Spec old \<and> reportedScript (scr_Status q) = reportedScript (scr_Status old)
                   \<and> (distinct_types (scr_Conditions (scr_Status old)) \<longrightarrow> distinct_types (scr_Conditions (scr_Status q)))))"
    unfolding script_pass_effect_def key by blast
  show ?thesis
    using eff u by (elim disjE exE conjE) (auto simp: same_except_def split: option.splits)
qed

theorem ReconcileScript_touches_only_own_witness:
  "let w' = world_objects (snd (ReconcileScript mem ''img'' exKey exWorld)) in
   cl_SysctlProfiles w' = [exKey \<mapsto> exProfile] \<and> cl_CronJobs w' = Map.empty
   \<and> cl_ConfigMaps w' (''ops'', ''tuning-sysctl'') = None"
  using ReconcileScript_touches_only_own [OF mem_kube.kube_axioms exScriptGet prod.collapse [symmetric], of "''img''"]
  by (simp add: Let_def scriptKey_def scriptResourceName_def) (simp add: ex_defs)

text \<open>While a script profile with the finalizer is being deleted, the profile changes only if its
  ConfigMap and DaemonSet are gone; a pass that reports success has removed them and taken the
  finalizer off.\<close>

theorem ReconcileScript_deletion:
  assumes "kube K view" and "GetScriptProfile K req w = Inr p" and "DeletionTimestamp (scr_meta p) \<noteq> 0"
    and "finalizer \<in> set (Finalizers (scr_meta p))" and "ReconcileScript K img req w = (r, w')"
  shows "(cl_ScriptProfiles (view w') = cl_ScriptProfiles (view w)
       \<or> cl_ConfigMaps (view w') (scriptKey p) = None \<and> cl_DaemonSets (view w') (scriptKey p) = None)
    \<and> (r = None \<longrightarrow> cl_ConfigMaps (view w') (scriptKey p) = None \<and> cl_DaemonSets (view w') (scriptKey p) = None
       \<and> (case cl_ScriptProfiles (view w') req of
            None \<Rightarrow> True | Some q \<Rightarrow> finalizer \<notin> set (Finalizers (scr_meta q))))"
  using kube.ReconcileScript_cleans [OF assms] by blast

theorem ReconcileScript_deletion_witness:
  "let w' = world_objects (snd (ReconcileScript mem ''img'' exKey exDeleting)) in
   cl_DaemonSets (world_objects exDeleting) (''ops'', ''tuning-script'') \<noteq> None
   \<and> cl_DaemonSets w' (''ops'', ''tuning-script'') = None"
proof -
  have r: "ReconcileScript mem ''img'' exKey exDeleting = (None, snd (ReconcileScript mem ''img'' exKey exDeleting))"
    using exScriptDeletes by (metis prod.collapse)
  from ReconcileScript_deletion [OF mem_kube.kube_axioms exScriptDeletingGet exScriptDeletingMeta r]
  show ?thesis by (simp add: Let_def scriptKey_def scriptResourceName_def) (simp add: ex_defs view_defs on_objects_def)
qed

end
