(* ===== verification/Node_Events.thy ===== *)
theory Node_Events
  imports Script_Controller Memory_Kube
begin

text \<open>
  How node events reach the reconcilers: the predicate in front of the work queues, and the functions
  that map a node to the profiles to reconcile. The interface is the locale \<open>node_mapper\<close>; the two
  controllers' mapping functions are its interpretations.
\<close>

text \<open>Whether a label selector is valid and matches a label set.\<close>

definition selects :: "'w Kube \<Rightarrow> LabelSelector \<Rightarrow> gomap \<Rightarrow> bool" where
  "selects K ls labels = (case LabelSelectorAsSelector K ls of Inl _ \<Rightarrow> False | Inr s \<Rightarrow> s labels)"

lemma selects_iff: "selects K ls labels \<longleftrightarrow> (\<exists>s. LabelSelectorAsSelector K ls = Inr s \<and> s labels)"
  by (auto simp: selects_def split: sum.splits)

subsection \<open>The interface\<close>

locale node_mapper =
  fixes K :: "'w Kube"
    and profiles :: "'w \<Rightarrow> Err + 'p list"
    and selector :: "'p \<Rightarrow> LabelSelector"
    and meta :: "'p \<Rightarrow> ObjectMeta"
    and requests :: "ClientObject \<Rightarrow> 'w \<Rightarrow> NamespacedName list"
  assumes requests_eq: "requests (NodeObject node) w =
      (case profiles w of
         Inl _ \<Rightarrow> []
       | Inr ps \<Rightarrow> map (\<lambda>p. key_of (meta p))
           (filter (\<lambda>p. selects K (selector p) (node_Labels node)) ps))"
    and requests_other: "requests OtherObject w = []"
begin

text \<open>Exactly the profiles whose selector is valid and matches the node's labels are requested.\<close>

lemma requests_iff:
  assumes "profiles w = Inr ps"
  shows "k \<in> set (requests (NodeObject node) w) \<longleftrightarrow>
    (\<exists>p\<in>set ps. k = key_of (meta p) \<and> selects K (selector p) (node_Labels node))"
  using assms by (auto simp: requests_eq)

text \<open>An update that the predicate drops maps to the same requests before and after it.\<close>

lemma dropped_update:
  assumes "\<not> nodeLabelChanged (UpdateEvent (NodeObject old) (NodeObject new))"
  shows "requests (NodeObject new) w = requests (NodeObject old) w"
  using assms by (simp add: requests_eq split: sum.split)

end

subsection \<open>The two mapping functions\<close>

lemma matchingProfiles_eq:
  "matchingProfiles K node ps reqs = reqs @ map (\<lambda>p. key_of (sys_meta p))
     (filter (\<lambda>p. selects K (sys_NodeSelector (sys_Spec p)) (node_Labels node)) ps)"
  by (induction ps arbitrary: reqs) (auto simp: selects_def split: sum.splits)

lemma matchingScriptProfiles_eq:
  "matchingScriptProfiles K node ps reqs = reqs @ map (\<lambda>p. key_of (scr_meta p))
     (filter (\<lambda>p. selects K (scr_NodeSelector (scr_Spec p)) (node_Labels node)) ps)"
  by (induction ps arbitrary: reqs) (auto simp: selects_def split: sum.splits)

interpretation sysctl_mapper: node_mapper K "ListSysctlProfiles K" "\<lambda>p. sys_NodeSelector (sys_Spec p)" sys_meta
  "profilesForNode K" for K
  by unfold_locales (simp_all add: profilesForNode_def matchingProfiles_eq split: sum.split)

interpretation script_mapper: node_mapper K "ListScriptProfiles K" "\<lambda>p. scr_NodeSelector (scr_Spec p)" scr_meta
  "scriptProfilesForNode K" for K
  by unfold_locales (simp_all add: scriptProfilesForNode_def matchingScriptProfiles_eq split: sum.split)

subsection \<open>Properties\<close>

text \<open>C35: A node event requests a pass over exactly the sysctl profiles whose node selector is valid
  and matches the node's labels.\<close>

theorem profilesForNode_exact:
  assumes "ListSysctlProfiles K w = Inr ps"
  shows "k \<in> set (profilesForNode K (NodeObject node) w) \<longleftrightarrow>
    (\<exists>p\<in>set ps. \<exists>s. k = key_of (sys_meta p) \<and> LabelSelectorAsSelector K (sys_NodeSelector (sys_Spec p)) = Inr s
       \<and> s (node_Labels node))"
  using sysctl_mapper.requests_iff [OF assms] by (simp add: selects_iff)

definition listing :: "World Kube" where
  "listing = mem\<lparr>ListSysctlProfiles := (\<lambda>w. Inr [blankProfile])\<rparr>"

definition blankWorld :: World where
  "blankWorld =
     \<lparr>world_objects = \<lparr>cl_SysctlProfiles = Map.empty, cl_ScriptProfiles = Map.empty, cl_ConfigMaps = Map.empty,
        cl_DaemonSets = Map.empty, cl_CronJobs = Map.empty, cl_Nodes = []\<rparr>,
      world_clock = 0, world_faults = [], world_counters = (\<lambda>_. 0)\<rparr>"

theorem profilesForNode_exact_witness:
  "([], ''p'') \<in> set (profilesForNode listing (NodeObject \<lparr>node_Name = ''n'', node_Labels = None\<rparr>) blankWorld)"
  by (subst profilesForNode_exact [of listing blankWorld "[blankProfile]"])
    (simp_all add: listing_def mem_def memSelector_def blankProfile_def zeroMeta_def)

text \<open>C36: The node updates that the predicate drops need no pass: for both kinds of profiles they map
  to the same requests before and after the update. Creations pass, deletions and generic events do
  not, and an update passes exactly when the labels of the node changed.\<close>

theorem dropped_node_updates_are_irrelevant:
  "(nodeLabelChanged e \<longleftrightarrow>
      e = CreateEvent \<or> (\<exists>old new. e = UpdateEvent (NodeObject old) (NodeObject new) \<and> node_Labels old \<noteq> node_Labels new))
   \<and> (\<not> nodeLabelChanged (UpdateEvent (NodeObject old) (NodeObject new)) \<longrightarrow>
        profilesForNode K (NodeObject new) w = profilesForNode K (NodeObject old) w
        \<and> scriptProfilesForNode K (NodeObject new) w = scriptProfilesForNode K (NodeObject old) w)"
  using nodeLabelChanged_iff [of e] sysctl_mapper.dropped_update [of old new K w]
    script_mapper.dropped_update [of old new K w] by simp

theorem dropped_node_updates_are_irrelevant_witness:
  "profilesForNode listing (NodeObject \<lparr>node_Name = ''renamed'', node_Labels = None\<rparr>) blankWorld
     = profilesForNode listing (NodeObject \<lparr>node_Name = ''n'', node_Labels = None\<rparr>) blankWorld"
  using dropped_node_updates_are_irrelevant [of CreateEvent "\<lparr>node_Name = ''n'', node_Labels = None\<rparr>"
      "\<lparr>node_Name = ''renamed'', node_Labels = None\<rparr>" listing blankWorld] by simp

end
