(* ===== verification/Cluster_Run.thy ===== *)
theory Cluster_Run
  imports Sysctl_Reconcile Script_Reconcile Report_Service Node_Events
begin

text \<open>
  The operator at work in a cluster: passes of the two controllers, requests to the report server and
  changes by others, in any order. A pass may work from a stale read of its profile, which is how a
  report that is recorded in the middle of a pass shows. The state of a profile that the report server
  keeps is a function of the reports recorded since the profile was created, whatever else happens;
  the locale \<open>status_log\<close> has the argument once, and both kinds of profiles are its instances.
\<close>

subsection \<open>Steps and runs\<close>

text \<open>
  The events: passes, requests with their method, their body and whether their report was recorded (the write
  of the status succeeded), and changes by others with the names of the sysctl profiles and of the script
  profiles that they create.
\<close>

datatype Event =
    SysctlPass NamespacedName
  | ScriptPass NamespacedName
  | Request string string bool
  | OthersChange "NamespacedName list" "NamespacedName list"

definition records :: "'w Kube \<Rightarrow> string \<Rightarrow> string \<Rightarrow> 'w \<Rightarrow> bool" where
  "records K method body w \<longleftrightarrow> method = ''POST'' \<and>
     (case decodeReport body of
        None \<Rightarrow> False
      | Some r \<Rightarrow> rep_Profile r \<noteq> [] \<and> rep_Namespace r \<noteq> [] \<and> rep_Node r \<noteq> [] \<and> fst (applyReport K r w) = None)"

text \<open>
  What others (users, the garbage collector, the kubelet) may do: anything to nodes, owned objects,
  metadata and specs, creation and removal of profiles included; but the part of a profile's status
  that the report server keeps is empty in a new profile and otherwise as it was, and conditions differ in
  their types, which the API server sees to.
\<close>

definition others_change :: "NamespacedName list \<Rightarrow> NamespacedName list \<Rightarrow> Cluster \<Rightarrow> Cluster \<Rightarrow> bool" where
  "others_change created createdScripts v v' \<longleftrightarrow>
     (\<forall>k p. cl_SysctlProfiles v' k = Some p \<longrightarrow>
        (if k \<in> set created then reported (sys_Status p) = reported (sys_Status blankProfile)
         else \<exists>old. cl_SysctlProfiles v k = Some old \<and> reported (sys_Status p) = reported (sys_Status old)))
     \<and> (\<forall>k p. cl_ScriptProfiles v' k = Some p \<longrightarrow>
        (if k \<in> set createdScripts then reportedScript (scr_Status p) = reportedScript (scr_Status blankScriptProfile)
         else \<exists>old. cl_ScriptProfiles v k = Some old \<and> reportedScript (scr_Status p) = reportedScript (scr_Status old)))
     \<and> (\<forall>k p. cl_SysctlProfiles v' k = Some p \<longrightarrow> distinct_types (sys_Conditions (sys_Status p)))
     \<and> (\<forall>k p. cl_ScriptProfiles v' k = Some p \<longrightarrow> distinct_types (scr_Conditions (scr_Status p)))"

inductive operator_step :: "'w Kube \<Rightarrow> string \<Rightarrow> ('w \<Rightarrow> Cluster) \<Rightarrow> 'w \<Rightarrow> Event \<Rightarrow> 'w \<Rightarrow> bool"
  for K :: "'w Kube" and img :: string and view :: "'w \<Rightarrow> Cluster" where
  sysctl_pass: "Reconcile K img req w = (r, w') \<Longrightarrow> operator_step K img view w (SysctlPass req) w'"
| script_pass: "ReconcileScript K img req w = (r, w') \<Longrightarrow> operator_step K img view w (ScriptPass req) w'"
| request: "handleReport K method body w = (status, w') \<Longrightarrow>
     operator_step K img view w (Request method body (records K method body w)) w'"
| others: "others_change ks ss (view w) (view w') \<Longrightarrow> operator_step K img view w (OthersChange ks ss) w'"

inductive runs :: "('w \<Rightarrow> Event \<Rightarrow> 'w \<Rightarrow> bool) \<Rightarrow> 'w \<Rightarrow> Event list \<Rightarrow> 'w \<Rightarrow> bool"
  for step :: "'w \<Rightarrow> Event \<Rightarrow> 'w \<Rightarrow> bool" where
  runs_Nil: "runs step w [] w"
| runs_snoc: "runs step w es w1 \<Longrightarrow> step w1 e w2 \<Longrightarrow> runs step w (es @ [e]) w2"

text \<open>
  The report on a profile in a request, if there is one, and the same only if it was recorded; and whether
  an event creates the profile.
\<close>

fun postedSysctl :: "NamespacedName \<Rightarrow> Event \<Rightarrow> StatusReport list" where
  "postedSysctl k (Request method body ok) =
     (case decodeReport body of
        None \<Rightarrow> []
      | Some r \<Rightarrow> if rep_Kind r \<noteq> kindScriptProfile \<and> (rep_Namespace r, rep_Profile r) = k then [r] else [])"
| "postedSysctl k _ = []"

fun postedScript :: "NamespacedName \<Rightarrow> Event \<Rightarrow> StatusReport list" where
  "postedScript k (Request method body ok) =
     (case decodeReport body of
        None \<Rightarrow> []
      | Some r \<Rightarrow> if rep_Kind r = kindScriptProfile \<and> (rep_Namespace r, rep_Profile r) = k then [r] else [])"
| "postedScript k _ = []"

fun isRecorded :: "Event \<Rightarrow> bool" where
  "isRecorded (Request method body ok) = ok"
| "isRecorded _ = False"

fun createsSysctl :: "NamespacedName \<Rightarrow> Event \<Rightarrow> bool" where
  "createsSysctl k (OthersChange ks ss) = (k \<in> set ks)"
| "createsSysctl k _ = False"

fun createsScript :: "NamespacedName \<Rightarrow> Event \<Rightarrow> bool" where
  "createsScript k (OthersChange ks ss) = (k \<in> set ss)"
| "createsScript k _ = False"

text \<open>What the events after the last creation yield, in order.\<close>

definition since :: "(Event \<Rightarrow> bool) \<Rightarrow> (Event \<Rightarrow> 'a list) \<Rightarrow> Event list \<Rightarrow> 'a list" where
  "since creates f es = foldl (\<lambda>acc e. if creates e then [] else acc @ f e) [] es"

lemma since_simps [simp]:
  "since creates f [] = []"
  "since creates f (es @ [e]) = (if creates e then [] else since creates f es @ f e)"
  by (simp_all add: since_def)

text \<open>The reports on a sysctl profile since its creation: those posted, and those recorded.\<close>

definition postedReports :: "NamespacedName \<Rightarrow> Event list \<Rightarrow> StatusReport list" where
  "postedReports k = since (createsSysctl k) (postedSysctl k)"

definition recordedReports :: "NamespacedName \<Rightarrow> Event list \<Rightarrow> StatusReport list" where
  "recordedReports k = since (createsSysctl k) (\<lambda>e. if isRecorded e then postedSysctl k e else [])"

subsection \<open>The interface\<close>

text \<open>
  A kind of profile whose reported part is only ever changed by recording a posted report, and by every
  report that is recorded: \<open>part\<close> is that part, \<open>fresh\<close> a profile without reports.
\<close>

locale status_log =
  fixes step :: "'w \<Rightarrow> Event \<Rightarrow> 'w \<Rightarrow> bool"
    and stored :: "'w \<Rightarrow> NamespacedName \<Rightarrow> 'p option"
    and part :: "'p \<Rightarrow> 's"
    and record_report :: "StatusReport \<Rightarrow> Time \<Rightarrow> 'p \<Rightarrow> 'p"
    and fresh :: 'p
    and posted :: "NamespacedName \<Rightarrow> Event \<Rightarrow> StatusReport list"
    and creates :: "NamespacedName \<Rightarrow> Event \<Rightarrow> bool"
  assumes step_part: "step w e w' \<Longrightarrow> stored w' k = Some p \<Longrightarrow>
      (if creates k e then part p = part fresh
       else \<exists>old. stored w k = Some old \<and>
           (\<not> (isRecorded e \<and> posted k e \<noteq> []) \<and> part p = part old
            \<or> (\<exists>r t. posted k e = [r] \<and> part p = part (record_report r t old))))"
    and record_part: "part p = part q \<Longrightarrow> part (record_report r t p) = part (record_report r t q)"
begin

definition replay :: "(StatusReport \<times> Time) list \<Rightarrow> 'p" where
  "replay rts = foldl (\<lambda>p (r, t). record_report r t p) fresh rts"

lemma replay_Nil [simp]: "replay [] = fresh"
  by (simp add: replay_def)

lemma replay_snoc [simp]: "replay (rts @ [(r, t)]) = record_report r t (replay rts)"
  by (simp add: replay_def)

text \<open>No report is invented, doubled or reordered, no recorded report is lost, and nothing but reports counts.\<close>

lemma run_replays:
  assumes "runs step w0 es w" and "stored w0 = (\<lambda>_. None)" and "stored w k = Some p"
  shows "\<exists>rts. subseq (since (creates k) (\<lambda>e. if isRecorded e then posted k e else []) es) (map fst rts)
    \<and> subseq (map fst rts) (since (creates k) (posted k) es) \<and> part p = part (replay rts)"
  using assms
proof (induction arbitrary: p rule: runs.induct)
  case (runs_Nil w)
  then show ?case by simp
next
  case (runs_snoc w es w1 e w2)
  show ?case
  proof (cases "creates k e")
    case True
    with step_part [OF runs_snoc.hyps(2) runs_snoc.prems(2)] show ?thesis
      by (intro exI [of _ "[]"]) simp
  next
    case False
    with step_part [OF runs_snoc.hyps(2) runs_snoc.prems(2)] obtain old where old: "stored w1 k = Some old"
      and p: "\<not> (isRecorded e \<and> posted k e \<noteq> []) \<and> part p = part old
        \<or> (\<exists>r t. posted k e = [r] \<and> part p = part (record_report r t old))" by auto
    from runs_snoc.IH [OF runs_snoc.prems(1) old] obtain rts where
      rts: "subseq (since (creates k) (\<lambda>e. if isRecorded e then posted k e else []) es) (map fst rts)"
      "subseq (map fst rts) (since (creates k) (posted k) es)" "part old = part (replay rts)" by blast
    from p show ?thesis
    proof (elim disjE exE conjE)
      assume "\<not> (isRecorded e \<and> posted k e \<noteq> [])" and "part p = part old"
      with rts False show ?thesis by (intro exI [of _ rts]) (auto simp: subseq_rev_drop_many)
    next
      fix r t
      assume r: "posted k e = [r]" and "part p = part (record_report r t old)"
      with rts(3) have "part p = part (record_report r t (replay rts))" using record_part by metis
      with rts r False show ?thesis by (intro exI [of _ "rts @ [(r, t)]"]) (auto simp: subseq_rev_drop_many)
    qed
  qed
qed

end

subsection \<open>The two kinds of profiles\<close>

lemma reported_record:
  "reported (sys_Status (recordSysctl r t p)) =
     (let nss = upsertList r t (sys_NodeStatuses (sys_Status p)) in
      (nss, of_nat (length (filter (\<lambda>ns. Phase ns = NodePhaseApplied) nss)),
       of_nat (length (filter (\<lambda>ns. Phase ns = NodePhaseFailed) nss)),
       ErroredPods (sys_Status p) + (if rep_Success r then 0 else 1)))"
proof -
  have "ErroredPods (sys_Status (recordSysctl r t p)) = ErroredPods (sys_Status p) + (if rep_Success r then 0 else 1)"
    by (simp add: recordSysctl_def recomputeCounts_def upsertNodeStatus_def Let_def split: option.splits prod.splits)
  then show ?thesis by (simp add: reported_def status_simps Let_def)
qed

lemma reportedScript_record:
  "reportedScript (scr_Status (recordScript r t p)) =
     (let nss = upsertList r t (scr_NodeStatuses (scr_Status p)) in
      (nss, of_nat (length (filter (\<lambda>ns. Phase ns = NodePhaseApplied) nss)),
       of_nat (length (filter (\<lambda>ns. Phase ns = NodePhaseFailed) nss))))"
  by (simp add: reportedScript_def status_simps Let_def)

lemma pass_effect_stored:
  assumes "pass_effect p v v'" and "cl_SysctlProfiles v' k = Some q"
  shows "\<exists>old. cl_SysctlProfiles v k = Some old \<and> reported (sys_Status q) = reported (sys_Status old)
    \<and> (distinct_types (sys_Conditions (sys_Status old)) \<longrightarrow> distinct_types (sys_Conditions (sys_Status q)))"
proof -
  from assms(1) obtain u where u: "same_unowned p v u"
    and "v' = u \<or> (\<exists>old new. cl_SysctlProfiles v (key_of (sys_meta p)) = Some old \<and> v' = set_sysctl (key_of (sys_meta p)) new u
       \<and> (case new of None \<Rightarrow> DeletionTimestamp (sys_meta old) \<noteq> 0
          | Some q \<Rightarrow> sys_Spec q = sys_Spec old \<and> reported (sys_Status q) = reported (sys_Status old)
              \<and> (distinct_types (sys_Conditions (sys_Status old)) \<longrightarrow> distinct_types (sys_Conditions (sys_Status q)))))"
    unfolding pass_effect_def by blast
  moreover from u have "cl_SysctlProfiles u = cl_SysctlProfiles v" by (simp add: same_except_def)
  ultimately show ?thesis using assms(2) by (auto split: if_splits option.splits)
qed

lemma script_pass_effect_stored:
  assumes "script_pass_effect p v v'" and "cl_ScriptProfiles v' k = Some q"
  shows "\<exists>old. cl_ScriptProfiles v k = Some old \<and> reportedScript (scr_Status q) = reportedScript (scr_Status old)
    \<and> (distinct_types (scr_Conditions (scr_Status old)) \<longrightarrow> distinct_types (scr_Conditions (scr_Status q)))"
proof -
  from assms(1) obtain u where u: "same_unowned_script p v u"
    and "v' = u \<or> (\<exists>old new. cl_ScriptProfiles v (key_of (scr_meta p)) = Some old \<and> v' = set_script (key_of (scr_meta p)) new u
       \<and> (case new of None \<Rightarrow> DeletionTimestamp (scr_meta old) \<noteq> 0
          | Some q \<Rightarrow> scr_Spec q = scr_Spec old \<and> reportedScript (scr_Status q) = reportedScript (scr_Status old)
              \<and> (distinct_types (scr_Conditions (scr_Status old)) \<longrightarrow> distinct_types (scr_Conditions (scr_Status q)))))"
    unfolding script_pass_effect_def by blast
  moreover from u have "cl_ScriptProfiles u = cl_ScriptProfiles v" by (simp add: same_except_def)
  ultimately show ?thesis using assms(2) by (auto split: if_splits option.splits)
qed

lemma pass_effect_other_kind:
  "pass_effect p v v' \<Longrightarrow> cl_ScriptProfiles v' = cl_ScriptProfiles v"
  "script_pass_effect s v v' \<Longrightarrow> cl_SysctlProfiles v' = cl_SysctlProfiles v"
  by (auto simp: pass_effect_def script_pass_effect_def same_except_def)

lemma recorded_stored:
  assumes "recorded r v v'"
  shows "cl_SysctlProfiles v' k = Some p \<Longrightarrow>
      \<exists>old. cl_SysctlProfiles v k = Some old \<and>
        (if rep_Kind r \<noteq> kindScriptProfile \<and> (rep_Namespace r, rep_Profile r) = k
         then \<exists>t. sys_Status p = sys_Status (recordSysctl r t old) else p = old)"
    and "cl_ScriptProfiles v' k = Some q \<Longrightarrow>
      \<exists>old. cl_ScriptProfiles v k = Some old \<and>
        (if rep_Kind r = kindScriptProfile \<and> (rep_Namespace r, rep_Profile r) = k
         then \<exists>t. scr_Status q = scr_Status (recordScript r t old) else q = old)"
  using assms by (fastforce simp: recorded_def recordedSysctl_def recordedScript_def split: if_splits)+

locale operator = kube K view + report_cluster K view counter for K :: "'w Kube" and view and counter
begin

lemma pass_of_Reconcile:
  assumes "Reconcile K img req w = (r, w')"
  shows "w' = w \<or> (\<exists>p. pass_effect p (view w) (view w'))"
  using assms Reconcile_effect [OF _ assms] sysctl_flow.reconcile_error [of req w]
  by (cases "GetSysctlProfile K req w") auto

lemma pass_of_ReconcileScript:
  assumes "ReconcileScript K img req w = (r, w')"
  shows "w' = w \<or> (\<exists>p. script_pass_effect p (view w) (view w'))"
  using assms ReconcileScript_effect [OF _ assms] script_flow.reconcile_error [of req w]
  by (cases "GetScriptProfile K req w") auto

lemma sysctl_pass_stored:
  assumes "Reconcile K img req w = (r, w')"
  shows "cl_SysctlProfiles (view w') k = Some q \<Longrightarrow>
      \<exists>old. cl_SysctlProfiles (view w) k = Some old \<and> reported (sys_Status q) = reported (sys_Status old)"
    and "cl_ScriptProfiles (view w') = cl_ScriptProfiles (view w)"
proof -
  show "cl_SysctlProfiles (view w') k = Some q \<Longrightarrow>
      \<exists>old. cl_SysctlProfiles (view w) k = Some old \<and> reported (sys_Status q) = reported (sys_Status old)"
    and "cl_ScriptProfiles (view w') = cl_ScriptProfiles (view w)"
    using pass_of_Reconcile [OF assms] pass_effect_stored pass_effect_other_kind by blast+
qed

lemma script_pass_stored:
  assumes "ReconcileScript K img req w = (r, w')"
  shows "cl_ScriptProfiles (view w') k = Some q \<Longrightarrow>
      \<exists>old. cl_ScriptProfiles (view w) k = Some old \<and> reportedScript (scr_Status q) = reportedScript (scr_Status old)"
    and "cl_SysctlProfiles (view w') = cl_SysctlProfiles (view w)"
proof -
  show "cl_ScriptProfiles (view w') k = Some q \<Longrightarrow>
      \<exists>old. cl_ScriptProfiles (view w) k = Some old \<and> reportedScript (scr_Status q) = reportedScript (scr_Status old)"
    and "cl_SysctlProfiles (view w') = cl_SysctlProfiles (view w)"
    using pass_of_ReconcileScript [OF assms] script_pass_effect_stored pass_effect_other_kind by blast+
qed

lemma request_recorded:
  assumes "handleReport K method body w = (status, w')"
  shows "\<not> records K method body w \<and> view w' = view w \<or> (\<exists>r. decodeReport body = Some r \<and> recorded r (view w) (view w'))"
proof (cases "decodeReport body")
  case None
  with assms show ?thesis by (auto simp: handleReport_def records_def split: if_splits)
next
  case (Some r)
  show ?thesis
  proof (cases "records K method body w")
    case True
    with Some obtain w1 where "rep_Profile r \<noteq> []" "rep_Namespace r \<noteq> []" "rep_Node r \<noteq> []"
      "applyReport K r w = (None, w1)" "method = ''POST''"
      by (cases "applyReport K r w") (auto simp: records_def)
    with handleReport_recorded [OF Some] assms Some show ?thesis by fastforce
  next
    case False
    with Some handleReport_effect [OF Some assms] show ?thesis by blast
  qed
qed

end

sublocale operator < sysctl_log: status_log "operator_step K img view" "\<lambda>w. cl_SysctlProfiles (view w)"
  "\<lambda>p. reported (sys_Status p)" recordSysctl blankProfile postedSysctl createsSysctl for img
proof unfold_locales
  show "reported (sys_Status (recordSysctl r t p)) = reported (sys_Status (recordSysctl r t q))"
    if "reported (sys_Status p) = reported (sys_Status q)" for p q r t
    using that by (simp add: reported_record Let_def) (simp add: reported_def)
  show "if createsSysctl k e then reported (sys_Status p) = reported (sys_Status blankProfile)
      else \<exists>old. cl_SysctlProfiles (view w) k = Some old \<and>
           (\<not> (isRecorded e \<and> postedSysctl k e \<noteq> []) \<and> reported (sys_Status p) = reported (sys_Status old)
            \<or> (\<exists>r t. postedSysctl k e = [r] \<and> reported (sys_Status p) = reported (sys_Status (recordSysctl r t old))))"
    if "operator_step K img view w e w'" and "cl_SysctlProfiles (view w') k = Some p" for w e w' k p
    using that
  proof (cases rule: operator_step.cases)
    case (sysctl_pass req r)
    from sysctl_pass_stored(1) [OF sysctl_pass(2) that(2)] show ?thesis by (simp add: sysctl_pass(1))
  next
    case (script_pass req r)
    from script_pass_stored(2) [OF script_pass(2)] that(2) show ?thesis by (simp add: script_pass(1))
  next
    case (request verb sent status)
    from request_recorded [OF request(2)] show ?thesis
    proof (elim disjE exE conjE)
      assume "\<not> records K verb sent w" and "view w' = view w"
      with that(2) request(1) show ?thesis by simp
    next
      fix r
      assume r: "decodeReport sent = Some r" "recorded r (view w) (view w')"
      from recorded_stored(1) [OF r(2) that(2)] r(1) request(1) show ?thesis by (auto split: if_splits)
    qed
  next
    case (others ks ss)
    from others(2) that(2) have "if k \<in> set ks then reported (sys_Status p) = reported (sys_Status blankProfile)
        else \<exists>old. cl_SysctlProfiles (view w) k = Some old \<and> reported (sys_Status p) = reported (sys_Status old)"
      unfolding others_change_def by blast
    with others(1) show ?thesis by simp
  qed
qed

sublocale operator < script_log: status_log "operator_step K img view" "\<lambda>w. cl_ScriptProfiles (view w)"
  "\<lambda>p. reportedScript (scr_Status p)" recordScript blankScriptProfile postedScript createsScript for img
proof unfold_locales
  show "reportedScript (scr_Status (recordScript r t p)) = reportedScript (scr_Status (recordScript r t q))"
    if "reportedScript (scr_Status p) = reportedScript (scr_Status q)" for p q r t
    using that by (simp add: reportedScript_record Let_def) (simp add: reportedScript_def)
  show "if createsScript k e then reportedScript (scr_Status p) = reportedScript (scr_Status blankScriptProfile)
      else \<exists>old. cl_ScriptProfiles (view w) k = Some old \<and>
           (\<not> (isRecorded e \<and> postedScript k e \<noteq> []) \<and> reportedScript (scr_Status p) = reportedScript (scr_Status old)
            \<or> (\<exists>r t. postedScript k e = [r] \<and> reportedScript (scr_Status p) = reportedScript (scr_Status (recordScript r t old))))"
    if "operator_step K img view w e w'" and "cl_ScriptProfiles (view w') k = Some p" for w e w' k p
    using that
  proof (cases rule: operator_step.cases)
    case (sysctl_pass req r)
    from sysctl_pass_stored(2) [OF sysctl_pass(2)] that(2) show ?thesis by (simp add: sysctl_pass(1))
  next
    case (script_pass req r)
    from script_pass_stored(1) [OF script_pass(2) that(2)] show ?thesis by (simp add: script_pass(1))
  next
    case (request verb sent status)
    from request_recorded [OF request(2)] show ?thesis
    proof (elim disjE exE conjE)
      assume "\<not> records K verb sent w" and "view w' = view w"
      with that(2) request(1) show ?thesis by simp
    next
      fix r
      assume r: "decodeReport sent = Some r" "recorded r (view w) (view w')"
      from recorded_stored(2) [OF r(2) that(2)] r(1) request(1) show ?thesis by (auto split: if_splits)
    qed
  next
    case (others ks ss)
    from others(2) that(2) have "if k \<in> set ss then reportedScript (scr_Status p) = reportedScript (scr_Status blankScriptProfile)
        else \<exists>old. cl_ScriptProfiles (view w) k = Some old \<and> reportedScript (scr_Status p) = reportedScript (scr_Status old)"
      unfolding others_change_def by blast
    with others(1) show ?thesis by simp
  qed
qed

interpretation mem_operator: operator mem world_objects world_counters
  by unfold_locales

subsection \<open>The schema of the status\<close>

text \<open>
  The markers \<open>listType=map\<close> of the API types: the entries of \<open>nodeStatuses\<close> differ in their node names, those
  of \<open>conditions\<close> in their types.
\<close>

definition schema_ok :: "Cluster \<Rightarrow> bool" where
  "schema_ok v \<longleftrightarrow>
     (\<forall>k p. cl_SysctlProfiles v k = Some p \<longrightarrow>
        distinct (map NodeName (sys_NodeStatuses (sys_Status p))) \<and> distinct_types (sys_Conditions (sys_Status p)))
     \<and> (\<forall>k p. cl_ScriptProfiles v k = Some p \<longrightarrow>
        distinct (map NodeName (scr_NodeStatuses (scr_Status p))) \<and> distinct_types (scr_Conditions (scr_Status p)))"

lemma schema_okD:
  assumes "schema_ok v"
  shows "cl_SysctlProfiles v k = Some p \<Longrightarrow> distinct (map NodeName (sys_NodeStatuses (sys_Status p))) \<and> distinct_types (sys_Conditions (sys_Status p))"
    and "cl_ScriptProfiles v k = Some q \<Longrightarrow> distinct (map NodeName (scr_NodeStatuses (scr_Status q))) \<and> distinct_types (scr_Conditions (scr_Status q))"
  using assms unfolding schema_ok_def by blast+

lemma schema_okI:
  assumes "\<And>k p. cl_SysctlProfiles v k = Some p \<Longrightarrow> distinct (map NodeName (sys_NodeStatuses (sys_Status p))) \<and> distinct_types (sys_Conditions (sys_Status p))"
    and "\<And>k p. cl_ScriptProfiles v k = Some p \<Longrightarrow> distinct (map NodeName (scr_NodeStatuses (scr_Status p))) \<and> distinct_types (scr_Conditions (scr_Status p))"
  shows "schema_ok v"
  using assms unfolding schema_ok_def by blast

lemma pass_effect_schema:
  assumes "pass_effect p v v'" and "schema_ok v"
  shows "schema_ok v'"
proof (rule schema_okI)
  fix k q assume "cl_SysctlProfiles v' k = Some q"
  from pass_effect_stored [OF assms(1) this] schema_okD(1) [OF assms(2), of k]
  show "distinct (map NodeName (sys_NodeStatuses (sys_Status q))) \<and> distinct_types (sys_Conditions (sys_Status q))"
    by (auto simp: reported_def)
next
  fix k q assume "cl_ScriptProfiles v' k = Some q"
  then show "distinct (map NodeName (scr_NodeStatuses (scr_Status q))) \<and> distinct_types (scr_Conditions (scr_Status q))"
    using schema_okD(2) [OF assms(2)] pass_effect_other_kind(1) [OF assms(1)] by simp
qed

lemma script_pass_effect_schema:
  assumes "script_pass_effect p v v'" and "schema_ok v"
  shows "schema_ok v'"
proof (rule schema_okI)
  fix k q assume "cl_ScriptProfiles v' k = Some q"
  from script_pass_effect_stored [OF assms(1) this] schema_okD(2) [OF assms(2), of k]
  show "distinct (map NodeName (scr_NodeStatuses (scr_Status q))) \<and> distinct_types (scr_Conditions (scr_Status q))"
    by (auto simp: reportedScript_def)
next
  fix k q assume "cl_SysctlProfiles v' k = Some q"
  then show "distinct (map NodeName (sys_NodeStatuses (sys_Status q))) \<and> distinct_types (sys_Conditions (sys_Status q))"
    using schema_okD(1) [OF assms(2)] pass_effect_other_kind(2) [OF assms(1)] by simp
qed

lemma record_schema:
  "distinct (map NodeName (sys_NodeStatuses (sys_Status p))) \<and> distinct_types (sys_Conditions (sys_Status p))
    \<Longrightarrow> distinct (map NodeName (sys_NodeStatuses (sys_Status (recordSysctl r t p)))) \<and> distinct_types (sys_Conditions (sys_Status (recordSysctl r t p)))"
  "distinct (map NodeName (scr_NodeStatuses (scr_Status q))) \<and> distinct_types (scr_Conditions (scr_Status q))
    \<Longrightarrow> distinct (map NodeName (scr_NodeStatuses (scr_Status (recordScript r t q)))) \<and> distinct_types (scr_Conditions (scr_Status (recordScript r t q)))"
proof -
  show "distinct (map NodeName (sys_NodeStatuses (sys_Status p))) \<and> distinct_types (sys_Conditions (sys_Status p))
    \<Longrightarrow> distinct (map NodeName (sys_NodeStatuses (sys_Status (recordSysctl r t p)))) \<and> distinct_types (sys_Conditions (sys_Status (recordSysctl r t p)))"
    and "distinct (map NodeName (scr_NodeStatuses (scr_Status q))) \<and> distinct_types (scr_Conditions (scr_Status q))
    \<Longrightarrow> distinct (map NodeName (scr_NodeStatuses (scr_Status (recordScript r t q)))) \<and> distinct_types (scr_Conditions (scr_Status (recordScript r t q)))"
    using sysctl_ledger.record_well_formed [of p r t] script_ledger.record_well_formed [of q r t]
    by (simp_all add: sysctl_ledger.well_formed_def script_ledger.well_formed_def recordSysctl_keeps recordScript_keeps)
qed

lemma recorded_schema:
  assumes "recorded r v v'" and "schema_ok v"
  shows "schema_ok v'"
proof (rule schema_okI)
  fix k p assume "cl_SysctlProfiles v' k = Some p"
  from recorded_stored(1) [OF assms(1) this] schema_okD(1) [OF assms(2), of k] record_schema(1)
  show "distinct (map NodeName (sys_NodeStatuses (sys_Status p))) \<and> distinct_types (sys_Conditions (sys_Status p))"
    by (auto split: if_splits)
next
  fix k p assume "cl_ScriptProfiles v' k = Some p"
  from recorded_stored(2) [OF assms(1) this] schema_okD(2) [OF assms(2), of k] record_schema(2)
  show "distinct (map NodeName (scr_NodeStatuses (scr_Status p))) \<and> distinct_types (scr_Conditions (scr_Status p))"
    by (auto split: if_splits)
qed

lemma others_schema:
  assumes "others_change ks ss v v'" and "schema_ok v"
  shows "schema_ok v'"
proof (rule schema_okI)
  fix k p assume p: "cl_SysctlProfiles v' k = Some p"
  with assms(1) have "reported (sys_Status p) = reported (sys_Status blankProfile)
      \<or> (\<exists>old. cl_SysctlProfiles v k = Some old \<and> reported (sys_Status p) = reported (sys_Status old))"
    and "distinct_types (sys_Conditions (sys_Status p))" unfolding others_change_def by metis+
  then show "distinct (map NodeName (sys_NodeStatuses (sys_Status p))) \<and> distinct_types (sys_Conditions (sys_Status p))"
    using schema_okD(1) [OF assms(2), of k] by (auto simp: reported_def blankProfile_def)
next
  fix k p assume p: "cl_ScriptProfiles v' k = Some p"
  with assms(1) have "reportedScript (scr_Status p) = reportedScript (scr_Status blankScriptProfile)
      \<or> (\<exists>old. cl_ScriptProfiles v k = Some old \<and> reportedScript (scr_Status p) = reportedScript (scr_Status old))"
    and "distinct_types (scr_Conditions (scr_Status p))" unfolding others_change_def by metis+
  then show "distinct (map NodeName (scr_NodeStatuses (scr_Status p))) \<and> distinct_types (scr_Conditions (scr_Status p))"
    using schema_okD(2) [OF assms(2), of k] by (auto simp: reportedScript_def blankScriptProfile_def)
qed

context operator
begin

lemma step_keeps_schema:
  assumes "operator_step K img view w e w'" and "schema_ok (view w)"
  shows "schema_ok (view w')"
  using assms(1)
proof (cases rule: operator_step.cases)
  case (sysctl_pass req r)
  then show ?thesis using assms(2) pass_of_Reconcile pass_effect_schema by blast
next
  case (script_pass req r)
  then show ?thesis using assms(2) pass_of_ReconcileScript script_pass_effect_schema by blast
next
  case (request verb sent status)
  then show ?thesis using assms(2) request_recorded recorded_schema by metis
next
  case (others ks ss)
  with assms(2) others_schema show ?thesis by metis
qed

lemma run_keeps_schema:
  assumes "runs (operator_step K img view) w0 es w" and "schema_ok (view w0)"
  shows "schema_ok (view w)"
  using assms by (induction rule: runs.induct) (auto intro: step_keeps_schema)

end

subsection \<open>What the status says after a run\<close>

abbreviation replaySysctl :: "(StatusReport \<times> Time) list \<Rightarrow> SysctlProfile" where
  "replaySysctl rts \<equiv> foldl (\<lambda>p (r, t). recordSysctl r t p) blankProfile rts"

lemma replay_reported:
  "reported (sys_Status (replaySysctl rts)) =
     (let nss = sys_NodeStatuses (sys_Status (replaySysctl rts)) in
      (nss, of_nat (length (filter (\<lambda>ns. Phase ns = NodePhaseApplied) nss)),
       of_nat (length (filter (\<lambda>ns. Phase ns = NodePhaseFailed) nss)),
       of_nat (length (filter (\<lambda>rt. \<not> rep_Success (fst rt)) rts))))"
proof (induction rts rule: rev_induct)
  case Nil
  show ?case by (simp add: reported_def blankProfile_def)
next
  case (snoc rt rts)
  obtain r t where rt: "rt = (r, t)" by fastforce
  from snoc have "ErroredPods (sys_Status (replaySysctl rts)) = of_nat (length (filter (\<lambda>rt. \<not> rep_Success (fst rt)) rts))"
    by (simp add: reported_def Let_def)
  then show ?case by (simp add: rt reported_record status_simps Let_def)
qed

lemma replay_ledger: "ledger (sys_NodeStatuses (sys_Status (replaySysctl rts))) = (\<lambda>n. history n rts)"
  using sysctl_ledger.record_all_history [of blankProfile rts, unfolded sysctl_ledger.record_all_def]
  by (simp add: blankProfile_def)

lemma replay_distinct: "distinct (map NodeName (sys_NodeStatuses (sys_Status (replaySysctl rts))))"
  using sysctl_ledger.record_all_well_formed [of blankProfile rts]
  by (simp add: sysctl_ledger.well_formed_def sysctl_ledger.record_all_def blankProfile_def)

context operator
begin

lemma sysctl_run_replays:
  assumes "runs (operator_step K img view) w0 es w" and "cl_SysctlProfiles (view w0) = Map.empty"
    and "cl_SysctlProfiles (view w) k = Some p"
  obtains rts where "subseq (recordedReports k es) (map fst rts)" and "subseq (map fst rts) (postedReports k es)"
    and "reported (sys_Status p) = reported (sys_Status (replaySysctl rts))"
  using sysctl_log.run_replays [OF assms, unfolded sysctl_log.replay_def]
  unfolding recordedReports_def postedReports_def by blast

lemma script_run_replays:
  assumes "runs (operator_step K img view) w0 es w" and "cl_ScriptProfiles (view w0) = Map.empty"
    and "cl_ScriptProfiles (view w) k = Some p"
  obtains rts where "subseq (since (createsScript k) (\<lambda>e. if isRecorded e then postedScript k e else []) es) (map fst rts)"
    and "subseq (map fst rts) (since (createsScript k) (postedScript k) es)"
    and "reportedScript (scr_Status p)
      = reportedScript (scr_Status (foldl (\<lambda>p (r, t). recordScript r t p) blankScriptProfile rts))"
  using script_log.run_replays [OF assms, unfolded script_log.replay_def] by blast

text \<open>A pass from a fresh read decides by the reports of the run.\<close>

lemma run_then_pass:
  assumes "runs (operator_step K img view) w0 es w" and "cl_SysctlProfiles (view w0) = Map.empty"
    and "GetSysctlProfile K k w = Inr p" and "cl_SysctlProfiles (view w) k = Some p"
    and "DeletionTimestamp (sys_meta p) = 0" and "finalizer \<in> set (Finalizers (sys_meta p))"
    and "Reconcile K img k w = (None, w')"
  shows "\<exists>rts. subseq (recordedReports k es) (map fst rts) \<and> subseq (map fst rts) (postedReports k es)
    \<and> ledger (sys_NodeStatuses (sys_Status p)) = (\<lambda>n. history n rts)
    \<and> (cl_DaemonSets (view w') (configKey p) = None \<longleftrightarrow>
         targetsOf K p (view w) \<noteq> [] \<and> (\<forall>n\<in>set (targetsOf K p (view w)).
            \<exists>r. last_report n rts = Some r \<and> rep_Success r \<and> rep_Hash r = desiredHash p))"
proof -
  from assms(1,2,4) obtain rts where log: "subseq (recordedReports k es) (map fst rts)" "subseq (map fst rts) (postedReports k es)"
    and rts: "reported (sys_Status p) = reported (sys_Status (replaySysctl rts))" by (rule sysctl_run_replays)
  from rts have "allNodesApplied p sel h = allNodesApplied (replaySysctl rts) sel h" for sel h
    by (intro allNodesApplied_cong) (simp add: reported_def)
  then have "allNodesApplied p sel h \<longleftrightarrow> sel \<noteq> [] \<and>
      (\<forall>n\<in>set sel. \<exists>r. last_report n rts = Some r \<and> rep_Success r \<and> rep_Hash r = h)" for sel h
    using sysctl_ledger.all_applied_after_reports [of blankProfile rts sel h]
    by (auto simp: sysctl_ledger.well_formed_def sysctl_ledger.record_all_def blankProfile_def ledger_def applied_at_def
        split: option.splits)
  moreover have "cl_DaemonSets (view w') (configKey p) = None \<longleftrightarrow> allNodesApplied p (targetsOf K p (view w)) (desiredHash p)"
    using Reconcile_ok [OF assms(3,5-7)] by (auto split: if_splits)
  moreover have "ledger (sys_NodeStatuses (sys_Status p)) = (\<lambda>n. history n rts)"
    using rts replay_ledger [of rts] by (simp add: reported_def)
  ultimately show ?thesis using log by (intro exI [of _ rts]) simp
qed

end

text \<open>The same for script profiles.\<close>

lemma replayScript_reported:
  "reportedScript (scr_Status (foldl (\<lambda>p (r, t). recordScript r t p) blankScriptProfile rts)) =
     (let nss = scr_NodeStatuses (scr_Status (foldl (\<lambda>p (r, t). recordScript r t p) blankScriptProfile rts)) in
      (nss, of_nat (length (filter (\<lambda>ns. Phase ns = NodePhaseApplied) nss)),
       of_nat (length (filter (\<lambda>ns. Phase ns = NodePhaseFailed) nss))))"
proof (cases rts rule: rev_cases)
  case Nil
  then show ?thesis by (simp add: reportedScript_def blankScriptProfile_def)
next
  case (snoc ys rt)
  then show ?thesis by (cases rt) (simp add: reportedScript_record status_simps Let_def)
qed

lemma replayScript_distinct:
  "distinct (map NodeName (scr_NodeStatuses (scr_Status (foldl (\<lambda>p (r, t). recordScript r t p) blankScriptProfile rts))))"
  using script_ledger.record_all_well_formed [of blankScriptProfile rts]
  by (simp add: script_ledger.well_formed_def script_ledger.record_all_def blankScriptProfile_def)

lemma run_script_status:
  assumes "operator K view counter" and "runs (operator_step K img view) w0 es w"
    and "cl_ScriptProfiles (view w0) = Map.empty" and "cl_ScriptProfiles (view w) k = Some p"
  shows "\<exists>rts. subseq (since (createsScript k) (\<lambda>e. if isRecorded e then postedScript k e else []) es) (map fst rts)
    \<and> subseq (map fst rts) (since (createsScript k) (postedScript k) es)
    \<and> ledger (scr_NodeStatuses (scr_Status p)) = (\<lambda>n. history n rts)
    \<and> scr_AppliedNodes (scr_Status p)
        = of_nat (length (filter (\<lambda>ns. Phase ns = NodePhaseApplied) (scr_NodeStatuses (scr_Status p))))
    \<and> scr_FailedNodes (scr_Status p)
        = of_nat (length (filter (\<lambda>ns. Phase ns = NodePhaseFailed) (scr_NodeStatuses (scr_Status p))))"
proof -
  obtain rts where rts: "subseq (since (createsScript k) (\<lambda>e. if isRecorded e then postedScript k e else []) es) (map fst rts)"
    "subseq (map fst rts) (since (createsScript k) (postedScript k) es)"
    "reportedScript (scr_Status p) = reportedScript (scr_Status (foldl (\<lambda>p (r, t). recordScript r t p) blankScriptProfile rts))"
    by (rule operator.script_run_replays [OF assms])
  have "ledger (scr_NodeStatuses (scr_Status (foldl (\<lambda>p (r, t). recordScript r t p) blankScriptProfile rts))) = (\<lambda>n. history n rts)"
    using script_ledger.record_all_history [of blankScriptProfile rts, unfolded script_ledger.record_all_def]
    by (simp add: blankScriptProfile_def)
  with rts replayScript_reported [of rts] show ?thesis
    by (intro exI [of _ rts]) (simp add: reportedScript_def Let_def)
qed

subsection \<open>Properties\<close>

text \<open>C4: However passes of both controllers, requests and changes by others interleave, what the status
  of a stored sysctl profile says about nodes is the history of reports on it since it was created: there
  is a sequence of reports \<open>rts\<close> that has all recorded reports and only posted ones, in order, such that every node's entry is its
  history in it, no node has two entries, and the three counters are the numbers of applied and failed entries
  and of failed reports (as 32-bit numbers). So no pass adds, loses or doubles a report, and no report whose
  recording the server's client acknowledged is lost. (A report between the two bounds is one whose request
  failed at the API server, which may or may not have had its effect.)\<close>

theorem run_status_is_report_history:
  assumes "operator K view counter" and "runs (operator_step K img view) w0 es w"
    and "cl_SysctlProfiles (view w0) = Map.empty" and "cl_SysctlProfiles (view w) k = Some p"
  shows "\<exists>rts. subseq (recordedReports k es) (map fst rts) \<and> subseq (map fst rts) (postedReports k es)
    \<and> ledger (sys_NodeStatuses (sys_Status p)) = (\<lambda>n. history n rts)
    \<and> distinct (map NodeName (sys_NodeStatuses (sys_Status p)))
    \<and> sys_AppliedNodes (sys_Status p)
        = of_nat (length (filter (\<lambda>ns. Phase ns = NodePhaseApplied) (sys_NodeStatuses (sys_Status p))))
    \<and> sys_FailedNodes (sys_Status p)
        = of_nat (length (filter (\<lambda>ns. Phase ns = NodePhaseFailed) (sys_NodeStatuses (sys_Status p))))
    \<and> ErroredPods (sys_Status p) = of_nat (length (filter (\<lambda>rt. \<not> rep_Success (fst rt)) rts))"
proof -
  obtain rts where log: "subseq (recordedReports k es) (map fst rts)" "subseq (map fst rts) (postedReports k es)"
    and rts: "reported (sys_Status p) = reported (sys_Status (replaySysctl rts))"
    by (rule operator.sysctl_run_replays [OF assms])
  from rts have "reported (sys_Status p) =
      (sys_NodeStatuses (sys_Status (replaySysctl rts)),
       of_nat (length (filter (\<lambda>ns. Phase ns = NodePhaseApplied) (sys_NodeStatuses (sys_Status (replaySysctl rts))))),
       of_nat (length (filter (\<lambda>ns. Phase ns = NodePhaseFailed) (sys_NodeStatuses (sys_Status (replaySysctl rts))))),
       of_nat (length (filter (\<lambda>rt. \<not> rep_Success (fst rt)) rts)))"
    using replay_reported [of rts] by (simp add: Let_def)
  with log replay_ledger [of rts] replay_distinct [of rts] show ?thesis
    by (intro exI [of _ rts]) (simp add: reported_def)
qed

text \<open>A run: someone creates the profiles of the examples.\<close>

lemma exCreated: "operator_step mem img world_objects blankWorld (OthersChange [exKey] [exKey]) exWorld"
  by (rule operator_step.others)
    (simp add: others_change_def exWorld_def worldWith_def exProfile_def exScriptProfile_def exStatus_def blankProfile_def
      blankScriptProfile_def reported_def reportedScript_def distinct_types_def)

lemma exRun: "runs (operator_step mem img world_objects) blankWorld [OthersChange [exKey] [exKey]] exWorld"
proof -
  have "runs (operator_step mem img world_objects) blankWorld ([] @ [OthersChange [exKey] [exKey]]) exWorld"
    by (rule runs_snoc, rule runs_Nil, rule exCreated)
  then show ?thesis by simp
qed

text \<open>C13: In every run of the cluster, a successful pass from a fresh read of a live profile tears the
  applier DaemonSet down exactly when some node is selected and the last of the recorded reports of
  every selected node is a success at the current hash. The sequence of recorded reports has all reports whose
  recording succeeded since the profile was created, and only posted ones, in order.\<close>

theorem run_rollout_follows_reports:
  assumes "operator K view counter" and "runs (operator_step K img view) w0 es w"
    and "cl_SysctlProfiles (view w0) = Map.empty"
    and "GetSysctlProfile K k w = Inr p" and "cl_SysctlProfiles (view w) k = Some p"
    and "DeletionTimestamp (sys_meta p) = 0" and "finalizer \<in> set (Finalizers (sys_meta p))"
    and "Reconcile K img k w = (None, w')"
  shows "\<exists>rts. subseq (recordedReports k es) (map fst rts) \<and> subseq (map fst rts) (postedReports k es)
    \<and> ledger (sys_NodeStatuses (sys_Status p)) = (\<lambda>n. history n rts)
    \<and> (cl_DaemonSets (view w') (configKey p) = None \<longleftrightarrow>
         targetsOf K p (view w) \<noteq> [] \<and> (\<forall>n\<in>set (targetsOf K p (view w)).
            \<exists>r. last_report n rts = Some r \<and> rep_Success r \<and> rep_Hash r = desiredHash p))"
  by (rule operator.run_then_pass [OF assms])

theorem run_rollout_follows_reports_witness:
  "cl_DaemonSets (world_objects (snd (Reconcile mem ''img'' exKey exWorld))) (configKey exProfile) \<noteq> None"
proof -
  have "Reconcile mem ''img'' exKey exWorld = (None, snd (Reconcile mem ''img'' exKey exWorld))"
    using exReconcile by (metis prod.collapse)
  from run_rollout_follows_reports [OF mem_operator.operator_axioms exRun _ exGet exLive this]
  obtain rts where "subseq (map fst rts) (postedReports exKey [OthersChange [exKey] [exKey]])"
    and "cl_DaemonSets (world_objects (snd (Reconcile mem ''img'' exKey exWorld))) (configKey exProfile) = None \<longleftrightarrow>
      [''n1''] \<noteq> [] \<and> (\<forall>n\<in>set [''n1'']. \<exists>r. last_report n rts = Some r \<and> rep_Success r \<and> rep_Hash r = desiredHash exProfile)"
    unfolding exTargets by (auto simp: blankWorld_def)
  then show ?thesis by (cases rts) (auto simp: postedReports_def since_def)
qed

text \<open>The pod of the selected node reports success.\<close>

definition exDone :: Report where
  "exDone = (exPosted True [] ''n1'')\<lparr>wr_Hash := desiredHash exProfile\<rparr>"

definition exDoneReport :: StatusReport where
  "exDoneReport = (exReport True [])\<lparr>rep_Hash := desiredHash exProfile\<rparr>"

lemma exDone_decodes: "decodeReport (marshalReport exDone) = Some exDoneReport"
proof -
  have "length (marshalReport exDone) \<le> 1000"
    by (rule order_trans [OF marshalReport_length]) (simp add: exDone_def exPosted_def stringsSize_def)
  then have "decodeReport (marshalReport exDone) = Some (received exDone)"
    by (intro decode_marshalReport) (simp add: maxReportBytes_def)
  then show ?thesis by (simp add: received_def exDone_def exDoneReport_def exPosted_def exReport_def toValid_hex [OF hashContent_hex])
qed

lemma exDoneReport_sel [simp]:
  "rep_Kind exDoneReport = []" "rep_Namespace exDoneReport = ''ops''" "rep_Profile exDoneReport = ''tuning''"
  "rep_Node exDoneReport = ''n1''" "rep_Success exDoneReport" "rep_Hash exDoneReport = desiredHash exProfile"
  by (simp_all add: exDoneReport_def)

text \<open>The cluster of the examples after a report on its profile.\<close>

definition exRecorded :: "StatusReport \<Rightarrow> SysctlProfile" where
  "exRecorded r = exProfile\<lparr>sys_meta := exMeta\<lparr>ResourceVersion := 8\<rparr>,
     sys_Status := sys_Status (recordSysctl r (world_clock exWorld) exProfile)\<rparr>"

definition exReported :: "StatusReport \<Rightarrow> World" where
  "exReported r = on_objects (set_sysctl exKey (Some (exRecorded r))) exWorld"

lemma exRecorded_sel [simp]: "sys_meta (exRecorded r) = exMeta\<lparr>ResourceVersion := 8\<rparr>" "sys_Spec (exRecorded r) = exSpec"
  by (simp_all add: exRecorded_def exProfile_def)

lemma ex_applies:
  assumes "rep_Kind r = []" and "rep_Namespace r = ''ops''" and "rep_Profile r = ''tuning''"
  shows "applyReport mem r exWorld = (None, exReported r)"
proof -
  have "world_faults exWorld = []" by (simp add: exWorld_def worldWith_def)
  moreover have "key_of (sys_meta exProfile) = (''ops'', ''tuning'')" "sys_meta exProfile = exMeta" "ResourceVersion exMeta = 7"
    "cl_SysctlProfiles (world_objects exWorld) (''ops'', ''tuning'') = Some exProfile"
    using exGet(2) by (simp_all add: exProfile_def exMeta_def exKey_def)
  ultimately show ?thesis
    using assms by (simp add: applyReport_def kindScriptProfile_def sysctlReportAttempt_def mem_def memGetSysctl_def memStatusSysctl_def
        exRecorded_def exReported_def exKey_def numeral_eq_Suc)
qed

lemma exReported_stored:
  "GetSysctlProfile mem exKey (exReported r) = Inr (exRecorded r)"
  "cl_SysctlProfiles (world_objects (exReported r)) exKey = Some (exRecorded r)"
  by (simp_all add: mem_def memGetSysctl_def exReported_def on_objects_def exMeta_def exKey_def)

lemma exReported_reconciles:
  assumes "rep_Node r = ''n1''" and "rep_Success r" and "rep_Hash r = desiredHash exProfile"
  shows "fst (Reconcile mem ''img'' exKey (exReported r)) = None"
  using assms by (simp add: exReported_def reconcile_eval deleteDaemonSet_def mem_eval ex_defs fmpred_iff Let_def split: if_splits)

lemma exReported_eq: "handleReport mem ''POST'' (marshalReport exDone) exWorld = (200, exReported exDoneReport)"
  by (simp add: handleReport_def exDone_decodes ex_applies)

text \<open>C15: The statuses that the operator stores satisfy the schema of the API types: in every run from a cluster
  without profiles, no stored profile of either kind has two entries for one node or two conditions of one
  type, whichever of the controllers, the report server and others wrote it last, and however stale the
  reads of the controllers were.\<close>

theorem stored_status_schema:
  assumes "operator K view counter" and "runs (operator_step K img view) w0 es w"
    and "cl_SysctlProfiles (view w0) = Map.empty" and "cl_ScriptProfiles (view w0) = Map.empty"
  shows "(\<forall>k p. cl_SysctlProfiles (view w) k = Some p \<longrightarrow>
        distinct (map NodeName (sys_NodeStatuses (sys_Status p))) \<and> distinct (map cond_Type (sys_Conditions (sys_Status p))))
    \<and> (\<forall>k p. cl_ScriptProfiles (view w) k = Some p \<longrightarrow>
        distinct (map NodeName (scr_NodeStatuses (scr_Status p))) \<and> distinct (map cond_Type (scr_Conditions (scr_Status p))))"
proof -
  have "schema_ok (view w0)" using assms(3,4) by (simp add: schema_ok_def)
  from operator.run_keeps_schema [OF assms(1,2) this] show ?thesis unfolding schema_ok_def distinct_types_def .
qed

text \<open>The profile is created, its pod reports success, and a pass follows.\<close>

lemma exDone_recorded: "records mem ''POST'' (marshalReport exDone) exWorld"
  by (simp add: records_def exDone_decodes ex_applies)

definition exEvents :: "Event list" where
  "exEvents = [OthersChange [exKey] [exKey], Request ''POST'' (marshalReport exDone) True, SysctlPass exKey]"

lemma exLongRun:
  "runs (operator_step mem ''img'' world_objects) blankWorld exEvents (snd (Reconcile mem ''img'' exKey (exReported exDoneReport)))"
proof -
  have "operator_step mem ''img'' world_objects exWorld (Request ''POST'' (marshalReport exDone) True) (exReported exDoneReport)"
    using operator_step.request [OF exReported_eq] exDone_recorded by simp
  then have "runs (operator_step mem ''img'' world_objects) blankWorld
      ([OthersChange [exKey] [exKey]] @ [Request ''POST'' (marshalReport exDone) True]) (exReported exDoneReport)"
    by (rule runs_snoc [OF exRun])
  then have "runs (operator_step mem ''img'' world_objects) blankWorld
      (([OthersChange [exKey] [exKey]] @ [Request ''POST'' (marshalReport exDone) True]) @ [SysctlPass exKey])
      (snd (Reconcile mem ''img'' exKey (exReported exDoneReport)))"
    by (rule runs_snoc) (rule operator_step.sysctl_pass, rule prod.collapse [symmetric])
  then show ?thesis by (simp add: exEvents_def)
qed

lemma exEvents_reports: "postedReports exKey exEvents = [exDoneReport]" "recordedReports exKey exEvents = [exDoneReport]"
  by (simp_all add: postedReports_def recordedReports_def since_def exEvents_def exDone_decodes exKey_def kindScriptProfile_def)

text \<open>After that run the profile's status has the one report that was posted.\<close>

theorem run_status_is_report_history_witness:
  "\<exists>p. cl_SysctlProfiles (world_objects (snd (Reconcile mem ''img'' exKey (exReported exDoneReport)))) exKey = Some p
     \<and> ledger (sys_NodeStatuses (sys_Status p)) ''n1'' \<noteq> None \<and> ErroredPods (sys_Status p) = 0"
proof -
  let ?w = "snd (Reconcile mem ''img'' exKey (exReported exDoneReport))"
  have "Reconcile mem ''img'' exKey (exReported exDoneReport) = (None, ?w)"
    using exReported_reconciles [OF exDoneReport_sel(4-6)] by (metis prod.collapse)
  moreover have "DeletionTimestamp (sys_meta (exRecorded exDoneReport)) = 0"
    "finalizer \<in> set (Finalizers (sys_meta (exRecorded exDoneReport)))"
    using exLive by (simp_all add: exProfile_def)
  ultimately obtain p where p: "cl_SysctlProfiles (world_objects ?w) exKey = Some p"
    using kube.Reconcile_status(1) [OF mem_kube.kube_axioms exReported_stored] by fastforce
  have "cl_SysctlProfiles (world_objects blankWorld) = Map.empty" by (simp add: blankWorld_def)
  from run_status_is_report_history [OF mem_operator.operator_axioms exLongRun this p] obtain rts where
    s: "subseq (map fst rts) [exDoneReport]" "subseq [exDoneReport] (map fst rts)"
    and l: "ledger (sys_NodeStatuses (sys_Status p)) = (\<lambda>n. history n rts)"
    and e: "ErroredPods (sys_Status p) = of_nat (length (filter (\<lambda>rt. \<not> rep_Success (fst rt)) rts))"
    unfolding exEvents_reports by blast
  from s have "map fst rts = [exDoneReport]" by (rule subseq_order.antisym)
  then obtain t where "rts = [(exDoneReport, t)]" by auto
  with l e p show ?thesis by (simp add: history_def reports_of_def)
qed

theorem stored_status_schema_witness:
  "case cl_SysctlProfiles (world_objects (snd (Reconcile mem ''img'' exKey (exReported exDoneReport)))) exKey of
     None \<Rightarrow> True
   | Some p \<Rightarrow> distinct (map NodeName (sys_NodeStatuses (sys_Status p))) \<and> distinct (map cond_Type (sys_Conditions (sys_Status p)))"
proof -
  have "cl_SysctlProfiles (world_objects blankWorld) = Map.empty" "cl_ScriptProfiles (world_objects blankWorld) = Map.empty"
    by (simp_all add: blankWorld_def)
  from conjunct1 [OF stored_status_schema [OF mem_operator.operator_axioms exLongRun this]]
  show ?thesis unfolding option.case_eq_if by (metis option.collapse)
qed

end
