(* ===== verification/Manager_Main.thy ===== *)
theory Manager_Main
  imports Report_Endpoint Cluster_Run
begin

text \<open>
  The manager's entry point: the scheme of \<open>api/v1alpha1/groupversion_info.go\<close>, the watches that both
  \<open>SetupWithManager\<close> register, and \<open>cmd/main.go\<close>: flags, options of the servers, and the sequence of
  calls that build and run the manager. \<open>controller-runtime\<close> is a record of functions over the state of
  the manager; the client it hands out is the \<open>Kube\<close> record of the other components.
\<close>

subsection \<open>The scheme\<close>

record GroupVersion =
  gv_Group :: string
  gv_Version :: string

record GroupVersionKind =
  gvk_GroupVersion :: GroupVersion
  gvk_Kind :: string

type_synonym Scheme = "GroupVersionKind list"

definition SchemeGroupVersion :: GroupVersion where
  "SchemeGroupVersion = \<lparr>gv_Group = ''sysctl.k8s.io'', gv_Version = ''v1alpha1''\<rparr>"

definition AddKnownTypes :: "GroupVersion \<Rightarrow> string list \<Rightarrow> Scheme \<Rightarrow> Scheme" where
  "AddKnownTypes gv kinds scheme = scheme @ map (\<lambda>k. \<lparr>gvk_GroupVersion = gv, gvk_Kind = k\<rparr>) kinds"

text \<open>
  The functions of the scheme builder, in the order in which they are registered: the one it is made
  with (\<open>metav1.AddToGroupVersion\<close> is the argument \<open>addMeta\<close>), then those of the two \<open>init\<close> functions.
\<close>

definition registerScriptProfile :: "Scheme \<Rightarrow> Scheme" where
  "registerScriptProfile = AddKnownTypes SchemeGroupVersion [''ScriptProfile'', ''ScriptProfileList'']"

definition registerSysctlProfile :: "Scheme \<Rightarrow> Scheme" where
  "registerSysctlProfile = AddKnownTypes SchemeGroupVersion [''SysctlProfile'', ''SysctlProfileList'']"

definition schemeBuilder :: "(GroupVersion \<Rightarrow> Scheme \<Rightarrow> Scheme) \<Rightarrow> (Scheme \<Rightarrow> Scheme) list" where
  "schemeBuilder addMeta =
     [addMeta SchemeGroupVersion, registerScriptProfile, registerSysctlProfile]"

definition AddToScheme :: "(GroupVersion \<Rightarrow> Scheme \<Rightarrow> Scheme) \<Rightarrow> Scheme \<Rightarrow> Scheme" where
  "AddToScheme addMeta scheme = fold (\<lambda>f s. f s) (schemeBuilder addMeta) scheme"

text \<open>\<open>init\<close> of \<open>cmd/main.go\<close>: \<open>addClientGo\<close> is \<open>clientgoscheme.AddToScheme\<close>.\<close>

definition managerScheme :: "(Scheme \<Rightarrow> Scheme) \<Rightarrow> (GroupVersion \<Rightarrow> Scheme \<Rightarrow> Scheme) \<Rightarrow> Scheme" where
  "managerScheme addClientGo addMeta = AddToScheme addMeta (addClientGo [])"

lemmas scheme_simps = registerScriptProfile_def registerSysctlProfile_def AddKnownTypes_def

subsection \<open>Watches\<close>

text \<open>What a controller is built from: its reconciler, the kind it is for, the kinds it owns, and the node watch.\<close>

record 'w ControllerSpec =
  ctl_Name :: string
  ctl_For :: GroupVersionKind
  ctl_Owns :: "string list"
  ctl_NodeRequests :: "ClientObject \<Rightarrow> 'w \<Rightarrow> NamespacedName list"
  ctl_NodePredicate :: "NodeEvent \<Rightarrow> bool"
  ctl_Reconcile :: "NamespacedName \<Rightarrow> 'w \<Rightarrow> 'w result"

definition SysctlSetup :: "'w Kube \<Rightarrow> string \<Rightarrow> 'w ControllerSpec" where
  "SysctlSetup K WorkerImage =
     \<lparr>ctl_Name = ''sysctlprofile'',
      ctl_For = \<lparr>gvk_GroupVersion = SchemeGroupVersion, gvk_Kind = ''SysctlProfile''\<rparr>,
      ctl_Owns = [''ConfigMap'', ''DaemonSet'', ''CronJob''],
      ctl_NodeRequests = profilesForNode K, ctl_NodePredicate = nodeLabelChanged,
      ctl_Reconcile = Reconcile K WorkerImage\<rparr>"

definition ScriptSetup :: "'w Kube \<Rightarrow> string \<Rightarrow> 'w ControllerSpec" where
  "ScriptSetup K WorkerImage =
     \<lparr>ctl_Name = ''scriptprofile'',
      ctl_For = \<lparr>gvk_GroupVersion = SchemeGroupVersion, gvk_Kind = ''ScriptProfile''\<rparr>,
      ctl_Owns = [''ConfigMap'', ''DaemonSet''],
      ctl_NodeRequests = scriptProfilesForNode K, ctl_NodePredicate = nodeLabelChanged,
      ctl_Reconcile = ReconcileScript K WorkerImage\<rparr>"

subsection \<open>Options\<close>

text \<open>The command line: the string and the boolean flags that were given.\<close>

record CommandLine =
  StringFlag :: "string \<Rightarrow> string option"
  BoolFlag :: "string \<Rightarrow> bool option"

definition StringVar :: "CommandLine \<Rightarrow> string \<Rightarrow> string \<Rightarrow> string" where
  "StringVar cl name def = (case StringFlag cl name of Some v \<Rightarrow> v | None \<Rightarrow> def)"

definition BoolVar :: "CommandLine \<Rightarrow> string \<Rightarrow> bool \<Rightarrow> bool" where
  "BoolVar cl name def = (case BoolFlag cl name of Some v \<Rightarrow> v | None \<Rightarrow> def)"

record TLSConfig =
  NextProtos :: "string list"

record ServerCert =
  CertDir :: string
  CertName :: string
  KeyName :: string

definition noCert :: ServerCert where
  "noCert = \<lparr>CertDir = [], CertName = [], KeyName = []\<rparr>"

datatype FilterProvider = WithAuthenticationAndAuthorization

record WebhookOptions =
  wh_TLSOpts :: "(TLSConfig \<Rightarrow> TLSConfig) list"
  wh_Cert :: ServerCert

record MetricsOptions =
  mt_BindAddress :: string
  mt_SecureServing :: bool
  mt_TLSOpts :: "(TLSConfig \<Rightarrow> TLSConfig) list"
  mt_FilterProvider :: "FilterProvider option"
  mt_Cert :: ServerCert

record ManagerOptions =
  mo_Scheme :: Scheme
  mo_Metrics :: MetricsOptions
  mo_Webhook :: WebhookOptions
  mo_HealthProbeBindAddress :: string
  mo_LeaderElection :: bool
  mo_LeaderElectionID :: string

definition disableHTTP2 :: "TLSConfig \<Rightarrow> TLSConfig" where
  "disableHTTP2 c = c\<lparr>NextProtos := [''http/1.1'']\<rparr>"

definition tlsOpts :: "CommandLine \<Rightarrow> (TLSConfig \<Rightarrow> TLSConfig) list" where
  "tlsOpts cl = (if \<not> BoolVar cl ''enable-http2'' False then [disableHTTP2] else [])"

definition certFrom :: "string \<Rightarrow> string \<Rightarrow> string \<Rightarrow> ServerCert" where
  "certFrom path name key = (if length path > 0 then \<lparr>CertDir = path, CertName = name, KeyName = key\<rparr> else noCert)"

definition webhookServerOptions :: "CommandLine \<Rightarrow> WebhookOptions" where
  "webhookServerOptions cl =
     \<lparr>wh_TLSOpts = tlsOpts cl,
      wh_Cert = certFrom (StringVar cl ''webhook-cert-path'' []) (StringVar cl ''webhook-cert-name'' ''tls.crt'')
        (StringVar cl ''webhook-cert-key'' ''tls.key'')\<rparr>"

definition metricsServerOptions :: "CommandLine \<Rightarrow> MetricsOptions" where
  "metricsServerOptions cl =
     (let secureMetrics = BoolVar cl ''metrics-secure'' True in
      \<lparr>mt_BindAddress = StringVar cl ''metrics-bind-address'' ''0'',
       mt_SecureServing = secureMetrics,
       mt_TLSOpts = tlsOpts cl,
       mt_FilterProvider = (if secureMetrics then Some WithAuthenticationAndAuthorization else None),
       mt_Cert = certFrom (StringVar cl ''metrics-cert-path'' []) (StringVar cl ''metrics-cert-name'' ''tls.crt'')
         (StringVar cl ''metrics-cert-key'' ''tls.key'')\<rparr>)"

definition managerOptions :: "Scheme \<Rightarrow> CommandLine \<Rightarrow> ManagerOptions" where
  "managerOptions scheme cl =
     \<lparr>mo_Scheme = scheme, mo_Metrics = metricsServerOptions cl, mo_Webhook = webhookServerOptions cl,
      mo_HealthProbeBindAddress = StringVar cl ''health-probe-bind-address'' '':8081'',
      mo_LeaderElection = BoolVar cl ''leader-elect'' False,
      mo_LeaderElectionID = ''70b7ef3e.k8s.io''\<rparr>"

definition managerWorkerImage :: "(string \<Rightarrow> string) \<Rightarrow> CommandLine \<Rightarrow> string" where
  "managerWorkerImage env cl =
     (let workerImageDefault = (if env ''WORKER_IMAGE'' \<noteq> [] then env ''WORKER_IMAGE'' else DefaultWorkerImage)
      in StringVar cl ''worker-image'' workerImageDefault)"

definition reportServerOf :: "CommandLine \<Rightarrow> ReportServer" where
  "reportServerOf cl = \<lparr>Addr = StringVar cl ''report-bind-address'' '':9090''\<rparr>"

subsection \<open>The entry point\<close>

type_synonym 'm call = "'m \<Rightarrow> Err option \<times> 'm"

record ('w, 'm) ManagerApi =
  GetConfig :: "'m call"
  NewManager :: "ManagerOptions \<Rightarrow> 'm call"
  Complete :: "'w ControllerSpec \<Rightarrow> 'm call"
  AddRunnable :: "ReportServer \<Rightarrow> 'm call"
  AddHealthzCheck :: "string \<Rightarrow> 'm call"
  AddReadyzCheck :: "string \<Rightarrow> 'm call"
  StartManager :: "'m call"

text \<open>The message with which the process ends with status 1; no message is the regular end of \<open>main\<close>.\<close>

datatype SetupFailure =
    LoadConfigFailure | CreateManagerFailure | CreateControllerFailure string | AddReportServerFailure
  | HealthCheckFailure | ReadyCheckFailure | RunManagerFailure

definition orExit ::
  "SetupFailure \<Rightarrow> 'm call \<Rightarrow> ('m \<Rightarrow> SetupFailure option \<times> 'm) \<Rightarrow> 'm \<Rightarrow> SetupFailure option \<times> 'm" where
  "orExit failure call rest m =
     (case call m of (Some err, m') \<Rightarrow> (Some failure, m') | (None, m') \<Rightarrow> rest m')"

definition managerMain ::
  "('w, 'm) ManagerApi \<Rightarrow> 'w Kube \<Rightarrow> Scheme \<Rightarrow> (string \<Rightarrow> string) \<Rightarrow> CommandLine \<Rightarrow> 'm \<Rightarrow> SetupFailure option \<times> 'm" where
  "managerMain M K scheme env cl =
     (let workerImage = managerWorkerImage env cl in
      orExit LoadConfigFailure (GetConfig M)
      (orExit CreateManagerFailure (NewManager M (managerOptions scheme cl))
      (orExit (CreateControllerFailure ''sysctlprofile'') (Complete M (SysctlSetup K workerImage))
      (orExit (CreateControllerFailure ''scriptprofile'') (Complete M (ScriptSetup K workerImage))
      (orExit AddReportServerFailure (AddRunnable M (reportServerOf cl))
      (orExit HealthCheckFailure (AddHealthzCheck M ''healthz'')
      (orExit ReadyCheckFailure (AddReadyzCheck M ''readyz'')
      (orExit RunManagerFailure (StartManager M)
      (\<lambda>m. (None, m))))))))))"

definition exitStatus :: "SetupFailure option \<Rightarrow> nat" where
  "exitStatus r = (case r of None \<Rightarrow> 0 | Some failure \<Rightarrow> 1)"

subsection \<open>The sequence of calls\<close>

text \<open>The calls of \<open>main\<close> in order, each with the message for its failure, and a run of calls that all succeed.\<close>

definition mainCalls ::
  "('w, 'm) ManagerApi \<Rightarrow> 'w Kube \<Rightarrow> Scheme \<Rightarrow> (string \<Rightarrow> string) \<Rightarrow> CommandLine \<Rightarrow> (SetupFailure \<times> 'm call) list" where
  "mainCalls M K scheme env cl =
     [(LoadConfigFailure, GetConfig M),
      (CreateManagerFailure, NewManager M (managerOptions scheme cl)),
      (CreateControllerFailure ''sysctlprofile'', Complete M (SysctlSetup K (managerWorkerImage env cl))),
      (CreateControllerFailure ''scriptprofile'', Complete M (ScriptSetup K (managerWorkerImage env cl))),
      (AddReportServerFailure, AddRunnable M (reportServerOf cl)),
      (HealthCheckFailure, AddHealthzCheck M ''healthz''),
      (ReadyCheckFailure, AddReadyzCheck M ''readyz''),
      (RunManagerFailure, StartManager M)]"

primrec succeed :: "(SetupFailure \<times> 'm call) list \<Rightarrow> 'm \<Rightarrow> 'm \<Rightarrow> bool" where
  "succeed [] m m' \<longleftrightarrow> m' = m"
| "succeed (c # cs) m m' \<longleftrightarrow> (\<exists>m1. snd c m = (None, m1) \<and> succeed cs m1 m')"

definition chain :: "(SetupFailure \<times> 'm call) list \<Rightarrow> 'm \<Rightarrow> SetupFailure option \<times> 'm" where
  "chain cs = foldr (\<lambda>(failure, call). orExit failure call) cs (\<lambda>m. (None, m))"

lemma chain_simps [simp]: "chain [] m = (None, m)" "chain ((f, c) # cs) m = orExit f c (chain cs) m"
  by (simp_all add: chain_def)

lemma managerMain_chain: "managerMain M K scheme env cl = chain (mainCalls M K scheme env cl)"
  by (simp add: managerMain_def mainCalls_def chain_def Let_def)

lemma chain_outcome:
  "chain cs m = (r, m') \<Longrightarrow>
     (case r of
        None \<Rightarrow> succeed cs m m'
      | Some failure \<Rightarrow> \<exists>pre call post m1 err. cs = pre @ (failure, call) # post \<and> succeed pre m m1 \<and> call m1 = (Some err, m'))"
proof (induction cs arbitrary: m)
  case (Cons fc cs)
  obtain f c where fc: "fc = (f, c)" by fastforce
  obtain e m1 where c: "c m = (e, m1)" by fastforce
  show ?case
  proof (cases e)
    case (Some err)
    with Cons.prems fc c have "r = Some f" "m' = m1" by (simp_all add: orExit_def)
    with fc c Some show ?thesis
      by (simp, intro exI [of _ "[]"] exI [of _ c] exI [of _ cs] exI [of _ m]) simp
  next
    case None
    with Cons.prems fc c have rest: "chain cs m1 = (r, m')" by (simp add: orExit_def)
    show ?thesis
    proof (cases r)
      case None: None
      with Cons.IH [OF rest] fc c \<open>e = None\<close> show ?thesis by auto
    next
      case (Some failure)
      with Cons.IH [OF rest] obtain pre call post m2 err where
        "cs = pre @ (failure, call) # post" "succeed pre m1 m2" "call m2 = (Some err, m')" by auto
      with fc c \<open>e = None\<close> Some show ?thesis
        by (simp, intro exI [of _ "fc # pre"] exI [of _ call] exI [of _ post] exI [of _ m2]) auto
    qed
  qed
qed simp

subsection \<open>Properties\<close>

text \<open>C25: \<open>main\<close> fails fast: it ends with status 0 exactly when every call succeeded, in the order
  configuration, manager, sysctl controller, script controller, report server, health check, ready
  check, run; otherwise it ends with status 1 and the message of the first call that failed, all
  earlier ones having succeeded and no later one being made, so the manager never runs without
  both controllers and the report server.\<close>

theorem managerMain_fails_fast:
  assumes "managerMain M K scheme env cl m = (r, m')"
  shows "(exitStatus r = 0 \<longrightarrow> succeed (mainCalls M K scheme env cl) m m')
    \<and> (exitStatus r \<noteq> 0 \<longrightarrow> exitStatus r = 1 \<and>
         (\<exists>pre failure call post m1 err. mainCalls M K scheme env cl = pre @ (failure, call) # post
            \<and> r = Some failure \<and> succeed pre m m1 \<and> call m1 = (Some err, m')))"
  using chain_outcome [of "mainCalls M K scheme env cl" m r m'] assms
  by (cases r) (auto simp: managerMain_chain exitStatus_def)

text \<open>A manager that logs its calls and cannot bind the address of the report server.\<close>

definition loggingManager :: "(World, string list) ManagerApi" where
  "loggingManager =
     \<lparr>GetConfig = (\<lambda>l. (None, l @ [''config''])), NewManager = (\<lambda>opts l. (None, l @ [''manager''])),
      Complete = (\<lambda>c l. (None, l @ [ctl_Name c])), AddRunnable = (\<lambda>s l. (Some (OtherErr ''in use''), l @ [Addr s])),
      AddHealthzCheck = (\<lambda>n l. (None, l @ [n])), AddReadyzCheck = (\<lambda>n l. (None, l @ [n])),
      StartManager = (\<lambda>l. (None, l @ [''run'']))\<rparr>"

definition noFlags :: CommandLine where
  "noFlags = \<lparr>StringFlag = (\<lambda>_. None), BoolFlag = (\<lambda>_. None)\<rparr>"

lemma loggingManager_main:
  "managerMain loggingManager mem [] (\<lambda>_. []) noFlags []
     = (Some AddReportServerFailure, [''config'', ''manager'', ''sysctlprofile'', ''scriptprofile'', '':9090''])"
  by (simp add: managerMain_def loggingManager_def orExit_def SysctlSetup_def ScriptSetup_def reportServerOf_def StringVar_def noFlags_def)

theorem managerMain_fails_fast_witness:
  "\<exists>pre failure call post. mainCalls loggingManager mem [] (\<lambda>_. []) noFlags = pre @ (failure, call) # post
     \<and> failure = AddReportServerFailure"
  using managerMain_fails_fast [OF loggingManager_main] by (auto simp: exitStatus_def)

text \<open>The options of the manager: HTTP/2 is off on the metrics and the webhook server unless it is
  asked for; the metrics are served with authentication exactly when they are served securely, which is
  the default; certificates are set only together with a directory; and the worker image of both
  controllers is the flag's, else the environment's, else the built-in one, and never empty.\<close>

theorem manager_options:
  "(BoolFlag cl ''enable-http2'' \<noteq> Some True \<longrightarrow>
      NextProtos (fold (\<lambda>f. f) (mt_TLSOpts (mo_Metrics (managerOptions scheme cl))) tls) = [''http/1.1'']
      \<and> NextProtos (fold (\<lambda>f. f) (wh_TLSOpts (mo_Webhook (managerOptions scheme cl))) tls) = [''http/1.1''])
   \<and> (mt_SecureServing (mo_Metrics (managerOptions scheme cl)) \<longleftrightarrow> BoolFlag cl ''metrics-secure'' \<noteq> Some False)
   \<and> (mt_FilterProvider (mo_Metrics (managerOptions scheme cl)) \<noteq> None
        \<longleftrightarrow> mt_SecureServing (mo_Metrics (managerOptions scheme cl)))
   \<and> (CertDir (mt_Cert (mo_Metrics (managerOptions scheme cl))) = [] \<longrightarrow> mt_Cert (mo_Metrics (managerOptions scheme cl)) = noCert)
   \<and> workerImage (managerWorkerImage env cl) \<noteq> []
   \<and> workerImage (managerWorkerImage env cl) =
       (case StringFlag cl ''worker-image'' of
          Some img \<Rightarrow> if img \<noteq> [] then img else DefaultWorkerImage
        | None \<Rightarrow> if env ''WORKER_IMAGE'' \<noteq> [] then env ''WORKER_IMAGE'' else DefaultWorkerImage)"
  by (auto simp: managerOptions_def metricsServerOptions_def webhookServerOptions_def tlsOpts_def disableHTTP2_def certFrom_def
      noCert_def managerWorkerImage_def workerImage_def BoolVar_def StringVar_def DefaultWorkerImage_def Let_def
      split: option.splits)

theorem manager_options_witness:
  "NextProtos (fold (\<lambda>f. f) (mt_TLSOpts (mo_Metrics (managerOptions [] noFlags))) \<lparr>NextProtos = [''h2'', ''http/1.1'']\<rparr>) = [''http/1.1'']"
  using manager_options [of noFlags "[]" "\<lparr>NextProtos = [''h2'', ''http/1.1'']\<rparr>" "\<lambda>_. []"] by (simp add: noFlags_def)

text \<open>C40: Both controllers watch what they write: a pass changes objects of a kind only if the controller
  owns that kind or is for it, and never nodes; and the kinds that the controllers are for are registered
  in the manager's scheme together with their lists, whatever the other packages register. (The kinds they own
  are registered by \<open>clientgoscheme.AddToScheme\<close>, an argument of the model.)\<close>

theorem writes_are_watched:
  assumes "kube K view" and "c \<in> {SysctlSetup K img, ScriptSetup K img}" and "ctl_Reconcile c req w = (r, w')"
  shows "(cl_ConfigMaps (view w') \<noteq> cl_ConfigMaps (view w) \<longrightarrow> ''ConfigMap'' \<in> set (ctl_Owns c))
    \<and> (cl_DaemonSets (view w') \<noteq> cl_DaemonSets (view w) \<longrightarrow> ''DaemonSet'' \<in> set (ctl_Owns c))
    \<and> (cl_CronJobs (view w') \<noteq> cl_CronJobs (view w) \<longrightarrow> ''CronJob'' \<in> set (ctl_Owns c))
    \<and> (cl_SysctlProfiles (view w') \<noteq> cl_SysctlProfiles (view w) \<longrightarrow> gvk_Kind (ctl_For c) = ''SysctlProfile'')
    \<and> (cl_ScriptProfiles (view w') \<noteq> cl_ScriptProfiles (view w) \<longrightarrow> gvk_Kind (ctl_For c) = ''ScriptProfile'')
    \<and> cl_Nodes (view w') = cl_Nodes (view w)
    \<and> ctl_For c \<in> set (managerScheme addClientGo addMeta)
    \<and> (ctl_For c)\<lparr>gvk_Kind := gvk_Kind (ctl_For c) @ ''List''\<rparr> \<in> set (managerScheme addClientGo addMeta)"
proof (cases "c = SysctlSetup K img")
  case True
  with assms(3) have rec: "Reconcile K img req w = (r, w')" by (simp add: SysctlSetup_def)
  have "w' = w \<or> (\<exists>p. pass_effect p (view w) (view w'))"
    using rec kube.Reconcile_effect [OF assms(1) _ rec] by (cases "GetSysctlProfile K req w") (auto simp: Reconcile_def)
  then have "cl_ScriptProfiles (view w') = cl_ScriptProfiles (view w)" "cl_Nodes (view w') = cl_Nodes (view w)"
    by (auto simp: pass_effect_def same_except_def)
  with True show ?thesis
    by (simp add: SysctlSetup_def managerScheme_def AddToScheme_def schemeBuilder_def scheme_simps)
next
  case False
  with assms(2) have c: "c = ScriptSetup K img" by simp
  with assms(3) have rec: "ReconcileScript K img req w = (r, w')" by (simp add: ScriptSetup_def)
  have "w' = w \<or> (\<exists>p. script_pass_effect p (view w) (view w'))"
    using rec kube.ReconcileScript_effect [OF assms(1) _ rec] by (cases "GetScriptProfile K req w") (auto simp: ReconcileScript_def)
  then have "cl_SysctlProfiles (view w') = cl_SysctlProfiles (view w)" "cl_Nodes (view w') = cl_Nodes (view w)"
    "cl_CronJobs (view w') = cl_CronJobs (view w)"
    by (auto simp: script_pass_effect_def same_except_def)
  with c show ?thesis
    by (simp add: ScriptSetup_def managerScheme_def AddToScheme_def schemeBuilder_def scheme_simps)
qed

theorem writes_are_watched_witness:
  "cl_CronJobs (world_objects (snd (ReconcileScript mem ''img'' exKey exWorld))) = cl_CronJobs (world_objects exWorld)"
  using writes_are_watched [OF mem_kube.kube_axioms, of "ScriptSetup mem ''img''" "''img''" exKey exWorld
      "fst (ReconcileScript mem ''img'' exKey exWorld)" "snd (ReconcileScript mem ''img'' exKey exWorld)"]
  by (auto simp: ScriptSetup_def)

end
