(* ===== verification/Worker_Config.thy ===== *)
theory Worker_Config
  imports Go_Strings Sha256
begin

text \<open>
  \<open>internal/worker/config.go\<close>: the parsed sysctl drop-in, its parser and the hash of its raw
  bytes. The file system is the argument \<open>readFile\<close> (an error text or the file's bytes).
\<close>

record Entry =
  entry_Name :: string
  entry_Value :: string

record Config =
  Raw :: string
  Hash :: string
  Entries :: "Entry list"

definition HashBytes :: "string \<Rightarrow> string" where
  "HashBytes data = take 16 (EncodeToString (Sum256 data))"

text \<open>The body of the loop of \<open>Parse\<close>: the entry a line contributes, if any.\<close>

definition parseLine :: "string \<Rightarrow> Entry option" where
  "parseLine line0 =
     (let line = TrimSpace line0 in
      if line = [] \<or> HasPrefix line ''#'' \<or> HasPrefix line '';'' then None
      else case Cut line (CHR ''='') of
        (key, val, ok) \<Rightarrow>
          if \<not> ok then None
          else Some \<lparr>entry_Name = TrimSpace key, entry_Value = TrimSpace val\<rparr>)"

primrec parseLines :: "string list \<Rightarrow> Entry list \<Rightarrow> Entry list" where
  "parseLines [] entries = entries"
| "parseLines (line # rest) entries =
     (case parseLine line of
        None \<Rightarrow> parseLines rest entries
      | Some e \<Rightarrow> parseLines rest (entries @ [e]))"

definition Parse :: "string \<Rightarrow> Config" where
  "Parse data =
     \<lparr>Raw = data, Hash = HashBytes data,
      Entries = parseLines (Split data (CHR 0x0A)) []\<rparr>"

definition Load :: "(string \<Rightarrow> string + string) \<Rightarrow> string \<Rightarrow> string + Config" where
  "Load readFile path =
     (case readFile path of Inl err \<Rightarrow> Inl err | Inr data \<Rightarrow> Inr (Parse data))"

subsection \<open>Parsing line by line\<close>

lemma parseLines_append: "parseLines ls es = es @ List.map_filter parseLine ls"
  by (induction ls arbitrary: es) (auto split: option.splits)

lemma Parse_Entries: "Entries (Parse data) = List.map_filter parseLine (Split data (CHR 0x0A))"
  by (simp add: Parse_def parseLines_append)

lemma parseLine_entry_trimmed:
  "parseLine l = Some e \<Longrightarrow> TrimSpace (entry_Name e) = entry_Name e \<and> TrimSpace (entry_Value e) = entry_Value e"
  by (auto simp: parseLine_def Let_def split: if_splits prod.splits)

lemma length_HashBytes [simp]: "length (HashBytes data) = 16"
  by (simp add: HashBytes_def)

lemma HashBytes_hex: "set (HashBytes data) \<subseteq> hex_chars"
proof -
  have "set (EncodeToString (Sum256 data)) \<subseteq> hex_chars"
    by (rule EncodeToString_hex) (rule Sum256_bytes)
  then show ?thesis unfolding HashBytes_def by (rule order_trans [OF set_take_subset])
qed

text \<open>What the parser makes of a line \<open>name = value\<close>.\<close>

lemma TrimLeftSpace_name:
  assumes "name \<noteq> []" and "\<not> starts_space name"
  shows "TrimLeftSpace (name @ '' = '' @ v) = name @ '' = '' @ v"
proof -
  have "\<not> cont_byte (CHR '' '')" by (simp add: cont_byte_def)
  with assms have "\<not> starts_space (name @ CHR '' '' # ''= '' @ v)" by (simp add: starts_space_append)
  then show ?thesis by (simp add: TrimLeftSpace_stop)
qed

lemma eq_barrier: "\<forall>q\<in>set space_runes. CHR ''='' \<notin> set q"
  by (simp add: space_runes_def)

lemma TrimSpace_setting:
  assumes "name \<noteq> []" and "\<not> starts_space name"
  shows "TrimSpace (name @ '' = '' @ v) = (name @ '' '') @ CHR ''='' # TrimRightSpace (CHR '' '' # v)"
proof -
  have "TrimSpace (name @ '' = '' @ v) = TrimRightSpace ((name @ '' '') @ CHR ''='' # CHR '' '' # v)"
    using TrimLeftSpace_name [OF assms] by (simp add: TrimSpace_def)
  also have "\<dots> = (name @ '' '') @ CHR ''='' # TrimRightSpace (CHR '' '' # v)"
    by (rule TrimRightSpace_barrier [OF eq_barrier])
  finally show ?thesis .
qed

lemma parseLine_setting:
  assumes name: "name \<noteq> []" "TrimSpace name = name" "CHR ''='' \<notin> set name"
    and no_comment: "hd name \<noteq> CHR ''#''" "hd name \<noteq> CHR '';''"
  shows "parseLine (name @ '' = '' @ v) = Some \<lparr>entry_Name = name, entry_Value = TrimSpace v\<rparr>"
proof -
  from name(2) have "\<not> starts_space name" by (rule trimmed_not_starts)
  with name(1) have line: "TrimSpace (name @ '' = '' @ v) =
      (name @ '' '') @ CHR ''='' # TrimRightSpace (CHR '' '' # v)" (is "_ = ?line")
    by (rule TrimSpace_setting)
  have "?line \<noteq> []" and "\<not> HasPrefix ?line ''#''" and "\<not> HasPrefix ?line '';''"
    using name(1) no_comment by (cases name; simp add: HasPrefix_def)+
  moreover have "Cut ?line (CHR ''='') = (name @ '' '', TrimRightSpace (CHR '' '' # v), True)"
    by (rule Cut_found) (use name(3) in simp)
  ultimately show ?thesis using line name(2) by (simp add: parseLine_def Let_def)
qed

lemma parseLine_blank: "TrimSpace l = [] \<Longrightarrow> parseLine l = None"
  by (simp add: parseLine_def)

lemma TrimSpace_Nil [simp]: "TrimSpace [] = []"
  by (simp add: TrimSpace_def TrimLeftSpace_stop TrimRightSpace_stop starts_space_iff space_rune_shape)

end
