(* ===== verification/Worker_Apply.thy ===== *)
theory Worker_Apply
  imports Worker_Config
begin

text \<open>
  \<open>internal/worker/apply.go\<close>: writing and checking sysctls on a node. The node is a parameter of
  the model: its state has type \<open>'h\<close>, and a \<open>Host\<close> says how the calls of \<open>os\<close> and \<open>os/exec\<close> read
  and change it. \<open>ReadFile\<close> and \<open>ReadDir\<close> return an error text or the contents (for \<open>ReadDir\<close> the
  names of the directory's entries, sorted); \<open>Exec prog args stdin\<close> runs a program to its end and
  returns its combined output, with an error text if it failed to start or exited non-zero.
  \<open>Getenv\<close> returns the empty string for an unset variable, as in Go.
\<close>

record 'h Host =
  ReadFile :: "string \<Rightarrow> 'h \<Rightarrow> string + string"
  ReadDir :: "string \<Rightarrow> 'h \<Rightarrow> string + string list"
  Exec :: "string \<Rightarrow> string list \<Rightarrow> string \<Rightarrow> 'h \<Rightarrow> (string \<times> string option) \<times> 'h"
  Getenv :: "string \<Rightarrow> string"

definition ifacePlaceholder :: string where
  "ifacePlaceholder = ''{iface}''"

record Result =
  res_Applied :: "string list"
  res_Failed :: "string list"
  res_Drifted :: "string list"

definition emptyResult :: Result where
  "emptyResult = \<lparr>res_Applied = [], res_Failed = [], res_Drifted = []\<rparr>"

definition OK :: "Result \<Rightarrow> bool" where
  "OK r \<longleftrightarrow> length (res_Failed r) = 0 \<and> length (res_Drifted r) = 0"

definition sysctlBinary :: "'h Host \<Rightarrow> string" where
  "sysctlBinary H = (if Getenv H ''SYSCTL_BIN'' \<noteq> [] then Getenv H ''SYSCTL_BIN'' else ''sysctl'')"

definition writeSysctl :: "'h Host \<Rightarrow> string \<Rightarrow> string \<Rightarrow> 'h \<Rightarrow> string option \<times> 'h" where
  "writeSysctl H key value h =
     (case Exec H (sysctlBinary H) [''-w'', key @ ''='' @ value] [] h of
        ((out, Some err), h') \<Rightarrow>
          (Some (''sysctl -w '' @ key @ ''='' @ value @ '': '' @ err @ '': '' @ TrimSpace out), h')
      | ((out, None), h') \<Rightarrow> (None, h'))"

definition keyToPath :: "string \<Rightarrow> string \<Rightarrow> string" where
  "keyToPath root key = PathJoin [root, Clean (ReplaceAll key (CHR ''.'') (CHR ''/''))]"

definition readSysctl :: "'h Host \<Rightarrow> string \<Rightarrow> string \<Rightarrow> 'h \<Rightarrow> string + string" where
  "readSysctl H root key h =
     (case ReadFile H (keyToPath root key) h of
        Inl err \<Rightarrow> Inl err
      | Inr data \<Rightarrow> Inr (TrimSpace data))"

text \<open>The loop of \<open>expand\<close> over the directory's entries.\<close>

primrec expandIfaces :: "string \<Rightarrow> string \<Rightarrow> string list \<Rightarrow> string list" where
  "expandIfaces pre suf [] = []"
| "expandIfaces pre suf (iface # ds) =
     (if iface = ''all'' \<or> iface = ''default'' \<or> iface = ''lo'' then expandIfaces pre suf ds
      else (pre @ ''.'' @ iface @ ''.'' @ suf) # expandIfaces pre suf ds)"

definition expand :: "'h Host \<Rightarrow> string \<Rightarrow> string \<Rightarrow> 'h \<Rightarrow> string list" where
  "expand H root name h =
     (case Index name ifacePlaceholder of
        None \<Rightarrow> [name]
      | Some idx \<Rightarrow>
          (let pre = TrimRight (take idx name) (CHR ''.'');
               suf = TrimLeft (drop (idx + length ifacePlaceholder) name) (CHR ''.'')
           in case ReadDir H (keyToPath root pre) h of
                Inl _ \<Rightarrow> []
              | Inr entries \<Rightarrow> expandIfaces pre suf entries))"

text \<open>\<open>Apply\<close>: the inner loop over the keys of an entry, then the loop over the entries.\<close>

primrec applyKeys :: "'h Host \<Rightarrow> string \<Rightarrow> string list \<Rightarrow> Result \<Rightarrow> 'h \<Rightarrow> Result \<times> 'h" where
  "applyKeys H value [] res h = (res, h)"
| "applyKeys H value (key # keys) res h =
     (case writeSysctl H key value h of
        (Some err, h') \<Rightarrow>
          applyKeys H value keys (res\<lparr>res_Failed := res_Failed res @ [key @ '': '' @ err]\<rparr>) h'
      | (None, h') \<Rightarrow>
          applyKeys H value keys (res\<lparr>res_Applied := res_Applied res @ [key]\<rparr>) h')"

primrec applyEntries :: "'h Host \<Rightarrow> string \<Rightarrow> Entry list \<Rightarrow> Result \<Rightarrow> 'h \<Rightarrow> Result \<times> 'h" where
  "applyEntries H root [] res h = (res, h)"
| "applyEntries H root (e # es) res h =
     (case applyKeys H (entry_Value e) (expand H root (entry_Name e) h) res h of
        (res', h') \<Rightarrow> applyEntries H root es res' h')"

definition Apply :: "'h Host \<Rightarrow> string \<Rightarrow> Entry list \<Rightarrow> 'h \<Rightarrow> Result \<times> 'h" where
  "Apply H root entries h = applyEntries H root entries emptyResult h"

text \<open>\<open>Check\<close> only reads, so it returns no new host state.\<close>

primrec checkKeys :: "'h Host \<Rightarrow> string \<Rightarrow> string \<Rightarrow> string list \<Rightarrow> Result \<Rightarrow> 'h \<Rightarrow> Result" where
  "checkKeys H root value [] res h = res"
| "checkKeys H root value (key # keys) res h =
     (case readSysctl H root key h of
        Inl err \<Rightarrow>
          checkKeys H root value keys (res\<lparr>res_Failed := res_Failed res @ [key @ '': '' @ err]\<rparr>) h
      | Inr cur \<Rightarrow>
          if cur \<noteq> value then
            checkKeys H root value keys
              (res\<lparr>res_Drifted := res_Drifted res @ [key @ ''='' @ cur @ '' want='' @ value]\<rparr>) h
          else checkKeys H root value keys (res\<lparr>res_Applied := res_Applied res @ [key]\<rparr>) h)"

primrec checkEntries :: "'h Host \<Rightarrow> string \<Rightarrow> Entry list \<Rightarrow> Result \<Rightarrow> 'h \<Rightarrow> Result" where
  "checkEntries H root [] res h = res"
| "checkEntries H root (e # es) res h =
     checkEntries H root es
       (checkKeys H root (entry_Value e) (expand H root (entry_Name e) h) res h) h"

definition Check :: "'h Host \<Rightarrow> string \<Rightarrow> Entry list \<Rightarrow> 'h \<Rightarrow> Result" where
  "Check H root entries h = checkEntries H root entries emptyResult h"

subsection \<open>Keys and paths\<close>

text \<open>The path elements a key names: its parts between dots and slashes, without empty ones.\<close>

definition keyElems :: "string \<Rightarrow> string list" where
  "keyElems key = filter (\<lambda>e. e \<noteq> []) (Split (ReplaceAll key (CHR ''.'') (CHR ''/'')) (CHR ''/''))"

lemma ReplaceAll_no_old: "old \<noteq> new \<Longrightarrow> old \<notin> set (ReplaceAll s old new)"
  by (auto simp: ReplaceAll_def)

lemma Split_set_subset: "l \<in> set (Split s c) \<Longrightarrow> set l \<subseteq> set s"
proof (induction s arbitrary: l)
  case (Cons x s)
  then show ?case by (cases "Split s c") (auto split: if_splits, blast+)
qed simp

lemma key_plain:
  "list_all (\<lambda>x. x \<noteq> ''.'' \<and> x \<noteq> ''..'') (Split (ReplaceAll key (CHR ''.'') (CHR ''/'')) (CHR ''/''))"
proof -
  have "CHR ''.'' \<notin> set l" if "l \<in> set (Split (ReplaceAll key (CHR ''.'') (CHR ''/'')) (CHR ''/''))" for l
    using Split_set_subset [OF that] ReplaceAll_no_old [of "CHR ''.''" "CHR ''/''" key] by auto
  then show ?thesis by (fastforce simp: list_all_iff)
qed

lemma keyToPath_elems:
  assumes "cleanRoot root"
  shows "keyToPath root key = Join (root # keyElems key) ''/''"
proof -
  let ?k = "ReplaceAll key (CHR ''.'') (CHR ''/'')"
  note plain = Clean_plain_elems [OF key_plain [of key]]
  have "root \<noteq> []" using assms by (auto simp: cleanRoot_def HasPrefix_def)
  then have "keyToPath root key = Clean (root @ CHR ''/'' # Clean ?k)"
    using plain(3) by (simp add: keyToPath_def PathJoin_def)
  also have "\<dots> = Join (root # filter (\<lambda>e. e \<noteq> [] \<and> e \<noteq> ''.'') (Split (Clean ?k) (CHR ''/''))) ''/''"
    by (rule Clean_under_root [OF assms plain(2)])
  finally show ?thesis by (simp add: plain(1) keyElems_def)
qed

lemma keyElems_dot: "keyElems (a @ CHR ''.'' # b) = keyElems a @ keyElems b"
  by (simp add: keyElems_def ReplaceAll_def Split_append_sep)

lemma keyElems_no_sep:
  assumes "e \<noteq> []" "CHR ''.'' \<notin> set e" "CHR ''/'' \<notin> set e"
  shows "keyElems e = [e]"
proof -
  have "ReplaceAll e (CHR ''.'') (CHR ''/'') = e"
    unfolding ReplaceAll_def by (rule map_if_notin [OF assms(2)])
  with assms show ?thesis by (simp add: keyElems_def)
qed

lemma keyElems_shape: "e \<in> set (keyElems key) \<Longrightarrow> e \<noteq> [] \<and> CHR ''.'' \<notin> set e \<and> CHR ''/'' \<notin> set e"
  using Split_no_sep [of e _ "CHR ''/''"] Split_set_subset [of e _ "CHR ''/''"]
    ReplaceAll_no_old [of "CHR ''.''" "CHR ''/''" key] by (auto simp: keyElems_def)

subsection \<open>Interface expansion\<close>

lemma Index_after: "c \<notin> set p \<Longrightarrow> Index (p @ c # sub @ rest) (c # sub) = Some (length p)"
  by (induction p) (auto simp: HasPrefix_def)

lemma TrimRight_last: "s \<noteq> [] \<Longrightarrow> last s \<noteq> c \<Longrightarrow> TrimRight (s @ [c]) c = s"
  by (cases s rule: rev_cases) (auto simp: TrimRight_def)

lemma TrimLeft_hd: "s \<noteq> [] \<Longrightarrow> hd s \<noteq> c \<Longrightarrow> TrimLeft (c # s) c = s"
  by (cases s) (auto simp: TrimLeft_def)

lemma cleanRoot_proc: "cleanRoot ''/proc/sys''"
  by code_simp

lemma Index_Some: "Index s sub = Some i \<Longrightarrow> s = take i s @ sub @ drop (i + length sub) s"
proof (induction s arbitrary: i)
  case (Cons x s)
  show ?case
  proof (cases "HasPrefix (x # s) sub")
    case True
    with Cons.prems have "i = 0" by simp
    moreover have "x # s = sub @ drop (length sub) (x # s)"
      using True by (metis HasPrefix_def append_take_drop_id)
    ultimately show ?thesis by simp
  next
    case False
    with Cons.prems obtain j where j: "Index s sub = Some j" "i = Suc j" by auto
    from Cons.IH [OF j(1)] j(2) show ?thesis by simp
  qed
qed (auto split: if_splits)

lemma expandIfaces_eq:
  "expandIfaces pre suf ds =
     map (\<lambda>i. pre @ ''.'' @ i @ ''.'' @ suf) (filter (\<lambda>i. i \<noteq> ''all'' \<and> i \<noteq> ''default'' \<and> i \<noteq> ''lo'') ds)"
  by (induction ds) auto

lemma expand_plain: "Index name ifacePlaceholder = None \<Longrightarrow> expand H root name h = [name]"
  by (simp add: expand_def)

subsection \<open>Applying\<close>

text \<open>
  What \<open>Apply\<close> attempts, as a trace: every key of every entry in turn, with the error of its write.
\<close>

primrec keyWrites :: "'h Host \<Rightarrow> string \<Rightarrow> string list \<Rightarrow> 'h \<Rightarrow> (string \<times> string option) list \<times> 'h" where
  "keyWrites H value [] h = ([], h)"
| "keyWrites H value (key # keys) h =
     (case writeSysctl H key value h of
        (e, h1) \<Rightarrow> (case keyWrites H value keys h1 of (ws, h2) \<Rightarrow> ((key, e) # ws, h2)))"

primrec entryWrites :: "'h Host \<Rightarrow> string \<Rightarrow> Entry list \<Rightarrow> 'h \<Rightarrow> (string \<times> string option) list \<times> 'h" where
  "entryWrites H root [] h = ([], h)"
| "entryWrites H root (e # es) h =
     (case keyWrites H (entry_Value e) (expand H root (entry_Name e) h) h of
        (ws, h1) \<Rightarrow> (case entryWrites H root es h1 of (ws', h2) \<Rightarrow> (ws @ ws', h2)))"

definition resultOf :: "Result \<Rightarrow> (string \<times> string option) list \<Rightarrow> Result" where
  "resultOf res ws =
     res\<lparr>res_Applied := res_Applied res @ map fst (filter (\<lambda>w. snd w = None) ws),
         res_Failed := res_Failed res @ map (\<lambda>w. fst w @ '': '' @ the (snd w)) (filter (\<lambda>w. snd w \<noteq> None) ws)\<rparr>"

lemma applyKeys_writes:
  "applyKeys H value keys res h =
     (case keyWrites H value keys h of (ws, h') \<Rightarrow> (resultOf res ws, h'))"
  by (induction keys arbitrary: res h) (auto simp: resultOf_def split: prod.splits option.splits)

lemma resultOf_append: "resultOf (resultOf res ws) ws' = resultOf res (ws @ ws')"
  by (simp add: resultOf_def)

lemma applyEntries_writes:
  "applyEntries H root es res h =
     (case entryWrites H root es h of (ws, h') \<Rightarrow> (resultOf res ws, h'))"
  by (induction es arbitrary: res h)
    (auto simp: applyKeys_writes resultOf_append split: prod.splits, simp add: resultOf_def)

lemma OK_resultOf: "OK (resultOf emptyResult ws) \<longleftrightarrow> (\<forall>w\<in>set ws. snd w = None)"
  by (auto simp: OK_def resultOf_def emptyResult_def filter_empty_conv)

subsection \<open>Checking\<close>

lemma checkKeys_OK:
  "OK (checkKeys H root value keys res h) \<longleftrightarrow> OK res \<and> (\<forall>k\<in>set keys. readSysctl H root k h = Inr value)"
  by (induction keys arbitrary: res) (auto simp: OK_def split: sum.splits)

lemma checkEntries_OK:
  "OK (checkEntries H root es res h) \<longleftrightarrow>
     OK res \<and> (\<forall>e\<in>set es. \<forall>k\<in>set (expand H root (entry_Name e) h). readSysctl H root k h = Inr (entry_Value e))"
  by (induction es arbitrary: res) (auto simp: checkKeys_OK)

lemma keyWrites_keys: "map fst (fst (keyWrites H value keys h)) = keys"
  by (induction keys arbitrary: h) (auto split: prod.splits, metis fst_conv)

subsection \<open>Properties\<close>

definition exHost :: "unit Host" where
  "exHost = \<lparr>ReadFile = (\<lambda>p h. Inl ''no such file''),
     ReadDir = (\<lambda>p h. if p = ''/proc/sys/net/ipv4/conf'' then Inr [''all'', ''eth0'', ''lo''] else Inl ''no such directory''),
     Exec = (\<lambda>prog args stdin h. (([], None), h)), Getenv = (\<lambda>_. [])\<rparr>"

text \<open>C27: The check passes exactly when every key that every entry names, interface placeholders
  expanded, reads as the entry's value; an unreadable key fails it.\<close>

theorem Check_OK_iff:
  "OK (Check H root entries h) \<longleftrightarrow>
     (\<forall>e\<in>set entries. \<forall>k\<in>set (expand H root (entry_Name e) h). readSysctl H root k h = Inr (entry_Value e))"
  by (simp add: Check_def checkEntries_OK) (simp add: OK_def emptyResult_def)

definition tunedHost :: "unit Host" where
  "tunedHost = exHost\<lparr>ReadFile := (\<lambda>p h. if p = ''/proc/sys/vm/swappiness'' then Inr (''10'' @ [CHR 0x0A]) else Inl ''no such file'')\<rparr>"

lemma tunedHost_reads: "readSysctl tunedHost ''/proc/sys'' ''vm.swappiness'' () = Inr ''10''"
  by code_simp

theorem Check_OK_iff_witness:
  "OK (Check tunedHost ''/proc/sys'' [\<lparr>entry_Name = ''vm.swappiness'', entry_Value = ''10''\<rparr>] ())
   \<and> \<not> OK (Check tunedHost ''/proc/sys'' [\<lparr>entry_Name = ''vm.swappiness'', entry_Value = ''60''\<rparr>] ())"
proof -
  have "expand tunedHost ''/proc/sys'' ''vm.swappiness'' () = [''vm.swappiness'']"
    by (rule expand_plain) (simp add: ifacePlaceholder_def HasPrefix_def)
  then show ?thesis by (simp add: Check_OK_iff tunedHost_reads)
qed

text \<open>C28: Applying writes every key of every entry in order, going on after a failed write, and its
  result lists the written keys and the failed ones with their errors, nothing as drifted; it is a
  success exactly when no write failed.\<close>

theorem Apply_writes_all:
  "let (ws, h1) = entryWrites H root entries h; (res, h2) = Apply H root entries h in
   h2 = h1 \<and> res_Applied res = map fst (filter (\<lambda>w. snd w = None) ws)
   \<and> res_Failed res = map (\<lambda>w. fst w @ '': '' @ the (snd w)) (filter (\<lambda>w. snd w \<noteq> None) ws)
   \<and> res_Drifted res = [] \<and> (OK res \<longleftrightarrow> list_all (\<lambda>w. snd w = None) ws)"
  by (cases "entryWrites H root entries h")
    (simp add: Apply_def applyEntries_writes OK_resultOf list_all_iff, simp add: resultOf_def emptyResult_def)

text \<open>C32: No key leads out of the root directory: the path of a key is the root followed by non-empty
  elements without dots and slashes (so neither \<open>.\<close> nor \<open>..\<close>), for every absolute clean root.\<close>

theorem keyToPath_confined:
  assumes "cleanRoot root"
  shows "\<exists>es. keyToPath root key = Join (root # es) ''/''
    \<and> (\<forall>e\<in>set es. e \<noteq> [] \<and> CHR ''.'' \<notin> set e \<and> CHR ''/'' \<notin> set e)"
  using keyToPath_elems [OF assms, of key] keyElems_shape by blast

theorem keyToPath_confined_witness:
  "\<exists>es. keyToPath ''/proc/sys'' ''../../etc/passwd'' = Join (''/proc/sys'' # es) ''/''
    \<and> (\<forall>e\<in>set es. e \<noteq> [] \<and> CHR ''.'' \<notin> set e \<and> CHR ''/'' \<notin> set e)"
  by (rule keyToPath_confined [OF cleanRoot_proc])

text \<open>C31: A name \<open>pre.{iface}.suf\<close> stands for one key per directory entry of the prefix's path other
  than \<open>all\<close>, \<open>default\<close> and \<open>lo\<close>, in the order of the directory; when such an interface's name has no
  dot and no slash, its key leads to the file \<open>suf\<close> of the interface's directory under the prefix. The
  \<open>interfaceSelector\<close> of the sysctl plays no part, although the API's documentation says that the expansion
  uses it: the mounted file does not carry it.\<close>

theorem expand_reaches_interfaces:
  assumes "cleanRoot root" and "pre \<noteq> []" and "CHR ''{'' \<notin> set pre" and "last pre \<noteq> CHR ''.''"
    and "suf \<noteq> []" and "hd suf \<noteq> CHR ''.''"
    and "ReadDir H (keyToPath root pre) h = Inr ifaces"
  shows "expand H root (pre @ ''.{iface}.'' @ suf) h =
      map (\<lambda>i. pre @ ''.'' @ i @ ''.'' @ suf) (filter (\<lambda>i. i \<noteq> ''all'' \<and> i \<noteq> ''default'' \<and> i \<noteq> ''lo'') ifaces)
    \<and> (\<forall>i. i \<noteq> [] \<and> CHR ''.'' \<notin> set i \<and> CHR ''/'' \<notin> set i \<longrightarrow>
        keyToPath root (pre @ ''.'' @ i @ ''.'' @ suf) = Join (root # keyElems pre @ i # keyElems suf) ''/'')"
proof (intro conjI allI impI)
  have "Index (pre @ ''.{iface}.'' @ suf) ifacePlaceholder = Some (length pre + 1)"
    using Index_after [of "CHR ''{''" "pre @ ''.''" "''iface}''" "''.'' @ suf"] assms(3) by (simp add: ifacePlaceholder_def)
  then show "expand H root (pre @ ''.{iface}.'' @ suf) h =
      map (\<lambda>i. pre @ ''.'' @ i @ ''.'' @ suf) (filter (\<lambda>i. i \<noteq> ''all'' \<and> i \<noteq> ''default'' \<and> i \<noteq> ''lo'') ifaces)"
    using assms(2,4-7) by (simp add: expand_def ifacePlaceholder_def expandIfaces_eq TrimRight_last TrimLeft_hd)
  fix i :: string
  assume "i \<noteq> [] \<and> CHR ''.'' \<notin> set i \<and> CHR ''/'' \<notin> set i"
  then show "keyToPath root (pre @ ''.'' @ i @ ''.'' @ suf) = Join (root # keyElems pre @ i # keyElems suf) ''/''"
    using keyToPath_elems [OF assms(1)] by (simp add: keyElems_dot keyElems_no_sep)
qed

theorem expand_reaches_interfaces_witness:
  "expand exHost ''/proc/sys'' (''net.ipv4.conf'' @ ''.{iface}.'' @ ''rp_filter'') () = [''net.ipv4.conf.eth0.rp_filter'']"
proof -
  have "keyToPath ''/proc/sys'' ''net.ipv4.conf'' = ''/proc/sys/net/ipv4/conf''"
    using keyToPath_elems [OF cleanRoot_proc] by (simp add: keyElems_def ReplaceAll_def)
  then have "ReadDir exHost (keyToPath ''/proc/sys'' ''net.ipv4.conf'') () = Inr [''all'', ''eth0'', ''lo'']"
    by (simp add: exHost_def)
  from expand_reaches_interfaces [OF cleanRoot_proc _ _ _ _ _ this, of "''rp_filter''"] show ?thesis by simp
qed

text \<open>An interface whose name has a dot (a VLAN interface such as \<open>eth0.100\<close>) is missed: its
  expanded key leads to the elements of the name as nested directories instead of to the interface's
  directory.\<close>

theorem expand_splits_dotted_interface:
  assumes "cleanRoot root" and "keyElems a = [a]" and "keyElems b = [b]"
  shows "keyToPath root (pre @ ''.'' @ (a @ ''.'' @ b) @ ''.'' @ suf)
      = Join (root # keyElems pre @ a # b # keyElems suf) ''/''"
  using keyToPath_elems [OF assms(1)] assms(2,3) by (simp add: keyElems_dot)

theorem expand_splits_dotted_interface_witness:
  "keyToPath ''/proc/sys'' (''net.ipv4.conf'' @ ''.'' @ (''eth0'' @ ''.'' @ ''100'') @ ''.'' @ ''rp_filter'')
     = ''/proc/sys/net/ipv4/conf/eth0/100/rp_filter''"
proof -
  have "keyElems ''eth0'' = [''eth0'']" "keyElems ''100'' = [''100'']" by (simp_all add: keyElems_no_sep)
  from expand_splits_dotted_interface [OF cleanRoot_proc this, of "''net.ipv4.conf''" "''rp_filter''"]
  show ?thesis by (simp add: keyElems_def ReplaceAll_def)
qed

end
