(* ===== verification/Worker_Script.thy ===== *)
theory Worker_Script
  imports Worker_Config Worker_Apply
begin

text \<open>
  \<open>internal/worker/script.go\<close>: the parser of the rendered scripts file and the script runner.
\<close>

record ScriptEntry =
  se_Name :: string
  se_Interpreter :: string
  se_Content :: string

record ScriptConfig =
  sc_Raw :: string
  sc_Hash :: string
  sc_Scripts :: "ScriptEntry list"

definition scriptHeaderPrefix :: string where
  "scriptHeaderPrefix = ''#!script ''"

definition scriptFooter :: string where
  "scriptFooter = ''#!endscript''"

text \<open>The loop of \<open>parseScriptHeader\<close> over the fields of the header.\<close>

primrec headerFields :: "string list \<Rightarrow> string \<times> string \<Rightarrow> string \<times> string" where
  "headerFields [] ni = ni"
| "headerFields (field # fs) ni =
     (case Cut field (CHR ''='') of
        (key, val, ok) \<Rightarrow>
          if \<not> ok then headerFields fs ni
          else if key = ''name'' then headerFields fs (val, snd ni)
          else if key = ''interpreter'' then headerFields fs (fst ni, val)
          else headerFields fs ni)"

definition parseScriptHeader :: "string \<Rightarrow> string \<times> string" where
  "parseScriptHeader line = headerFields (Fields (TrimPrefix line scriptHeaderPrefix)) ([], ''/bin/sh'')"

text \<open>The state of the loop of \<open>ParseScripts\<close>: \<open>cur\<close>, \<open>content\<close> and \<open>c.Scripts\<close>.\<close>

record ParseState =
  ps_cur :: "ScriptEntry option"
  ps_content :: "string list"
  ps_scripts :: "ScriptEntry list"

definition scriptLine :: "string \<Rightarrow> ParseState \<Rightarrow> ParseState" where
  "scriptLine line st =
     (if HasPrefix line scriptHeaderPrefix then
        (case parseScriptHeader line of
           (name, interp) \<Rightarrow>
             st\<lparr>ps_cur := Some \<lparr>se_Name = name, se_Interpreter = interp, se_Content = []\<rparr>,
                ps_content := []\<rparr>)
      else if line = scriptFooter then
        (case ps_cur st of
           Some cur \<Rightarrow>
             st\<lparr>ps_scripts := ps_scripts st @ [cur\<lparr>se_Content := Join (ps_content st) [CHR 0x0A]\<rparr>],
                ps_cur := None\<rparr>
         | None \<Rightarrow> st)
      else
        (case ps_cur st of
           Some cur \<Rightarrow> st\<lparr>ps_content := ps_content st @ [line]\<rparr>
         | None \<Rightarrow> st))"

definition ParseScripts :: "string \<Rightarrow> ScriptConfig" where
  "ParseScripts data =
     \<lparr>sc_Raw = data, sc_Hash = HashBytes data,
      sc_Scripts = ps_scripts (fold scriptLine (Split data (CHR 0x0A))
                     \<lparr>ps_cur = None, ps_content = [], ps_scripts = []\<rparr>)\<rparr>"

definition LoadScripts :: "(string \<Rightarrow> string + string) \<Rightarrow> string \<Rightarrow> string + ScriptConfig" where
  "LoadScripts readFile path =
     (case readFile path of Inl err \<Rightarrow> Inl err | Inr data \<Rightarrow> Inr (ParseScripts data))"

text \<open>The body of the loop of \<open>RunScripts\<close>, then the loop.\<close>

definition runScript :: "'h Host \<Rightarrow> ScriptEntry \<Rightarrow> Result \<Rightarrow> 'h \<Rightarrow> Result \<times> 'h" where
  "runScript H s res h =
     (let interp = (if se_Interpreter s = [] then ''/bin/sh'' else se_Interpreter s) in
      case Exec H interp [] (se_Content s) h of
        ((out, Some err), h') \<Rightarrow>
          (res\<lparr>res_Failed := res_Failed res @ [se_Name s @ '': '' @ err @ '': '' @ TrimSpace out]\<rparr>, h')
      | ((out, None), h') \<Rightarrow> (res\<lparr>res_Applied := res_Applied res @ [se_Name s]\<rparr>, h'))"

primrec runScriptsFrom :: "'h Host \<Rightarrow> ScriptEntry list \<Rightarrow> Result \<Rightarrow> 'h \<Rightarrow> Result \<times> 'h" where
  "runScriptsFrom H [] res h = (res, h)"
| "runScriptsFrom H (s # ss) res h = (case runScript H s res h of (res', h') \<Rightarrow> runScriptsFrom H ss res' h')"

definition RunScripts :: "'h Host \<Rightarrow> ScriptEntry list \<Rightarrow> 'h \<Rightarrow> Result \<times> 'h" where
  "RunScripts H scripts h = runScriptsFrom H scripts emptyResult h"

subsection \<open>Running\<close>

text \<open>What \<open>RunScripts\<close> executes, as a trace: every script in turn, with its output and error.\<close>

primrec scriptRuns :: "'h Host \<Rightarrow> ScriptEntry list \<Rightarrow> 'h \<Rightarrow> (string \<times> string \<times> string option) list \<times> 'h" where
  "scriptRuns H [] h = ([], h)"
| "scriptRuns H (s # ss) h =
     (case Exec H (if se_Interpreter s = [] then ''/bin/sh'' else se_Interpreter s) [] (se_Content s) h of
        ((out, e), h1) \<Rightarrow> (case scriptRuns H ss h1 of (rs, h2) \<Rightarrow> ((se_Name s, out, e) # rs, h2)))"

definition runsResult :: "Result \<Rightarrow> (string \<times> string \<times> string option) list \<Rightarrow> Result" where
  "runsResult res rs =
     res\<lparr>res_Applied := res_Applied res @ map fst (filter (\<lambda>(n, out, e). e = None) rs),
         res_Failed := res_Failed res @
           map (\<lambda>(n, out, e). n @ '': '' @ the e @ '': '' @ TrimSpace out) (filter (\<lambda>(n, out, e). e \<noteq> None) rs)\<rparr>"

lemma runScriptsFrom_runs:
  "runScriptsFrom H ss res h = (case scriptRuns H ss h of (rs, h') \<Rightarrow> (runsResult res rs, h'))"
  by (induction ss arbitrary: res h)
    (auto simp: runsResult_def runScript_def Let_def split: prod.splits option.splits)

lemma scriptRuns_names: "map fst (fst (scriptRuns H ss h)) = map se_Name ss"
  by (induction ss arbitrary: h) (auto split: prod.splits, (metis fst_conv)+)

subsection \<open>Properties\<close>

text \<open>C29: All scripts are run, each once and in order, with its interpreter (\<open>/bin/sh\<close> if none is
  named) and its content on standard input, going on after a failure; the result lists the names of
  the scripts that succeeded and, with error and output, those that failed, and is a success exactly
  when none failed.\<close>

theorem RunScripts_runs_all:
  "let (rs, h1) = scriptRuns H scripts h; (res, h2) = RunScripts H scripts h in
   h2 = h1 \<and> map fst rs = map se_Name scripts
   \<and> res_Applied res = map fst (filter (\<lambda>(n, out, e). e = None) rs)
   \<and> res_Failed res = map (\<lambda>(n, out, e). n @ '': '' @ the e @ '': '' @ TrimSpace out) (filter (\<lambda>(n, out, e). e \<noteq> None) rs)
   \<and> (OK res \<longleftrightarrow> list_all (\<lambda>(n, out, e). e = None) rs)"
proof (cases "scriptRuns H scripts h")
  case (Pair rs h1)
  with scriptRuns_names [of H scripts h] have "map fst rs = map se_Name scripts" by simp
  with Pair show ?thesis
    by (auto simp: RunScripts_def runScriptsFrom_runs runsResult_def emptyResult_def OK_def list_all_iff
        filter_empty_conv)
qed

end
