(* ===== verification/Worker_Main.thy ===== *)
theory Worker_Main
  imports Worker_Apply Worker_Script Report_Format
begin

text \<open>
  \<open>cmd/worker/main.go\<close> and \<open>internal/worker/report.go\<close>: one run of the worker. The command line is
  the function \<open>flags\<close> from flag names to the values given; \<open>post\<close> is the HTTP POST of a body to
  a URL, with an error (a malformed URL or a transport error) or the response's status code. A run ends with \<open>log.Fatalf\<close>, ends
  normally, or waits for a signal.
\<close>

type_synonym 'h poster = "string \<Rightarrow> string \<Rightarrow> 'h \<Rightarrow> (string + nat) \<times> 'h"

definition Send :: "'h poster \<Rightarrow> string \<Rightarrow> Report \<Rightarrow> 'h \<Rightarrow> string option \<times> 'h" where
  "Send post url rep h =
     (case post url (marshalReport rep) h of
        (Inl err, h') \<Rightarrow> (Some err, h')
      | (Inr code, h') \<Rightarrow>
          if code \<noteq> 200 then (Some (''report rejected: status '' @ Itoa code), h') else (None, h'))"

definition sendReport :: "'h poster \<Rightarrow> string \<Rightarrow> Report \<Rightarrow> 'h \<Rightarrow> 'h" where
  "sendReport post url rep h = (if url = [] then h else snd (Send post url rep h))"

definition modeApply :: string where "modeApply = ''apply''"
definition modeCheck :: string where "modeCheck = ''check''"
definition modeScript :: string where "modeScript = ''script''"

definition getenv :: "'h Host \<Rightarrow> string \<Rightarrow> string \<Rightarrow> string" where
  "getenv H key def = (if Getenv H key \<noteq> [] then Getenv H key else def)"

text \<open>\<open>flag.StringVar\<close>: the value given on the command line, else the default.\<close>

definition stringVar :: "(string \<Rightarrow> string option) \<Rightarrow> string \<Rightarrow> string \<Rightarrow> string" where
  "stringVar flags name def = (case flags name of Some v \<Rightarrow> v | None \<Rightarrow> def)"

text \<open>\<open>verifyHash\<close> returns, or ends the process (here: \<^term>\<open>False\<close>).\<close>

definition verifyHash :: "string \<Rightarrow> string \<Rightarrow> bool" where
  "verifyHash got expected = (if expected \<noteq> [] \<and> got \<noteq> expected then False else True)"

definition summarize :: "string \<Rightarrow> Result \<Rightarrow> string" where
  "summarize verb res =
     verb @ '' '' @ Itoa (length (res_Applied res)) @ '' ok, '' @ Itoa (length (res_Failed res))
       @ '' failed, '' @ Itoa (length (res_Drifted res)) @ '' drifted''"

text \<open>How a run ends; for \<open>log.Fatalf\<close>, the operands of its message.\<close>

datatype FatalCause =
    LoadConfigFailed string string | LoadScriptsFailed string string | HashMismatch string string | UnknownMode string

datatype Outcome = Fatal FatalCause | Exits | WaitsForSignal

text \<open>The part after the switch: send the report, then exit or wait.\<close>

definition finish :: "'h poster \<Rightarrow> string \<Rightarrow> string \<Rightarrow> Report \<Rightarrow> 'h \<Rightarrow> Outcome \<times> 'h" where
  "finish post url mode rep h =
     (let h' = sendReport post url rep h in
      (if mode = modeApply \<or> mode = modeScript then WaitsForSignal else Exits, h'))"

definition baseReport :: "'h Host \<Rightarrow> Report" where
  "baseReport H =
     \<lparr>wr_Profile = Getenv H ''PROFILE'', wr_Namespace = Getenv H ''NAMESPACE'', wr_Kind = [],
      wr_Node = Getenv H ''NODE_NAME'', wr_Pod = Getenv H ''POD_NAME'', wr_Hash = [],
      wr_Success = False, wr_Applied = [], wr_Failed = [], wr_Message = []\<rparr>"

definition applyReportOf :: "'h Host \<Rightarrow> Config \<Rightarrow> Result \<Rightarrow> Report" where
  "applyReportOf H cfg res =
     (baseReport H)\<lparr>wr_Hash := Hash cfg, wr_Applied := res_Applied res, wr_Failed := res_Failed res,
       wr_Success := OK res, wr_Message := summarize ''applied'' res\<rparr>"

definition checkReportOf :: "'h Host \<Rightarrow> Config \<Rightarrow> Result \<Rightarrow> Report" where
  "checkReportOf H cfg res =
     (baseReport H)\<lparr>wr_Hash := Hash cfg, wr_Applied := res_Applied res,
       wr_Failed := res_Failed res @ res_Drifted res,
       wr_Success := OK res, wr_Message := summarize ''checked'' res\<rparr>"

definition scriptReportOf :: "'h Host \<Rightarrow> ScriptConfig \<Rightarrow> Result \<Rightarrow> Report" where
  "scriptReportOf H scfg res =
     (baseReport H)\<lparr>wr_Hash := sc_Hash scfg, wr_Kind := ''ScriptProfile'',
       wr_Applied := res_Applied res, wr_Failed := res_Failed res,
       wr_Success := OK res, wr_Message := summarize ''ran'' res\<rparr>"

definition workerMode :: "'h Host \<Rightarrow> (string \<Rightarrow> string option) \<Rightarrow> string" where
  "workerMode H flags = stringVar flags ''mode'' (getenv H ''MODE'' modeApply)"

definition configPathOf :: "'h Host \<Rightarrow> (string \<Rightarrow> string option) \<Rightarrow> string" where
  "configPathOf H flags =
     stringVar flags ''config'' (getenv H ''CONFIG_PATH'' ''/etc/sysctl.d/99-sysctl-operator.conf'')"

definition procRootOf :: "'h Host \<Rightarrow> (string \<Rightarrow> string option) \<Rightarrow> string" where
  "procRootOf H flags = stringVar flags ''proc-root'' (getenv H ''PROC_ROOT'' ''/proc/sys'')"

definition workerMain :: "'h Host \<Rightarrow> 'h poster \<Rightarrow> (string \<Rightarrow> string option) \<Rightarrow> 'h \<Rightarrow> Outcome \<times> 'h" where
  "workerMain H post flags h =
     (let mode = workerMode H flags;
          configPath = configPathOf H flags;
          procRoot = procRootOf H flags;
          expected = Getenv H ''CONFIG_HASH'';
          url = Getenv H ''REPORT_URL''
      in if mode = modeApply \<or> mode = modeCheck then
           (case Load (\<lambda>p. ReadFile H p h) configPath of
              Inl err \<Rightarrow> (Fatal (LoadConfigFailed configPath err), h)
            | Inr cfg \<Rightarrow>
                if \<not> verifyHash (Hash cfg) expected then (Fatal (HashMismatch (Hash cfg) expected), h)
                else if mode = modeApply then
                  (case Apply H procRoot (Entries cfg) h of
                     (res, h1) \<Rightarrow> finish post url mode (applyReportOf H cfg res) h1)
                else
                  finish post url mode (checkReportOf H cfg (Check H procRoot (Entries cfg) h)) h)
         else if mode = modeScript then
           (case LoadScripts (\<lambda>p. ReadFile H p h) configPath of
              Inl err \<Rightarrow> (Fatal (LoadScriptsFailed configPath err), h)
            | Inr scfg \<Rightarrow>
                if \<not> verifyHash (sc_Hash scfg) expected then (Fatal (HashMismatch (sc_Hash scfg) expected), h)
                else
                  (case RunScripts H (sc_Scripts scfg) h of
                     (res, h1) \<Rightarrow> finish post url mode (scriptReportOf H scfg res) h1))
         else (Fatal (UnknownMode mode), h))"

text \<open>A report is posted once, whatever the answer.\<close>

lemma sendReport_once: "url \<noteq> [] \<Longrightarrow> sendReport post url rep h = snd (post url (marshalReport rep) h)"
  by (simp add: sendReport_def Send_def split: prod.split sum.split)

subsection \<open>The branches\<close>

lemmas workerMain_eval = workerMain_def Let_def modeApply_def modeCheck_def modeScript_def

lemma workerMain_apply:
  assumes "workerMode H flags = ''apply''" and "ReadFile H (configPathOf H flags) h = Inr data"
    and "Getenv H ''CONFIG_HASH'' = [] \<or> HashBytes data = Getenv H ''CONFIG_HASH''"
  shows "workerMain H post flags h =
    (case Apply H (procRootOf H flags) (Entries (Parse data)) h of
       (res, h1) \<Rightarrow> (WaitsForSignal, sendReport post (Getenv H ''REPORT_URL'') (applyReportOf H (Parse data) res) h1))"
  using assms by (auto simp: workerMain_eval Load_def verifyHash_def finish_def Parse_def split: prod.splits)

lemma workerMain_script:
  assumes "workerMode H flags = ''script''" and "ReadFile H (configPathOf H flags) h = Inr data"
    and "Getenv H ''CONFIG_HASH'' = [] \<or> HashBytes data = Getenv H ''CONFIG_HASH''"
  shows "workerMain H post flags h =
    (case RunScripts H (sc_Scripts (ParseScripts data)) h of
       (res, h1) \<Rightarrow> (WaitsForSignal, sendReport post (Getenv H ''REPORT_URL'') (scriptReportOf H (ParseScripts data) res) h1))"
  using assms by (auto simp: workerMain_eval LoadScripts_def verifyHash_def finish_def ParseScripts_def split: prod.splits)

lemma expand_Exec: "expand (H\<lparr>Exec := E\<rparr>) root n h = expand H root n h"
  by (simp add: expand_def Let_def split: option.split)

lemma readSysctl_Exec: "readSysctl (H\<lparr>Exec := E\<rparr>) root k h = readSysctl H root k h"
  by (simp add: readSysctl_def)

lemma checkKeys_Exec: "checkKeys (H\<lparr>Exec := E\<rparr>) root v ks res h = checkKeys H root v ks res h"
  by (induction ks arbitrary: res) (auto simp: readSysctl_Exec split: sum.splits)

lemma checkEntries_Exec: "checkEntries (H\<lparr>Exec := E\<rparr>) root es res h = checkEntries H root es res h"
  by (induction es arbitrary: res) (simp_all add: checkKeys_Exec expand_Exec)

lemma settings_Exec:
  "workerMode (H\<lparr>Exec := E\<rparr>) flags = workerMode H flags" "configPathOf (H\<lparr>Exec := E\<rparr>) flags = configPathOf H flags"
  "procRootOf (H\<lparr>Exec := E\<rparr>) flags = procRootOf H flags" "checkReportOf (H\<lparr>Exec := E\<rparr>) cfg res = checkReportOf H cfg res"
  by (simp_all add: workerMode_def configPathOf_def procRootOf_def checkReportOf_def baseReport_def getenv_def)

subsection \<open>Properties\<close>

text \<open>C30: A worker that finds a file whose hash is not the expected one ends with a fatal error,
  without having run a program or posted a report: the node is as it was. The same holds when the
  file cannot be read and when the mode is unknown.\<close>

theorem workerMain_refuses:
  assumes "workerMode H flags \<notin> {''apply'', ''check'', ''script''}
    \<or> (\<exists>err. ReadFile H (configPathOf H flags) h = Inl err)
    \<or> (\<exists>data. ReadFile H (configPathOf H flags) h = Inr data
         \<and> Getenv H ''CONFIG_HASH'' \<noteq> [] \<and> HashBytes data \<noteq> Getenv H ''CONFIG_HASH'')"
  shows "\<exists>cause. workerMain H post flags h = (Fatal cause, h)"
  using assms by (auto simp: workerMain_eval Load_def LoadScripts_def verifyHash_def Parse_def ParseScripts_def)

definition staleHost :: "unit Host" where
  "staleHost = exHost\<lparr>Getenv := (\<lambda>v. if v = ''CONFIG_HASH'' then ''0000'' else []),
     ReadFile := (\<lambda>p h. Inr ''vm.swappiness = 10'')\<rparr>"

theorem workerMain_refuses_witness:
  "\<exists>cause. workerMain staleHost (\<lambda>url body h. (Inr 200, h)) (\<lambda>_. None) () = (Fatal cause, ())"
proof -
  have "length (HashBytes data) \<noteq> length ''0000''" for data by simp
  then have "HashBytes data \<noteq> ''0000''" for data by metis
  with workerMain_refuses [of staleHost "\<lambda>_. None" "()" "\<lambda>url body h. (Inr 200, h)"]
  show ?thesis by (simp add: staleHost_def)
qed

text \<open>A worker in check mode runs no program: its run does not depend on what running a program
  would do, so it only reads the node and posts its report.\<close>

theorem workerMain_check_reads_only:
  assumes "workerMode H flags = ''check''"
  shows "workerMain (H\<lparr>Exec := E\<rparr>) post flags h = workerMain H post flags h"
  using assms
  by (auto simp: workerMain_eval settings_Exec Check_def checkEntries_Exec Load_def split: sum.splits)

theorem workerMain_check_reads_only_witness:
  "workerMain (exHost\<lparr>Exec := (\<lambda>prog args stdin h. (([], Some ''denied''), h))\<rparr>) (\<lambda>url body h. (Inr 200, h)) [''mode'' \<mapsto> ''check''] ()
     = workerMain exHost (\<lambda>url body h. (Inr 200, h)) [''mode'' \<mapsto> ''check''] ()"
  by (rule workerMain_check_reads_only) (simp add: workerMode_def stringVar_def)

end
