(* ===== verification/Rendering.thy ===== *)
theory Rendering
  imports Script_Controller Worker_Script
begin

text \<open>
  The text format between the controllers and the worker. The controllers render a profile into
  one file and hash it; the worker hashes the file it finds and parses it back. The interface is
  the locale \<open>config_codec\<close>; the sysctl drop-in and the scripts file are its interpretations, each
  with the condition on names and values under which parsing gives back what was rendered.
\<close>

subsection \<open>The interface\<close>

locale config_codec =
  fixes render :: "'p \<Rightarrow> string"
    and content_hash :: "string \<Rightarrow> string"
    and load :: "string \<Rightarrow> 'c"
    and loaded_hash :: "'c \<Rightarrow> string"
    and loaded_items :: "'c \<Rightarrow> 'e list"
    and renderable :: "'p \<Rightarrow> bool"
    and intended :: "'p \<Rightarrow> 'e list"
  assumes hash_agrees: "loaded_hash (load s) = content_hash s"
    and load_render: "renderable p \<Longrightarrow> loaded_items (load (render p)) = intended p"
begin

text \<open>A file with the expected hash is accepted, and one with another hash is another file.\<close>

lemma accepts_rendered: "loaded_hash (load (render p)) = content_hash (render p)"
  by (rule hash_agrees)

lemma mismatch_is_other_file:
  "loaded_hash (load s) \<noteq> content_hash (render p) \<Longrightarrow> s \<noteq> render p"
  using hash_agrees by blast

end

subsection \<open>The sysctl drop-in\<close>

definition sysctlRenderable :: "Sysctl \<Rightarrow> bool" where
  "sysctlRenderable s \<longleftrightarrow>
     sysctl_Name s \<noteq> [] \<and> TrimSpace (sysctl_Name s) = sysctl_Name s
     \<and> CHR ''='' \<notin> set (sysctl_Name s) \<and> CHR 0x0A \<notin> set (sysctl_Name s)
     \<and> hd (sysctl_Name s) \<noteq> CHR ''#'' \<and> hd (sysctl_Name s) \<noteq> CHR '';''
     \<and> CHR 0x0A \<notin> set (sysctl_Value s)"

definition sysctlIntended :: "Sysctl \<Rightarrow> Entry" where
  "sysctlIntended s = \<lparr>entry_Name = sysctl_Name s, entry_Value = TrimSpace (sysctl_Value s)\<rparr>"

definition sysctlLine :: "Sysctl \<Rightarrow> string" where
  "sysctlLine s = sysctl_Name s @ '' = '' @ sysctl_Value s"

lemma renderEntries_eq: "renderEntries ss b = b @ concat (map (\<lambda>s. sysctlLine s @ [CHR 0x0A]) ss)"
  by (induction ss arbitrary: b) (simp_all add: sysctlLine_def)

lemma renderSysctlConf_eq:
  "renderSysctlConf p = concat (map (\<lambda>s. sysctlLine s @ [CHR 0x0A]) (Sysctls (sys_Spec p)))"
  by (simp add: renderSysctlConf_def renderEntries_eq)

lemma sysctlLine_no_newline: "sysctlRenderable s \<Longrightarrow> CHR 0x0A \<notin> set (sysctlLine s)"
  by (simp add: sysctlRenderable_def sysctlLine_def)

lemma parseLine_sysctlLine: "sysctlRenderable s \<Longrightarrow> parseLine (sysctlLine s) = Some (sysctlIntended s)"
  unfolding sysctlLine_def sysctlIntended_def
  by (rule parseLine_setting) (auto simp: sysctlRenderable_def)

lemma Split_lines:
  "list_all (\<lambda>s. c \<notin> set (f s)) ss \<Longrightarrow> Split (concat (map (\<lambda>s. f s @ [c]) ss)) c = map f ss @ [[]]"
  by (induction ss) (simp_all add: Split_line)

lemma map_filter_sysctlLines:
  "list_all sysctlRenderable ss \<Longrightarrow> List.map_filter parseLine (map sysctlLine ss @ [[]]) = map sysctlIntended ss"
  by (induction ss) (simp_all add: parseLine_sysctlLine parseLine_blank)

interpretation sysctl_codec: config_codec renderSysctlConf hashContent Parse Hash Entries
  "\<lambda>p. list_all sysctlRenderable (Sysctls (sys_Spec p))" "\<lambda>p. map sysctlIntended (Sysctls (sys_Spec p))"
proof unfold_locales
  show "Hash (Parse s) = hashContent s" for s
    by (simp add: Parse_def HashBytes_def hashContent_def)
  show "Entries (Parse (renderSysctlConf p)) = map sysctlIntended (Sysctls (sys_Spec p))"
    if "list_all sysctlRenderable (Sysctls (sys_Spec p))" for p
  proof -
    from that have "list_all (\<lambda>s. CHR 0x0A \<notin> set (sysctlLine s)) (Sysctls (sys_Spec p))"
      by (auto simp: list_all_iff intro: sysctlLine_no_newline [THEN notE])
    with that show ?thesis
      by (simp add: Parse_Entries renderSysctlConf_eq Split_lines map_filter_sysctlLines)
  qed
qed

subsection \<open>The scripts file\<close>

fun space_free :: "string \<Rightarrow> bool" where
  "space_free [] = True"
| "space_free (c # cs) = (\<not> starts_space (c # cs) \<and> space_free cs)"

definition chomp :: "string \<Rightarrow> string" where
  "chomp s = (if HasSuffix s [CHR 0x0A] then butlast s else s)"

definition plainLine :: "string \<Rightarrow> bool" where
  "plainLine l \<longleftrightarrow> \<not> HasPrefix l scriptHeaderPrefix \<and> l \<noteq> scriptFooter"

definition scriptRenderable :: "Script \<Rightarrow> bool" where
  "scriptRenderable s \<longleftrightarrow>
     space_free (script_Name s) \<and> space_free (script_Interpreter s)
     \<and> list_all plainLine (Split (chomp (script_Content s)) (CHR 0x0A))"

definition scriptIntended :: "Script \<Rightarrow> ScriptEntry" where
  "scriptIntended s =
     \<lparr>se_Name = script_Name s,
      se_Interpreter = (if script_Interpreter s = [] then ''/bin/sh'' else script_Interpreter s),
      se_Content = chomp (script_Content s)\<rparr>"

paragraph \<open>The header line\<close>

lemma starts_space_hd: "starts_space (c # s) \<Longrightarrow> c \<in> hd ` set space_runes"
proof -
  assume "starts_space (c # s)"
  then obtain q where q: "q \<in> set space_runes" "prefix q (c # s)" by (auto simp: starts_space_iff)
  from q(1) have "q \<noteq> []" by (rule space_rune_shape(1))
  with q(2) have "hd q = c" by (cases q) auto
  with q(1) show ?thesis by blast
qed

lemma space_free_Cons_safe: "c \<notin> hd ` set space_runes \<Longrightarrow> space_free (c # s) = space_free s"
  using starts_space_hd by auto

lemma space_free_key:
  "list_all (\<lambda>c. c \<notin> hd ` set space_runes) k \<Longrightarrow> space_free (k @ s) = space_free s"
  by (induction k) (auto simp: space_free_Cons_safe simp del: space_free.simps)

lemma header_keys_safe:
  "list_all (\<lambda>c. c \<notin> hd ` set space_runes) ''name=''"
  "list_all (\<lambda>c. c \<notin> hd ` set space_runes) ''interpreter=''"
  by (simp_all add: space_runes_def)

lemma fieldsAcc_word:
  "space_free s \<Longrightarrow> cur \<noteq> [] \<or> s \<noteq> [] \<Longrightarrow>
     fieldsAcc cur (s @ CHR '' '' # r) = (rev cur @ s) # fieldsAcc [] r"
proof (induction s arbitrary: cur)
  case Nil
  then show ?case using strip_rune [of "'' ''" r] by (simp add: fieldsAcc.simps [of cur])
next
  case (Cons c s)
  have "\<not> starts_space ((c # s) @ CHR '' '' # r)"
    using Cons.prems(1) by (subst starts_space_append) (auto simp: cont_byte_def)
  then have "fieldsAcc cur ((c # s) @ CHR '' '' # r) = fieldsAcc (c # cur) (s @ CHR '' '' # r)"
    by (simp add: fieldsAcc.simps [of cur] starts_space_def)
  with Cons show ?case by simp
qed

lemma fieldsAcc_end:
  "space_free s \<Longrightarrow> cur \<noteq> [] \<or> s \<noteq> [] \<Longrightarrow> fieldsAcc cur s = [rev cur @ s]"
proof (induction s arbitrary: cur)
  case Nil
  have "stripSeq space_runes [] = None" by (simp add: stripSeq_None)
  with Nil show ?case by (simp add: fieldsAcc.simps [of cur])
next
  case (Cons c s)
  then have "fieldsAcc cur (c # s) = fieldsAcc (c # cur) s"
    by (simp add: fieldsAcc.simps [of cur "c # s"] starts_space_def)
  with Cons show ?case by simp
qed

lemma Fields_header:
  assumes "space_free n" and "space_free i"
  shows "Fields (''name='' @ n @ '' interpreter='' @ i) = [''name='' @ n, ''interpreter='' @ i]"
proof -
  have "space_free (''name='' @ n)" and "space_free (''interpreter='' @ i)"
    using assms by (simp_all only: space_free_key header_keys_safe)
  then show ?thesis
    using fieldsAcc_word [of "''name='' @ n" "[]" "''interpreter='' @ i"]
      fieldsAcc_end [of "''interpreter='' @ i" "[]"] by (simp add: Fields_def)
qed

lemma parseScriptHeader_rendered:
  assumes "space_free n" and "space_free i"
  shows "parseScriptHeader (scriptHeaderPrefix @ ''name='' @ n @ '' interpreter='' @ i) = (n, i)"
  using Cut_found [of "CHR ''=''" "''name''" n] Cut_found [of "CHR ''=''" "''interpreter''" i]
  by (simp add: parseScriptHeader_def Fields_header [OF assms, simplified])

paragraph \<open>The blocks\<close>

lemma chomp_newline:
  "s @ (if \<not> HasSuffix s [CHR 0x0A] then [CHR 0x0A] else []) = chomp s @ [CHR 0x0A]"
proof (cases "HasSuffix s [CHR 0x0A]")
  case True
  then have "s \<noteq> []" "last s = CHR 0x0A" by (auto simp: HasSuffix_iff suffix_def)
  with True show ?thesis using append_butlast_last_id [of s] by (simp add: chomp_def)
qed (simp add: chomp_def)

definition scriptHeader :: "Script \<Rightarrow> string" where
  "scriptHeader s =
     scriptHeaderPrefix @ ''name='' @ se_Name (scriptIntended s)
       @ '' interpreter='' @ se_Interpreter (scriptIntended s)"

definition scriptBlock :: "Script \<Rightarrow> string list" where
  "scriptBlock s = scriptHeader s # Split (chomp (script_Content s)) (CHR 0x0A) @ [scriptFooter]"

lemma renderScript_eq:
  "renderScript s = scriptHeader s @ CHR 0x0A # chomp (script_Content s) @ CHR 0x0A # scriptFooter @ [CHR 0x0A]"
  (is "_ = ?r")
proof -
  have "renderScript s = scriptHeader s @ [CHR 0x0A]
      @ (script_Content s @ (if \<not> HasSuffix (script_Content s) [CHR 0x0A] then [CHR 0x0A] else []))
      @ scriptFooter @ [CHR 0x0A]"
    by (simp add: renderScript_def scriptHeader_def scriptIntended_def scriptHeaderPrefix_def scriptFooter_def Let_def)
  also have "\<dots> = ?r" unfolding chomp_newline by simp
  finally show ?thesis .
qed

lemma space_free_no_newline: "space_free s \<Longrightarrow> CHR 0x0A \<notin> set s"
proof (induction s)
  case (Cons c s)
  have "starts_space (CHR 0x0A # s)" by (auto simp: starts_space_iff space_runes_def)
  with Cons show ?case by auto
qed simp

lemma scriptHeader_no_newline: "scriptRenderable s \<Longrightarrow> CHR 0x0A \<notin> set (scriptHeader s)"
  using space_free_no_newline
  by (auto simp: scriptRenderable_def scriptHeader_def scriptIntended_def scriptHeaderPrefix_def)

lemma renderScript_lines:
  assumes "scriptRenderable s"
  shows "Split (renderScript s @ rest) (CHR 0x0A) = scriptBlock s @ Split rest (CHR 0x0A)"
proof -
  have "CHR 0x0A \<notin> set (scriptHeader s)" using assms by (rule scriptHeader_no_newline)
  moreover have "CHR 0x0A \<notin> set scriptFooter" by (simp add: scriptFooter_def)
  ultimately show ?thesis by (simp add: renderScript_eq Split_line Split_append_sep scriptBlock_def)
qed

lemma renderScriptList_eq: "renderScriptList ss b = b @ concat (map renderScript ss)"
  by (induction ss arbitrary: b) simp_all

lemma Split_scripts:
  "list_all scriptRenderable ss \<Longrightarrow>
     Split (concat (map renderScript ss)) (CHR 0x0A) = concat (map scriptBlock ss) @ [[]]"
  by (induction ss) (simp_all add: renderScript_lines)

lemma scriptLine_header:
  assumes "scriptRenderable s"
  shows "scriptLine (scriptHeader s) st =
    st\<lparr>ps_cur := Some ((scriptIntended s)\<lparr>se_Content := []\<rparr>), ps_content := []\<rparr>"
proof -
  have i: "space_free ''/bin/sh''" by (simp add: starts_space_iff space_runes_def)
  have "parseScriptHeader (scriptHeader s) = (se_Name (scriptIntended s), se_Interpreter (scriptIntended s))"
    unfolding scriptHeader_def
    by (rule parseScriptHeader_rendered) (use assms i in \<open>auto simp: scriptRenderable_def scriptIntended_def\<close>)
  moreover have "HasPrefix (scriptHeader s) scriptHeaderPrefix"
    by (simp add: scriptHeader_def HasPrefix_def)
  ultimately show ?thesis by (simp add: scriptLine_def scriptIntended_def)
qed

lemma scriptLine_content:
  "list_all plainLine ls \<Longrightarrow> ps_cur st = Some e \<Longrightarrow>
     fold scriptLine ls st = st\<lparr>ps_content := ps_content st @ ls\<rparr>"
  by (induction ls arbitrary: st) (simp_all add: scriptLine_def plainLine_def)

lemma scriptLine_footer:
  "ps_cur st = Some e \<Longrightarrow> scriptLine scriptFooter st =
     st\<lparr>ps_scripts := ps_scripts st @ [e\<lparr>se_Content := Join (ps_content st) [CHR 0x0A]\<rparr>], ps_cur := None\<rparr>"
  by (simp add: scriptLine_def scriptFooter_def scriptHeaderPrefix_def HasPrefix_def)

lemma fold_scriptBlock:
  assumes "scriptRenderable s"
  shows "\<exists>ls. fold scriptLine (scriptBlock s) st =
    st\<lparr>ps_cur := None, ps_content := ls, ps_scripts := ps_scripts st @ [scriptIntended s]\<rparr>"
proof -
  let ?ls = "Split (chomp (script_Content s)) (CHR 0x0A)"
  have "list_all plainLine ?ls" using assms by (simp add: scriptRenderable_def)
  then have "fold scriptLine (scriptBlock s) st =
      st\<lparr>ps_cur := None, ps_content := ?ls, ps_scripts := ps_scripts st @ [scriptIntended s]\<rparr>"
    by (simp add: scriptBlock_def scriptLine_header [OF assms] scriptLine_content scriptLine_footer Join_Split)
      (simp add: scriptIntended_def)
  then show ?thesis by blast
qed

lemma fold_scriptBlocks:
  "list_all scriptRenderable ss \<Longrightarrow> ps_cur st = None \<Longrightarrow>
     ps_scripts (scriptLine [] (fold scriptLine (concat (map scriptBlock ss)) st)) = ps_scripts st @ map scriptIntended ss"
proof (induction ss arbitrary: st)
  case Nil
  then show ?case by (simp add: scriptLine_def scriptHeaderPrefix_def scriptFooter_def HasPrefix_def)
next
  case (Cons s ss)
  then have "scriptRenderable s" by simp
  then obtain ls where "fold scriptLine (scriptBlock s) st =
      st\<lparr>ps_cur := None, ps_content := ls, ps_scripts := ps_scripts st @ [scriptIntended s]\<rparr>"
    using fold_scriptBlock by blast
  with Cons show ?case by simp
qed

interpretation script_codec: config_codec renderScripts hashContent ParseScripts sc_Hash sc_Scripts
  "\<lambda>p. list_all scriptRenderable (Scripts (scr_Spec p))" "\<lambda>p. map scriptIntended (Scripts (scr_Spec p))"
proof unfold_locales
  show "sc_Hash (ParseScripts s) = hashContent s" for s
    by (simp add: ParseScripts_def HashBytes_def hashContent_def)
  show "sc_Scripts (ParseScripts (renderScripts p)) = map scriptIntended (Scripts (scr_Spec p))"
    if "list_all scriptRenderable (Scripts (scr_Spec p))" for p
    using that by (simp add: ParseScripts_def renderScripts_def renderScriptList_eq Split_scripts fold_scriptBlocks)
qed

subsection \<open>Content that ends its own block\<close>

text \<open>The content of a script as it is parsed back: up to the first line that looks like a footer.\<close>

lemma fold_scriptBlock_footer:
  assumes "space_free (script_Name s)" and "space_free (script_Interpreter s)"
    and "Split (chomp (script_Content s)) (CHR 0x0A) = ls @ scriptFooter # rest"
    and "list_all plainLine ls" and "list_all plainLine rest"
  shows "ps_scripts (fold scriptLine (scriptBlock s) st) =
    ps_scripts st @ [(scriptIntended s)\<lparr>se_Content := Join ls [CHR 0x0A]\<rparr>]"
proof -
  have i: "space_free ''/bin/sh''" by (simp add: starts_space_iff space_runes_def)
  have "parseScriptHeader (scriptHeader s) = (se_Name (scriptIntended s), se_Interpreter (scriptIntended s))"
    unfolding scriptHeader_def
    by (rule parseScriptHeader_rendered) (use assms(1,2) i in \<open>auto simp: scriptIntended_def\<close>)
  then have header: "scriptLine (scriptHeader s) st =
      st\<lparr>ps_cur := Some ((scriptIntended s)\<lparr>se_Content := []\<rparr>), ps_content := []\<rparr>"
    by (simp add: scriptLine_def scriptHeader_def scriptIntended_def HasPrefix_def)
  have idle: "fold scriptLine xs st' = st'" if "list_all plainLine xs" "ps_cur st' = None" for xs st'
    using that by (induction xs) (simp_all add: scriptLine_def plainLine_def)
  have footer: "scriptLine scriptFooter st' = st'" if "ps_cur st' = None" for st'
    using that by (simp add: scriptLine_def scriptFooter_def scriptHeaderPrefix_def HasPrefix_def)
  show ?thesis
    using assms(3-5)
    by (simp add: scriptBlock_def header scriptLine_content scriptLine_footer idle footer)
qed

subsection \<open>Properties\<close>

text \<open>C21: The worker parses the drop-in that the controller rendered into exactly the profile's
  sysctls, in order, with the values' surrounding white space dropped, for sysctls whose names are
  non-empty, without surrounding white space, \<open>=\<close> and newlines, and do not start like a comment, and
  whose values have no newline.\<close>

theorem rendered_sysctls_parse:
  assumes "list_all sysctlRenderable (Sysctls (sys_Spec p))"
  shows "Entries (Parse (renderSysctlConf p)) =
    map (\<lambda>s. \<lparr>entry_Name = sysctl_Name s, entry_Value = TrimSpace (sysctl_Value s)\<rparr>) (Sysctls (sys_Spec p))"
  using sysctl_codec.load_render [OF assms] by (simp add: sysctlIntended_def)

definition twoSysctls :: "Sysctl list" where
  "twoSysctls =
     [\<lparr>sysctl_Name = ''net.core.somaxconn'', sysctl_Value = '' 1024 '', Persistent = False, InterfaceSelectorOf = None\<rparr>,
      \<lparr>sysctl_Name = ''kernel.x'', sysctl_Value = ''a=b # c'', Persistent = False, InterfaceSelectorOf = None\<rparr>]"

theorem rendered_sysctls_parse_witness:
  "map entry_Name (Entries (Parse (renderSysctlConf
     (blankProfile\<lparr>sys_Spec := (sys_Spec blankProfile)\<lparr>Sysctls := twoSysctls\<rparr>\<rparr>)))) = [''net.core.somaxconn'', ''kernel.x'']"
proof -
  have "list_all sysctlRenderable twoSysctls" by code_simp
  with rendered_sysctls_parse [of "blankProfile\<lparr>sys_Spec := (sys_Spec blankProfile)\<lparr>Sysctls := twoSysctls\<rparr>\<rparr>"]
  show ?thesis by (simp add: twoSysctls_def)
qed

text \<open>C22: The worker parses the file that the script controller rendered into exactly the profile's
  scripts, in order, with \<open>/bin/sh\<close> for an empty interpreter and one trailing newline of the content
  dropped, for scripts whose name and interpreter have no white space and none of whose lines is a
  script header or footer.\<close>

theorem rendered_scripts_parse:
  assumes "list_all scriptRenderable (Scripts (scr_Spec p))"
  shows "sc_Scripts (ParseScripts (renderScripts p)) =
    map (\<lambda>s. \<lparr>se_Name = script_Name s,
               se_Interpreter = (if script_Interpreter s = [] then ''/bin/sh'' else script_Interpreter s),
               se_Content = chomp (script_Content s)\<rparr>) (Scripts (scr_Spec p))"
  using script_codec.load_render [OF assms] by (simp add: scriptIntended_def)

definition oneScript :: Script where
  "oneScript = \<lparr>script_Name = ''thp'', script_Content = ''set -e'' @ [CHR 0x0A] @ ''echo never'' @ [CHR 0x0A], script_Interpreter = []\<rparr>"

lemma oneScript_renderable: "scriptRenderable oneScript"
  by code_simp

definition profileWith :: "Script \<Rightarrow> ScriptProfile" where
  "profileWith s = blankScriptProfile\<lparr>scr_Spec := (scr_Spec blankScriptProfile)\<lparr>Scripts := [s]\<rparr>\<rparr>"

lemma profileWith_Scripts [simp]: "Scripts (scr_Spec (profileWith s)) = [s]"
  by (simp add: profileWith_def)

theorem rendered_scripts_parse_witness:
  "map se_Interpreter (sc_Scripts (ParseScripts (renderScripts (profileWith oneScript)))) = [''/bin/sh'']"
  using rendered_scripts_parse [of "profileWith oneScript"] oneScript_renderable by (simp add: oneScript_def)

text \<open>C34: The worker computes, from the bytes of the file it finds, the very hash the controllers
  compute from the text they render, so it accepts what they rendered; the hash is 16 lower-case
  hexadecimal digits.\<close>

theorem worker_accepts_rendered_hash:
  "Hash (Parse (renderSysctlConf p)) = hashContent (renderSysctlConf p)
   \<and> sc_Hash (ParseScripts (renderScripts s)) = hashContent (renderScripts s)
   \<and> length (hashContent str) = 16 \<and> set (hashContent str) \<subseteq> set ''0123456789abcdef''"
proof -
  have "hashContent str = HashBytes str" by (simp add: hashContent_def HashBytes_def)
  then show ?thesis
    using sysctl_codec.accepts_rendered [of p] script_codec.accepts_rendered [of s] HashBytes_hex [of str]
    by (simp add: hex_chars_def)
qed

text \<open>A value with a newline is rendered as it is: what follows the newline becomes a sysctl of its own, which
  the worker applies, although the profile lists one sysctl only.\<close>

lemma newline_in_value_adds_sysctl:
  assumes "sysctlRenderable s" and "sysctlRenderable u"
    and "Sysctls (sys_Spec p) = [s\<lparr>sysctl_Value := sysctl_Value s @ [CHR 0x0A] @ sysctl_Name u @ '' = '' @ sysctl_Value u\<rparr>]"
  shows "Entries (Parse (renderSysctlConf p)) = [sysctlIntended s, sysctlIntended u]"
proof -
  let ?q = "p\<lparr>sys_Spec := (sys_Spec p)\<lparr>Sysctls := [s, u]\<rparr>\<rparr>"
  have "renderSysctlConf p = renderSysctlConf ?q" by (simp add: renderSysctlConf_eq sysctlLine_def assms(3))
  with sysctl_codec.load_render [of ?q] assms(1,2) show ?thesis by simp
qed
text \<open>A script whose content has a line \<open>#!endscript\<close> is cut there: the worker runs only the lines
  before it and never sees the rest, although the file's hash is the expected one.\<close>

theorem script_footer_in_content_truncates:
  assumes "Scripts (scr_Spec p) = [s]"
    and "space_free (script_Name s)" and "space_free (script_Interpreter s)"
    and "Split (chomp (script_Content s)) (CHR 0x0A) = ls @ ''#!endscript'' # rest"
    and "list_all plainLine ls" and "list_all plainLine rest"
  shows "map se_Content (sc_Scripts (ParseScripts (renderScripts p))) = [Join ls [CHR 0x0A]]"
proof -
  have footer: "ls @ ''#!endscript'' # rest = ls @ scriptFooter # rest" by (simp add: scriptFooter_def)
  have i: "space_free ''/bin/sh''" by (simp add: starts_space_iff space_runes_def)
  have "CHR 0x0A \<notin> set (scriptHeader s)"
    using assms(2,3) i space_free_no_newline by (auto simp: scriptHeader_def scriptIntended_def scriptHeaderPrefix_def)
  then have lines: "Split (renderScript s) (CHR 0x0A) = scriptBlock s @ [[]]"
    by (simp add: renderScript_eq Split_line Split_append_sep scriptBlock_def scriptFooter_def)
  have last: "ps_scripts (scriptLine [] st) = ps_scripts st" for st
    by (simp add: scriptLine_def scriptHeaderPrefix_def scriptFooter_def HasPrefix_def split: option.split)
  show ?thesis
    using fold_scriptBlock_footer [OF assms(2,3) assms(4) [unfolded footer] assms(5,6)]
    by (simp add: ParseScripts_def renderScripts_def assms(1) lines last)
qed

definition cutScript :: Script where
  "cutScript = \<lparr>script_Name = ''a'', script_Content = ''echo 1'' @ [CHR 0x0A] @ ''#!endscript'' @ [CHR 0x0A] @ ''echo 2'', script_Interpreter = []\<rparr>"

theorem script_footer_in_content_truncates_witness:
  "map se_Content (sc_Scripts (ParseScripts (renderScripts (profileWith cutScript)))) = [''echo 1'']"
proof -
  have "map se_Content (sc_Scripts (ParseScripts (renderScripts (profileWith cutScript)))) = [Join [''echo 1''] [CHR 0x0A]]"
  proof (rule script_footer_in_content_truncates [OF profileWith_Scripts])
    show "Split (chomp (script_Content cutScript)) (CHR 0x0A) = [''echo 1''] @ ''#!endscript'' # [''echo 2'']" by code_simp
    show "space_free (script_Name cutScript)" by code_simp
    show "space_free (script_Interpreter cutScript)" by code_simp
    show "list_all plainLine [''echo 1'']" by code_simp
    show "list_all plainLine [''echo 2'']" by code_simp
  qed
  then show ?thesis by simp
qed

end
