(* ===== verification/Owned_Objects.thy ===== *)
theory Owned_Objects
  imports Script_Reconcile Worker_Main Rendering
begin

text \<open>
  The objects that the controllers build, seen from outside: the names of different profiles' objects
  do not collide, a DaemonSet selects its own pods and no others, and the environment of the pods is
  what the worker reads. It also shows where the drift-check CronJob and the DaemonSet's node selector
  differ from what they are meant to do.
\<close>

subsection \<open>Names\<close>

lemma resource_names_differ:
  "resourceName p \<noteq> scriptResourceName s" "resourceName p \<noteq> cronJobName q" "cronJobName p \<noteq> scriptResourceName s"
proof -
  show "resourceName p \<noteq> scriptResourceName s"
    by (auto simp: resourceName_def scriptResourceName_def dest: arg_cong [of _ _ last])
  show "resourceName p \<noteq> cronJobName q" and "cronJobName p \<noteq> scriptResourceName s"
    by (auto simp: resourceName_def cronJobName_def scriptResourceName_def dest: arg_cong [of _ _ last])
qed

lemma owned_keys:
  "configKey p = configKey q \<longleftrightarrow> key_of (sys_meta p) = key_of (sys_meta q)"
  "jobKey p = jobKey q \<longleftrightarrow> key_of (sys_meta p) = key_of (sys_meta q)"
  "scriptKey s = scriptKey s' \<longleftrightarrow> key_of (scr_meta s) = key_of (scr_meta s')"
  "configKey p \<noteq> scriptKey s" "configKey p \<noteq> jobKey q"
  using resource_names_differ
  by (simp_all add: configKey_def jobKey_def scriptKey_def) (simp_all add: resourceName_def cronJobName_def scriptResourceName_def)

subsection \<open>Selectors and environments\<close>

text \<open>The documented meaning of a selector that has match labels only.\<close>

definition matches :: "LabelSelector \<Rightarrow> gomap \<Rightarrow> bool" where
  "matches s labels \<longleftrightarrow>
     MatchExpressions s = [] \<and>
     (case MatchLabels s of
        None \<Rightarrow> True
      | Some m \<Rightarrow> fmpred (\<lambda>k v. Option.bind labels (\<lambda>l. fmlookup l k) = Some v) m)"

text \<open>The environment of a container: literal values, and pod fields resolved by the kubelet.\<close>

definition podEnv :: "(string \<times> EnvValue) list \<Rightarrow> (string \<Rightarrow> string) \<Rightarrow> string \<Rightarrow> string" where
  "podEnv env podFields v =
     (case map_of env v of
        None \<Rightarrow> []
      | Some (EnvLiteral s) \<Rightarrow> s
      | Some (EnvFieldRef f) \<Rightarrow> podFields f)"

lemma podEnv_worker [simp]:
  "podEnv (workerEnv p hash) podFields ''PROFILE'' = Name (sys_meta p)"
  "podEnv (workerEnv p hash) podFields ''NAMESPACE'' = Namespace (sys_meta p)"
  "podEnv (workerEnv p hash) podFields ''CONFIG_HASH'' = hash"
  "podEnv (workerEnv p hash) podFields ''REPORT_URL'' = reportURL"
  "podEnv (workerEnv p hash) podFields ''NODE_NAME'' = podFields ''spec.nodeName''"
  "podEnv (workerEnv p hash) podFields ''MODE'' = []"
  "podEnv (workerEnv p hash) podFields ''CONFIG_PATH'' = []"
  "podEnv (workerEnv p hash) podFields ''PROC_ROOT'' = []"
  "podEnv (workerEnv p hash) podFields ''POD_NAME'' = []"
  by (simp_all add: podEnv_def workerEnv_def)

lemma podEnv_script [simp]:
  "podEnv (scriptEnv s hash) podFields ''PROFILE'' = Name (scr_meta s)"
  "podEnv (scriptEnv s hash) podFields ''NAMESPACE'' = Namespace (scr_meta s)"
  "podEnv (scriptEnv s hash) podFields ''CONFIG_HASH'' = hash"
  "podEnv (scriptEnv s hash) podFields ''REPORT_URL'' = scriptReportURL"
  "podEnv (scriptEnv s hash) podFields ''NODE_NAME'' = podFields ''spec.nodeName''"
  "podEnv (scriptEnv s hash) podFields ''MODE'' = ''script''"
  "podEnv (scriptEnv s hash) podFields ''POD_NAME'' = []"
  "podEnv (scriptEnv s hash) podFields ''CONFIG_PATH'' = scriptConfigMountPath @ ''/'' @ scriptConfigFileName"
  by (simp_all add: podEnv_def scriptEnv_def)

lemma mutateDaemonSet_shape:
  "mutateDaemonSet K img p n hash labels d0 = Inr d \<Longrightarrow>
     ds_Selector d = Some \<lparr>MatchLabels = Some (fmap_of_list [(labelProfile, Name (sys_meta p))]), MatchExpressions = []\<rparr>
     \<and> tmpl_Labels (ds_Template d) = labels"
  by (auto simp: mutateDaemonSet_def Let_def split: sum.splits)

lemma mutateScriptDaemonSet_shape:
  "mutateScriptDaemonSet K img s n hash labels d0 = Inr d \<Longrightarrow>
     ds_Selector d = Some \<lparr>MatchLabels = Some (fmap_of_list [(labelScriptProfile, Name (scr_meta s))]), MatchExpressions = []\<rparr>
     \<and> tmpl_Labels (ds_Template d) = labels"
  by (auto simp: mutateScriptDaemonSet_def Let_def split: sum.splits)

subsection \<open>Properties\<close>

text \<open>Profiles do not share objects: two sysctl profiles have the same ConfigMap, DaemonSet or
  CronJob key only if they are the same object, the same holds for script profiles, and a sysctl
  profile never shares a ConfigMap or DaemonSet with a script profile, even of the same name.\<close>

theorem owned_names_do_not_collide:
  "(configKey p = configKey q \<longleftrightarrow> key_of (sys_meta p) = key_of (sys_meta q))
   \<and> (jobKey p = jobKey q \<longleftrightarrow> key_of (sys_meta p) = key_of (sys_meta q))
   \<and> (scriptKey s = scriptKey s' \<longleftrightarrow> key_of (scr_meta s) = key_of (scr_meta s'))
   \<and> configKey p \<noteq> scriptKey s"
  using owned_keys by blast

text \<open>The DaemonSets of a sysctl profile and of a script profile each select the pods of their own
  template, and never the other's, even for profiles of the same name; of all sysctl profiles' pods
  the first selects only those of profiles of its name.\<close>

theorem daemonSets_select_own_pods:
  assumes "mutateDaemonSet K img p n hash (labelsFor p) d0 = Inr d"
    and "mutateScriptDaemonSet K img' s n' hash' (scriptLabelsFor s) e0 = Inr e"
  shows "\<exists>sd se. ds_Selector d = Some sd \<and> ds_Selector e = Some se
    \<and> matches sd (tmpl_Labels (ds_Template d)) \<and> \<not> matches sd (tmpl_Labels (ds_Template e))
    \<and> matches se (tmpl_Labels (ds_Template e)) \<and> \<not> matches se (tmpl_Labels (ds_Template d))
    \<and> (\<forall>q. matches sd (labelsFor q) \<longleftrightarrow> Name (sys_meta q) = Name (sys_meta p))"
  using mutateDaemonSet_shape [OF assms(1)] mutateScriptDaemonSet_shape [OF assms(2)]
  by (auto simp: matches_def labelsFor_def scriptLabelsFor_def fmpred_iff labelProfile_def labelScriptProfile_def)

lemma exMutate:
  "\<exists>d. mutateDaemonSet mem [] exProfile ''n'' ''h'' (labelsFor exProfile) (newDaemonSet ''n'' ''ops'') = Inr d"
  "\<exists>e. mutateScriptDaemonSet mem [] exScriptProfile ''m'' ''h'' (scriptLabelsFor exScriptProfile) (newDaemonSet ''m'' ''ops'') = Inr e"
  by (simp_all add: mutateDaemonSet_def mutateScriptDaemonSet_def mem_def memSetControllerReference_def newDaemonSet_def
      objectMeta_def zeroMeta_def Let_def)

theorem daemonSets_select_own_pods_witness:
  "\<exists>d sd. mutateDaemonSet mem [] exProfile ''n'' ''h'' (labelsFor exProfile) (newDaemonSet ''n'' ''ops'') = Inr d
     \<and> ds_Selector d = Some sd \<and> matches sd (tmpl_Labels (ds_Template d)) \<and> matches sd (labelsFor exProfile)"
  using exMutate daemonSets_select_own_pods by blast

text \<open>The DaemonSet is pinned to the match labels of the profile's node selector only: match
  expressions, which the choice of the selected nodes honours, do not change it.\<close>

theorem daemonSet_ignores_match_expressions:
  "mutateDaemonSet K img
     (p\<lparr>sys_Spec := (sys_Spec p)\<lparr>sys_NodeSelector := (sys_NodeSelector (sys_Spec p))\<lparr>MatchExpressions := es\<rparr>\<rparr>\<rparr>)
     name hash labels d
   = mutateDaemonSet K img p name hash labels d"
  by (simp add: mutateDaemonSet_def workerEnv_def Let_def)

text \<open>The pods of the drift-check CronJob have no \<open>MODE\<close> in their environment, so a worker started
  there without flags runs in apply mode, not in check mode.\<close>

theorem driftChecker_runs_apply_mode:
  assumes "mutateCronJob K img p hash labels cj0 = Inr cj" and "c \<in> set (Containers (tmpl_Spec (cj_Template cj)))"
  shows "workerMode (H\<lparr>Getenv := podEnv (Env c) podFields\<rparr>) (\<lambda>_. None) = ''apply''"
proof -
  from assms have "Env c = workerEnv p hash" by (auto simp: mutateCronJob_def Let_def split: sum.splits)
  then show ?thesis by (simp add: workerMode_def stringVar_def getenv_def modeApply_def)
qed

theorem driftChecker_runs_apply_mode_witness:
  "\<exists>cj c. mutateCronJob mem [] exProfile ''h'' (labelsFor exProfile) (newCronJob ''j'' ''ops'') = Inr cj
     \<and> c \<in> set (Containers (tmpl_Spec (cj_Template cj)))
     \<and> workerMode (exHost\<lparr>Getenv := podEnv (Env c) (\<lambda>_. ''n1'')\<rparr>) (\<lambda>_. None) = ''apply''"
proof -
  have "\<exists>cj c. mutateCronJob mem [] exProfile ''h'' (labelsFor exProfile) (newCronJob ''j'' ''ops'') = Inr cj
     \<and> c \<in> set (Containers (tmpl_Spec (cj_Template cj)))"
    by (simp add: mutateCronJob_def mem_def memSetControllerReference_def newCronJob_def objectMeta_def zeroMeta_def Let_def)
  then show ?thesis using driftChecker_runs_apply_mode by blast
qed

text \<open>The pods of the drift-check CronJob mount a ConfigMap that the controller does not create: the
  volume names the CronJob's own name, and a successful pass leaves the ConfigMap of that name as it
  was (missing, unless somebody else made it).\<close>

theorem driftChecker_config_not_created:
  assumes "kube K view" and "GetSysctlProfile K req w = Inr p" and "DeletionTimestamp (sys_meta p) = 0"
    and "finalizer \<in> set (Finalizers (sys_meta p))" and "DriftCheck (Schedule (sys_Spec p)) \<noteq> []"
    and "Reconcile K img req w = (None, w')"
  shows "(\<exists>j. cl_CronJobs (view w') (jobKey p) = Some j
        \<and> VolConfigMap (snd (jobKey p)) \<in> vol_Source ` set (Volumes (tmpl_Spec (cj_Template j))))
    \<and> cl_ConfigMaps (view w') (jobKey p) = cl_ConfigMaps (view w) (jobKey p)"
proof
  from kube.Reconcile_ok [OF assms(1-4,6)] assms(5) obtain j where
    "cl_CronJobs (view w') (jobKey p) = Some j" "checkerFor img p (desiredHash p) j" by auto
  then show "\<exists>j. cl_CronJobs (view w') (jobKey p) = Some j
      \<and> VolConfigMap (snd (jobKey p)) \<in> vol_Source ` set (Volumes (tmpl_Spec (cj_Template j)))"
    by (auto simp: checkerFor_def workerVolumes_def jobKey_def)
  from kube.Reconcile_effect [OF assms(1,2,6)] obtain u where "same_unowned p (view w) u"
    "cl_ConfigMaps (view w') = cl_ConfigMaps u" by (auto simp: pass_effect_def)
  with owned_keys(5) [of p p] show "cl_ConfigMaps (view w') (jobKey p) = cl_ConfigMaps (view w) (jobKey p)"
    unfolding same_except_def by metis
qed

theorem driftChecker_config_not_created_witness:
  "let w' = world_objects (snd (Reconcile mem ''img'' exKey exWorld)) in
   (\<exists>j. cl_CronJobs w' (''ops'', ''tuning-drift'') = Some j
      \<and> VolConfigMap ''tuning-drift'' \<in> vol_Source ` set (Volumes (tmpl_Spec (cj_Template j))))
   \<and> cl_ConfigMaps w' (''ops'', ''tuning-drift'') = None"
proof -
  have r: "Reconcile mem ''img'' exKey exWorld = (None, snd (Reconcile mem ''img'' exKey exWorld))"
    using exReconcile by (metis prod.collapse)
  have "DriftCheck (Schedule (sys_Spec exProfile)) \<noteq> []" and k: "jobKey exProfile = (''ops'', ''tuning-drift'')"
    "cl_ConfigMaps (world_objects exWorld) (''ops'', ''tuning-drift'') = None"
    by (simp_all add: jobKey_def cronJobName_def ex_defs)
  from driftChecker_config_not_created [OF mem_kube.kube_axioms exGet(1) exLive this(1) r] k
  show ?thesis by (simp add: Let_def)
qed

end
