(* ===== verification/Rollout.thy ===== *)
theory Rollout
  imports Cluster_Run
begin

text \<open>
  The end of a rollout: reports of success that are delivered for a profile add up, so that once all
  selected nodes have delivered one, the next pass tears the DaemonSet down. The locale \<open>delivery_log\<close> has the
  part that both kinds of profiles share.
\<close>

subsection \<open>Deliveries\<close>

text \<open>
  A sequence of posts whose recording succeeds each time, and the reports of success at a hash for a
  profile of one kind.
\<close>

inductive delivered :: "'w Kube \<Rightarrow> 'w \<Rightarrow> string list \<Rightarrow> 'w \<Rightarrow> bool" for K :: "'w Kube" where
  delivered_Nil: "delivered K w [] w"
| delivered_Cons: "decodeReport body = Some r \<Longrightarrow> applyReport K r w = (None, w0) \<Longrightarrow>
     handleReport K ''POST'' body w = (200, w1) \<Longrightarrow> delivered K w1 bodies w2 \<Longrightarrow> delivered K w (body # bodies) w2"

definition sysctlReport :: "StatusReport \<Rightarrow> bool" where
  "sysctlReport r \<longleftrightarrow> rep_Kind r \<noteq> kindScriptProfile"

definition scriptReport :: "StatusReport \<Rightarrow> bool" where
  "scriptReport r \<longleftrightarrow> rep_Kind r = kindScriptProfile"

definition successFor :: "(StatusReport \<Rightarrow> bool) \<Rightarrow> NamespacedName \<Rightarrow> string \<Rightarrow> StatusReport \<Rightarrow> bool" where
  "successFor mine k hash r \<longleftrightarrow> mine r \<and> (rep_Namespace r, rep_Profile r) = k
     \<and> rep_Namespace r \<noteq> [] \<and> rep_Profile r \<noteq> [] \<and> rep_Node r \<noteq> [] \<and> rep_Success r \<and> rep_Hash r = hash"

definition nodesOf :: "string list \<Rightarrow> string set" where
  "nodesOf bodies = {n. \<exists>b\<in>set bodies. \<exists>r. decodeReport b = Some r \<and> rep_Node r = n}"

lemma recorded_nodes: "recorded r v v' \<Longrightarrow> cl_Nodes v' = cl_Nodes v"
  by (auto simp: recorded_def recordedSysctl_def recordedScript_def split: if_splits)

subsection \<open>The interface\<close>

text \<open>
  A kind of profile: recording a report of that kind enters it into the statuses of the stored profile and
  keeps its \<open>core\<close>, which is all that a rollout depends on besides them.
\<close>

locale delivery_log =
  fixes stored :: "Cluster \<Rightarrow> NamespacedName \<Rightarrow> 'p option" and statuses :: "'p \<Rightarrow> NodeStatus list"
    and core :: "'p \<Rightarrow> 'c" and mine :: "StatusReport \<Rightarrow> bool"
  assumes recorded_mine: "recorded r v v' \<Longrightarrow> mine r \<Longrightarrow> stored v (rep_Namespace r, rep_Profile r) = Some q \<Longrightarrow>
    \<exists>q' t. stored v' (rep_Namespace r, rep_Profile r) = Some q' \<and> core q' = core q \<and> statuses q' = upsertList r t (statuses q)"
begin

definition rolling :: "NamespacedName \<Rightarrow> 'c \<Rightarrow> string \<Rightarrow> string set \<Rightarrow> Node list \<Rightarrow> Cluster \<Rightarrow> bool" where
  "rolling k c hash N nodes v \<longleftrightarrow>
     (\<exists>q. stored v k = Some q \<and> core q = c \<and> distinct (map NodeName (statuses q))
        \<and> (\<forall>n\<in>N. applied_at hash (ledger (statuses q) n)))
     \<and> cl_Nodes v = nodes"

lemma rolling_record:
  assumes "rolling k c hash N nodes v" and "recorded r v v'" and "successFor mine k hash r"
  shows "rolling k c hash (insert (rep_Node r) N) nodes v'"
proof -
  from assms(1) obtain q where q: "stored v k = Some q" "core q = c" "distinct (map NodeName (statuses q))"
    "\<forall>n\<in>N. applied_at hash (ledger (statuses q) n)" "cl_Nodes v = nodes"
    by (auto simp: rolling_def)
  with recorded_mine [OF assms(2)] assms(3) obtain q' t where q': "stored v' k = Some q'" "core q' = c"
    "statuses q' = upsertList r t (statuses q)" by (auto simp: successFor_def)
  moreover have "distinct (map NodeName (statuses q'))" using q(3) by (simp add: q'(3) upsertList_names)
  moreover have "\<forall>n\<in>insert (rep_Node r) N. applied_at hash (ledger (statuses q') n)"
    using q(4) assms(3) by (auto simp: q'(3) ledger_upsertList applied_at_record successFor_def)
  ultimately show ?thesis using recorded_nodes [OF assms(2)] q(5) by (auto simp: rolling_def)
qed

lemma delivered_rolling:
  assumes "delivered K w bodies w2" and "operator K view counter" and "rolling k c hash N nodes (view w)"
    and "\<forall>b\<in>set bodies. \<exists>r. decodeReport b = Some r \<and> successFor mine k hash r"
  shows "rolling k c hash (N \<union> nodesOf bodies) nodes (view w2)"
  using assms(1,3,4)
proof (induction arbitrary: N rule: delivered.induct)
  case (delivered_Nil w)
  then show ?case by (simp add: nodesOf_def)
next
  case (delivered_Cons body r w w0 w1 bodies w2)
  then have r: "successFor mine k hash r" by auto
  then have "recorded r (view w) (view w1)"
    using report_cluster.handleReport_recorded [OF operator.axioms(2) [OF assms(2)] delivered_Cons.hyps(1) _ _ _ delivered_Cons.hyps(2)]
      delivered_Cons.hyps(3)
    by (auto simp: successFor_def)
  from rolling_record [OF delivered_Cons.prems(1) this r] have "rolling k c hash (insert (rep_Node r) N) nodes (view w1)" .
  from delivered_Cons.IH [OF this] delivered_Cons.prems(2)
  have "rolling k c hash (insert (rep_Node r) N \<union> nodesOf bodies) nodes (view w2)" by simp
  moreover have "nodesOf (body # bodies) = insert (rep_Node r) (nodesOf bodies)"
    using delivered_Cons.hyps(1) by (auto simp: nodesOf_def)
  ultimately show ?case by simp
qed

end

interpretation sysctl_deliveries: delivery_log cl_SysctlProfiles "\<lambda>p. sys_NodeStatuses (sys_Status p)"
  "\<lambda>p. (sys_Spec p, (sys_meta p)\<lparr>ResourceVersion := 0\<rparr>)" sysctlReport
  by unfold_locales (auto simp: recorded_def recordedSysctl_def sysctlReport_def status_simps)

interpretation script_deliveries: delivery_log cl_ScriptProfiles "\<lambda>p. scr_NodeStatuses (scr_Status p)"
  "\<lambda>p. (scr_Spec p, (scr_meta p)\<lparr>ResourceVersion := 0\<rparr>)" scriptReport
  by unfold_locales (auto simp: recorded_def recordedScript_def scriptReport_def status_simps)

subsection \<open>The pass after the deliveries\<close>

lemma same_meta:
  assumes "m\<lparr>ResourceVersion := 0\<rparr> = m'\<lparr>ResourceVersion := 0\<rparr>"
  shows "Name m = Name m'" and "Namespace m = Namespace m'" and "DeletionTimestamp m = DeletionTimestamp m'"
    and "Finalizers m = Finalizers m'"
  using assms by (cases m; cases m'; simp)+

text \<open>From what a run has stored, deliveries for all targets complete the rollout.\<close>

lemma sysctl_deliveries_complete:
  assumes "operator K view counter" and "runs (operator_step K img view) w0 es w"
    and "cl_SysctlProfiles (view w0) = Map.empty" and "cl_SysctlProfiles (view w) k = Some p"
    and "DeletionTimestamp (sys_meta p) = 0" and "finalizer \<in> set (Finalizers (sys_meta p))"
    and "targetsOf K p (view w) \<noteq> []"
    and "delivered K w bodies w2" and "set (targetsOf K p (view w)) \<subseteq> nodesOf bodies"
    and "\<forall>b\<in>set bodies. \<exists>r. decodeReport b = Some r \<and> successFor sysctlReport k (desiredHash p) r"
    and "GetSysctlProfile K k w2 = Inr q" and "cl_SysctlProfiles (view w2) k = Some q"
    and "Reconcile K img k w2 = (None, w3)"
  shows "cl_DaemonSets (view w3) (configKey p) = None
    \<and> (\<exists>q'. cl_SysctlProfiles (view w3) k = Some q' \<and> sys_TeardownHash (sys_Status q') = desiredHash p
         \<and> sys_ObservedHash (sys_Status q') = desiredHash p
         \<and> (\<exists>c\<in>set (sys_Conditions (sys_Status q')).
              cond_Type c = ''Ready'' \<and> cond_Status c = ConditionTrue \<and> cond_Reason c = ''RolloutComplete''))"
proof -
  obtain rts where "reported (sys_Status p) = reported (sys_Status (replaySysctl rts))"
    by (rule operator.sysctl_run_replays [OF assms(1-4)])
  with replay_distinct [of rts] have "distinct (map NodeName (sys_NodeStatuses (sys_Status p)))"
    by (simp add: reported_def)
  with assms(4) have "sysctl_deliveries.rolling k (sys_Spec p, (sys_meta p)\<lparr>ResourceVersion := 0\<rparr>) (desiredHash p) {} (cl_Nodes (view w)) (view w)"
    by (simp add: sysctl_deliveries.rolling_def)
  from sysctl_deliveries.delivered_rolling [OF assms(8,1) this assms(10)] assms(12)
  have q: "sys_Spec q = sys_Spec p" "(sys_meta q)\<lparr>ResourceVersion := 0\<rparr> = (sys_meta p)\<lparr>ResourceVersion := 0\<rparr>"
    "distinct (map NodeName (sys_NodeStatuses (sys_Status q)))" "cl_Nodes (view w2) = cl_Nodes (view w)"
    "\<forall>n\<in>nodesOf bodies. applied_at (desiredHash p) (ledger (sys_NodeStatuses (sys_Status q)) n)"
    by (auto simp: sysctl_deliveries.rolling_def)
  note meta = same_meta [OF q(2)]
  have same: "desiredHash q = desiredHash p" "targetsOf K q (view w2) = targetsOf K p (view w)" "configKey q = configKey p"
    using targets_cong [OF q(4), of K "sys_NodeSelector (sys_Spec p)"] q(1) meta
    by (simp_all add: renderSysctlConf_def configKey_def resourceName_def)
  have live: "DeletionTimestamp (sys_meta q) = 0" "finalizer \<in> set (Finalizers (sys_meta q))" using meta assms(5,6) by simp_all
  have "allNodesApplied q (targetsOf K p (view w)) (desiredHash p)"
    using sysctl_ledger.all_applied_ledger [of q] q(3,5) assms(7,9) by (auto simp: sysctl_ledger.well_formed_def)
  then have all: "allNodesApplied q (targetsOf K q (view w2)) (desiredHash q)" by (simp only: same)
  note kube = operator.axioms(1) [OF assms(1)]
  have "cl_DaemonSets (view w3) (configKey p) = None"
    using kube.Reconcile_ok [OF kube assms(11) live assms(13)] all by (simp add: same)
  moreover from kube.Reconcile_status(1) [OF kube assms(11,12) live assms(13)] all obtain rv t where
    "cl_SysctlProfiles (view w3) k = Some (q\<lparr>sys_meta := (sys_meta q)\<lparr>ResourceVersion := rv\<rparr>,
       sys_Status := finalStatus K q True (targetsOf K p (view w)) (desiredHash p) t\<rparr>)"
    by (auto simp: settled_def same)
  ultimately show ?thesis
    using kube_helpers.condition_set [OF kube.axioms(2) [OF kube], of t "sys_Conditions (sys_Status q)" "readyReason q True"]
    by (auto simp: finalStatus_def rolledOut_def readyReason_def readyCondition_def)
qed

lemma script_deliveries_complete:
  assumes "operator K view counter" and "runs (operator_step K img view) w0 es w"
    and "cl_ScriptProfiles (view w0) = Map.empty" and "cl_ScriptProfiles (view w) k = Some p"
    and "DeletionTimestamp (scr_meta p) = 0" and "finalizer \<in> set (Finalizers (scr_meta p))"
    and "scriptTargetsOf K p (view w) \<noteq> []"
    and "delivered K w bodies w2" and "set (scriptTargetsOf K p (view w)) \<subseteq> nodesOf bodies"
    and "\<forall>b\<in>set bodies. \<exists>r. decodeReport b = Some r \<and> successFor scriptReport k (desiredScriptHash p) r"
    and "GetScriptProfile K k w2 = Inr q" and "cl_ScriptProfiles (view w2) k = Some q"
    and "ReconcileScript K img k w2 = (None, w3)"
  shows "cl_DaemonSets (view w3) (scriptKey p) = None
    \<and> (\<exists>q'. cl_ScriptProfiles (view w3) k = Some q' \<and> scr_TeardownHash (scr_Status q') = desiredScriptHash p
         \<and> scr_ObservedHash (scr_Status q') = desiredScriptHash p
         \<and> (\<exists>c\<in>set (scr_Conditions (scr_Status q')).
              cond_Type c = ''Ready'' \<and> cond_Status c = ConditionTrue \<and> cond_Reason c = ''RolloutComplete''))"
proof -
  obtain rts where "reportedScript (scr_Status p)
      = reportedScript (scr_Status (foldl (\<lambda>p (r, t). recordScript r t p) blankScriptProfile rts))"
    by (rule operator.script_run_replays [OF assms(1-4)])
  with replayScript_distinct [of rts] have "distinct (map NodeName (scr_NodeStatuses (scr_Status p)))"
    by (simp add: reportedScript_def)
  with assms(4) have "script_deliveries.rolling k (scr_Spec p, (scr_meta p)\<lparr>ResourceVersion := 0\<rparr>) (desiredScriptHash p) {} (cl_Nodes (view w)) (view w)"
    by (simp add: script_deliveries.rolling_def)
  from script_deliveries.delivered_rolling [OF assms(8,1) this assms(10)] assms(12)
  have q: "scr_Spec q = scr_Spec p" "(scr_meta q)\<lparr>ResourceVersion := 0\<rparr> = (scr_meta p)\<lparr>ResourceVersion := 0\<rparr>"
    "distinct (map NodeName (scr_NodeStatuses (scr_Status q)))" "cl_Nodes (view w2) = cl_Nodes (view w)"
    "\<forall>n\<in>nodesOf bodies. applied_at (desiredScriptHash p) (ledger (scr_NodeStatuses (scr_Status q)) n)"
    by (auto simp: script_deliveries.rolling_def)
  note meta = same_meta [OF q(2)]
  have same: "desiredScriptHash q = desiredScriptHash p" "scriptTargetsOf K q (view w2) = scriptTargetsOf K p (view w)" "scriptKey q = scriptKey p"
    using targets_cong [OF q(4), of K "scr_NodeSelector (scr_Spec p)"] q(1) meta
    by (simp_all add: renderScripts_def scriptKey_def scriptResourceName_def)
  have live: "DeletionTimestamp (scr_meta q) = 0" "finalizer \<in> set (Finalizers (scr_meta q))" using meta assms(5,6) by simp_all
  have "scriptAllNodesApplied q (scriptTargetsOf K p (view w)) (desiredScriptHash p)"
    using script_ledger.all_applied_ledger [of q] q(3,5) assms(7,9) by (auto simp: script_ledger.well_formed_def)
  then have all: "scriptAllNodesApplied q (scriptTargetsOf K q (view w2)) (desiredScriptHash q)" by (simp only: same)
  note kube = operator.axioms(1) [OF assms(1)]
  have "cl_DaemonSets (view w3) (scriptKey p) = None"
    using kube.ReconcileScript_ok [OF kube assms(11) live assms(13)] all by (simp add: same)
  moreover obtain q' t where "cl_ScriptProfiles (view w3) k = Some q'"
    "scr_Status q' = (rolledOutScript K q True (desiredScriptHash p) t)
       \<lparr>scr_ObservedHash := desiredScriptHash p, scr_DesiredNodes := of_nat (length (scriptTargetsOf K p (view w)))\<rparr>"
    using kube.ReconcileScript_status [OF kube assms(11,12) live assms(13)] all unfolding same by (metis (full_types))
  ultimately show ?thesis
    using kube_helpers.condition_set [OF kube.axioms(2) [OF kube], of t "scr_Conditions (scr_Status q)" "scriptReason q True"]
    by (auto simp: rolledOutScript_def scriptReason_def readyCondition_def)
qed

subsection \<open>Properties\<close>

text \<open>C6: A rollout comes to its end: from any state that the cluster can reach, once every selected
  node has delivered a report of success at the current hash for a live profile, the next successful
  pass from a fresh read removes the applier DaemonSet, records the hash as the one torn down and
  observed, and sets the condition \<open>Ready\<close> with the reason \<open>RolloutComplete\<close>.\<close>

theorem rollout_converges:
  assumes "operator K view counter" and "runs (operator_step K img view) w0 es w"
    and "cl_SysctlProfiles (view w0) = Map.empty" and "cl_SysctlProfiles (view w) k = Some p"
    and "DeletionTimestamp (sys_meta p) = 0" and "finalizer \<in> set (Finalizers (sys_meta p))"
    and "targetsOf K p (view w) \<noteq> []"
    and "delivered K w bodies w2" and "set (targetsOf K p (view w)) \<subseteq> nodesOf bodies"
    and "\<forall>b\<in>set bodies. \<exists>r. decodeReport b = Some r \<and> successFor sysctlReport k (desiredHash p) r"
    and "GetSysctlProfile K k w2 = Inr q" and "cl_SysctlProfiles (view w2) k = Some q"
    and "Reconcile K img k w2 = (None, w3)"
  shows "cl_DaemonSets (view w3) (configKey p) = None
    \<and> (\<exists>q'. cl_SysctlProfiles (view w3) k = Some q' \<and> sys_TeardownHash (sys_Status q') = desiredHash p
         \<and> sys_ObservedHash (sys_Status q') = desiredHash p
         \<and> (\<exists>c\<in>set (sys_Conditions (sys_Status q')).
              cond_Type c = ''Ready'' \<and> cond_Status c = ConditionTrue \<and> cond_Reason c = ''RolloutComplete''))"
  by (rule sysctl_deliveries_complete [OF assms])

lemma exDelivered: "delivered mem exWorld [marshalReport exDone] (exReported exDoneReport)"
  by (rule delivered_Cons [OF exDone_decodes ex_applies [OF exDoneReport_sel(1-3)] exReported_eq delivered_Nil])

theorem rollout_converges_witness:
  "cl_DaemonSets (world_objects (snd (Reconcile mem ''img'' exKey (exReported exDoneReport)))) (configKey exProfile) = None"
proof -
  have "Reconcile mem ''img'' exKey (exReported exDoneReport) = (None, snd (Reconcile mem ''img'' exKey (exReported exDoneReport)))"
    using exReported_reconciles [OF exDoneReport_sel(4-6)] by (metis prod.collapse)
  moreover have "nodesOf [marshalReport exDone] = {''n1''}" by (auto simp: nodesOf_def exDone_decodes)
  moreover have "\<forall>b\<in>set [marshalReport exDone]. \<exists>r. decodeReport b = Some r \<and> successFor sysctlReport exKey (desiredHash exProfile) r"
    by (simp add: exDone_decodes successFor_def sysctlReport_def exKey_def kindScriptProfile_def)
  ultimately show ?thesis
    using rollout_converges [OF mem_operator.operator_axioms exRun _ exGet(2) exLive _ exDelivered _ _ exReported_stored]
    by (simp add: exTargets blankWorld_def)
qed

end
