(* ===== verification/Fleet.thy ===== *)
theory Fleet
  imports Owned_Objects Rollout Report_Endpoint
begin

text \<open>
  The nodes and the cluster together. A worker runs on the state of its node paired with that of the
  cluster: the calls of the worker's host touch the node only (\<open>onNode\<close>), and a post reaches the report
  endpoint (\<open>delivers\<close>, which is what the network and the \<open>Service\<close> in front of the operator are relied on for).
  From this: the report of a run on a node reaches the profile's status, and once the appliers of all
  selected nodes, or the script runners, have run, the rollout comes to its end.
\<close>

subsection \<open>The environment of a worker\<close>

lemma worker_env_settings:
  assumes "Getenv H = podEnv (workerEnv p hash) podFields"
  shows "workerMode H (\<lambda>_. None) = ''apply''" and "configPathOf H (\<lambda>_. None) = configMountPath @ ''/'' @ configFileName"
    and "procRootOf H (\<lambda>_. None) = ''/proc/sys''"
  using assms by (simp_all add: workerMode_def configPathOf_def procRootOf_def stringVar_def getenv_def modeApply_def
      configMountPath_def configFileName_def)

lemma script_env_settings:
  assumes "Getenv H = podEnv (scriptEnv s hash) podFields"
  shows "workerMode H (\<lambda>_. None) = ''script''"
    and "configPathOf H (\<lambda>_. None) = scriptConfigMountPath @ ''/'' @ scriptConfigFileName"
  using assms by (simp_all add: workerMode_def configPathOf_def stringVar_def getenv_def scriptConfigMountPath_def)

text \<open>The hash in hexadecimal goes through JSON as it is.\<close>

lemma hex_valid [simp]: "toValid (HashBytes data) = HashBytes data"
  by (rule toValid_hex) (rule HashBytes_hex)

subsection \<open>A worker next to the cluster\<close>

definition onNode :: "'n Host \<Rightarrow> ('n \<times> 'w) Host" where
  "onNode H = \<lparr>ReadFile = (\<lambda>path s. ReadFile H path (fst s)), ReadDir = (\<lambda>path s. ReadDir H path (fst s)),
     Exec = (\<lambda>prog args inp s. apsnd (\<lambda>h. (h, snd s)) (Exec H prog args inp (fst s))), Getenv = Getenv H\<rparr>"

lemma onNode_sel [simp]:
  "ReadFile (onNode H) path (h, w) = ReadFile H path h" "ReadDir (onNode H) path (h, w) = ReadDir H path h"
  "Exec (onNode H) prog args inp (h, w) = apsnd (\<lambda>h. (h, w)) (Exec H prog args inp h)" "Getenv (onNode H) = Getenv H"
  by (simp_all add: onNode_def)

lemma onNode_expand [simp]: "expand (onNode H) root name (h, w) = expand H root name h"
  by (simp add: expand_def Let_def split: option.splits)

lemma onNode_sysctlBinary [simp]: "sysctlBinary (onNode H) = sysctlBinary H"
  by (simp add: sysctlBinary_def)

lemma onNode_writeSysctl [simp]: "writeSysctl (onNode H) key value (h, w) = apsnd (\<lambda>h. (h, w)) (writeSysctl H key value h)"
  by (simp add: writeSysctl_def split: prod.splits option.splits)

lemma onNode_applyKeys [simp]: "applyKeys (onNode H) value keys res (h, w) = apsnd (\<lambda>h. (h, w)) (applyKeys H value keys res h)"
  by (induction keys arbitrary: res h) (simp_all split: prod.splits option.splits)

lemma onNode_Apply: "Apply (onNode H) root es (h, w) = apsnd (\<lambda>h. (h, w)) (Apply H root es h)"
proof -
  have "applyEntries (onNode H) root es res (h, w) = apsnd (\<lambda>h. (h, w)) (applyEntries H root es res h)" for res
    by (induction es arbitrary: res h) (simp_all split: prod.splits)
  then show ?thesis by (simp add: Apply_def)
qed

lemma onNode_RunScripts: "RunScripts (onNode H) ss (h, w) = apsnd (\<lambda>h. (h, w)) (RunScripts H ss h)"
proof -
  have "runScript (onNode H) s res (h, w) = apsnd (\<lambda>h. (h, w)) (runScript H s res h)" for s res h
    by (simp add: runScript_def Let_def split: prod.splits option.splits)
  then have "runScriptsFrom (onNode H) ss res (h, w) = apsnd (\<lambda>h. (h, w)) (runScriptsFrom H ss res h)" for res
    by (induction ss arbitrary: res h) (simp_all split: prod.splits)
  then show ?thesis by (simp add: RunScripts_def)
qed

lemma onNode_report [simp]: "applyReportOf (onNode H) = applyReportOf H" "scriptReportOf (onNode H) = scriptReportOf H"
  by (intro ext; simp add: applyReportOf_def scriptReportOf_def baseReport_def)+

lemma onNode_settings [simp]:
  "workerMode (onNode H) = workerMode H" "configPathOf (onNode H) = configPathOf H" "procRootOf (onNode H) = procRootOf H"
  by (auto simp: fun_eq_iff workerMode_def configPathOf_def procRootOf_def getenv_def)

text \<open>A post to the URL in the pods' environment is answered by the endpoint.\<close>

definition delivers :: "'w Kube \<Rightarrow> ('n \<times> 'w) poster \<Rightarrow> bool" where
  "delivers K post \<longleftrightarrow> (\<forall>url body h w s w'. url = reportURL \<or> url = scriptReportURL \<longrightarrow>
     serve K ''POST'' reportsPath body w = (Replied s, w') \<longrightarrow> post url body (h, w) = (Inr s, (h, w')))"

lemma delivered_report:
  assumes "delivers K post" and "url = reportURL \<or> url = scriptReportURL"
  shows "sendReport post url rep (h, w) = (h, snd (handleReport K ''POST'' (marshalReport rep) w))"
proof -
  obtain s w' where "handleReport K ''POST'' (marshalReport rep) w = (s, w')" by fastforce
  moreover from this have "serve K ''POST'' reportsPath (marshalReport rep) w = (Replied s, w')" by (simp add: serve_reports)
  with assms have "post url (marshalReport rep) (h, w) = (Inr s, (h, w'))" unfolding delivers_def by blast
  moreover have "url \<noteq> []" using assms(2) by (auto simp: reportURL_def scriptReportURL_def)
  ultimately show ?thesis by (simp add: sendReport_once)
qed

text \<open>The report of an applier pod with result \<open>res\<close> for the profile \<open>p\<close>.\<close>

abbreviation appliedReport :: "'n Host \<Rightarrow> SysctlProfile \<Rightarrow> Result \<Rightarrow> Report" where
  "appliedReport H p res \<equiv> applyReportOf H (Parse (renderSysctlConf p)) res"

lemma applier_run:
  assumes "Getenv H = podEnv (workerEnv p (desiredHash p)) podFields"
    and "ReadFile H (configMountPath @ ''/'' @ configFileName) h = Inr (renderSysctlConf p)"
    and "list_all sysctlRenderable (Sysctls (sys_Spec p))"
    and "Apply H ''/proc/sys'' (map sysctlIntended (Sysctls (sys_Spec p))) h = (res, h1)"
  shows "workerMain H post (\<lambda>_. None) h = (WaitsForSignal, sendReport post reportURL (appliedReport H p res) h1)"
proof -
  have "HashBytes (renderSysctlConf p) = desiredHash p" by (simp add: HashBytes_def hashContent_def)
  then show ?thesis
    using workerMain_apply [OF worker_env_settings(1) [OF assms(1)], of h "renderSysctlConf p" post]
      worker_env_settings [OF assms(1)] assms sysctl_codec.load_render [OF assms(3)] by simp
qed

lemma applier_report:
  assumes "Getenv H = podEnv (workerEnv p (desiredHash p)) podFields"
    and "toValid (Name (sys_meta p)) = Name (sys_meta p)" and "toValid (Namespace (sys_meta p)) = Namespace (sys_meta p)"
    and "toValid (podFields ''spec.nodeName'') = podFields ''spec.nodeName''"
  shows "rep_Kind (received (appliedReport H p res)) = []"
    and "rep_Namespace (received (appliedReport H p res)) = Namespace (sys_meta p)"
    and "rep_Profile (received (appliedReport H p res)) = Name (sys_meta p)"
    and "rep_Node (received (appliedReport H p res)) = podFields ''spec.nodeName''"
    and "rep_Success (received (appliedReport H p res)) = OK res"
    and "rep_Hash (received (appliedReport H p res)) = desiredHash p"
proof -
  have "HashBytes (renderSysctlConf p) = desiredHash p" by (simp add: HashBytes_def hashContent_def)
  note hash = this [symmetric]
  show "rep_Kind (received (appliedReport H p res)) = []"
    and "rep_Namespace (received (appliedReport H p res)) = Namespace (sys_meta p)"
    and "rep_Profile (received (appliedReport H p res)) = Name (sys_meta p)"
    and "rep_Node (received (appliedReport H p res)) = podFields ''spec.nodeName''"
    and "rep_Success (received (appliedReport H p res)) = OK res"
    and "rep_Hash (received (appliedReport H p res)) = desiredHash p"
    using assms sysctl_codec.accepts_rendered [of p] hash
    by (simp_all add: received_def applyReportOf_def baseReport_def)
qed

abbreviation ranReport :: "'n Host \<Rightarrow> ScriptProfile \<Rightarrow> Result \<Rightarrow> Report" where
  "ranReport H p res \<equiv> scriptReportOf H (ParseScripts (renderScripts p)) res"

lemma runner_run:
  assumes "Getenv H = podEnv (scriptEnv p (desiredScriptHash p)) podFields"
    and "ReadFile H (scriptConfigMountPath @ ''/'' @ scriptConfigFileName) h = Inr (renderScripts p)"
    and "list_all scriptRenderable (Scripts (scr_Spec p))"
    and "RunScripts H (map scriptIntended (Scripts (scr_Spec p))) h = (res, h1)"
  shows "workerMain H post (\<lambda>_. None) h = (WaitsForSignal, sendReport post scriptReportURL (ranReport H p res) h1)"
proof -
  have "HashBytes (renderScripts p) = desiredScriptHash p" by (simp add: HashBytes_def hashContent_def)
  then show ?thesis
    using workerMain_script [OF script_env_settings(1) [OF assms(1)], of h "renderScripts p" post]
      script_env_settings [OF assms(1)] assms script_codec.load_render [OF assms(3)] by simp
qed

lemma runner_report:
  assumes "Getenv H = podEnv (scriptEnv p (desiredScriptHash p)) podFields"
    and "toValid (Name (scr_meta p)) = Name (scr_meta p)" and "toValid (Namespace (scr_meta p)) = Namespace (scr_meta p)"
    and "toValid (podFields ''spec.nodeName'') = podFields ''spec.nodeName''"
  shows "rep_Kind (received (ranReport H p res)) = kindScriptProfile"
    and "rep_Namespace (received (ranReport H p res)) = Namespace (scr_meta p)"
    and "rep_Profile (received (ranReport H p res)) = Name (scr_meta p)"
    and "rep_Node (received (ranReport H p res)) = podFields ''spec.nodeName''"
    and "rep_Success (received (ranReport H p res)) = OK res"
    and "rep_Hash (received (ranReport H p res)) = desiredScriptHash p"
proof -
  have "HashBytes (renderScripts p) = desiredScriptHash p" by (simp add: HashBytes_def hashContent_def)
  note hash = this [symmetric]
  show "rep_Kind (received (ranReport H p res)) = kindScriptProfile"
    and "rep_Namespace (received (ranReport H p res)) = Namespace (scr_meta p)"
    and "rep_Profile (received (ranReport H p res)) = Name (scr_meta p)"
    and "rep_Node (received (ranReport H p res)) = podFields ''spec.nodeName''"
    and "rep_Success (received (ranReport H p res)) = OK res"
    and "rep_Hash (received (ranReport H p res)) = desiredScriptHash p"
    using assms script_codec.accepts_rendered [of p] hash
    by (simp_all add: received_def scriptReportOf_def baseReport_def kindScriptProfile_def)
qed

subsection \<open>The workers of a rollout\<close>

text \<open>
  The report of a worker that finds the rendered profile in its mount and succeeds in everything; none
  otherwise.
\<close>

definition applierReports :: "(string \<Rightarrow> 'n Host) \<Rightarrow> SysctlProfile \<Rightarrow> string \<Rightarrow> 'n \<Rightarrow> Report option" where
  "applierReports H p n h =
     (let res = fst (Apply (H n) ''/proc/sys'' (map sysctlIntended (Sysctls (sys_Spec p))) h) in
      if ReadFile (H n) (configMountPath @ ''/'' @ configFileName) h = Inr (renderSysctlConf p) \<and> OK res
      then Some (appliedReport (H n) p res) else None)"

definition runnerReports :: "(string \<Rightarrow> 'n Host) \<Rightarrow> ScriptProfile \<Rightarrow> string \<Rightarrow> 'n \<Rightarrow> Report option" where
  "runnerReports H p n h =
     (let res = fst (RunScripts (H n) (map scriptIntended (Scripts (scr_Spec p))) h) in
      if ReadFile (H n) (scriptConfigMountPath @ ''/'' @ scriptConfigFileName) h = Inr (renderScripts p) \<and> OK res
      then Some (ranReport (H n) p res) else None)"

text \<open>
  Successful runs of the worker on a list of nodes, one after the other: each ends with a report that is
  not too long and is recorded without an API error.
\<close>

inductive fleet_runs ::
  "'w Kube \<Rightarrow> ('n \<times> 'w) poster \<Rightarrow> (string \<Rightarrow> 'n Host) \<Rightarrow> (string \<Rightarrow> 'n \<Rightarrow> Report option)
     \<Rightarrow> (string \<Rightarrow> 'n) \<times> 'w \<Rightarrow> string list \<Rightarrow> (string \<Rightarrow> 'n) \<times> 'w \<Rightarrow> bool"
  for K :: "'w Kube" and post :: "('n \<times> 'w) poster" and H :: "string \<Rightarrow> 'n Host"
    and reports :: "string \<Rightarrow> 'n \<Rightarrow> Report option" where
  all_done: "fleet_runs K post H reports s [] s"
| node_done: "reports n (hs n) = Some rep \<Longrightarrow> length (marshalReport rep) \<le> 2 ^ 20 \<Longrightarrow>
     fst (applyReport K (received rep) w) = None \<Longrightarrow>
     workerMain (onNode (H n)) post (\<lambda>_. None) (hs n, w) = (outcome, (h', w')) \<Longrightarrow>
     fleet_runs K post H reports (hs(n := h'), w') ns s2 \<Longrightarrow> fleet_runs K post H reports (hs, w) (n # ns) s2"

text \<open>If runs end with posting their reports, and these are reports of success, the runs are deliveries.\<close>

lemma fleet_delivers:
  assumes "fleet_runs K post H reports s ns s2"
    and ends: "\<And>n h rep w. n \<in> set ns \<Longrightarrow> reports n h = Some rep \<Longrightarrow>
      \<exists>h1. workerMain (onNode (H n)) post (\<lambda>_. None) (h, w) = (WaitsForSignal, (h1, snd (handleReport K ''POST'' (marshalReport rep) w)))"
    and success: "\<And>n h rep. n \<in> set ns \<Longrightarrow> reports n h = Some rep \<Longrightarrow>
      successFor mine k hash (received rep) \<and> rep_Node (received rep) = n"
  shows "\<exists>bodies. delivered K (snd s) bodies (snd s2) \<and> set ns = nodesOf bodies
    \<and> (\<forall>b\<in>set bodies. \<exists>r. decodeReport b = Some r \<and> successFor mine k hash r)"
  using assms
proof (induction rule: fleet_runs.induct)
  case (all_done s)
  show ?case by (intro exI [of _ "[]"]) (simp add: delivered_Nil nodesOf_def)
next
  case (node_done n hs rep w outcome h' w' ns s2)
  let ?body = "marshalReport rep"
  from node_done.prems(1) [of n "hs n" rep w] node_done.hyps(1,4) have w': "w' = snd (handleReport K ''POST'' ?body w)" by auto
  have r: "decodeReport ?body = Some (received rep)"
    using node_done.hyps(2) by (simp add: decode_marshalReport maxReportBytes_def)
  have sel: "successFor mine k hash (received rep)" "rep_Node (received rep) = n"
    using node_done.prems(2) [of n "hs n" rep] node_done.hyps(1) by simp_all
  obtain w0 where w0: "applyReport K (received rep) w = (None, w0)"
    using node_done.hyps(3) by (cases "applyReport K (received rep) w") simp
  then have "handleReport K ''POST'' ?body w = (200, w')"
    using r sel(1) by (auto simp: w' handleReport_def successFor_def)
  moreover have "\<exists>bodies. delivered K (snd (hs(n := h'), w')) bodies (snd s2) \<and> set ns = nodesOf bodies
      \<and> (\<forall>b\<in>set bodies. \<exists>r. decodeReport b = Some r \<and> successFor mine k hash r)"
    by (rule node_done.IH) (rule node_done.prems, simp, assumption)+
  then obtain bodies where "delivered K w' bodies (snd s2)" "set ns = nodesOf bodies"
    "\<forall>b\<in>set bodies. \<exists>r. decodeReport b = Some r \<and> successFor mine k hash r" by auto
  moreover have "nodesOf (?body # bodies) = insert n (nodesOf bodies)" for bodies
    using r sel(2) by (auto simp: nodesOf_def)
  ultimately show ?case
    using delivered_Cons [OF r w0] r sel(1) by (intro exI [of _ "?body # bodies"]) auto
qed

lemma applier_ends:
  assumes "Getenv (H n) = podEnv (workerEnv p (desiredHash p)) podFields" and "list_all sysctlRenderable (Sysctls (sys_Spec p))"
    and "delivers K post" and "applierReports H p n h = Some rep"
  shows "\<exists>h1. workerMain (onNode (H n)) post (\<lambda>_. None) (h, w) = (WaitsForSignal, (h1, snd (handleReport K ''POST'' (marshalReport rep) w)))"
proof -
  obtain res h1 where res: "Apply (H n) ''/proc/sys'' (map sysctlIntended (Sysctls (sys_Spec p))) h = (res, h1)" by fastforce
  with assms(4) have "ReadFile (H n) (configMountPath @ ''/'' @ configFileName) h = Inr (renderSysctlConf p)"
    and "rep = appliedReport (H n) p res" by (auto simp: applierReports_def Let_def split: if_splits)
  with applier_run [of "onNode (H n)" p podFields "(h, w)" res "(h1, w)" post] assms(1-3) res show ?thesis
    by (simp add: onNode_Apply delivered_report)
qed

lemma applier_success:
  assumes "Getenv (H n) = podEnv (workerEnv p (desiredHash p)) podFields" and "podFields ''spec.nodeName'' = n" "n \<noteq> []" "toValid n = n"
    and "Name (sys_meta p) \<noteq> []" "toValid (Name (sys_meta p)) = Name (sys_meta p)"
    and "Namespace (sys_meta p) \<noteq> []" "toValid (Namespace (sys_meta p)) = Namespace (sys_meta p)"
    and "applierReports H p n h = Some rep"
  shows "successFor sysctlReport (key_of (sys_meta p)) (desiredHash p) (received rep) \<and> rep_Node (received rep) = n"
  using assms(9) applier_report [OF assms(1,6,8)] assms
  by (auto simp: applierReports_def Let_def successFor_def sysctlReport_def kindScriptProfile_def split: if_splits)

lemma runner_ends:
  assumes "Getenv (H n) = podEnv (scriptEnv p (desiredScriptHash p)) podFields" and "list_all scriptRenderable (Scripts (scr_Spec p))"
    and "delivers K post" and "runnerReports H p n h = Some rep"
  shows "\<exists>h1. workerMain (onNode (H n)) post (\<lambda>_. None) (h, w) = (WaitsForSignal, (h1, snd (handleReport K ''POST'' (marshalReport rep) w)))"
proof -
  obtain res h1 where res: "RunScripts (H n) (map scriptIntended (Scripts (scr_Spec p))) h = (res, h1)" by fastforce
  with assms(4) have "ReadFile (H n) (scriptConfigMountPath @ ''/'' @ scriptConfigFileName) h = Inr (renderScripts p)"
    and "rep = ranReport (H n) p res" by (auto simp: runnerReports_def Let_def split: if_splits)
  with runner_run [of "onNode (H n)" p podFields "(h, w)" res "(h1, w)" post] assms(1-3) res show ?thesis
    by (simp add: onNode_RunScripts delivered_report)
qed

lemma runner_success:
  assumes "Getenv (H n) = podEnv (scriptEnv p (desiredScriptHash p)) podFields" and "podFields ''spec.nodeName'' = n" "n \<noteq> []" "toValid n = n"
    and "Name (scr_meta p) \<noteq> []" "toValid (Name (scr_meta p)) = Name (scr_meta p)"
    and "Namespace (scr_meta p) \<noteq> []" "toValid (Namespace (scr_meta p)) = Namespace (scr_meta p)"
    and "runnerReports H p n h = Some rep"
  shows "successFor scriptReport (key_of (scr_meta p)) (desiredScriptHash p) (received rep) \<and> rep_Node (received rep) = n"
  using assms(9) runner_report [OF assms(1,6,8)] assms
  by (auto simp: runnerReports_def Let_def successFor_def scriptReport_def split: if_splits)

subsection \<open>Properties\<close>

text \<open>C1: The operator and its workers complete a rollout. In any state that the cluster can reach, take a
  live profile with the finalizer that selects some node, with sysctls that can be rendered and names in UTF-8.
  Suppose that workers run one after the other on some list of nodes that has all selected ones, each with the environment that the
  DaemonSet gives its pods, finds the rendered profile in its mount and succeeds in all its writes, and
  that its report, of at most 1 MiB, reaches the endpoint and is recorded there without an API error. Then
  the next successful pass from a fresh read removes the DaemonSet, records the hash and sets \<open>Ready\<close> with the
  reason \<open>RolloutComplete\<close>. (A report whose recording fails is lost, as workers send theirs only once.)\<close>

theorem fleet_completes_rollout:
  assumes "operator K view counter" and "runs (operator_step K img view) w0 es w"
    and "cl_SysctlProfiles (view w0) = Map.empty" and "cl_SysctlProfiles (view w) (key_of (sys_meta p)) = Some p"
    and "DeletionTimestamp (sys_meta p) = 0" and "finalizer \<in> set (Finalizers (sys_meta p))"
    and "targetsOf K p (view w) \<noteq> []" and "set (targetsOf K p (view w)) \<subseteq> set ns"
    and "fleet_runs K post H (applierReports H p) (hs, w) ns (hs2, w2)" and "delivers K post"
    and "\<And>n. n \<in> set ns \<Longrightarrow> Getenv (H n) = podEnv (workerEnv p (desiredHash p)) (podFields n) \<and> podFields n ''spec.nodeName'' = n"
    and "\<And>n. n \<in> set ns \<Longrightarrow> n \<noteq> [] \<and> toValid n = n"
    and "Name (sys_meta p) \<noteq> []" and "toValid (Name (sys_meta p)) = Name (sys_meta p)"
    and "Namespace (sys_meta p) \<noteq> []" and "toValid (Namespace (sys_meta p)) = Namespace (sys_meta p)"
    and "list_all sysctlRenderable (Sysctls (sys_Spec p))"
    and "GetSysctlProfile K (key_of (sys_meta p)) w2 = Inr q" and "cl_SysctlProfiles (view w2) (key_of (sys_meta p)) = Some q"
    and "Reconcile K img (key_of (sys_meta p)) w2 = (None, w3)"
  shows "cl_DaemonSets (view w3) (configKey p) = None
    \<and> (\<exists>q'. cl_SysctlProfiles (view w3) (key_of (sys_meta p)) = Some q' \<and> sys_TeardownHash (sys_Status q') = desiredHash p
         \<and> sys_ObservedHash (sys_Status q') = desiredHash p
         \<and> (\<exists>c\<in>set (sys_Conditions (sys_Status q')).
              cond_Type c = ''Ready'' \<and> cond_Status c = ConditionTrue \<and> cond_Reason c = ''RolloutComplete''))"
proof -
  have ends: "\<exists>h1. workerMain (onNode (H n)) post (\<lambda>_. None) (h, w) = (WaitsForSignal, (h1, snd (handleReport K ''POST'' (marshalReport rep) w)))"
    if "n \<in> set ns" "applierReports H p n h = Some rep" for n h rep w
    using applier_ends [of H n p "podFields n", OF _ assms(17,10)] assms(11) that by simp
  have success: "successFor sysctlReport (key_of (sys_meta p)) (desiredHash p) (received rep) \<and> rep_Node (received rep) = n"
    if "n \<in> set ns" "applierReports H p n h = Some rep" for n h rep
    using applier_success [of H n p "podFields n", OF _ _ _ _ assms(13-16)] assms(11,12) that by simp
  have "\<exists>bodies. delivered K (snd (hs, w)) bodies (snd (hs2, w2)) \<and> set ns = nodesOf bodies
      \<and> (\<forall>b\<in>set bodies. \<exists>r. decodeReport b = Some r \<and> successFor sysctlReport (key_of (sys_meta p)) (desiredHash p) r)"
    by (rule fleet_delivers [OF assms(9) ends success])
  then obtain bodies where b: "delivered K w bodies w2" "set ns = nodesOf bodies"
    "\<forall>b\<in>set bodies. \<exists>r. decodeReport b = Some r \<and> successFor sysctlReport (key_of (sys_meta p)) (desiredHash p) r"
    by auto
  show ?thesis
    by (rule sysctl_deliveries_complete [OF assms(1-7) b(1) _ b(3) assms(18-20)]) (use assms(8) b(2) in simp)
qed

text \<open>C8: The same for scripts: in any state that the cluster can reach, take a live script profile with
  the finalizer that selects some node, with scripts that can be rendered and names in UTF-8. If runners run on a
  list of nodes that has all selected ones, each with the environment that the DaemonSet gives its pods, finds
  the rendered scripts and runs all of them successfully, and its report, of at most 1 MiB, reaches the
  endpoint and is recorded there without an API error, then the next successful pass of the script controller from a fresh
  read removes the DaemonSet, records the hash and sets \<open>Ready\<close> with the reason \<open>RolloutComplete\<close>.\<close>

theorem fleet_completes_scripts:
  assumes "operator K view counter" and "runs (operator_step K img view) w0 es w"
    and "cl_ScriptProfiles (view w0) = Map.empty" and "cl_ScriptProfiles (view w) (key_of (scr_meta p)) = Some p"
    and "DeletionTimestamp (scr_meta p) = 0" and "finalizer \<in> set (Finalizers (scr_meta p))"
    and "scriptTargetsOf K p (view w) \<noteq> []" and "set (scriptTargetsOf K p (view w)) \<subseteq> set ns"
    and "fleet_runs K post H (runnerReports H p) (hs, w) ns (hs2, w2)" and "delivers K post"
    and "\<And>n. n \<in> set ns \<Longrightarrow> Getenv (H n) = podEnv (scriptEnv p (desiredScriptHash p)) (podFields n) \<and> podFields n ''spec.nodeName'' = n"
    and "\<And>n. n \<in> set ns \<Longrightarrow> n \<noteq> [] \<and> toValid n = n"
    and "Name (scr_meta p) \<noteq> []" and "toValid (Name (scr_meta p)) = Name (scr_meta p)"
    and "Namespace (scr_meta p) \<noteq> []" and "toValid (Namespace (scr_meta p)) = Namespace (scr_meta p)"
    and "list_all scriptRenderable (Scripts (scr_Spec p))"
    and "GetScriptProfile K (key_of (scr_meta p)) w2 = Inr q" and "cl_ScriptProfiles (view w2) (key_of (scr_meta p)) = Some q"
    and "ReconcileScript K img (key_of (scr_meta p)) w2 = (None, w3)"
  shows "cl_DaemonSets (view w3) (scriptKey p) = None
    \<and> (\<exists>q'. cl_ScriptProfiles (view w3) (key_of (scr_meta p)) = Some q' \<and> scr_TeardownHash (scr_Status q') = desiredScriptHash p
         \<and> scr_ObservedHash (scr_Status q') = desiredScriptHash p
         \<and> (\<exists>c\<in>set (scr_Conditions (scr_Status q')).
              cond_Type c = ''Ready'' \<and> cond_Status c = ConditionTrue \<and> cond_Reason c = ''RolloutComplete''))"
proof -
  have ends: "\<exists>h1. workerMain (onNode (H n)) post (\<lambda>_. None) (h, w) = (WaitsForSignal, (h1, snd (handleReport K ''POST'' (marshalReport rep) w)))"
    if "n \<in> set ns" "runnerReports H p n h = Some rep" for n h rep w
    using runner_ends [of H n p "podFields n", OF _ assms(17,10)] assms(11) that by simp
  have success: "successFor scriptReport (key_of (scr_meta p)) (desiredScriptHash p) (received rep) \<and> rep_Node (received rep) = n"
    if "n \<in> set ns" "runnerReports H p n h = Some rep" for n h rep
    using runner_success [of H n p "podFields n", OF _ _ _ _ assms(13-16)] assms(11,12) that by simp
  have "\<exists>bodies. delivered K (snd (hs, w)) bodies (snd (hs2, w2)) \<and> set ns = nodesOf bodies
      \<and> (\<forall>b\<in>set bodies. \<exists>r. decodeReport b = Some r \<and> successFor scriptReport (key_of (scr_meta p)) (desiredScriptHash p) r)"
    by (rule fleet_delivers [OF assms(9) ends success])
  then obtain bodies where b: "delivered K w bodies w2" "set ns = nodesOf bodies"
    "\<forall>b\<in>set bodies. \<exists>r. decodeReport b = Some r \<and> successFor scriptReport (key_of (scr_meta p)) (desiredScriptHash p) r"
    by auto
  show ?thesis
    by (rule script_deliveries_complete [OF assms(1-7) b(1) _ b(3) assms(18-20)]) (use assms(8) b(2) in simp)
qed

subsection \<open>An example\<close>

text \<open>The node of the example cluster, and a network that delivers every post to the endpoint.\<close>

definition applierHost :: "unit Host" where
  "applierHost = exHost\<lparr>Getenv := podEnv (workerEnv exProfile (desiredHash exProfile)) (\<lambda>_. ''n1''),
     ReadFile := (\<lambda>path h. Inr (renderSysctlConf exProfile))\<rparr>"

lemma exValid: "toValid (Name exMeta) = Name exMeta" "toValid (Namespace exMeta) = Namespace exMeta" "toValid ''n1'' = ''n1''"
  by (simp_all add: exMeta_def)

lemma Itoa_small: "n < 10 \<Longrightarrow> length (Itoa n) = 1"
  by (simp add: Itoa.simps)

lemma applierHost_applies:
  "Apply applierHost ''/proc/sys'' (map sysctlIntended (Sysctls (sys_Spec exProfile))) ()
     = (emptyResult\<lparr>res_Applied := [''vm.swappiness'']\<rparr>, ())"
proof -
  have "Index ''vm.swappiness'' ifacePlaceholder = None" by code_simp
  then show ?thesis
    by (simp add: ex_defs Apply_def sysctlIntended_def expand_def writeSysctl_def applierHost_def exHost_def emptyResult_def)
qed

lemma applierHost_env: "Getenv applierHost = podEnv (workerEnv exProfile (desiredHash exProfile)) (\<lambda>_. ''n1'')"
  by (simp add: applierHost_def)

lemma applierHost_report_length:
  "length (marshalReport (appliedReport applierHost exProfile (emptyResult\<lparr>res_Applied := [''vm.swappiness'']\<rparr>))) \<le> 2000"
  by (rule order_trans [OF marshalReport_length])
    (use applierHost_env sysctl_codec.accepts_rendered [of exProfile] in
      \<open>simp add: applyReportOf_def baseReport_def summarize_def stringsSize_def emptyResult_def Itoa_small exProfile_def exMeta_def\<close>)

definition directPost :: "(unit \<times> World) poster" where
  "directPost url body s =
     (case serve mem ''POST'' reportsPath body (snd s) of
        (Replied status, w') \<Rightarrow> (Inr status, (fst s, w'))
      | (Redirected, w') \<Rightarrow> (Inl ''redirected'', (fst s, w')))"

lemma directPost_delivers: "delivers mem directPost"
  by (simp add: delivers_def directPost_def)

abbreviation exAppliedReport :: StatusReport where
  "exAppliedReport \<equiv> received (appliedReport applierHost exProfile (emptyResult\<lparr>res_Applied := [''vm.swappiness'']\<rparr>))"

lemma exRenderable: "list_all sysctlRenderable (Sysctls (sys_Spec exProfile))"
  by (simp add: ex_defs) code_simp

lemma exNames: "sys_meta exProfile = exMeta" "Name exMeta = ''tuning''" "Namespace exMeta = ''ops''"
  by (simp_all add: exProfile_def exMeta_def)

lemma exAppliedReport_sel:
  "rep_Kind exAppliedReport = []" "rep_Namespace exAppliedReport = ''ops''" "rep_Profile exAppliedReport = ''tuning''"
  "rep_Node exAppliedReport = ''n1''" "rep_Success exAppliedReport" "rep_Hash exAppliedReport = desiredHash exProfile"
  using applier_report [OF applierHost_env, of "emptyResult\<lparr>res_Applied := [''vm.swappiness'']\<rparr>"] exValid
  by (simp_all add: exNames OK_def emptyResult_def)

lemma exDelivered_report:
  "decodeReport (marshalReport (appliedReport applierHost exProfile (emptyResult\<lparr>res_Applied := [''vm.swappiness'']\<rparr>))) = Some exAppliedReport"
  using applierHost_report_length by (intro decode_marshalReport) (simp add: maxReportBytes_def)

lemma exApplierReports:
  "applierReports (\<lambda>_. applierHost) exProfile n () = Some (appliedReport applierHost exProfile (emptyResult\<lparr>res_Applied := [''vm.swappiness'']\<rparr>))"
  using applierHost_applies by (simp add: applierReports_def Let_def OK_def emptyResult_def) (simp add: applierHost_def)

lemma exFleet:
  "fleet_runs mem directPost (\<lambda>_. applierHost) (applierReports (\<lambda>_. applierHost) exProfile) (\<lambda>_. (), exWorld) [''n1'']
     (\<lambda>_. (), exReported exAppliedReport)"
proof -
  have run: "workerMain (onNode applierHost) directPost (\<lambda>_. None) ((), exWorld) = (WaitsForSignal, ((), exReported exAppliedReport))"
    using applier_ends [OF applierHost_env exRenderable directPost_delivers exApplierReports, of exWorld]
      exDelivered_report ex_applies [OF exAppliedReport_sel(1-3)] exAppliedReport_sel
    by (simp add: handleReport_def)
  have len: "length (marshalReport (appliedReport applierHost exProfile (emptyResult\<lparr>res_Applied := [''vm.swappiness'']\<rparr>))) \<le> 2 ^ 20"
    by (rule order_trans [OF applierHost_report_length]) simp
  have recorded: "fst (applyReport mem exAppliedReport exWorld) = None" by (simp add: ex_applies [OF exAppliedReport_sel(1-3)])
  have "(\<lambda>_. ())(''n1'' := ()) = (\<lambda>_. ())" by (simp add: fun_eq_iff)
  then have "fleet_runs mem directPost (\<lambda>_. applierHost) (applierReports (\<lambda>_. applierHost) exProfile)
      ((\<lambda>_. ())(''n1'' := ()), exReported exAppliedReport) [] (\<lambda>_. (), exReported exAppliedReport)" by (simp only: all_done)
  then show ?thesis 
    by (rule node_done [where hs = "\<lambda>_. ()" and H = "\<lambda>_. applierHost" and n = "''n1''"
          and reports = "applierReports (\<lambda>_. applierHost) exProfile", OF exApplierReports len recorded run])
qed

theorem fleet_completes_rollout_witness:
  "cl_DaemonSets (world_objects (snd (Reconcile mem ''img'' exKey (exReported exAppliedReport)))) (configKey exProfile) = None"
proof -
  have r: "Reconcile mem ''img'' exKey (exReported exAppliedReport) = (None, snd (Reconcile mem ''img'' exKey (exReported exAppliedReport)))"
    using exReported_reconciles [OF exAppliedReport_sel(4-6)] by (metis prod.collapse)
  have k: "key_of (sys_meta exProfile) = exKey" by (simp add: exNames exKey_def)
  show ?thesis
    by (rule conjunct1 [OF fleet_completes_rollout [where K = mem and p = exProfile and H = "\<lambda>_. applierHost" and ns = "[''n1'']"
          and podFields = "\<lambda>_ _. ''n1''", OF mem_operator.operator_axioms exRun _ _ exLive _ _ exFleet directPost_delivers _ _ _ _ _ _ exRenderable,
          unfolded k, OF _ _ _ _ _ _ _ _ _ _ exReported_stored r]])
      (use exGet(2) exValid applierHost_env in \<open>simp_all add: exTargets blankWorld_def exNames\<close>)
qed

text \<open>The same node runs the scripts of the example.\<close>

definition runnerHost :: "unit Host" where
  "runnerHost = exHost\<lparr>Getenv := podEnv (scriptEnv exScriptProfile (desiredScriptHash exScriptProfile)) (\<lambda>_. ''n1''),
     ReadFile := (\<lambda>path h. Inr (renderScripts exScriptProfile))\<rparr>"

lemma runnerHost_runs:
  "RunScripts runnerHost (map scriptIntended (Scripts (scr_Spec exScriptProfile))) ()
     = (emptyResult\<lparr>res_Applied := [''thp'']\<rparr>, ())"
  by (simp add: ex_defs RunScripts_def scriptIntended_def runScript_def runnerHost_def exHost_def emptyResult_def Let_def)

lemma runnerHost_env: "Getenv runnerHost = podEnv (scriptEnv exScriptProfile (desiredScriptHash exScriptProfile)) (\<lambda>_. ''n1'')"
  by (simp add: runnerHost_def)

abbreviation exRan :: Report where
  "exRan \<equiv> ranReport runnerHost exScriptProfile (emptyResult\<lparr>res_Applied := [''thp'']\<rparr>)"

lemma exScriptMeta: "scr_meta exScriptProfile = exMeta"
  by (simp add: exScriptProfile_def)

lemma exRan_length: "length (marshalReport exRan) \<le> 2000"
  by (rule order_trans [OF marshalReport_length])
    (use runnerHost_env script_codec.accepts_rendered [of exScriptProfile] in
      \<open>simp add: scriptReportOf_def baseReport_def summarize_def stringsSize_def emptyResult_def Itoa_small exScriptMeta exMeta_def\<close>)

lemma exRan_decodes: "decodeReport (marshalReport exRan) = Some (received exRan)"
  using exRan_length by (intro decode_marshalReport) (simp add: maxReportBytes_def)

lemma exRan_sel:
  "rep_Kind (received exRan) = kindScriptProfile" "rep_Namespace (received exRan) = ''ops''" "rep_Profile (received exRan) = ''tuning''"
  "rep_Node (received exRan) = ''n1''" "rep_Success (received exRan)" "rep_Hash (received exRan) = desiredScriptHash exScriptProfile"
  using runner_report [OF runnerHost_env, of "emptyResult\<lparr>res_Applied := [''thp'']\<rparr>"] exValid
  by (simp_all add: exScriptMeta exNames OK_def emptyResult_def)

lemma exScriptRenderable: "list_all scriptRenderable (Scripts (scr_Spec exScriptProfile))"
  by (simp add: ex_defs) code_simp

lemma exRunnerReports: "runnerReports (\<lambda>_. runnerHost) exScriptProfile n () = Some exRan"
  using runnerHost_runs by (simp add: runnerReports_def Let_def OK_def emptyResult_def) (simp add: runnerHost_def)

text \<open>The cluster after its report.\<close>

definition exScriptRecorded :: ScriptProfile where
  "exScriptRecorded = exScriptProfile\<lparr>scr_meta := exMeta\<lparr>ResourceVersion := 8\<rparr>,
     scr_Status := scr_Status (recordScript (received exRan) (world_clock exWorld) exScriptProfile)\<rparr>"

definition exScriptReported :: World where
  "exScriptReported = on_objects (set_script exKey (Some exScriptRecorded)) exWorld"

lemma exScript_stored: "cl_ScriptProfiles (world_objects exWorld) exKey = Some exScriptProfile"
  by (simp add: ex_defs)

lemma exScript_applies: "applyReport mem (received exRan) exWorld = (None, exScriptReported)"
proof -
  have "world_faults exWorld = []" by (simp add: exWorld_def worldWith_def)
  moreover have "key_of (scr_meta exScriptProfile) = (''ops'', ''tuning'')" "ResourceVersion exMeta = 7"
    "cl_ScriptProfiles (world_objects exWorld) (''ops'', ''tuning'') = Some exScriptProfile"
    using exScript_stored by (simp_all add: exScriptMeta exMeta_def exKey_def)
  ultimately show ?thesis
    using exRan_sel(1-3) by (simp add: applyReport_def applyScriptReport_def scriptReportAttempt_def mem_def memGetScript_def memStatusScript_def
        exScriptRecorded_def exScriptReported_def exKey_def exScriptMeta numeral_eq_Suc)
qed

lemma exScriptReported_stored:
  "GetScriptProfile mem exKey exScriptReported = Inr exScriptRecorded"
  "cl_ScriptProfiles (world_objects exScriptReported) exKey = Some exScriptRecorded"
  by (simp_all add: mem_def memGetScript_def exScriptReported_def on_objects_def exScriptRecorded_def exMeta_def exKey_def)

lemma exScriptReported_reconciles: "fst (ReconcileScript mem ''img'' exKey exScriptReported) = None"
  using exRan_sel(4-6)
  by (simp add: exScriptReported_def exScriptRecorded_def script_reconcile_eval deleteScriptDaemonSet_def mem_eval ex_defs fmpred_iff Let_def split: if_splits)

lemma exScriptTargets: "scriptTargetsOf mem exScriptProfile (world_objects exWorld) = [''n1'']"
  by (simp add: targets_def mem_eval ex_defs fmpred_iff)

lemma exScriptFleet:
  "fleet_runs mem directPost (\<lambda>_. runnerHost) (runnerReports (\<lambda>_. runnerHost) exScriptProfile) (\<lambda>_. (), exWorld) [''n1'']
     (\<lambda>_. (), exScriptReported)"
proof -
  have run: "workerMain (onNode runnerHost) directPost (\<lambda>_. None) ((), exWorld) = (WaitsForSignal, ((), exScriptReported))"
    using runner_ends [OF runnerHost_env exScriptRenderable directPost_delivers exRunnerReports, of exWorld]
      exRan_decodes exScript_applies exRan_sel
    by (simp add: handleReport_def)
  have len: "length (marshalReport exRan) \<le> 2 ^ 20"
    by (rule order_trans [OF exRan_length]) simp
  have recorded: "fst (applyReport mem (received exRan) exWorld) = None" by (simp add: exScript_applies)
  have "(\<lambda>_. ())(''n1'' := ()) = (\<lambda>_. ())" by (simp add: fun_eq_iff)
  then have "fleet_runs mem directPost (\<lambda>_. runnerHost) (runnerReports (\<lambda>_. runnerHost) exScriptProfile)
      ((\<lambda>_. ())(''n1'' := ()), exScriptReported) [] (\<lambda>_. (), exScriptReported)" by (simp only: all_done)
  then show ?thesis
    by (rule node_done [where hs = "\<lambda>_. ()" and H = "\<lambda>_. runnerHost" and n = "''n1''"
          and reports = "runnerReports (\<lambda>_. runnerHost) exScriptProfile", OF exRunnerReports len recorded run])
qed

theorem fleet_completes_scripts_witness:
  "cl_DaemonSets (world_objects (snd (ReconcileScript mem ''img'' exKey exScriptReported))) (scriptKey exScriptProfile) = None"
proof -
  have r: "ReconcileScript mem ''img'' exKey exScriptReported = (None, snd (ReconcileScript mem ''img'' exKey exScriptReported))"
    using exScriptReported_reconciles by (metis prod.collapse)
  have k: "key_of (scr_meta exScriptProfile) = exKey" by (simp add: exScriptMeta exNames exKey_def)
  show ?thesis
    by (rule conjunct1 [OF fleet_completes_scripts [where K = mem and p = exScriptProfile and H = "\<lambda>_. runnerHost" and ns = "[''n1'']"
          and podFields = "\<lambda>_ _. ''n1''", OF mem_operator.operator_axioms exRun _ _ exScriptLive _ _ exScriptFleet directPost_delivers _ _ _ _ _ _ exScriptRenderable,
          unfolded k, OF _ _ _ _ _ _ _ _ _ _ exScriptReported_stored r]])
      (use exScript_stored exValid runnerHost_env in \<open>simp_all add: exScriptTargets blankWorld_def exScriptMeta exNames\<close>)
qed

end
