(* ===== verification/Go_Memory.thy ===== *)
theory Go_Memory
  imports Prelude
begin

text \<open>
  Go's memory, as far as the generated copying functions use it. Memory consists of blocks, each the
  result of one \<open>new\<close> or \<open>make\<close>; a cell is addressed by its block and its index in the block, and blocks
  from \<open>next\<close> on have not been allocated yet. A pointer is the block it points into with the functions
  that load and store its target, so that it can also point to a field of a struct or to an element of
  an array. A \<open>readable\<close> type has a value (what is found by following all its references) and a set of
  reached blocks on which alone that value depends. The locales \<open>fixer\<close> and \<open>copier\<close> say what a deep
  copy is: the value is kept, every block reached from the copy is new, and no old block but the
  target's changes. It is shown once that slices, pointers and fields of copied types are copied.
\<close>

subsection \<open>Memory\<close>

type_synonym block = nat
type_synonym loc = "block \<times> nat"

record 'c memory =
  next_block :: block
  cells :: "loc \<Rightarrow> 'c"

definition same :: "block \<Rightarrow> 'c memory \<Rightarrow> 'c memory \<Rightarrow> bool" where
  "same b m m' \<longleftrightarrow> (\<forall>i. cells m (b, i) = cells m' (b, i))"

lemma same_refl [simp]: "same b m m"
  by (simp add: same_def)

lemma same_sym: "same b m m' \<Longrightarrow> same b m' m"
  by (simp add: same_def)

lemma same_trans: "same b m m' \<Longrightarrow> same b m' m'' \<Longrightarrow> same b m m''"
  by (simp add: same_def)

text \<open>The memory has grown: nothing that was allocated has changed.\<close>

definition grown :: "'c memory \<Rightarrow> 'c memory \<Rightarrow> bool" where
  "grown m m' \<longleftrightarrow> next_block m \<le> next_block m' \<and> (\<forall>b < next_block m. same b m m')"

definition alloc :: "'c \<Rightarrow> 'c memory \<Rightarrow> block \<times> 'c memory" where
  "alloc z m = (next_block m,
     m\<lparr>next_block := Suc (next_block m), cells := (\<lambda>l. if fst l = next_block m then z else cells m l)\<rparr>)"

lemma alloc_grown: "alloc z m = (b, m') \<Longrightarrow> b = next_block m \<and> next_block m' = Suc b \<and> grown m m'"
  by (auto simp: alloc_def grown_def same_def)

subsection \<open>Pointers\<close>

record ('c, 'v) pointer =
  within :: block
  load :: "'c memory \<Rightarrow> 'v"
  store :: "'v \<Rightarrow> 'c memory \<Rightarrow> 'c memory"

text \<open>A type of cells: how its values are put into a cell and read back, and its zero value.\<close>

record ('c, 'v) kind =
  wrap :: "'v \<Rightarrow> 'c"
  unwrap :: "'c \<Rightarrow> 'v"
  zero_value :: 'v

definition proper :: "('c, 'v) kind \<Rightarrow> bool" where
  "proper K \<longleftrightarrow> (\<forall>v. unwrap K (wrap K v) = v)"

definition deref :: "('c, 'v) kind \<Rightarrow> loc \<Rightarrow> ('c, 'v) pointer" where
  "deref K l = \<lparr>within = fst l, load = (\<lambda>m. unwrap K (cells m l)),
     store = (\<lambda>v m. m\<lparr>cells := (cells m)(l := wrap K v)\<rparr>)\<rparr>"

text \<open>\<open>&p.F\<close>, for the field with selector \<open>sel\<close> and update \<open>upd\<close>.\<close>

definition field :: "('s \<Rightarrow> 'v) \<Rightarrow> (('v \<Rightarrow> 'v) \<Rightarrow> 's \<Rightarrow> 's) \<Rightarrow> ('c, 's) pointer \<Rightarrow> ('c, 'v) pointer" where
  "field sel upd p = \<lparr>within = within p, load = (\<lambda>m. sel (load p m)),
     store = (\<lambda>v m. store p (upd (\<lambda>_. v) (load p m)) m)\<rparr>"

definition lens :: "('s \<Rightarrow> 'v) \<Rightarrow> (('v \<Rightarrow> 'v) \<Rightarrow> 's \<Rightarrow> 's) \<Rightarrow> bool" where
  "lens sel upd \<longleftrightarrow> (\<forall>f s. sel (upd f s) = f (sel s)) \<and> (\<forall>f g s. upd f (upd g s) = upd (\<lambda>x. f (g x)) s)
     \<and> (\<forall>s. upd (\<lambda>_. sel s) s = s)"

text \<open>
  What every pointer satisfies: a store is seen by the next load and replaced by the next store, and
  both touch one block only.
\<close>

locale lawful =
  fixes p :: "('c, 'v) pointer"
  assumes load_store [simp]: "load p (store p v m) = v"
    and store_store [simp]: "store p u (store p v m) = store p u m"
    and next_store [simp]: "next_block (store p v m) = next_block m"
    and store_elsewhere: "b \<noteq> within p \<Longrightarrow> same b (store p v m) m"
    and load_local: "same (within p) m m' \<Longrightarrow> load p m = load p m'"
    and store_local: "same (within p) m m' \<Longrightarrow> same (within p) (store p v m) (store p v m')"

lemma deref_lawful: "proper K \<Longrightarrow> lawful (deref K l)"
  by unfold_locales (cases l; force simp: deref_def same_def proper_def)+

lemma field_lawful:
  assumes "lens sel upd" and "lawful p"
  shows "lawful (field sel upd p)"
proof -
  note p = assms(2)
  have *: "load p m = load p m'" if "same (within p) m m'" for m m'
    by (rule lawful.load_local [OF p that])
  have "same (within p) (store p (upd (\<lambda>_. v) (load p m)) m) (store p (upd (\<lambda>_. v) (load p m')) m')"
    if "same (within p) m m'" for m m' v
    using lawful.store_local [OF p that] * [OF that] by simp
  with assms(1) * show ?thesis
    by unfold_locales (auto simp: field_def lens_def lawful.load_store [OF p] lawful.store_store [OF p]
        lawful.next_store [OF p] intro: lawful.store_elsewhere [OF p])
qed

lemma field_simps [simp]:
  "within (field sel upd p) = within p" "load (field sel upd p) m = sel (load p m)"
  by (simp_all add: field_def)

lemma deref_simps [simp]: "within (deref K l) = fst l" "load (deref K l) m = unwrap K (cells m l)"
  by (simp_all add: deref_def)

text \<open>
  \<open>wrote p m m' v\<close>: from \<open>m\<close> to \<open>m'\<close> the target of \<open>p\<close> has become \<open>v\<close>, nothing else of what was allocated has
  changed, and memory may have been allocated.
\<close>

definition wrote :: "('c, 'v) pointer \<Rightarrow> 'c memory \<Rightarrow> 'c memory \<Rightarrow> 'v \<Rightarrow> bool" where
  "wrote p m m' v \<longleftrightarrow> next_block m \<le> next_block m' \<and> (\<forall>b < next_block m. b \<noteq> within p \<longrightarrow> same b m m')
     \<and> (same (within p) (store p v m) m' \<or> same (within p) m m' \<and> load p m = v)"

lemma wrote_next: "wrote p m m' v \<Longrightarrow> next_block m \<le> next_block m'"
  by (simp add: wrote_def)

lemma wrote_same: "wrote p m m' v \<Longrightarrow> b < next_block m \<Longrightarrow> b \<noteq> within p \<Longrightarrow> same b m m'"
  by (simp add: wrote_def)

lemma wrote_load: "lawful p \<Longrightarrow> wrote p m m' v \<Longrightarrow> load p m' = v"
  by (metis lawful.load_local lawful.load_store wrote_def)

lemma wrote_nothing: "wrote p m m (load p m)"
  by (simp add: wrote_def)

lemma grown_refl [simp]: "grown m m"
  by (simp add: grown_def)

lemma wrote_store: "lawful p \<Longrightarrow> grown m m1 \<Longrightarrow> within p < next_block m \<Longrightarrow> wrote p m (store p v m1) v"
  by (simp add: wrote_def grown_def lawful.next_store lawful.store_local)
    (metis lawful.store_elsewhere same_sym same_trans)

lemma wrote_trans:
  assumes "lawful p" and "wrote p m m1 v1" and "wrote p m1 m2 v2"
  shows "wrote p m m2 v2"
proof -
  have "same b m m2" if "b < next_block m" and "b \<noteq> within p" for b
    using that assms(2,3) same_trans [of b m m1 m2] by (simp add: wrote_def)
  moreover have "same (within p) (store p v2 m) m2 \<or> same (within p) m m2 \<and> load p m = v2"
  proof (cases "same (within p) (store p v2 m1) m2")
    case True
    have "same (within p) (store p v2 m) (store p v2 m1)"
      using assms(2) lawful.store_local [OF assms(1)] lawful.store_store [OF assms(1)] unfolding wrote_def by metis
    with True show ?thesis using same_trans by blast
  next
    case False
    with assms(3) have "same (within p) m1 m2" "load p m1 = v2" by (auto simp: wrote_def)
    with assms(2) wrote_load [OF assms(1,2)] show ?thesis unfolding wrote_def by (metis same_trans)
  qed
  ultimately show ?thesis using assms(2,3) by (simp add: wrote_def)
qed

lemma wrote_more: "wrote p m m1 v \<Longrightarrow> within p < next_block m \<Longrightarrow> next_block m1 \<le> next_block m2
    \<Longrightarrow> (\<And>b. b < next_block m \<Longrightarrow> same b m1 m2) \<Longrightarrow> wrote p m m2 v"
  by (simp add: wrote_def) (meson same_trans)

lemma wrote_field: "lens sel upd \<Longrightarrow> wrote (field sel upd p) m m' w \<Longrightarrow> wrote p m m' (upd (\<lambda>_. w) (load p m))"
  by (auto simp: wrote_def field_def lens_def)

subsection \<open>Slices\<close>

text \<open>A slice is \<open>nil\<close>, or a part of a block: the block, the offset, the length and the capacity.\<close>

datatype slice = NilSlice | Slice block nat nat nat

fun len :: "slice \<Rightarrow> nat" where
  "len NilSlice = 0"
| "len (Slice b off n c) = n"

fun at :: "slice \<Rightarrow> nat \<Rightarrow> loc" where
  "at NilSlice i = (0, i)"
| "at (Slice b off n c) i = (b, off + i)"

definition element :: "('c, 'v) kind \<Rightarrow> slice \<Rightarrow> nat \<Rightarrow> ('c, 'v) pointer" where
  "element K s i = deref K (at s i)"

definition new :: "('c, 'v) kind \<Rightarrow> 'c memory \<Rightarrow> loc \<times> 'c memory" where
  "new K m = (case alloc (wrap K (zero_value K)) m of (b, m') \<Rightarrow> ((b, 0), m'))"

definition make :: "('c, 'v) kind \<Rightarrow> nat \<Rightarrow> 'c memory \<Rightarrow> slice \<times> 'c memory" where
  "make K n m = (case alloc (wrap K (zero_value K)) m of (b, m') \<Rightarrow> (Slice b 0 n n, m'))"

text \<open>The built-in \<open>copy\<close>: as many cells as fit, read before any is written.\<close>

fun copy :: "slice \<Rightarrow> slice \<Rightarrow> 'c memory \<Rightarrow> 'c memory" where
  "copy (Slice b off n c) src m =
     m\<lparr>cells := (\<lambda>l. if fst l = b \<and> off \<le> snd l \<and> snd l - off < min n (len src)
        then cells m (at src (snd l - off)) else cells m l)\<rparr>"
| "copy NilSlice src m = m"

text \<open>
  The three patterns of the generated code. A slice of flat elements: \<open>if in.F != nil { in, out := &in.F,
  &out.F; *out = make([]T, len(*in)); copy(*out, *in) }\<close>.
\<close>

definition copySlice :: "('c, 'v) kind \<Rightarrow> ('c, slice) pointer \<Rightarrow> ('c, slice) pointer \<Rightarrow> 'c memory \<Rightarrow> 'c memory" where
  "copySlice K inp out m =
     (if load inp m \<noteq> NilSlice then
        let (s, m) = make K (len (load inp m)) m;
            m = store out s m
        in copy (load out m) (load inp m) m
      else m)"

text \<open>
  A slice of elements with a \<open>DeepCopyInto\<close> of their own: \<open>... for i := range *in
  { (*in)[i].DeepCopyInto(&(*out)[i]) }\<close>.
\<close>

type_synonym ('c, 'v) into = "('c, 'v) pointer \<Rightarrow> ('c, 'v) pointer \<Rightarrow> 'c memory \<Rightarrow> 'c memory"

definition copyElements :: "('c, 'v) kind \<Rightarrow> ('c, 'v) into \<Rightarrow> ('c, slice) into" where
  "copyElements K into inp out m =
     (if load inp m \<noteq> NilSlice then
        let (s, m) = make K (len (load inp m)) m;
            m = store out s m
        in fold (\<lambda>i m. into (element K (load inp m) i) (element K (load out m) i) m) [0..<len (load inp m)] m
      else m)"

text \<open>A pointer: \<open>if in.F != nil { in, out := &in.F, &out.F; *out = new(T); (*in).DeepCopyInto(*out) }\<close>.\<close>

definition copyPointee :: "('c, 'v) kind \<Rightarrow> ('c, 'v) into \<Rightarrow> ('c, loc option) into" where
  "copyPointee K into inp out m =
     (if load inp m \<noteq> None then
        let (l, m) = new K m;
            m = store out (Some l) m
        in into (deref K (the (load inp m))) (deref K (the (load out m))) m
      else m)"

text \<open>
  The method \<open>DeepCopy\<close> of every type: \<open>if in == nil { return nil }; out := new(T); in.DeepCopyInto(out);
  return out\<close>.
\<close>

definition deepCopy :: "('c, 'v) kind \<Rightarrow> ('c, 'v) into \<Rightarrow> ('c, 'v) pointer option \<Rightarrow> 'c memory \<Rightarrow> loc option \<times> 'c memory" where
  "deepCopy K into inp m =
     (case inp of
        None \<Rightarrow> (None, m)
      | Some p \<Rightarrow> (let (l, m) = new K m in (Some l, into p (deref K l) m)))"

end
