(* ===== verification/Deep_Copy.thy ===== *)
theory Deep_Copy
  imports Api_Types Go_Memory
begin

text \<open>
  The generated copying functions (\<open>zz_generated.deepcopy.go\<close>), on Go's memory. The structs of the API
  are laid out as they are in memory: a slice or a pointer field holds a reference. The layouts are
  polymorphic in these fields, so that the same layout with the referenced values in place of the
  references is the value of a struct. Structs without references are those of \<open>Api_Types\<close>.

  The structs of \<open>metav1\<close> and \<open>corev1\<close> that contain references (\<open>ObjectMeta\<close>, \<open>ListMeta\<close>, \<open>LabelSelector\<close>,
  \<open>Toleration\<close>) are of a type \<open>'x\<close> that is left open, and the copying functions of these packages are
  parameters, the record \<open>Library\<close>.
\<close>

subsection \<open>Layouts\<close>

record TypeMeta =
  tm_Kind :: string
  tm_APIVersion :: string

record 'strs goInterfaceSelector =
  g_Prefixes :: 'strs
  g_Exclude :: 'strs

record 'isel goSysctl =
  g_Name :: string
  g_Value :: string
  g_Persistent :: bool
  g_InterfaceSelector :: 'isel

record ('sel, 'tols, 'sysctls) goSysctlProfileSpec =
  g_NodeSelector :: 'sel
  g_Tolerations :: 'tols
  g_Rollout :: RolloutSpec
  g_Schedule :: ScheduleSpec
  g_Strategy :: StrategySpec
  g_Sysctls :: 'sysctls
  g_RestoreOnDelete :: bool

record ('time, 'nodes, 'conds) goSysctlProfileStatus =
  g_ObservedHash :: string
  g_TeardownHash :: string
  g_DesiredNodes :: int32
  g_AppliedNodes :: int32
  g_FailedNodes :: int32
  g_DriftedNodes :: int32
  g_ErroredPods :: int32
  g_LastRolloutTime :: 'time
  g_NodeStatuses :: 'nodes
  g_Conditions :: 'conds

record ('meta, 'spec, 'status) goProfile =
  g_TypeMeta :: TypeMeta
  g_ObjectMeta :: 'meta
  g_Spec :: 'spec
  g_Status :: 'status

record ('meta, 'items) goProfileList =
  l_TypeMeta :: TypeMeta
  g_ListMeta :: 'meta
  g_Items :: 'items

record ('sel, 'tols, 'scripts) goScriptProfileSpec =
  gs_NodeSelector :: 'sel
  gs_Tolerations :: 'tols
  g_Scripts :: 'scripts

record ('nodes, 'conds) goScriptProfileStatus =
  gs_ObservedHash :: string
  gs_TeardownHash :: string
  gs_DesiredNodes :: int32
  gs_AppliedNodes :: int32
  gs_FailedNodes :: int32
  gs_NodeStatuses :: 'nodes
  gs_Conditions :: 'conds

type_synonym memInterfaceSelector = "slice goInterfaceSelector"
type_synonym memSysctl = "loc option goSysctl"
type_synonym 'x memSysctlSpec = "('x, slice, slice) goSysctlProfileSpec"
type_synonym memSysctlStatus = "(loc option, slice, slice) goSysctlProfileStatus"
type_synonym 'x memSysctlProfile = "('x, 'x memSysctlSpec, memSysctlStatus) goProfile"
type_synonym 'x memScriptSpec = "('x, slice, slice) goScriptProfileSpec"
type_synonym memScriptStatus = "(slice, slice) goScriptProfileStatus"
type_synonym 'x memScriptProfile = "('x, 'x memScriptSpec, memScriptStatus) goProfile"
type_synonym 'x memList = "('x, slice) goProfileList"

text \<open>A cell of memory, by the type of its content.\<close>

datatype 'x cell =
    StringCell (theString: string)
  | TimeCell (theTime: Time)
  | ConditionCell (theCondition: Condition)
  | TolerationCell (theToleration: 'x)
  | LibraryCell (theLibrary: 'x)
  | InterfaceSelectorCell (theInterfaceSelector: memInterfaceSelector)
  | NodeStatusCell (theNodeStatus: NodeStatus)
  | RolloutSpecCell (theRolloutSpec: RolloutSpec)
  | ScheduleSpecCell (theScheduleSpec: ScheduleSpec)
  | StrategySpecCell (theStrategySpec: StrategySpec)
  | ScriptCell (theScript: Script)
  | SysctlCell (theSysctl: memSysctl)
  | SysctlSpecCell (theSysctlSpec: "'x memSysctlSpec")
  | SysctlStatusCell (theSysctlStatus: memSysctlStatus)
  | SysctlProfileCell (theSysctlProfile: "'x memSysctlProfile")
  | SysctlListCell (theSysctlList: "'x memList")
  | ScriptSpecCell (theScriptSpec: "'x memScriptSpec")
  | ScriptStatusCell (theScriptStatus: memScriptStatus)
  | ScriptProfileCell (theScriptProfile: "'x memScriptProfile")
  | ScriptListCell (theScriptList: "'x memList")

type_synonym 'x mem = "'x cell memory"
type_synonym ('x, 'v) ptr = "('x cell, 'v) pointer"

text \<open>What is imported: copying functions and zero values.\<close>

record 'x Library =
  ObjectMetaInto :: "('x cell, 'x) into"
  ListMetaInto :: "('x cell, 'x) into"
  LabelSelectorInto :: "('x cell, 'x) into"
  TolerationInto :: "('x cell, 'x) into"
  ConditionInto :: "('x cell, Condition) into"
  TimeInto :: "('x cell, Time) into"
  TimeDeepCopy :: "('x, Time) ptr option \<Rightarrow> 'x mem \<Rightarrow> loc option \<times> 'x mem"
  zeroObjectMeta :: 'x
  zeroListMeta :: 'x
  zeroLabelSelector :: 'x
  zeroToleration :: 'x
  zeroCondition :: Condition

subsection \<open>Zero values and kinds of cells\<close>

definition zeroSysctlSpec :: "'x Library \<Rightarrow> 'x memSysctlSpec" where
  "zeroSysctlSpec L = \<lparr>g_NodeSelector = zeroLabelSelector L, g_Tolerations = NilSlice,
     g_Rollout = \<lparr>BatchSize = 0, BatchInterval = 0, FailureThreshold = 0, PauseOnFailure = False\<rparr>,
     g_Schedule = \<lparr>DriftCheck = [], ReconcileCron = []\<rparr>, g_Strategy = \<lparr>Type = StrategyType []\<rparr>,
     g_Sysctls = NilSlice, g_RestoreOnDelete = False\<rparr>"

definition zeroSysctlStatus :: memSysctlStatus where
  "zeroSysctlStatus = \<lparr>g_ObservedHash = [], g_TeardownHash = [], g_DesiredNodes = 0, g_AppliedNodes = 0,
     g_FailedNodes = 0, g_DriftedNodes = 0, g_ErroredPods = 0, g_LastRolloutTime = None,
     g_NodeStatuses = NilSlice, g_Conditions = NilSlice\<rparr>"

definition zeroScriptSpec :: "'x Library \<Rightarrow> 'x memScriptSpec" where
  "zeroScriptSpec L = \<lparr>gs_NodeSelector = zeroLabelSelector L, gs_Tolerations = NilSlice, g_Scripts = NilSlice\<rparr>"

definition zeroScriptStatus :: memScriptStatus where
  "zeroScriptStatus = \<lparr>gs_ObservedHash = [], gs_TeardownHash = [], gs_DesiredNodes = 0, gs_AppliedNodes = 0,
     gs_FailedNodes = 0, gs_NodeStatuses = NilSlice, gs_Conditions = NilSlice\<rparr>"

abbreviation zeroProfile :: "'x Library \<Rightarrow> 'spec \<Rightarrow> 'status \<Rightarrow> ('x, 'spec, 'status) goProfile" where
  "zeroProfile L spec status \<equiv> \<lparr>g_TypeMeta = \<lparr>tm_Kind = [], tm_APIVersion = []\<rparr>, g_ObjectMeta = zeroObjectMeta L,
     g_Spec = spec, g_Status = status\<rparr>"

abbreviation zeroList :: "'x Library \<Rightarrow> 'x memList" where
  "zeroList L \<equiv> \<lparr>l_TypeMeta = \<lparr>tm_Kind = [], tm_APIVersion = []\<rparr>, g_ListMeta = zeroListMeta L, g_Items = NilSlice\<rparr>"

definition stringKind :: "('x cell, string) kind" where
  "stringKind = \<lparr>wrap = StringCell, unwrap = theString, zero_value = []\<rparr>"

definition timeKind :: "('x cell, Time) kind" where
  "timeKind = \<lparr>wrap = TimeCell, unwrap = theTime, zero_value = 0\<rparr>"

definition conditionKind :: "'x Library \<Rightarrow> ('x cell, Condition) kind" where
  "conditionKind L = \<lparr>wrap = ConditionCell, unwrap = theCondition, zero_value = zeroCondition L\<rparr>"

definition tolerationKind :: "'x Library \<Rightarrow> ('x cell, 'x) kind" where
  "tolerationKind L = \<lparr>wrap = TolerationCell, unwrap = theToleration, zero_value = zeroToleration L\<rparr>"

definition interfaceSelectorKind :: "('x cell, memInterfaceSelector) kind" where
  "interfaceSelectorKind = \<lparr>wrap = InterfaceSelectorCell, unwrap = theInterfaceSelector, zero_value = \<lparr>g_Prefixes = NilSlice, g_Exclude = NilSlice\<rparr>\<rparr>"

definition nodeStatusKind :: "('x cell, NodeStatus) kind" where
  "nodeStatusKind = \<lparr>wrap = NodeStatusCell, unwrap = theNodeStatus, zero_value =
     \<lparr>NodeName = [], Phase = NodePhase [], AppliedHash = [], FailCount = 0, Message = [],
       LastTransitionTime = 0\<rparr>\<rparr>"

definition rolloutSpecKind :: "('x cell, RolloutSpec) kind" where
  "rolloutSpecKind = \<lparr>wrap = RolloutSpecCell, unwrap = theRolloutSpec, zero_value =
     \<lparr>BatchSize = 0, BatchInterval = 0, FailureThreshold = 0, PauseOnFailure = False\<rparr>\<rparr>"

definition scheduleSpecKind :: "('x cell, ScheduleSpec) kind" where
  "scheduleSpecKind = \<lparr>wrap = ScheduleSpecCell, unwrap = theScheduleSpec, zero_value = \<lparr>DriftCheck = [], ReconcileCron = []\<rparr>\<rparr>"

definition strategySpecKind :: "('x cell, StrategySpec) kind" where
  "strategySpecKind = \<lparr>wrap = StrategySpecCell, unwrap = theStrategySpec, zero_value = \<lparr>Type = StrategyType []\<rparr>\<rparr>"

definition scriptKind :: "('x cell, Script) kind" where
  "scriptKind = \<lparr>wrap = ScriptCell, unwrap = theScript, zero_value =
     \<lparr>script_Name = [], script_Content = [], script_Interpreter = []\<rparr>\<rparr>"

definition sysctlKind :: "('x cell, memSysctl) kind" where
  "sysctlKind = \<lparr>wrap = SysctlCell, unwrap = theSysctl, zero_value =
     \<lparr>g_Name = [], g_Value = [], g_Persistent = False, g_InterfaceSelector = None\<rparr>\<rparr>"

definition sysctlSpecKind :: "'x Library \<Rightarrow> ('x cell, 'x memSysctlSpec) kind" where
  "sysctlSpecKind L = \<lparr>wrap = SysctlSpecCell, unwrap = theSysctlSpec, zero_value = zeroSysctlSpec L\<rparr>"

definition sysctlStatusKind :: "('x cell, memSysctlStatus) kind" where
  "sysctlStatusKind = \<lparr>wrap = SysctlStatusCell, unwrap = theSysctlStatus, zero_value = zeroSysctlStatus\<rparr>"

definition sysctlProfileKind :: "'x Library \<Rightarrow> ('x cell, 'x memSysctlProfile) kind" where
  "sysctlProfileKind L = \<lparr>wrap = SysctlProfileCell, unwrap = theSysctlProfile, zero_value = zeroProfile L (zeroSysctlSpec L) zeroSysctlStatus\<rparr>"

definition sysctlListKind :: "'x Library \<Rightarrow> ('x cell, 'x memList) kind" where
  "sysctlListKind L = \<lparr>wrap = SysctlListCell, unwrap = theSysctlList, zero_value = zeroList L\<rparr>"

definition scriptSpecKind :: "'x Library \<Rightarrow> ('x cell, 'x memScriptSpec) kind" where
  "scriptSpecKind L = \<lparr>wrap = ScriptSpecCell, unwrap = theScriptSpec, zero_value = zeroScriptSpec L\<rparr>"

definition scriptStatusKind :: "('x cell, memScriptStatus) kind" where
  "scriptStatusKind = \<lparr>wrap = ScriptStatusCell, unwrap = theScriptStatus, zero_value = zeroScriptStatus\<rparr>"

definition scriptProfileKind :: "'x Library \<Rightarrow> ('x cell, 'x memScriptProfile) kind" where
  "scriptProfileKind L = \<lparr>wrap = ScriptProfileCell, unwrap = theScriptProfile, zero_value = zeroProfile L (zeroScriptSpec L) zeroScriptStatus\<rparr>"

definition scriptListKind :: "'x Library \<Rightarrow> ('x cell, 'x memList) kind" where
  "scriptListKind L = \<lparr>wrap = ScriptListCell, unwrap = theScriptList, zero_value = zeroList L\<rparr>"

lemma proper_kinds:
  shows proper_string: "proper stringKind"
    and proper_time: "proper timeKind"
    and proper_condition: "proper (conditionKind L)"
    and proper_toleration: "proper (tolerationKind L)"
    and proper_interfaceSelector: "proper interfaceSelectorKind"
    and proper_nodeStatus: "proper nodeStatusKind"
    and proper_rolloutSpec: "proper rolloutSpecKind"
    and proper_scheduleSpec: "proper scheduleSpecKind"
    and proper_strategySpec: "proper strategySpecKind"
    and proper_script: "proper scriptKind"
    and proper_sysctl: "proper sysctlKind"
    and proper_sysctlSpec: "proper (sysctlSpecKind L)"
    and proper_sysctlStatus: "proper sysctlStatusKind"
    and proper_sysctlProfile: "proper (sysctlProfileKind L)"
    and proper_sysctlList: "proper (sysctlListKind L)"
    and proper_scriptSpec: "proper (scriptSpecKind L)"
    and proper_scriptStatus: "proper scriptStatusKind"
    and proper_scriptProfile: "proper (scriptProfileKind L)"
    and proper_scriptList: "proper (scriptListKind L)"
  by (simp_all add: proper_def stringKind_def timeKind_def conditionKind_def tolerationKind_def interfaceSelectorKind_def nodeStatusKind_def rolloutSpecKind_def scheduleSpecKind_def strategySpecKind_def scriptKind_def sysctlKind_def sysctlSpecKind_def sysctlStatusKind_def sysctlProfileKind_def sysctlListKind_def scriptSpecKind_def scriptStatusKind_def scriptProfileKind_def scriptListKind_def)

subsection \<open>The copying functions\<close>

text \<open>In the order of the file. \<open>inp\<close> stands for the receiver \<open>in\<close>; \<open>field s s_update p\<close> is \<open>&p.S\<close>.\<close>

definition InterfaceSelector_DeepCopyInto :: "('x cell, memInterfaceSelector) into" where
  "InterfaceSelector_DeepCopyInto inp out m =
     (let m = store out (load inp m) m;
          m = copySlice stringKind (field g_Prefixes g_Prefixes_update inp) (field g_Prefixes g_Prefixes_update out) m
      in copySlice stringKind (field g_Exclude g_Exclude_update inp) (field g_Exclude g_Exclude_update out) m)"

definition InterfaceSelector_DeepCopy :: "('x, memInterfaceSelector) ptr option \<Rightarrow> 'x mem \<Rightarrow> loc option \<times> 'x mem" where
  "InterfaceSelector_DeepCopy = deepCopy interfaceSelectorKind InterfaceSelector_DeepCopyInto"

definition NodeStatus_DeepCopyInto :: "'x Library \<Rightarrow> ('x cell, NodeStatus) into" where
  "NodeStatus_DeepCopyInto L inp out m =
     (let m = store out (load inp m) m
      in TimeInto L (field LastTransitionTime LastTransitionTime_update inp) (field LastTransitionTime LastTransitionTime_update out) m)"

definition NodeStatus_DeepCopy :: "'x Library \<Rightarrow> ('x, NodeStatus) ptr option \<Rightarrow> 'x mem \<Rightarrow> loc option \<times> 'x mem" where
  "NodeStatus_DeepCopy L = deepCopy nodeStatusKind (NodeStatus_DeepCopyInto L)"

definition RolloutSpec_DeepCopyInto :: "('x cell, RolloutSpec) into" where
  "RolloutSpec_DeepCopyInto inp out m =
     (let m = store out (load inp m) m
      in store (field BatchInterval BatchInterval_update out) (load (field BatchInterval BatchInterval_update inp) m) m)"

definition RolloutSpec_DeepCopy :: "('x, RolloutSpec) ptr option \<Rightarrow> 'x mem \<Rightarrow> loc option \<times> 'x mem" where
  "RolloutSpec_DeepCopy = deepCopy rolloutSpecKind RolloutSpec_DeepCopyInto"

definition ScheduleSpec_DeepCopyInto :: "('x cell, ScheduleSpec) into" where
  "ScheduleSpec_DeepCopyInto inp out m = store out (load inp m) m"

definition ScheduleSpec_DeepCopy :: "('x, ScheduleSpec) ptr option \<Rightarrow> 'x mem \<Rightarrow> loc option \<times> 'x mem" where
  "ScheduleSpec_DeepCopy = deepCopy scheduleSpecKind ScheduleSpec_DeepCopyInto"

definition Script_DeepCopyInto :: "('x cell, Script) into" where
  "Script_DeepCopyInto inp out m = store out (load inp m) m"

definition Script_DeepCopy :: "('x, Script) ptr option \<Rightarrow> 'x mem \<Rightarrow> loc option \<times> 'x mem" where
  "Script_DeepCopy = deepCopy scriptKind Script_DeepCopyInto"

definition ScriptProfileSpec_DeepCopyInto :: "'x Library \<Rightarrow> ('x cell, 'x memScriptSpec) into" where
  "ScriptProfileSpec_DeepCopyInto L inp out m =
     (let m = store out (load inp m) m;
          m = LabelSelectorInto L (field gs_NodeSelector gs_NodeSelector_update inp) (field gs_NodeSelector gs_NodeSelector_update out) m;
          m = copyElements (tolerationKind L) (TolerationInto L)
                (field gs_Tolerations gs_Tolerations_update inp) (field gs_Tolerations gs_Tolerations_update out) m
      in copySlice scriptKind (field g_Scripts g_Scripts_update inp) (field g_Scripts g_Scripts_update out) m)"

definition ScriptProfileSpec_DeepCopy :: "'x Library \<Rightarrow> ('x, 'x memScriptSpec) ptr option \<Rightarrow> 'x mem \<Rightarrow> loc option \<times> 'x mem" where
  "ScriptProfileSpec_DeepCopy L = deepCopy (scriptSpecKind L) (ScriptProfileSpec_DeepCopyInto L)"

definition ScriptProfileStatus_DeepCopyInto :: "'x Library \<Rightarrow> ('x cell, memScriptStatus) into" where
  "ScriptProfileStatus_DeepCopyInto L inp out m =
     (let m = store out (load inp m) m;
          m = copyElements nodeStatusKind (NodeStatus_DeepCopyInto L)
                (field gs_NodeStatuses gs_NodeStatuses_update inp) (field gs_NodeStatuses gs_NodeStatuses_update out) m
      in copyElements (conditionKind L) (ConditionInto L)
           (field gs_Conditions gs_Conditions_update inp) (field gs_Conditions gs_Conditions_update out) m)"

definition ScriptProfileStatus_DeepCopy :: "'x Library \<Rightarrow> ('x, memScriptStatus) ptr option \<Rightarrow> 'x mem \<Rightarrow> loc option \<times> 'x mem" where
  "ScriptProfileStatus_DeepCopy L = deepCopy scriptStatusKind (ScriptProfileStatus_DeepCopyInto L)"

definition ScriptProfile_DeepCopyInto :: "'x Library \<Rightarrow> ('x cell, 'x memScriptProfile) into" where
  "ScriptProfile_DeepCopyInto L inp out m =
     (let m = store out (load inp m) m;
          m = store (field g_TypeMeta g_TypeMeta_update out) (load (field g_TypeMeta g_TypeMeta_update inp) m) m;
          m = ObjectMetaInto L (field g_ObjectMeta g_ObjectMeta_update inp) (field g_ObjectMeta g_ObjectMeta_update out) m;
          m = ScriptProfileSpec_DeepCopyInto L (field g_Spec g_Spec_update inp) (field g_Spec g_Spec_update out) m
      in ScriptProfileStatus_DeepCopyInto L (field g_Status g_Status_update inp) (field g_Status g_Status_update out) m)"

definition ScriptProfile_DeepCopy :: "'x Library \<Rightarrow> ('x, 'x memScriptProfile) ptr option \<Rightarrow> 'x mem \<Rightarrow> loc option \<times> 'x mem" where
  "ScriptProfile_DeepCopy L = deepCopy (scriptProfileKind L) (ScriptProfile_DeepCopyInto L)"

definition ScriptProfileList_DeepCopyInto :: "'x Library \<Rightarrow> ('x cell, 'x memList) into" where
  "ScriptProfileList_DeepCopyInto L inp out m =
     (let m = store out (load inp m) m;
          m = store (field l_TypeMeta l_TypeMeta_update out) (load (field l_TypeMeta l_TypeMeta_update inp) m) m;
          m = ListMetaInto L (field g_ListMeta g_ListMeta_update inp) (field g_ListMeta g_ListMeta_update out) m
      in copyElements (scriptProfileKind L) (ScriptProfile_DeepCopyInto L)
           (field g_Items g_Items_update inp) (field g_Items g_Items_update out) m)"

definition ScriptProfileList_DeepCopy :: "'x Library \<Rightarrow> ('x, 'x memList) ptr option \<Rightarrow> 'x mem \<Rightarrow> loc option \<times> 'x mem" where
  "ScriptProfileList_DeepCopy L = deepCopy (scriptListKind L) (ScriptProfileList_DeepCopyInto L)"

definition StrategySpec_DeepCopyInto :: "('x cell, StrategySpec) into" where
  "StrategySpec_DeepCopyInto inp out m = store out (load inp m) m"

definition StrategySpec_DeepCopy :: "('x, StrategySpec) ptr option \<Rightarrow> 'x mem \<Rightarrow> loc option \<times> 'x mem" where
  "StrategySpec_DeepCopy = deepCopy strategySpecKind StrategySpec_DeepCopyInto"

definition Sysctl_DeepCopyInto :: "('x cell, memSysctl) into" where
  "Sysctl_DeepCopyInto inp out m =
     (let m = store out (load inp m) m
      in copyPointee interfaceSelectorKind InterfaceSelector_DeepCopyInto
           (field g_InterfaceSelector g_InterfaceSelector_update inp) (field g_InterfaceSelector g_InterfaceSelector_update out) m)"

definition Sysctl_DeepCopy :: "('x, memSysctl) ptr option \<Rightarrow> 'x mem \<Rightarrow> loc option \<times> 'x mem" where
  "Sysctl_DeepCopy = deepCopy sysctlKind Sysctl_DeepCopyInto"

definition SysctlProfileSpec_DeepCopyInto :: "'x Library \<Rightarrow> ('x cell, 'x memSysctlSpec) into" where
  "SysctlProfileSpec_DeepCopyInto L inp out m =
     (let m = store out (load inp m) m;
          m = LabelSelectorInto L (field g_NodeSelector g_NodeSelector_update inp) (field g_NodeSelector g_NodeSelector_update out) m;
          m = copyElements (tolerationKind L) (TolerationInto L)
                (field g_Tolerations g_Tolerations_update inp) (field g_Tolerations g_Tolerations_update out) m;
          m = store (field g_Rollout g_Rollout_update out) (load (field g_Rollout g_Rollout_update inp) m) m;
          m = store (field g_Schedule g_Schedule_update out) (load (field g_Schedule g_Schedule_update inp) m) m;
          m = store (field g_Strategy g_Strategy_update out) (load (field g_Strategy g_Strategy_update inp) m) m
      in copyElements sysctlKind Sysctl_DeepCopyInto
           (field g_Sysctls g_Sysctls_update inp) (field g_Sysctls g_Sysctls_update out) m)"

definition SysctlProfileSpec_DeepCopy :: "'x Library \<Rightarrow> ('x, 'x memSysctlSpec) ptr option \<Rightarrow> 'x mem \<Rightarrow> loc option \<times> 'x mem" where
  "SysctlProfileSpec_DeepCopy L = deepCopy (sysctlSpecKind L) (SysctlProfileSpec_DeepCopyInto L)"

text \<open>\<open>if in.F != nil { in, out := &in.F, &out.F; *out = (*in).DeepCopy() }\<close>, for a time.\<close>

definition copyTime :: "'x Library \<Rightarrow> ('x cell, loc option) into" where
  "copyTime L inp out m =
     (if load inp m \<noteq> None then
        let (l, m) = TimeDeepCopy L (map_option (deref timeKind) (load inp m)) m
        in store out l m
      else m)"

definition SysctlProfileStatus_DeepCopyInto :: "'x Library \<Rightarrow> ('x cell, memSysctlStatus) into" where
  "SysctlProfileStatus_DeepCopyInto L inp out m =
     (let m = store out (load inp m) m;
          m = copyTime L (field g_LastRolloutTime g_LastRolloutTime_update inp) (field g_LastRolloutTime g_LastRolloutTime_update out) m;
          m = copyElements nodeStatusKind (NodeStatus_DeepCopyInto L)
                (field g_NodeStatuses g_NodeStatuses_update inp) (field g_NodeStatuses g_NodeStatuses_update out) m
      in copyElements (conditionKind L) (ConditionInto L)
           (field g_Conditions g_Conditions_update inp) (field g_Conditions g_Conditions_update out) m)"

definition SysctlProfileStatus_DeepCopy :: "'x Library \<Rightarrow> ('x, memSysctlStatus) ptr option \<Rightarrow> 'x mem \<Rightarrow> loc option \<times> 'x mem" where
  "SysctlProfileStatus_DeepCopy L = deepCopy sysctlStatusKind (SysctlProfileStatus_DeepCopyInto L)"

definition SysctlProfile_DeepCopyInto :: "'x Library \<Rightarrow> ('x cell, 'x memSysctlProfile) into" where
  "SysctlProfile_DeepCopyInto L inp out m =
     (let m = store out (load inp m) m;
          m = store (field g_TypeMeta g_TypeMeta_update out) (load (field g_TypeMeta g_TypeMeta_update inp) m) m;
          m = ObjectMetaInto L (field g_ObjectMeta g_ObjectMeta_update inp) (field g_ObjectMeta g_ObjectMeta_update out) m;
          m = SysctlProfileSpec_DeepCopyInto L (field g_Spec g_Spec_update inp) (field g_Spec g_Spec_update out) m
      in SysctlProfileStatus_DeepCopyInto L (field g_Status g_Status_update inp) (field g_Status g_Status_update out) m)"

definition SysctlProfile_DeepCopy :: "'x Library \<Rightarrow> ('x, 'x memSysctlProfile) ptr option \<Rightarrow> 'x mem \<Rightarrow> loc option \<times> 'x mem" where
  "SysctlProfile_DeepCopy L = deepCopy (sysctlProfileKind L) (SysctlProfile_DeepCopyInto L)"

definition SysctlProfileList_DeepCopyInto :: "'x Library \<Rightarrow> ('x cell, 'x memList) into" where
  "SysctlProfileList_DeepCopyInto L inp out m =
     (let m = store out (load inp m) m;
          m = store (field l_TypeMeta l_TypeMeta_update out) (load (field l_TypeMeta l_TypeMeta_update inp) m) m;
          m = ListMetaInto L (field g_ListMeta g_ListMeta_update inp) (field g_ListMeta g_ListMeta_update out) m
      in copyElements (sysctlProfileKind L) (SysctlProfile_DeepCopyInto L)
           (field g_Items g_Items_update inp) (field g_Items g_Items_update out) m)"

definition SysctlProfileList_DeepCopy :: "'x Library \<Rightarrow> ('x, 'x memList) ptr option \<Rightarrow> 'x mem \<Rightarrow> loc option \<times> 'x mem" where
  "SysctlProfileList_DeepCopy L = deepCopy (sysctlListKind L) (SysctlProfileList_DeepCopyInto L)"

text \<open>
  A value of the interface type \<open>runtime.Object\<close> is \<open>nil\<close>, or a type with a pointer of that type, which may
  itself be \<open>nil\<close> (and then the interface value is not).
\<close>

datatype dynamicType = PtrSysctlProfile | PtrSysctlProfileList | PtrScriptProfile | PtrScriptProfileList

datatype Object = NilObject | ObjectOf dynamicType "loc option"

definition objectOrNil :: "dynamicType \<Rightarrow> loc option \<times> 'c memory \<Rightarrow> Object \<times> 'c memory" where
  "objectOrNil T r = (case r of (c, m) \<Rightarrow> (if c \<noteq> None then ObjectOf T c else NilObject, m))"

definition ScriptProfile_DeepCopyObject :: "'x Library \<Rightarrow> ('x, 'x memScriptProfile) ptr option \<Rightarrow> 'x mem \<Rightarrow> Object \<times> 'x mem" where
  "ScriptProfile_DeepCopyObject L inp m = objectOrNil PtrScriptProfile (ScriptProfile_DeepCopy L inp m)"

definition ScriptProfileList_DeepCopyObject :: "'x Library \<Rightarrow> ('x, 'x memList) ptr option \<Rightarrow> 'x mem \<Rightarrow> Object \<times> 'x mem" where
  "ScriptProfileList_DeepCopyObject L inp m = objectOrNil PtrScriptProfileList (ScriptProfileList_DeepCopy L inp m)"

definition SysctlProfile_DeepCopyObject :: "'x Library \<Rightarrow> ('x, 'x memSysctlProfile) ptr option \<Rightarrow> 'x mem \<Rightarrow> Object \<times> 'x mem" where
  "SysctlProfile_DeepCopyObject L inp m = objectOrNil PtrSysctlProfile (SysctlProfile_DeepCopy L inp m)"

definition SysctlProfileList_DeepCopyObject :: "'x Library \<Rightarrow> ('x, 'x memList) ptr option \<Rightarrow> 'x mem \<Rightarrow> Object \<times> 'x mem" where
  "SysctlProfileList_DeepCopyObject L inp m = objectOrNil PtrSysctlProfileList (SysctlProfileList_DeepCopy L inp m)"

end
