(* ===== verification/Copy_Laws.thy ===== *)
theory Copy_Laws
  imports Go_Memory
begin

text \<open>
  What a deep copy is, and that the patterns of the generated code make deep copies. A \<open>readable\<close> type has
  a value, found by following all references, and the set of blocks reached by them. A \<open>copier\<close> makes the
  target a deep copy of the source: the same value, every block reached from the copy new, nothing of the
  old memory changed but the target. A \<open>fixer\<close> does so when the target already is a shallow copy, as after
  \<open>*out = *in\<close>.
\<close>

subsection \<open>Contracts\<close>

locale readable =
  fixes val :: "'c memory \<Rightarrow> 'v \<Rightarrow> 'a" and reach :: "'c memory \<Rightarrow> 'v \<Rightarrow> block set"
  assumes local: "(\<And>b. b \<in> reach m v \<Longrightarrow> same b m m') \<Longrightarrow> val m' v = val m v \<and> reach m' v = reach m v"

text \<open>\<open>u\<close> in \<open>m'\<close> is a deep copy of \<open>v\<close> in \<open>m\<close>.\<close>

definition copied ::
  "('c memory \<Rightarrow> 'v \<Rightarrow> 'a) \<Rightarrow> ('c memory \<Rightarrow> 'v \<Rightarrow> block set) \<Rightarrow> 'c memory \<Rightarrow> 'v \<Rightarrow> 'c memory \<Rightarrow> 'v \<Rightarrow> bool" where
  "copied val reach m v m' u \<longleftrightarrow> val m' u = val m v \<and> reach m' u \<subseteq> {next_block m ..< next_block m'}"

text \<open>
  Source and target may be copied: both are allocated, in different blocks, the blocks \<open>R\<close> reached from
  the source are allocated, and the target is in none of them.
\<close>

definition separate :: "('c, 'v) pointer \<Rightarrow> ('c, 'v) pointer \<Rightarrow> 'c memory \<Rightarrow> block set \<Rightarrow> bool" where
  "separate inp out m R \<longleftrightarrow> lawful inp \<and> lawful out \<and> within inp < next_block m \<and> within out < next_block m
     \<and> within inp \<noteq> within out \<and> within out \<notin> R \<and> R \<subseteq> {..< next_block m}"

locale fixer = readable val reach for val :: "'c memory \<Rightarrow> 'v \<Rightarrow> 'a" and reach +
  fixes into :: "('c, 'v) into"
  assumes fix_copies: "separate inp out m (reach m (load inp m)) \<Longrightarrow> load out m = load inp m
    \<Longrightarrow> \<exists>u. wrote out m (into inp out m) u \<and> copied val reach m (load inp m) (into inp out m) u"

locale copier = readable val reach for val :: "'c memory \<Rightarrow> 'v \<Rightarrow> 'a" and reach +
  fixes into :: "('c, 'v) into"
  assumes into_copies: "separate inp out m (reach m (load inp m))
    \<Longrightarrow> \<exists>u. wrote out m (into inp out m) u \<and> copied val reach m (load inp m) (into inp out m) u"

sublocale copier < fixer
  by unfold_locales (rule into_copies)

context readable
begin

text \<open>A value reached in allocated blocks other than the target's is not affected by the writing.\<close>

lemma kept:
  assumes "wrote out m m' w" and "reach m v \<subseteq> {..< next_block m}" and "within out \<notin> reach m v"
  shows "val m' v = val m v \<and> reach m' v = reach m v"
  by (rule local) (use assms in \<open>auto simp: wrote_def\<close>)

lemma copied_kept:
  assumes "copied val reach m v m1 u" and "wrote out m1 m2 w" and "within out < next_block m"
  shows "copied val reach m v m2 u"
proof -
  have "reach m1 u \<subseteq> {..< next_block m1}" and "within out \<notin> reach m1 u"
    using assms(1,3) by (auto simp: copied_def)
  from kept [OF assms(2) this] assms(1) wrote_next [OF assms(2)] show ?thesis
    by (auto simp: copied_def)
qed

lemma copied_earlier:
  assumes "copied val reach m1 v m2 u" and "wrote out m m1 w"
    and "reach m v \<subseteq> {..< next_block m}" and "within out \<notin> reach m v"
  shows "copied val reach m v m2 u"
  using kept [OF assms(2-4)] assms(1) wrote_next [OF assms(2)] by (auto simp: copied_def)

end

text \<open>One step of copying a struct: a field that still is the shallow copy is made a deep one.\<close>

lemma separate_field:
  assumes "separate inp out m R" and "lens sel upd" and "S \<subseteq> R"
  shows "separate (field sel upd inp) (field sel upd out) m S"
  using assms by (auto simp: separate_def field_lawful)

lemma separate_later:
  assumes "separate inp out m R" and "wrote out m m1 u"
  shows "separate inp out m1 R" and "load inp m1 = load inp m"
proof -
  have "same (within inp) m m1" using assms by (auto simp: separate_def wrote_def)
  then show "load inp m1 = load inp m" using assms(1) by (metis lawful.load_local separate_def)
  show "separate inp out m1 R" using assms by (auto simp: separate_def wrote_def)
qed

context fixer
begin

lemma fix_field:
  assumes sep: "separate inp out m R" and w: "wrote out m m1 u"
    and f: "lens sel upd" "sel u = sel (load inp m)" "reach m (sel (load inp m)) \<subseteq> R"
    and m2: "m2 = into (field sel upd inp) (field sel upd out) m1"
  obtains x where "wrote out m m2 (upd (\<lambda>_. x) u)" and "wrote out m1 m2 (upd (\<lambda>_. x) u)"
    and "copied val reach m (sel (load inp m)) m2 x"
proof -
  let ?v = "sel (load inp m)"
  have r: "reach m ?v \<subseteq> {..< next_block m}" "within out \<notin> reach m ?v"
    using sep f(3) by (auto simp: separate_def)
  have out: "lawful out" "load out m1 = u" using sep wrote_load [OF _ w] by (auto simp: separate_def)
  have "reach m1 ?v = reach m ?v" using kept [OF w r] by blast
  with separate_field [OF separate_later(1) [OF sep w] f(1), of "reach m ?v"] f(2,3) separate_later(2) [OF sep w] out(2)
  obtain x where x: "wrote (field sel upd out) m1 m2 x" "copied val reach m1 ?v m2 x"
    using fix_copies [of "field sel upd inp" "field sel upd out" m1] unfolding m2 by auto
  from wrote_field [OF f(1) x(1)] have m12: "wrote out m1 m2 (upd (\<lambda>_. x) u)" by (simp add: out(2))
  show thesis
    by (rule that [OF wrote_trans [OF out(1) w m12] m12 copied_earlier [OF x(2) w r]])
qed

end

subsection \<open>Flat values\<close>

abbreviation flat :: "'c memory \<Rightarrow> 'v \<Rightarrow> 'v" where
  "flat \<equiv> \<lambda>m v. v"

abbreviation reaches_nothing :: "'c memory \<Rightarrow> 'v \<Rightarrow> block set" where
  "reaches_nothing \<equiv> \<lambda>m v. {}"

lemma assign_copier: "copier flat reaches_nothing (\<lambda>inp out m. store out (load inp m) m)"
  by unfold_locales (auto simp: separate_def copied_def intro!: wrote_store)

subsection \<open>What slices and pointers stand for\<close>

fun slice_val :: "('c, 'v) kind \<Rightarrow> ('c memory \<Rightarrow> 'v \<Rightarrow> 'a) \<Rightarrow> 'c memory \<Rightarrow> slice \<Rightarrow> 'a list option" where
  "slice_val K val m NilSlice = None"
| "slice_val K val m (Slice b off n c) = Some (map (\<lambda>i. val m (unwrap K (cells m (b, off + i)))) [0..<n])"

fun slice_reach :: "('c, 'v) kind \<Rightarrow> ('c memory \<Rightarrow> 'v \<Rightarrow> block set) \<Rightarrow> 'c memory \<Rightarrow> slice \<Rightarrow> block set" where
  "slice_reach K reach m NilSlice = {}"
| "slice_reach K reach m (Slice b off n c) = insert b (\<Union>i<n. reach m (unwrap K (cells m (b, off + i))))"

fun pointee_val :: "('c, 'v) kind \<Rightarrow> ('c memory \<Rightarrow> 'v \<Rightarrow> 'a) \<Rightarrow> 'c memory \<Rightarrow> loc option \<Rightarrow> 'a option" where
  "pointee_val K val m None = None"
| "pointee_val K val m (Some l) = Some (val m (unwrap K (cells m l)))"

fun pointee_reach :: "('c, 'v) kind \<Rightarrow> ('c memory \<Rightarrow> 'v \<Rightarrow> block set) \<Rightarrow> 'c memory \<Rightarrow> loc option \<Rightarrow> block set" where
  "pointee_reach K reach m None = {}"
| "pointee_reach K reach m (Some l) = insert (fst l) (reach m (unwrap K (cells m l)))"

context readable
begin

lemma slice_readable: "readable (slice_val K val) (slice_reach K reach)"
proof
  fix m s m' assume *: "\<And>b. b \<in> slice_reach K reach m s \<Longrightarrow> same b m m'"
  show "slice_val K val m' s = slice_val K val m s \<and> slice_reach K reach m' s = slice_reach K reach m s"
  proof (cases s)
    case (Slice b off n c)
    with * [of b] have c: "cells m' (b, off + i) = cells m (b, off + i)" for i by (simp add: same_def)
    have "val m' (unwrap K (cells m (b, off + i))) = val m (unwrap K (cells m (b, off + i)))
        \<and> reach m' (unwrap K (cells m (b, off + i))) = reach m (unwrap K (cells m (b, off + i)))" if "i < n" for i
      by (rule local) (use * that Slice in auto)
    then show ?thesis by (auto simp: Slice c)
  qed simp
qed

lemma pointee_readable: "readable (pointee_val K val) (pointee_reach K reach)"
proof
  fix m p m' assume *: "\<And>b. b \<in> pointee_reach K reach m p \<Longrightarrow> same b m m'"
  show "pointee_val K val m' p = pointee_val K val m p \<and> pointee_reach K reach m' p = pointee_reach K reach m p"
  proof (cases p)
    case (Some l)
    with * [of "fst l"] have c: "cells m' l = cells m l" by (cases l) (simp add: same_def)
    have "val m' (unwrap K (cells m l)) = val m (unwrap K (cells m l))
        \<and> reach m' (unwrap K (cells m l)) = reach m (unwrap K (cells m l))"
      by (rule local) (use * Some in auto)
    with Some c show ?thesis by simp
  qed simp
qed

end

subsection \<open>The patterns of the generated code\<close>

lemma fresh_target:
  assumes "separate inp out m R" and "alloc z m = (b, m1)"
  shows "b = next_block m \<and> next_block (store out s m1) = Suc b" and "wrote out m (store out s m1) s"
    and "load inp (store out s m1) = load inp m" and "load out (store out s m1) = s"
proof -
  have out: "lawful out" "within out < next_block m" using assms(1) by (auto simp: separate_def)
  from alloc_grown [OF assms(2)] show "b = next_block m \<and> next_block (store out s m1) = Suc b"
    by (auto simp: lawful.next_store [OF out(1)])
  show w: "wrote out m (store out s m1) s"
    by (rule wrote_store [OF out(1) _ out(2)]) (use alloc_grown [OF assms(2)] in simp)
  show "load inp (store out s m1) = load inp m" by (rule separate_later(2) [OF assms(1) w])
  show "load out (store out s m1) = s" by (rule lawful.load_store [OF out(1)])
qed

lemma copySlice_fixer: "fixer (slice_val K flat) (slice_reach K reaches_nothing) (copySlice K)"
proof -
  have "readable flat reaches_nothing" using assign_copier copier.axioms(1) by blast
  then have slice: "readable (slice_val K flat) (slice_reach K reaches_nothing)" by (rule readable.slice_readable)
  have "\<exists>u. wrote out m (copySlice K inp out m) u
      \<and> copied (slice_val K flat) (slice_reach K reaches_nothing) m (load inp m) (copySlice K inp out m) u"
    if sep: "separate inp out m (slice_reach K reaches_nothing m (load inp m))" and "load out m = load inp m" for inp out m
  proof (cases "load inp m")
    case NilSlice
    with that(2) wrote_nothing [of out m] show ?thesis by (auto simp: copySlice_def copied_def)
  next
    case (Slice b off n c)
    obtain b' m1 where m1: "alloc (wrap K (zero_value K)) m = (b', m1)" by (rule prod.exhaust)
    let ?s = "Slice b' 0 n n" and ?m2 = "store out (Slice b' 0 n n) m1"
    note fresh = fresh_target [OF sep m1, of ?s]
    have m3: "copySlice K inp out m = copy ?s (Slice b off n c) ?m2"
      by (simp add: copySlice_def make_def m1 fresh(3,4) Slice Let_def del: copy.simps)
    have "same b m ?m2" using wrote_same [OF fresh(2), of b] sep Slice by (auto simp: separate_def)
    then have "slice_val K flat (copySlice K inp out m) ?s = slice_val K flat m (Slice b off n c)"
      by (auto simp: m3 same_def)
    moreover have "wrote out m (copySlice K inp out m) ?s"
      by (rule wrote_more [OF fresh(2)]) (use sep fresh in \<open>auto simp: m3 separate_def same_def\<close>)
    ultimately show ?thesis using fresh(1) Slice by (auto simp: copied_def m3)
  qed
  with slice show ?thesis by (simp add: fixer_def fixer_axioms_def)
qed

text \<open>
  The loop over the elements. From \<open>m\<close> on, \<open>b'\<close> is the block of the new array; after \<open>k\<close> rounds nothing else of
  what was allocated before the loop has changed, and the first \<open>k\<close> elements are copied.
\<close>

context copier
begin

lemma copy_element:
  assumes K: "proper K" and blocks: "b \<noteq> b'" "b < next_block m" "b' < next_block m"
    and r: "reach m (unwrap K (cells m (b, j))) \<subseteq> {..< next_block m} - {b'}"
    and inv: "next_block m \<le> next_block mk" "\<forall>c < next_block m. c \<noteq> b' \<longrightarrow> same c m mk"
      "\<forall>i < k. copied val reach m (x i) mk (unwrap K (cells mk (b', i)))"
    and m': "m' = into (deref K (b, j)) (deref K (b', k)) mk"
  shows "next_block m \<le> next_block m' \<and> (\<forall>c < next_block m. c \<noteq> b' \<longrightarrow> same c m m')
    \<and> (\<forall>i < k. copied val reach m (x i) m' (unwrap K (cells m' (b', i))))
    \<and> copied val reach m (unwrap K (cells m (b, j))) m' (unwrap K (cells m' (b', k)))"
proof -
  let ?v = "unwrap K (cells m (b, j))" and ?out = "deref K (b', k)"
  have v: "unwrap K (cells mk (b, j)) = ?v" using inv(2) blocks by (auto simp: same_def)
  have kept_v: "val mk ?v = val m ?v \<and> reach mk ?v = reach m ?v"
    by (rule local) (use inv(2) r in auto)
  have "separate (deref K (b, j)) ?out mk (reach mk (load (deref K (b, j)) mk))"
    using K blocks r inv(1) kept_v by (auto simp: separate_def deref_lawful v)
  from into_copies [OF this] obtain u where u: "wrote ?out mk m' u" "copied val reach mk ?v m' u"
    by (auto simp: m' v)
  have others: "cells m' (b', i) = cells mk (b', i)" if "i \<noteq> k" for i
    using u(1) that by (simp add: wrote_def same_def deref_def) metis
  have at_k: "unwrap K (cells m' (b', k)) = u"
    using wrote_load [OF deref_lawful [OF K] u(1)] by simp
  have "next_block mk \<le> next_block m'" by (rule wrote_next [OF u(1)])
  moreover have "same c m m'" if "c < next_block m" "c \<noteq> b'" for c
    using that inv(1,2) wrote_same [OF u(1), of c] by (auto intro: same_trans)
  moreover have "copied val reach m (x i) m' (unwrap K (cells m' (b', i)))" if "i < k" for i
    using copied_kept [OF _ u(1), of m "x i"] inv(3) that blocks(3) others [of i] by auto
  moreover have "copied val reach m ?v m' u" using u(2) kept_v inv(1) by (auto simp: copied_def)
  ultimately show ?thesis using inv(1) at_k by auto
qed

lemma copy_elements:
  assumes K: "proper K" and blocks: "b \<noteq> b'" "b < next_block m" "b' < next_block m"
    and r: "\<And>i. i < n \<Longrightarrow> reach m (unwrap K (cells m (b, off + i))) \<subseteq> {..< next_block m} - {b'}"
    and ptrs: "lawful inp" "within inp < next_block m" "within inp \<noteq> b'" "load inp m = Slice b off n c"
      "lawful out" "within out < next_block m" "within out \<noteq> b'" "load out m = Slice b' 0 n n"
    and k: "k \<le> n"
    and mk: "mk = fold (\<lambda>i m. into (element K (load inp m) i) (element K (load out m) i) m) [0..<k] m"
  shows "next_block m \<le> next_block mk \<and> (\<forall>c < next_block m. c \<noteq> b' \<longrightarrow> same c m mk)
    \<and> (\<forall>i < k. copied val reach m (unwrap K (cells m (b, off + i))) mk (unwrap K (cells mk (b', i))))"
  using k unfolding mk
proof (induction k)
  case (Suc k)
  let ?f = "\<lambda>i m. into (element K (load inp m) i) (element K (load out m) i) m"
  let ?mk = "fold ?f [0..<k] m"
  from Suc have IH: "next_block m \<le> next_block ?mk" "\<forall>c < next_block m. c \<noteq> b' \<longrightarrow> same c m ?mk"
    "\<forall>i < k. copied val reach m (unwrap K (cells m (b, off + i))) ?mk (unwrap K (cells ?mk (b', i)))"
    by simp_all
  have "load inp ?mk = Slice b off n c" "load out ?mk = Slice b' 0 n n"
    using IH(2) ptrs lawful.load_local [of inp m ?mk] lawful.load_local [of out m ?mk] by auto
  then have step: "fold ?f [0..<Suc k] m = into (deref K (b, off + k)) (deref K (b', k)) ?mk"
    by (simp add: element_def)
  from copy_element [OF K blocks r IH step] Suc.prems show ?case by (auto simp: less_Suc_eq)
qed simp

lemma copyElements_fixer:
  assumes K: "proper K"
  shows "fixer (slice_val K val) (slice_reach K reach) (copyElements K into)"
proof -
  have "\<exists>u. wrote out m (copyElements K into inp out m) u
      \<and> copied (slice_val K val) (slice_reach K reach) m (load inp m) (copyElements K into inp out m) u"
    if sep: "separate inp out m (slice_reach K reach m (load inp m))" and "load out m = load inp m" for inp out m
  proof (cases "load inp m")
    case NilSlice
    with that(2) wrote_nothing [of out m] show ?thesis by (auto simp: copyElements_def copied_def)
  next
    case (Slice b off n c)
    obtain b' m1 where m1: "alloc (wrap K (zero_value K)) m = (b', m1)" by (rule prod.exhaust)
    let ?s = "Slice b' 0 n n" and ?m3 = "copyElements K into inp out m"
    define m2 where "m2 = store out (Slice b' 0 n n) m1"
    note fresh = fresh_target [OF sep m1, of ?s, folded m2_def]
    let ?v = "\<lambda>i. unwrap K (cells m (b, off + i))"
    have m3: "?m3 = fold (\<lambda>i m. into (element K (load inp m) i) (element K (load out m) i) m) [0..<n] m2"
      by (simp add: copyElements_def make_def m1 fresh(3,4) Slice Let_def flip: m2_def)
    have b: "b < next_block m" "b \<noteq> within out" using sep Slice by (auto simp: separate_def)
    then have "same b m m2" by (rule wrote_same [OF fresh(2)])
    then have c: "cells m2 (b, off + i) = cells m (b, off + i)" for i by (simp add: same_def)
    have r: "reach m (?v i) \<subseteq> {..< next_block m} - {within out}" if "i < n" for i
      using sep Slice that by (auto simp: separate_def)
    then have v: "val m2 (?v i) = val m (?v i) \<and> reach m2 (?v i) = reach m (?v i)" if "i < n" for i
      using that by (intro kept [OF fresh(2)]) auto
    have "reach m2 (unwrap K (cells m2 (b, off + i))) \<subseteq> {..< next_block m2} - {b'}" if "i < n" for i
      using r [OF that] v [OF that] fresh(1) by (auto simp: c)
    then have inv: "next_block m2 \<le> next_block ?m3" "\<forall>c < next_block m2. c \<noteq> b' \<longrightarrow> same c m2 ?m3"
      "\<forall>i < n. copied val reach m2 (?v i) ?m3 (unwrap K (cells ?m3 (b', i)))"
      using copy_elements [OF K _ _ _ _ _ _ _ _ _ _ _ _ order.refl m3, of b b' off c] sep b fresh Slice
      by (auto simp: separate_def c)
    then have "copied (slice_val K val) (slice_reach K reach) m (load inp m) ?m3 ?s"
      using v fresh(1) Slice by (fastforce simp: copied_def)
    moreover have "wrote out m ?m3 ?s"
      by (rule wrote_more [OF fresh(2)]) (use sep fresh(1) inv in \<open>auto simp: separate_def\<close>)
    ultimately show ?thesis by blast
  qed
  with slice_readable show ?thesis by (simp add: fixer_def fixer_axioms_def)
qed

lemma copyPointee_fixer:
  assumes K: "proper K"
  shows "fixer (pointee_val K val) (pointee_reach K reach) (copyPointee K into)"
proof -
  have "\<exists>u. wrote out m (copyPointee K into inp out m) u
      \<and> copied (pointee_val K val) (pointee_reach K reach) m (load inp m) (copyPointee K into inp out m) u"
    if sep: "separate inp out m (pointee_reach K reach m (load inp m))" and "load out m = load inp m" for inp out m
  proof (cases "load inp m")
    case None
    with that(2) wrote_nothing [of out m] show ?thesis by (auto simp: copyPointee_def copied_def)
  next
    case (Some l)
    obtain b' m1 where m1: "alloc (wrap K (zero_value K)) m = (b', m1)" by (rule prod.exhaust)
    let ?l = "(b', 0)" and ?v = "unwrap K (cells m l)" and ?m3 = "copyPointee K into inp out m"
    define m2 where "m2 = store out (Some ?l) m1"
    note fresh = fresh_target [OF sep m1, of "Some ?l", folded m2_def]
    have m3: "?m3 = into (deref K l) (deref K ?l) m2"
      by (simp add: copyPointee_def new_def m1 fresh(3,4) Some Let_def flip: m2_def)
    have l: "fst l < next_block m" "fst l \<noteq> within out" and r: "reach m ?v \<subseteq> {..< next_block m}" "within out \<notin> reach m ?v"
      using sep Some by (auto simp: separate_def)
    have c: "cells m2 l = cells m l" using wrote_same [OF fresh(2) l] by (cases l) (simp add: same_def)
    have v: "val m2 ?v = val m ?v \<and> reach m2 ?v = reach m ?v" by (rule kept [OF fresh(2) r])
    have "separate (deref K l) (deref K ?l) m2 (reach m2 ?v)"
      using K l r v fresh(1) by (auto simp: separate_def deref_lawful)
    then obtain u where u: "wrote (deref K ?l) m2 ?m3 u" "copied val reach m2 ?v ?m3 u"
      using into_copies [of "deref K l" "deref K ?l" m2] by (auto simp: m3 c)
    have "unwrap K (cells ?m3 ?l) = u" using wrote_load [OF deref_lawful [OF K] u(1)] by simp
    with u v fresh(1) Some have "copied (pointee_val K val) (pointee_reach K reach) m (load inp m) ?m3 (Some ?l)"
      using wrote_next [OF u(1)] by (auto simp: copied_def)
    moreover have "wrote out m ?m3 (Some ?l)"
      by (rule wrote_more [OF fresh(2)]) (use sep fresh(1) u(1) in \<open>auto simp: separate_def wrote_def\<close>)
    ultimately show ?thesis by blast
  qed
  with pointee_readable show ?thesis by (simp add: fixer_def fixer_axioms_def)
qed

text \<open>\<open>DeepCopy\<close> returns a new object that is a deep copy, and leaves all of the old memory as it is.\<close>

lemma deepCopy_copies:
  assumes K: "proper K" and p: "lawful p" "within p < next_block m" "reach m (load p m) \<subseteq> {..< next_block m}"
  obtains l m' where "deepCopy K into (Some p) m = (Some l, m')" and "grown m m'"
    and "fst l = next_block m" and "fst l < next_block m'"
    and "copied val reach m (load p m) m' (unwrap K (cells m' l))"
proof -
  obtain b m1 where m1: "alloc (wrap K (zero_value K)) m = (b, m1)" by (rule prod.exhaust)
  note a = alloc_grown [OF m1]
  let ?out = "deref K (b, 0)" and ?m' = "into p (deref K (b, 0)) m1"
  have "same (within p) m m1" using a p(2) by (auto simp: grown_def)
  then have load_p: "load p m1 = load p m" using lawful.load_local [OF p(1)] by metis
  have v: "val m1 (load p m) = val m (load p m) \<and> reach m1 (load p m) = reach m (load p m)"
    by (rule local) (use a p(3) in \<open>auto simp: grown_def\<close>)
  have "separate p ?out m1 (reach m1 (load p m1))"
    using K a p v load_p by (auto simp: separate_def deref_lawful)
  from into_copies [OF this] obtain u where u: "wrote ?out m1 ?m' u" "copied val reach m1 (load p m) ?m' u"
    by (auto simp: load_p)
  have at_l: "unwrap K (cells ?m' (b, 0)) = u" using wrote_load [OF deref_lawful [OF K] u(1)] by simp
  have same: "same c m ?m'" if "c < next_block m" for c
    using that a wrote_same [OF u(1), of c] by (auto simp: grown_def intro: same_trans)
  show thesis
  proof
    show "deepCopy K into (Some p) m = (Some (b, 0), ?m')" by (simp add: deepCopy_def new_def m1)
    show "grown m ?m'" using a same wrote_next [OF u(1)] by (simp add: grown_def)
    show "copied val reach m (load p m) ?m' (unwrap K (cells ?m' (b, 0)))"
      unfolding at_l using u(2) v a by (auto simp: copied_def)
  qed (use a wrote_next [OF u(1)] in auto)
qed

end

subsection \<open>Structs\<close>

text \<open>
  A struct is copied field after field. A \<open>part_fixer\<close> makes some fields of a shallow copy deep: it needs
  that target and source agree on these fields (\<open>E\<close>) and changes no others (\<open>D\<close>).
\<close>

locale part_fixer = readable val reach for val :: "'c memory \<Rightarrow> 'v \<Rightarrow> 'a" and reach +
  fixes D E :: "'v \<Rightarrow> 'v \<Rightarrow> bool" and F :: "('c, 'v) into"
  assumes part_copies: "separate inp out m R \<Longrightarrow> wrote out m m1 u \<Longrightarrow> E u (load inp m) \<Longrightarrow> reach m (load inp m) \<subseteq> R
    \<Longrightarrow> \<exists>u'. D u u' \<and> wrote out m (F inp out m1) u' \<and> wrote out m1 (F inp out m1) u'
      \<and> copied val reach m (load inp m) (F inp out m1) u'"

lemma no_fields: "part_fixer (\<lambda>m v. ()) reaches_nothing (=) (\<lambda>u v. True) (\<lambda>inp out m. m)"
proof (unfold_locales, goal_cases)
  case (2 inp out m R m1 u)
  then have "load out m1 = u" by (simp add: separate_def wrote_load)
  with 2 wrote_nothing [of out m1] show ?case by (auto simp: copied_def)
qed simp

lemma next_field:
  assumes part: "part_fixer val reach D E F" and fixer: "fixer fval freach f" and lens: "lens sel upd"
    and kept: "\<And>u u'. D u u' \<Longrightarrow> sel u' = sel u"
    and apart: "\<And>m u x. val m (upd (\<lambda>_. x) u) = val m u" "\<And>m u x. reach m (upd (\<lambda>_. x) u) = reach m u"
  shows "part_fixer (\<lambda>m v. (val m v, fval m (sel v))) (\<lambda>m v. reach m v \<union> freach m (sel v))
    (\<lambda>u u'. \<exists>w x. D u w \<and> u' = upd (\<lambda>_. x) w) (\<lambda>u v. E u v \<and> sel u = sel v)
    (\<lambda>inp out m. f (field sel upd inp) (field sel upd out) (F inp out m))"
proof (unfold_locales, goal_cases)
  case (1 m v m')
  have "readable val reach" "readable fval freach" using part fixer by (simp_all add: part_fixer_def fixer_def)
  from readable.local [OF this(1), of m v m'] readable.local [OF this(2), of m "sel v" m'] 1 show ?case by auto
next
  case (2 inp out m R m1 u)
  let ?v = "load inp m"
  obtain w where w: "D u w" "wrote out m (F inp out m1) w" "wrote out m1 (F inp out m1) w"
    "copied val reach m ?v (F inp out m1) w"
    using part_fixer.part_copies [OF part 2(1,2)] 2(3,4) by auto
  let ?m3 = "f (field sel upd inp) (field sel upd out) (F inp out m1)"
  have "sel w = sel ?v" using kept [OF w(1)] 2(3) by simp
  then obtain x where x: "wrote out m ?m3 (upd (\<lambda>_. x) w)" "wrote out (F inp out m1) ?m3 (upd (\<lambda>_. x) w)"
    "copied fval freach m (sel ?v) ?m3 x"
    using fixer.fix_field [OF fixer 2(1) w(2) lens _ _ refl] 2(4) by auto
  have out: "lawful out" "within out < next_block m" using 2(1) by (auto simp: separate_def)
  have "readable val reach" using part by (simp add: part_fixer_def)
  then have "copied val reach m ?v ?m3 w" by (rule readable.copied_kept [OF _ w(4) x(2) out(2)])
  moreover have "sel (upd (\<lambda>_. x) w) = x" using lens by (simp add: lens_def)
  ultimately have "copied (\<lambda>m v. (val m v, fval m (sel v))) (\<lambda>m v. reach m v \<union> freach m (sel v)) m ?v ?m3 (upd (\<lambda>_. x) w)"
    using x(3) by (simp add: copied_def apart)
  with w(1) x(1) wrote_trans [OF out(1) w(3) x(2)] show ?case by blast
qed

lemma struct_copier:
  assumes part: "part_fixer val reach D E F" and start: "\<And>v. E v v"
    and apart: "\<And>u u' y. D u u' \<Longrightarrow> mk u' y = mk u y"
    and sval: "\<And>m v. sval m v = mk v (val m v)" and sreach: "\<And>m v. sreach m v = reach m v"
    and into: "\<And>inp out m. into inp out m = F inp out (store out (load inp m) m)"
  shows "copier sval sreach into"
proof (unfold_locales, goal_cases)
  case (1 m v m')
  have "readable val reach" using part by (simp add: part_fixer_def)
  from readable.local [OF this, of m v m'] 1 show ?case by (simp add: sval sreach)
next
  case (2 inp out m)
  let ?v = "load inp m"
  have "wrote out m (store out ?v m) ?v" using 2 by (auto simp: separate_def intro: wrote_store)
  from part_fixer.part_copies [OF part 2 this start] apart show ?case
    by (fastforce simp: copied_def sval sreach into)
qed

subsection \<open>A copy and its original are independent\<close>

context readable
begin

lemma copy_keeps_value:
  assumes "copied val reach m v m' u" and "\<And>b. b \<in> reach m' u \<Longrightarrow> same b m' m''"
  shows "val m'' u = val m v"
  using local [OF assms(2)] assms(1) by (auto simp: copied_def)

lemma original_keeps_value:
  assumes "grown m m'" and "reach m v \<subseteq> {..< next_block m}" and "\<And>b. b < next_block m \<Longrightarrow> same b m' m''"
  shows "val m'' v = val m v"
proof -
  have "same b m m''" if "b \<in> reach m v" for b
    using that assms same_trans [of b m m' m''] by (auto simp: grown_def)
  then show ?thesis using local by blast
qed

end

end
