(* ===== verification/Deep_Copy_Laws.thy ===== *)
theory Deep_Copy_Laws
  imports Deep_Copy Copy_Laws
begin

text \<open>
  The generated functions make deep copies. For every type: the value of a struct in memory (its layout
  with every reference replaced by what it refers to), the blocks it reaches, and that its \<open>DeepCopyInto\<close> is
  a \<open>copier\<close>. The locale \<open>library\<close> says what is assumed of the imported copying functions: that they
  are copiers too, as their documentation has it.
\<close>

subsection \<open>The imported functions\<close>

locale library =
  fixes L :: "'x Library" and xval :: "'x mem \<Rightarrow> 'x \<Rightarrow> 'a" and xreach :: "'x mem \<Rightarrow> 'x \<Rightarrow> block set"
  assumes ObjectMeta_copier: "copier xval xreach (ObjectMetaInto L)"
    and ListMeta_copier: "copier xval xreach (ListMetaInto L)"
    and LabelSelector_copier: "copier xval xreach (LabelSelectorInto L)"
    and Toleration_copier: "copier xval xreach (TolerationInto L)"
    and Condition_copier: "copier flat reaches_nothing (ConditionInto L)"
    and Time_copier: "copier flat reaches_nothing (TimeInto L)"
    and Time_DeepCopy: "lawful p \<Longrightarrow> within p < next_block m \<Longrightarrow> \<exists>l m'. TimeDeepCopy L (Some p) m = (Some l, m')
      \<and> grown m m' \<and> next_block m \<le> fst l \<and> fst l < next_block m' \<and> theTime (cells m' l) = load p m"

subsection \<open>Values and reached blocks\<close>

definition isel_val :: "'x mem \<Rightarrow> memInterfaceSelector \<Rightarrow> string list option goInterfaceSelector" where
  "isel_val m v = \<lparr>g_Prefixes = slice_val stringKind flat m (g_Prefixes v),
     g_Exclude = slice_val stringKind flat m (g_Exclude v)\<rparr>"

definition isel_reach :: "'x mem \<Rightarrow> memInterfaceSelector \<Rightarrow> block set" where
  "isel_reach m v = slice_reach stringKind reaches_nothing m (g_Prefixes v)
     \<union> slice_reach stringKind reaches_nothing m (g_Exclude v)"

definition sysctl_val :: "'x mem \<Rightarrow> memSysctl \<Rightarrow> string list option goInterfaceSelector option goSysctl" where
  "sysctl_val m v = \<lparr>g_Name = g_Name v, g_Value = g_Value v, g_Persistent = g_Persistent v,
     g_InterfaceSelector = pointee_val interfaceSelectorKind isel_val m (g_InterfaceSelector v)\<rparr>"

definition sysctl_reach :: "'x mem \<Rightarrow> memSysctl \<Rightarrow> block set" where
  "sysctl_reach m v = pointee_reach interfaceSelectorKind isel_reach m (g_InterfaceSelector v)"

definition sysctlSpec_val where
  "sysctlSpec_val L xval m v = \<lparr>g_NodeSelector = xval m (g_NodeSelector v),
     g_Tolerations = slice_val (tolerationKind L) xval m (g_Tolerations v), g_Rollout = g_Rollout v,
     g_Schedule = g_Schedule v, g_Strategy = g_Strategy v,
     g_Sysctls = slice_val sysctlKind sysctl_val m (g_Sysctls v), g_RestoreOnDelete = g_RestoreOnDelete v\<rparr>"

definition sysctlSpec_reach where
  "sysctlSpec_reach L xreach m v = xreach m (g_NodeSelector v)
     \<union> slice_reach (tolerationKind L) xreach m (g_Tolerations v) \<union> slice_reach sysctlKind sysctl_reach m (g_Sysctls v)"

definition sysctlStatus_val where
  "sysctlStatus_val L m v = \<lparr>g_ObservedHash = g_ObservedHash v, g_TeardownHash = g_TeardownHash v,
     g_DesiredNodes = g_DesiredNodes v, g_AppliedNodes = g_AppliedNodes v, g_FailedNodes = g_FailedNodes v,
     g_DriftedNodes = g_DriftedNodes v, g_ErroredPods = g_ErroredPods v,
     g_LastRolloutTime = pointee_val timeKind flat m (g_LastRolloutTime v),
     g_NodeStatuses = slice_val nodeStatusKind flat m (g_NodeStatuses v),
     g_Conditions = slice_val (conditionKind L) flat m (g_Conditions v)\<rparr>"

definition sysctlStatus_reach where
  "sysctlStatus_reach L m v = pointee_reach timeKind reaches_nothing m (g_LastRolloutTime v)
     \<union> slice_reach nodeStatusKind reaches_nothing m (g_NodeStatuses v)
     \<union> slice_reach (conditionKind L) reaches_nothing m (g_Conditions v)"

definition scriptSpec_val where
  "scriptSpec_val L xval m v = \<lparr>gs_NodeSelector = xval m (gs_NodeSelector v),
     gs_Tolerations = slice_val (tolerationKind L) xval m (gs_Tolerations v),
     g_Scripts = slice_val scriptKind flat m (g_Scripts v)\<rparr>"

definition scriptSpec_reach where
  "scriptSpec_reach L xreach m v = xreach m (gs_NodeSelector v)
     \<union> slice_reach (tolerationKind L) xreach m (gs_Tolerations v) \<union> slice_reach scriptKind reaches_nothing m (g_Scripts v)"

definition scriptStatus_val where
  "scriptStatus_val L m v = \<lparr>gs_ObservedHash = gs_ObservedHash v, gs_TeardownHash = gs_TeardownHash v,
     gs_DesiredNodes = gs_DesiredNodes v, gs_AppliedNodes = gs_AppliedNodes v, gs_FailedNodes = gs_FailedNodes v,
     gs_NodeStatuses = slice_val nodeStatusKind flat m (gs_NodeStatuses v),
     gs_Conditions = slice_val (conditionKind L) flat m (gs_Conditions v)\<rparr>"

definition scriptStatus_reach where
  "scriptStatus_reach L m v = slice_reach nodeStatusKind reaches_nothing m (gs_NodeStatuses v)
     \<union> slice_reach (conditionKind L) reaches_nothing m (gs_Conditions v)"

definition profile_val where
  "profile_val xval spec_val status_val m v = \<lparr>g_TypeMeta = g_TypeMeta v, g_ObjectMeta = xval m (g_ObjectMeta v),
     g_Spec = spec_val m (g_Spec v), g_Status = status_val m (g_Status v)\<rparr>"

definition profile_reach where
  "profile_reach xreach spec_reach status_reach m v =
     xreach m (g_ObjectMeta v) \<union> spec_reach m (g_Spec v) \<union> status_reach m (g_Status v)"

definition list_val where
  "list_val xval K item_val m v = \<lparr>l_TypeMeta = l_TypeMeta v, g_ListMeta = xval m (g_ListMeta v),
     g_Items = slice_val K item_val m (g_Items v)\<rparr>"

definition list_reach where
  "list_reach xreach K item_reach m v = xreach m (g_ListMeta v) \<union> slice_reach K item_reach m (g_Items v)"

subsection \<open>Every type is copied\<close>

lemma lenses:
  shows lens_Prefixes: "lens g_Prefixes g_Prefixes_update"
    and lens_Exclude: "lens g_Exclude g_Exclude_update"
    and lens_InterfaceSelector: "lens g_InterfaceSelector g_InterfaceSelector_update"
    and lens_LastTransitionTime: "lens LastTransitionTime LastTransitionTime_update"
    and lens_BatchInterval: "lens BatchInterval BatchInterval_update"
    and lens_NodeSelector: "lens g_NodeSelector g_NodeSelector_update"
    and lens_Tolerations: "lens g_Tolerations g_Tolerations_update"
    and lens_Rollout: "lens g_Rollout g_Rollout_update"
    and lens_Schedule: "lens g_Schedule g_Schedule_update"
    and lens_Strategy: "lens g_Strategy g_Strategy_update"
    and lens_Sysctls: "lens g_Sysctls g_Sysctls_update"
    and lens_LastRolloutTime: "lens g_LastRolloutTime g_LastRolloutTime_update"
    and lens_NodeStatuses: "lens g_NodeStatuses g_NodeStatuses_update"
    and lens_Conditions: "lens g_Conditions g_Conditions_update"
    and lens_ScriptNodeSelector: "lens gs_NodeSelector gs_NodeSelector_update"
    and lens_ScriptTolerations: "lens gs_Tolerations gs_Tolerations_update"
    and lens_Scripts: "lens g_Scripts g_Scripts_update"
    and lens_ScriptNodeStatuses: "lens gs_NodeStatuses gs_NodeStatuses_update"
    and lens_ScriptConditions: "lens gs_Conditions gs_Conditions_update"
    and lens_TypeMeta: "lens g_TypeMeta g_TypeMeta_update"
    and lens_ObjectMeta: "lens g_ObjectMeta g_ObjectMeta_update"
    and lens_Spec: "lens g_Spec g_Spec_update"
    and lens_Status: "lens g_Status g_Status_update"
    and lens_ListTypeMeta: "lens l_TypeMeta l_TypeMeta_update"
    and lens_ListMeta: "lens g_ListMeta g_ListMeta_update"
    and lens_Items: "lens g_Items g_Items_update"
  by (simp_all add: lens_def)

lemma flat_readable: "readable flat reaches_nothing"
  by unfold_locales simp

lemma copier_fixer: "copier val reach into \<Longrightarrow> fixer val reach into"
  by (simp add: copier_def copier_axioms_def fixer_def fixer_axioms_def)

lemmas assign_fixer = assign_copier [THEN copier_fixer]

lemma isel_copier: "copier isel_val isel_reach InterfaceSelector_DeepCopyInto"
  by (rule struct_copier [OF next_field [OF next_field [OF no_fields copySlice_fixer [of stringKind] lens_Prefixes]
        copySlice_fixer [of stringKind] lens_Exclude], where mk = "\<lambda>v ((_, x), y). \<lparr>g_Prefixes = x, g_Exclude = y\<rparr>"])
    (auto simp: isel_val_def isel_reach_def InterfaceSelector_DeepCopyInto_def)

lemma sysctl_copier: "copier sysctl_val sysctl_reach Sysctl_DeepCopyInto"
  by (rule struct_copier [OF next_field [OF no_fields
        copier.copyPointee_fixer [OF isel_copier, of interfaceSelectorKind, OF proper_interfaceSelector] lens_InterfaceSelector],
        where mk = "\<lambda>v (_, x). \<lparr>g_Name = g_Name v, g_Value = g_Value v, g_Persistent = g_Persistent v, g_InterfaceSelector = x\<rparr>"])
    (auto simp: sysctl_val_def sysctl_reach_def Sysctl_DeepCopyInto_def)

lemma rollout_copier: "copier flat reaches_nothing RolloutSpec_DeepCopyInto"
  by (rule struct_copier [OF next_field [OF no_fields assign_fixer lens_BatchInterval], where mk = "\<lambda>v (_, x). BatchInterval_update (\<lambda>_. x) v"])
    (auto simp: RolloutSpec_DeepCopyInto_def Let_def)

lemma schedule_copier: "copier flat reaches_nothing ScheduleSpec_DeepCopyInto"
  unfolding ScheduleSpec_DeepCopyInto_def [abs_def] by (rule assign_copier)

lemma script_copier: "copier flat reaches_nothing Script_DeepCopyInto"
  unfolding Script_DeepCopyInto_def [abs_def] by (rule assign_copier)

lemma strategy_copier: "copier flat reaches_nothing StrategySpec_DeepCopyInto"
  unfolding StrategySpec_DeepCopyInto_def [abs_def] by (rule assign_copier)

text \<open>Both kinds of profiles, and their lists, have the same layout.\<close>

lemma profile_copier:
  assumes "copier xval xreach metaInto" and "copier spec_val spec_reach specInto"
    and "copier status_val status_reach statusInto"
    and "\<And>inp out m. into inp out m =
      (let m = store out (load inp m) m;
           m = store (field g_TypeMeta g_TypeMeta_update out) (load (field g_TypeMeta g_TypeMeta_update inp) m) m;
           m = metaInto (field g_ObjectMeta g_ObjectMeta_update inp) (field g_ObjectMeta g_ObjectMeta_update out) m;
           m = specInto (field g_Spec g_Spec_update inp) (field g_Spec g_Spec_update out) m
       in statusInto (field g_Status g_Status_update inp) (field g_Status g_Status_update out) m)"
  shows "copier (profile_val xval spec_val status_val) (profile_reach xreach spec_reach status_reach) into"
  by (rule struct_copier [OF next_field [OF next_field [OF next_field [OF next_field [OF no_fields assign_fixer lens_TypeMeta]
        copier_fixer [OF assms(1)] lens_ObjectMeta] copier_fixer [OF assms(2)] lens_Spec] copier_fixer [OF assms(3)] lens_Status],
        where mk = "\<lambda>v ((((_, t), meta), spec), status). \<lparr>g_TypeMeta = t, g_ObjectMeta = meta, g_Spec = spec, g_Status = status\<rparr>"])
    (auto simp: profile_val_def profile_reach_def Let_def assms(4))

lemma list_copier:
  assumes "copier xval xreach metaInto" and "copier item_val item_reach itemInto" and "proper K"
    and "\<And>inp out m. into inp out m =
      (let m = store out (load inp m) m;
           m = store (field l_TypeMeta l_TypeMeta_update out) (load (field l_TypeMeta l_TypeMeta_update inp) m) m;
           m = metaInto (field g_ListMeta g_ListMeta_update inp) (field g_ListMeta g_ListMeta_update out) m
       in copyElements K itemInto (field g_Items g_Items_update inp) (field g_Items g_Items_update out) m)"
  shows "copier (list_val xval K item_val) (list_reach xreach K item_reach) into"
  by (rule struct_copier [OF next_field [OF next_field [OF next_field [OF no_fields assign_fixer lens_ListTypeMeta]
        copier_fixer [OF assms(1)] lens_ListMeta] copier.copyElements_fixer [OF assms(2,3)] lens_Items],
        where mk = "\<lambda>v (((_, t), meta), items). \<lparr>l_TypeMeta = t, g_ListMeta = meta, g_Items = items\<rparr>"])
    (auto simp: list_val_def list_reach_def Let_def assms(4))

abbreviation sysctlProfile_val where
  "sysctlProfile_val L xval \<equiv> profile_val xval (sysctlSpec_val L xval) (sysctlStatus_val L)"

abbreviation sysctlProfile_reach where
  "sysctlProfile_reach L xreach \<equiv> profile_reach xreach (sysctlSpec_reach L xreach) (sysctlStatus_reach L)"

abbreviation scriptProfile_val where
  "scriptProfile_val L xval \<equiv> profile_val xval (scriptSpec_val L xval) (scriptStatus_val L)"

abbreviation scriptProfile_reach where
  "scriptProfile_reach L xreach \<equiv> profile_reach xreach (scriptSpec_reach L xreach) (scriptStatus_reach L)"

context library
begin

lemma nodeStatus_copier: "copier flat reaches_nothing (NodeStatus_DeepCopyInto L)"
  by (rule struct_copier [OF next_field [OF no_fields copier_fixer [OF Time_copier] lens_LastTransitionTime],
        where mk = "\<lambda>v (_, x). LastTransitionTime_update (\<lambda>_. x) v"])
    (auto simp: NodeStatus_DeepCopyInto_def Let_def)

lemma time_fixer: "fixer (pointee_val timeKind flat) (pointee_reach timeKind reaches_nothing) (copyTime L)"
proof -
  have "\<exists>u. wrote out m (copyTime L inp out m) u
      \<and> copied (pointee_val timeKind flat) (pointee_reach timeKind reaches_nothing) m (load inp m) (copyTime L inp out m) u"
    if sep: "separate inp out m (pointee_reach timeKind reaches_nothing m (load inp m))" and "load out m = load inp m" for inp out m
  proof (cases "load inp m")
    case None
    with that(2) wrote_nothing [of out m] show ?thesis by (auto simp: copyTime_def copied_def)
  next
    case (Some l)
    with sep have "within (deref timeKind l) < next_block m" and out: "lawful out" "within out < next_block m"
      by (auto simp: separate_def)
    with Time_DeepCopy [OF deref_lawful [OF proper_time]] obtain l' m'
      where m': "TimeDeepCopy L (Some (deref timeKind l)) m = (Some l', m')" "grown m m'" "next_block m \<le> fst l'"
        "fst l' < next_block m'" "theTime (cells m' l') = unwrap timeKind (cells m l)"
      by fastforce
    have "same (fst l') (store out (Some l') m') m'" by (rule lawful.store_elsewhere [OF out(1)]) (use out(2) m'(3) in simp)
    then have "cells (store out (Some l') m') l' = cells m' l'" by (cases l') (simp add: same_def)
    moreover have "wrote out m (store out (Some l') m') (Some l')" by (rule wrote_store [OF out(1) m'(2) out(2)])
    moreover have "copyTime L inp out m = store out (Some l') m'" by (simp add: copyTime_def Some m'(1))
    ultimately show ?thesis using m'(3-5) Some lawful.next_store [OF out(1)]
      by (intro exI [of _ "Some l'"]) (simp add: copied_def timeKind_def)
  qed
  with readable.pointee_readable [OF flat_readable] show ?thesis by (simp add: fixer_def fixer_axioms_def)
qed

lemmas toleration_slice_fixer = copier.copyElements_fixer [OF Toleration_copier proper_toleration]
lemmas condition_slice_fixer = copier.copyElements_fixer [OF Condition_copier proper_condition]
lemmas nodeStatus_slice_fixer = copier.copyElements_fixer [OF nodeStatus_copier proper_nodeStatus]

lemma sysctlSpec_copier: "copier (sysctlSpec_val L xval) (sysctlSpec_reach L xreach) (SysctlProfileSpec_DeepCopyInto L)"
  by (rule struct_copier [OF next_field [OF next_field [OF next_field [OF next_field [OF next_field [OF next_field [OF no_fields
        copier_fixer [OF LabelSelector_copier] lens_NodeSelector] toleration_slice_fixer [of L] lens_Tolerations]
        assign_fixer lens_Rollout] assign_fixer lens_Schedule] assign_fixer lens_Strategy]
        copier.copyElements_fixer [OF sysctl_copier, of sysctlKind, OF proper_sysctl] lens_Sysctls],
        where mk = "\<lambda>v ((((((_, sel), tols), r), s), t), sys). \<lparr>g_NodeSelector = sel, g_Tolerations = tols, g_Rollout = r,
          g_Schedule = s, g_Strategy = t, g_Sysctls = sys, g_RestoreOnDelete = g_RestoreOnDelete v\<rparr>"])
    (auto simp: sysctlSpec_val_def sysctlSpec_reach_def SysctlProfileSpec_DeepCopyInto_def Let_def)

lemma sysctlStatus_copier: "copier (sysctlStatus_val L) (sysctlStatus_reach L) (SysctlProfileStatus_DeepCopyInto L)"
  by (rule struct_copier [OF next_field [OF next_field [OF next_field [OF no_fields time_fixer lens_LastRolloutTime]
        nodeStatus_slice_fixer lens_NodeStatuses] condition_slice_fixer [of L] lens_Conditions],
        where mk = "\<lambda>v (((_, t), ns), cs). \<lparr>g_ObservedHash = g_ObservedHash v, g_TeardownHash = g_TeardownHash v,
          g_DesiredNodes = g_DesiredNodes v, g_AppliedNodes = g_AppliedNodes v, g_FailedNodes = g_FailedNodes v,
          g_DriftedNodes = g_DriftedNodes v, g_ErroredPods = g_ErroredPods v, g_LastRolloutTime = t, g_NodeStatuses = ns,
          g_Conditions = cs\<rparr>"])
    (auto simp: sysctlStatus_val_def sysctlStatus_reach_def SysctlProfileStatus_DeepCopyInto_def Let_def)

lemma scriptSpec_copier: "copier (scriptSpec_val L xval) (scriptSpec_reach L xreach) (ScriptProfileSpec_DeepCopyInto L)"
  by (rule struct_copier [OF next_field [OF next_field [OF next_field [OF no_fields
        copier_fixer [OF LabelSelector_copier] lens_ScriptNodeSelector] toleration_slice_fixer [of L] lens_ScriptTolerations]
        copySlice_fixer [of scriptKind] lens_Scripts],
        where mk = "\<lambda>v (((_, sel), tols), scr). \<lparr>gs_NodeSelector = sel, gs_Tolerations = tols, g_Scripts = scr\<rparr>"])
    (auto simp: scriptSpec_val_def scriptSpec_reach_def ScriptProfileSpec_DeepCopyInto_def Let_def)

lemma scriptStatus_copier: "copier (scriptStatus_val L) (scriptStatus_reach L) (ScriptProfileStatus_DeepCopyInto L)"
  by (rule struct_copier [OF next_field [OF next_field [OF no_fields nodeStatus_slice_fixer lens_ScriptNodeStatuses]
        condition_slice_fixer [of L] lens_ScriptConditions],
        where mk = "\<lambda>v ((_, ns), cs). \<lparr>gs_ObservedHash = gs_ObservedHash v, gs_TeardownHash = gs_TeardownHash v,
          gs_DesiredNodes = gs_DesiredNodes v, gs_AppliedNodes = gs_AppliedNodes v, gs_FailedNodes = gs_FailedNodes v,
          gs_NodeStatuses = ns, gs_Conditions = cs\<rparr>"])
    (auto simp: scriptStatus_val_def scriptStatus_reach_def ScriptProfileStatus_DeepCopyInto_def Let_def)

lemma sysctlProfile_copier:
  "copier (sysctlProfile_val L xval) (sysctlProfile_reach L xreach) (SysctlProfile_DeepCopyInto L)"
  by (rule profile_copier [OF ObjectMeta_copier sysctlSpec_copier sysctlStatus_copier SysctlProfile_DeepCopyInto_def])

lemma scriptProfile_copier:
  "copier (scriptProfile_val L xval) (scriptProfile_reach L xreach) (ScriptProfile_DeepCopyInto L)"
  by (rule profile_copier [OF ObjectMeta_copier scriptSpec_copier scriptStatus_copier ScriptProfile_DeepCopyInto_def])

lemma sysctlList_copier:
  "copier (list_val xval (sysctlProfileKind L) (sysctlProfile_val L xval))
     (list_reach xreach (sysctlProfileKind L) (sysctlProfile_reach L xreach)) (SysctlProfileList_DeepCopyInto L)"
  by (rule list_copier [OF ListMeta_copier sysctlProfile_copier proper_sysctlProfile SysctlProfileList_DeepCopyInto_def])

lemma scriptList_copier:
  "copier (list_val xval (scriptProfileKind L) (scriptProfile_val L xval))
     (list_reach xreach (scriptProfileKind L) (scriptProfile_reach L xreach)) (ScriptProfileList_DeepCopyInto L)"
  by (rule list_copier [OF ListMeta_copier scriptProfile_copier proper_scriptProfile ScriptProfileList_DeepCopyInto_def])

end

end
