(* ===== verification/Snapshots.thy ===== *)
theory Snapshots
  imports Deep_Copy_Laws
begin

text \<open>
  What the callers of the copying functions rely on: copies are deep, so that a copy and its original do
  not affect each other; \<open>DeepCopyObject\<close> never returns an interface value with a \<open>nil\<close> pointer inside; and
  the snapshot of the status that a pass takes at its start keeps the status as it was, whatever the pass
  writes into the profile. A small library on which the laws of \<open>library\<close> hold is at the end of the first
  section.
\<close>

subsection \<open>A library\<close>

text \<open>The imported structs as some flat data and one reference to further data.\<close>

record lib =
  lib_text :: string
  lib_ref :: "loc option"

definition libTextKind :: "(lib cell, string) kind" where
  "libTextKind = \<lparr>wrap = (\<lambda>s. LibraryCell \<lparr>lib_text = s, lib_ref = None\<rparr>), unwrap = (\<lambda>c. lib_text (theLibrary c)), zero_value = []\<rparr>"

definition libInto :: "(lib cell, lib) into" where
  "libInto inp out m =
     (let m = store out (load inp m) m
      in copyPointee libTextKind (\<lambda>inp out m. store out (load inp m) m) (field lib_ref lib_ref_update inp) (field lib_ref lib_ref_update out) m)"

definition lib_val :: "lib mem \<Rightarrow> lib \<Rightarrow> string \<times> string option" where
  "lib_val m v = (lib_text v, pointee_val libTextKind flat m (lib_ref v))"

definition lib_reach :: "lib mem \<Rightarrow> lib \<Rightarrow> block set" where
  "lib_reach m v = pointee_reach libTextKind reaches_nothing m (lib_ref v)"

definition goLibrary :: "lib Library" where
  "goLibrary = \<lparr>ObjectMetaInto = libInto, ListMetaInto = libInto, LabelSelectorInto = libInto, TolerationInto = libInto,
     ConditionInto = (\<lambda>inp out m. store out (load inp m) m), TimeInto = (\<lambda>inp out m. store out (load inp m) m),
     TimeDeepCopy = deepCopy timeKind (\<lambda>inp out m. store out (load inp m) m),
     zeroObjectMeta = \<lparr>lib_text = [], lib_ref = None\<rparr>, zeroListMeta = \<lparr>lib_text = [], lib_ref = None\<rparr>,
     zeroLabelSelector = \<lparr>lib_text = [], lib_ref = None\<rparr>, zeroToleration = \<lparr>lib_text = [], lib_ref = None\<rparr>,
     zeroCondition = \<lparr>cond_Type = [], cond_Status = ConditionUnknown, cond_ObservedGeneration = 0,
       cond_LastTransitionTime = 0, cond_Reason = [], cond_Message = []\<rparr>\<rparr>"

lemma libTextKind_proper: "proper libTextKind"
  by (simp add: proper_def libTextKind_def)

lemma lib_copier: "copier lib_val lib_reach libInto"
proof -
  have l: "lens lib_ref lib_ref_update" by (simp add: lens_def)
  show ?thesis
    by (rule struct_copier [OF next_field [OF no_fields copier.copyPointee_fixer [OF assign_copier libTextKind_proper] l],
          where mk = "\<lambda>v (_, x). (lib_text v, x)"])
      (auto simp: lib_val_def lib_reach_def libInto_def Let_def)
qed

lemma time_DeepCopy:
  assumes "lawful p" and "within p < next_block m"
  shows "\<exists>l m'. deepCopy timeKind (\<lambda>inp out m. store out (load inp m) m) (Some p) m = (Some l, m')
    \<and> grown m m' \<and> next_block m \<le> fst l \<and> fst l < next_block m' \<and> theTime (cells m' l) = load p m"
  by (rule copier.deepCopy_copies [OF assign_copier proper_time assms]) (auto simp: copied_def timeKind_def)

interpretation go_library: library goLibrary lib_val lib_reach
  by (rule library.intro) (simp_all only: goLibrary_def Library.simps lib_copier assign_copier time_DeepCopy)

subsection \<open>Copies are deep\<close>

text \<open>What a caller may hand over: an allocated target with no dangling references in what it reaches.\<close>

definition valid_ref :: "('c memory \<Rightarrow> 'v \<Rightarrow> block set) \<Rightarrow> 'c memory \<Rightarrow> ('c, 'v) pointer \<Rightarrow> bool" where
  "valid_ref reach m p \<longleftrightarrow> lawful p \<and> within p < next_block m \<and> reach m (load p m) \<subseteq> {..< next_block m}"

text \<open>
  The result of \<open>DeepCopy\<close>: a new object of the same value, nothing of the old memory changed; all that is
  reached from the copy, itself included, is new, so that writes into it leave the original as it is, and
  writes to anything else leave the copy as it is.
\<close>

definition deep ::
  "('c memory \<Rightarrow> 'v \<Rightarrow> 'a) \<Rightarrow> ('c memory \<Rightarrow> 'v \<Rightarrow> block set) \<Rightarrow> ('c, 'v) kind
    \<Rightarrow> 'c memory \<Rightarrow> ('c, 'v) pointer \<Rightarrow> loc option \<times> 'c memory \<Rightarrow> bool" where
  "deep val reach K m p r \<longleftrightarrow> (\<exists>l m'. r = (Some l, m') \<and> grown m m'
     \<and> insert (fst l) (reach m' (load (deref K l) m')) \<subseteq> {next_block m ..< next_block m'}
     \<and> val m' (load (deref K l) m') = val m (load p m)
     \<and> (\<forall>m''. (\<forall>b. b \<noteq> fst l \<and> b \<notin> reach m' (load (deref K l) m') \<longrightarrow> same b m' m'') \<longrightarrow> val m'' (load p m'') = val m (load p m))
     \<and> (\<forall>m''. (\<forall>b. b = fst l \<or> b \<in> reach m' (load (deref K l) m') \<longrightarrow> same b m' m'')
          \<longrightarrow> val m'' (load (deref K l) m'') = val m (load p m)))"

lemma deepCopy_deep:
  assumes c: "copier val reach into" and K: "proper K" and p: "valid_ref reach m p"
  shows "deep val reach K m p (deepCopy K into (Some p) m)"
proof -
  have r: "readable val reach" using c by (simp add: copier_def)
  obtain l m' where l: "deepCopy K into (Some p) m = (Some l, m')" "grown m m'" "fst l = next_block m" "fst l < next_block m'"
    and u: "copied val reach m (load p m) m' (unwrap K (cells m' l))"
    using copier.deepCopy_copies [OF c K, of p m] p unfolding valid_ref_def by blast
  have new: "reach m' (unwrap K (cells m' l)) \<subseteq> {next_block m ..< next_block m'}" using u by (simp add: copied_def)
  have "val m'' (load p m'') = val m (load p m)"
    if writes: "\<forall>b. b \<noteq> fst l \<and> b \<notin> reach m' (unwrap K (cells m' l)) \<longrightarrow> same b m' m''" for m''
  proof -
    have old: "same b m' m''" if "b < next_block m" for b
    proof -
      have "b \<noteq> fst l \<and> b \<notin> reach m' (unwrap K (cells m' l))" using that new l(3) by auto
      then show ?thesis using writes by blast
    qed
    with p l(2) have "same (within p) m m''" unfolding valid_ref_def grown_def by (meson same_trans)
    with p have "load p m'' = load p m" unfolding valid_ref_def by (metis lawful.load_local)
    with readable.original_keeps_value [OF r l(2) _ old] p show ?thesis by (simp add: valid_ref_def)
  qed
  moreover have "val m'' (unwrap K (cells m'' l)) = val m (load p m)"
    if "\<forall>b. b = fst l \<or> b \<in> reach m' (unwrap K (cells m' l)) \<longrightarrow> same b m' m''" for m''
  proof -
    have "cells m'' l = cells m' l" using that by (cases l) (simp add: same_def)
    with readable.copy_keeps_value [OF r u, of m''] that show ?thesis by simp
  qed
  ultimately show ?thesis
    using l u new by (auto simp: deep_def copied_def)
qed

text \<open>C17: \<open>DeepCopy\<close> of a sysctl profile returns a new profile of the same value (spec, status, metadata, with
  nil slices and pointers kept nil) and changes nothing that was allocated; whatever is later written into
  the copy, down to its sysctls, selectors, node statuses and conditions, leaves the original as it was,
  and the other way round. \<open>DeepCopyObject\<close> returns that copy as a \<open>*SysctlProfile\<close>.\<close>

theorem SysctlProfile_DeepCopy_deep:
  assumes "library L xval xreach" and "valid_ref (sysctlProfile_reach L xreach) m p"
  shows "deep (sysctlProfile_val L xval) (sysctlProfile_reach L xreach) (sysctlProfileKind L) m p (SysctlProfile_DeepCopy L (Some p) m)
    \<and> (\<exists>l m'. SysctlProfile_DeepCopyObject L (Some p) m = (ObjectOf PtrSysctlProfile (Some l), m')
         \<and> SysctlProfile_DeepCopy L (Some p) m = (Some l, m'))"
proof -
  have d: "deep (sysctlProfile_val L xval) (sysctlProfile_reach L xreach) (sysctlProfileKind L) m p (SysctlProfile_DeepCopy L (Some p) m)"
    unfolding SysctlProfile_DeepCopy_def
    by (rule deepCopy_deep [OF library.sysctlProfile_copier [OF assms(1)] proper_sysctlProfile assms(2)])
  then obtain l m' where "SysctlProfile_DeepCopy L (Some p) m = (Some l, m')" by (auto simp: deep_def)
  with d show ?thesis by (simp add: SysctlProfile_DeepCopyObject_def objectOrNil_def)
qed

text \<open>C38: The same for script profiles and for the lists of both kinds, whose items are copied one by one.\<close>

theorem lists_DeepCopy_deep:
  assumes "library L xval xreach"
  shows "(valid_ref (scriptProfile_reach L xreach) m s
      \<longrightarrow> deep (scriptProfile_val L xval) (scriptProfile_reach L xreach) (scriptProfileKind L) m s (ScriptProfile_DeepCopy L (Some s) m))
    \<and> (valid_ref (list_reach xreach (sysctlProfileKind L) (sysctlProfile_reach L xreach)) m p
      \<longrightarrow> deep (list_val xval (sysctlProfileKind L) (sysctlProfile_val L xval))
            (list_reach xreach (sysctlProfileKind L) (sysctlProfile_reach L xreach)) (sysctlListKind L) m p
            (SysctlProfileList_DeepCopy L (Some p) m))
    \<and> (valid_ref (list_reach xreach (scriptProfileKind L) (scriptProfile_reach L xreach)) m q
      \<longrightarrow> deep (list_val xval (scriptProfileKind L) (scriptProfile_val L xval))
            (list_reach xreach (scriptProfileKind L) (scriptProfile_reach L xreach)) (scriptListKind L) m q
            (ScriptProfileList_DeepCopy L (Some q) m))"
  unfolding ScriptProfile_DeepCopy_def SysctlProfileList_DeepCopy_def ScriptProfileList_DeepCopy_def
  using deepCopy_deep [OF library.scriptProfile_copier [OF assms] proper_scriptProfile]
    deepCopy_deep [OF library.sysctlList_copier [OF assms] proper_sysctlList]
    deepCopy_deep [OF library.scriptList_copier [OF assms] proper_scriptList] by blast

subsection \<open>The status snapshot of a pass\<close>

text \<open>A status in memory as the value that the controllers work with; \<open>nil\<close> and empty slices have no elements.\<close>

definition elements :: "'a list option \<Rightarrow> 'a list" where
  "elements xs = (case xs of None \<Rightarrow> [] | Some ys \<Rightarrow> ys)"

definition apiSysctlStatus :: "(Time option, NodeStatus list option, Condition list option) goSysctlProfileStatus \<Rightarrow> SysctlProfileStatus" where
  "apiSysctlStatus s = \<lparr>sys_ObservedHash = g_ObservedHash s, sys_TeardownHash = g_TeardownHash s,
     sys_DesiredNodes = g_DesiredNodes s, sys_AppliedNodes = g_AppliedNodes s, sys_FailedNodes = g_FailedNodes s,
     DriftedNodes = g_DriftedNodes s, ErroredPods = g_ErroredPods s, LastRolloutTime = g_LastRolloutTime s,
     sys_NodeStatuses = elements (g_NodeStatuses s), sys_Conditions = elements (g_Conditions s)\<rparr>"

definition apiScriptStatus :: "(NodeStatus list option, Condition list option) goScriptProfileStatus \<Rightarrow> ScriptProfileStatus" where
  "apiScriptStatus s = \<lparr>scr_ObservedHash = gs_ObservedHash s, scr_TeardownHash = gs_TeardownHash s,
     scr_DesiredNodes = gs_DesiredNodes s, scr_AppliedNodes = gs_AppliedNodes s, scr_FailedNodes = gs_FailedNodes s,
     scr_NodeStatuses = elements (gs_NodeStatuses s), scr_Conditions = elements (gs_Conditions s)\<rparr>"

lemma valid_status:
  assumes "valid_ref (profile_reach xreach spec_reach status_reach) m p"
  shows "valid_ref status_reach m (field g_Status g_Status_update p)"
  using assms by (auto simp: valid_ref_def profile_reach_def intro: field_lawful lens_Status)

text \<open>\<open>r\<close> is the result of taking a snapshot of the target of \<open>p\<close>, as \<open>reads\<close> reads it.\<close>

definition snapshot ::
  "('c memory \<Rightarrow> ('c, 'v) pointer \<Rightarrow> 'a) \<Rightarrow> ('c, 'v) kind \<Rightarrow> 'c memory \<Rightarrow> ('c, 'v) pointer \<Rightarrow> loc option \<times> 'c memory \<Rightarrow> bool" where
  "snapshot reads K m p r \<longleftrightarrow> (\<exists>l m'. r = (Some l, m') \<and> reads m' p = reads m p
     \<and> (\<forall>m''. (\<forall>b \<in> {next_block m ..< next_block m'}. same b m' m'') \<longrightarrow> reads m'' (deref K l) = reads m p))"

lemma deep_snapshot:
  assumes "deep val reach K m p r"
  shows "snapshot (\<lambda>m p. f (val m (load p m))) K m p r"
proof -
  from assms obtain l m' where l: "r = (Some l, m')" "insert (fst l) (reach m' (load (deref K l) m')) \<subseteq> {next_block m ..< next_block m'}"
    and copy: "\<forall>m''. (\<forall>b. b = fst l \<or> b \<in> reach m' (load (deref K l) m') \<longrightarrow> same b m' m'')
      \<longrightarrow> val m'' (load (deref K l) m'') = val m (load p m)"
    and orig: "\<forall>m''. (\<forall>b. b \<noteq> fst l \<and> b \<notin> reach m' (load (deref K l) m') \<longrightarrow> same b m' m'') \<longrightarrow> val m'' (load p m'') = val m (load p m)"
    unfolding deep_def by blast
  have "val m'' (load (deref K l) m'') = val m (load p m)" if "\<forall>b \<in> {next_block m ..< next_block m'}. same b m' m''" for m''
    using that l(2) copy [rule_format, of m''] by blast
  with orig [rule_format, of m'] l(1) show ?thesis by (auto simp: snapshot_def)
qed

text \<open>C18: The snapshot that a pass takes of the status (\<open>originalStatus := profile.Status.DeepCopy()\<close>) stays
  the status as it was read: taking it leaves the profile's status alone, and however the pass then changes
  memory other than the snapshot (sets fields of the profile, overwrites conditions in place, allocates),
  the snapshot reads as the status did. This holds for both controllers.\<close>

theorem status_snapshot:
  assumes "library L xval xreach" and "valid_ref (sysctlProfile_reach L xreach) m p" and "valid_ref (scriptProfile_reach L xreach) m q"
  shows "snapshot (\<lambda>m p. apiSysctlStatus (sysctlStatus_val L m (load p m))) sysctlStatusKind m (field g_Status g_Status_update p)
      (SysctlProfileStatus_DeepCopy L (Some (field g_Status g_Status_update p)) m)
    \<and> snapshot (\<lambda>m p. apiScriptStatus (scriptStatus_val L m (load p m))) scriptStatusKind m (field g_Status g_Status_update q)
      (ScriptProfileStatus_DeepCopy L (Some (field g_Status g_Status_update q)) m)"
  unfolding SysctlProfileStatus_DeepCopy_def ScriptProfileStatus_DeepCopy_def
proof
  from assms(2) show "snapshot (\<lambda>m p. apiSysctlStatus (sysctlStatus_val L m (load p m))) sysctlStatusKind m (field g_Status g_Status_update p)
      (deepCopy sysctlStatusKind (SysctlProfileStatus_DeepCopyInto L) (Some (field g_Status g_Status_update p)) m)"
    by (rule deep_snapshot [OF deepCopy_deep [OF library.sysctlStatus_copier [OF assms(1)] proper_sysctlStatus valid_status]])
  from assms(3) show "snapshot (\<lambda>m p. apiScriptStatus (scriptStatus_val L m (load p m))) scriptStatusKind m (field g_Status g_Status_update q)
      (deepCopy scriptStatusKind (ScriptProfileStatus_DeepCopyInto L) (Some (field g_Status g_Status_update q)) m)"
    by (rule deep_snapshot [OF deepCopy_deep [OF library.scriptStatus_copier [OF assms(1)] proper_scriptStatus valid_status]])
qed

subsection \<open>Examples\<close>

text \<open>
  A memory with a sysctl profile in block 0, its conditions in block 1, its sysctls in block 2, an interface
  selector in block 3 with prefixes in block 4, labels in block 5, a script profile in block 6 that shares
  the conditions, and lists of either profile in blocks 7 and 8.
\<close>

definition exLib :: lib where
  "exLib = \<lparr>lib_text = ''tuning'', lib_ref = Some (5, 0)\<rparr>"

definition exCondition :: "string \<Rightarrow> Condition" where
  "exCondition reason = \<lparr>cond_Type = ''Ready'', cond_Status = ConditionFalse, cond_ObservedGeneration = 1,
     cond_LastTransitionTime = 7, cond_Reason = reason, cond_Message = []\<rparr>"

definition exCells :: "loc \<Rightarrow> lib cell" where
  "exCells l =
     (if l = (0, 0) then SysctlProfileCell (zeroProfile goLibrary
          ((zeroSysctlSpec goLibrary)\<lparr>g_Sysctls := Slice 2 0 1 1\<rparr>) (zeroSysctlStatus\<lparr>g_Conditions := Slice 1 0 1 4\<rparr>)\<lparr>g_ObjectMeta := exLib\<rparr>)
      else if l = (1, 0) then ConditionCell (exCondition ''Progressing'')
      else if l = (2, 0) then SysctlCell \<lparr>g_Name = ''net.ipv4.conf.{iface}.rp_filter'', g_Value = ''1'', g_Persistent = False,
          g_InterfaceSelector = Some (3, 0)\<rparr>
      else if l = (3, 0) then InterfaceSelectorCell \<lparr>g_Prefixes = Slice 4 0 1 1, g_Exclude = NilSlice\<rparr>
      else if l = (4, 0) then StringCell ''eth''
      else if l = (5, 0) then LibraryCell \<lparr>lib_text = ''labels'', lib_ref = None\<rparr>
      else if l = (7, 0) then SysctlListCell ((zeroList goLibrary)\<lparr>g_ListMeta := exLib, g_Items := Slice 0 0 1 1\<rparr>)
      else if l = (8, 0) then ScriptListCell ((zeroList goLibrary)\<lparr>g_ListMeta := exLib, g_Items := Slice 6 0 1 1\<rparr>)
      else ScriptProfileCell (zeroProfile goLibrary (zeroScriptSpec goLibrary) (zeroScriptStatus\<lparr>gs_Conditions := Slice 1 0 1 4\<rparr>)))"

definition exMem :: "lib mem" where
  "exMem = \<lparr>next_block = 9, cells = exCells\<rparr>"

abbreviation exProfilePtr :: "(lib, lib memSysctlProfile) ptr" where
  "exProfilePtr \<equiv> deref (sysctlProfileKind goLibrary) (0, 0)"

abbreviation exScriptPtr :: "(lib, lib memScriptProfile) ptr" where
  "exScriptPtr \<equiv> deref (scriptProfileKind goLibrary) (6, 0)"

lemma goLibrary_zeros:
  "zeroObjectMeta goLibrary = \<lparr>lib_text = [], lib_ref = None\<rparr>" "zeroLabelSelector goLibrary = \<lparr>lib_text = [], lib_ref = None\<rparr>"
  by (simp_all add: goLibrary_def)

lemmas ex_memory = exMem_def exCells_def exLib_def goLibrary_zeros zeroSysctlSpec_def zeroSysctlStatus_def
  zeroScriptSpec_def zeroScriptStatus_def sysctlProfileKind_def scriptProfileKind_def sysctlKind_def interfaceSelectorKind_def
  stringKind_def conditionKind_def

abbreviation exListPtr :: "(lib, lib memList) ptr" where
  "exListPtr \<equiv> deref (sysctlListKind goLibrary) (7, 0)"

abbreviation exScriptListPtr :: "(lib, lib memList) ptr" where
  "exScriptListPtr \<equiv> deref (scriptListKind goLibrary) (8, 0)"

lemmas ex_reach = profile_reach_def sysctlSpec_reach_def sysctlStatus_reach_def scriptSpec_reach_def scriptStatus_reach_def
  sysctl_reach_def isel_reach_def lib_reach_def list_reach_def

lemma ex_valid:
  "valid_ref (sysctlProfile_reach goLibrary lib_reach) exMem exProfilePtr"
  "valid_ref (scriptProfile_reach goLibrary lib_reach) exMem exScriptPtr"
  "valid_ref (list_reach lib_reach (sysctlProfileKind goLibrary) (sysctlProfile_reach goLibrary lib_reach)) exMem exListPtr"
  "valid_ref (list_reach lib_reach (scriptProfileKind goLibrary) (scriptProfile_reach goLibrary lib_reach)) exMem exScriptListPtr"
  unfolding valid_ref_def
  by (intro conjI deref_lawful proper_kinds; simp add: ex_reach ex_memory sysctlListKind_def scriptListKind_def lessThan_Suc)+

text \<open>The copied profile has the sysctl with its interface prefixes, and the labels.\<close>

theorem SysctlProfile_DeepCopy_deep_witness:
  "\<exists>l m'. SysctlProfile_DeepCopyObject goLibrary (Some exProfilePtr) exMem = (ObjectOf PtrSysctlProfile (Some l), m')
     \<and> g_Sysctls (g_Spec (sysctlProfile_val goLibrary lib_val m' (load (deref (sysctlProfileKind goLibrary) l) m')))
         = Some [\<lparr>g_Name = ''net.ipv4.conf.{iface}.rp_filter'', g_Value = ''1'', g_Persistent = False,
             g_InterfaceSelector = Some \<lparr>g_Prefixes = Some [''eth''], g_Exclude = None\<rparr>\<rparr>]"
proof -
  have v: "g_Sysctls (g_Spec (sysctlProfile_val goLibrary lib_val exMem (load exProfilePtr exMem)))
         = Some [\<lparr>g_Name = ''net.ipv4.conf.{iface}.rp_filter'', g_Value = ''1'', g_Persistent = False,
             g_InterfaceSelector = Some \<lparr>g_Prefixes = Some [''eth''], g_Exclude = None\<rparr>\<rparr>]"
    by (simp add: profile_val_def sysctlSpec_val_def sysctl_val_def isel_val_def ex_memory)
  note d = SysctlProfile_DeepCopy_deep [OF go_library.library_axioms ex_valid(1)]
  then obtain l m' where l: "SysctlProfile_DeepCopyObject goLibrary (Some exProfilePtr) exMem = (ObjectOf PtrSysctlProfile (Some l), m')"
    "SysctlProfile_DeepCopy goLibrary (Some exProfilePtr) exMem = (Some l, m')" by blast
  with d have "sysctlProfile_val goLibrary lib_val m' (load (deref (sysctlProfileKind goLibrary) l) m')
      = sysctlProfile_val goLibrary lib_val exMem (load exProfilePtr exMem)"
    by (simp add: deep_def)
  with l(1) v show ?thesis by auto
qed

theorem lists_DeepCopy_deep_witness:
  "\<exists>l m'. SysctlProfileList_DeepCopy goLibrary (Some exListPtr) exMem = (Some l, m')
     \<and> map_option (map (\<lambda>p. g_Conditions (g_Status p)))
         (g_Items (list_val lib_val (sysctlProfileKind goLibrary) (sysctlProfile_val goLibrary lib_val) m'
           (load (deref (sysctlListKind goLibrary) l) m'))) = Some [Some [exCondition ''Progressing'']]"
proof -
  have v: "map_option (map (\<lambda>p. g_Conditions (g_Status p)))
         (g_Items (list_val lib_val (sysctlProfileKind goLibrary) (sysctlProfile_val goLibrary lib_val) exMem
           (load exListPtr exMem))) = Some [Some [exCondition ''Progressing'']]"
    by (simp add: list_val_def profile_val_def sysctlStatus_val_def ex_memory sysctlListKind_def)
  from lists_DeepCopy_deep [OF go_library.library_axioms, of exMem exScriptPtr exListPtr exScriptListPtr] ex_valid
  have "deep (list_val lib_val (sysctlProfileKind goLibrary) (sysctlProfile_val goLibrary lib_val))
      (list_reach lib_reach (sysctlProfileKind goLibrary) (sysctlProfile_reach goLibrary lib_reach)) (sysctlListKind goLibrary) exMem exListPtr
      (SysctlProfileList_DeepCopy goLibrary (Some exListPtr) exMem)" by blast
  then obtain l m' where "SysctlProfileList_DeepCopy goLibrary (Some exListPtr) exMem = (Some l, m')"
    "list_val lib_val (sysctlProfileKind goLibrary) (sysctlProfile_val goLibrary lib_val) m' (load (deref (sysctlListKind goLibrary) l) m')
      = list_val lib_val (sysctlProfileKind goLibrary) (sysctlProfile_val goLibrary lib_val) exMem (load exListPtr exMem)"
    unfolding deep_def by blast
  with v show ?thesis by auto
qed

text \<open>After the snapshot the only condition is overwritten in place: the profile shows the new one, the snapshot the old.\<close>

theorem status_snapshot_witness:
  "\<exists>l m'. SysctlProfileStatus_DeepCopy goLibrary (Some (field g_Status g_Status_update exProfilePtr)) exMem = (Some l, m')
     \<and> (let m'' = m'\<lparr>cells := (cells m')((1, 0) := ConditionCell (exCondition ''Complete''))\<rparr> in
        sys_Conditions (apiSysctlStatus (sysctlStatus_val goLibrary m'' (load (deref sysctlStatusKind l) m''))) = [exCondition ''Progressing''])"
proof -
  from status_snapshot [OF go_library.library_axioms ex_valid(1,2)] obtain l m'
    where l: "SysctlProfileStatus_DeepCopy goLibrary (Some (field g_Status g_Status_update exProfilePtr)) exMem = (Some l, m')"
    and snap: "\<And>m''. \<forall>b \<in> {next_block exMem ..< next_block m'}. same b m' m'' \<Longrightarrow>
      apiSysctlStatus (sysctlStatus_val goLibrary m'' (load (deref sysctlStatusKind l) m''))
        = apiSysctlStatus (sysctlStatus_val goLibrary exMem (load (field g_Status g_Status_update exProfilePtr) exMem))"
    unfolding snapshot_def by blast
  let ?m = "m'\<lparr>cells := (cells m')((1, 0) := ConditionCell (exCondition ''Complete''))\<rparr>"
  have "\<forall>b \<in> {next_block exMem ..< next_block m'}. same b m' ?m" by (simp add: same_def exMem_def)
  from snap [OF this] l show ?thesis
    by (simp add: apiSysctlStatus_def sysctlStatus_val_def elements_def ex_memory Let_def)
qed

end
