(* ===== verification/Spec2Isabelle.thy ===== *)
theory Spec2Isabelle
  imports Manager_Main Fleet Snapshots
begin

text \<open>
  A verification development for \<open>sysctl-operator\<close>, a Kubernetes operator that keeps kernel parameters
  (\<open>SysctlProfile\<close>) and host scripts (\<open>ScriptProfile\<close>) applied on selected nodes.

  \<^bold>\<open>The program.\<close> Two controllers (\<open>src/internal/controller\<close>) render a profile into one text file in a
  ConfigMap, hash it, and run a DaemonSet of worker pods on the selected nodes until every one of them
  has reported success at that hash; then they tear the DaemonSet down. The worker
  (\<open>src/cmd/worker\<close>, \<open>src/internal/worker\<close>) reads the mounted file, refuses it when its hash is not the
  expected one, parses it, applies or checks the settings or runs the scripts, and posts a report. The
  report server (\<open>src/internal/server\<close>) records reports in the status of the profile, from which the
  controllers decide whether the rollout is complete, and counts failures in a metric
  (\<open>src/internal/metrics\<close>).

  \<^bold>\<open>The theories\<close>, in the order in which they build on each other:
  \<^item> \<open>Prelude\<close>: Go's basic types and errors, shared lemmas on lists and words.
  \<^item> \<open>Go_Strings\<close>: the functions of \<open>strings\<close> and \<open>path/filepath\<close> that the sources call, on byte
    strings, with white space as UTF-8 sequences. \<open>Sha256\<close>: \<open>crypto/sha256\<close> and \<open>encoding/hex\<close>.
  \<^item> \<open>Api_Types\<close>: the two custom resources (\<open>src/api/v1alpha1\<close>) with all fields, and the fields of the
    Kubernetes types that the sources build.
  \<^item> \<open>Kube\<close>: the imported Kubernetes packages as a record of functions over an abstract cluster state,
    and what the sources rely on as the locales \<open>kube_objects\<close> (client calls: effects, frames, optimistic
    concurrency; reads may be stale), \<open>kube_helpers\<close> (finalizers, owner references, conditions,
    equality), \<open>kube_retry\<close> and \<open>kube_metrics\<close>. \<open>Memory_Kube\<close> shows that the laws can hold together, by a
    store in memory that is also what the examples run on; \<open>Example_Cluster\<close> is the data of the examples.
  \<^item> \<open>Json\<close>: \<open>encoding/json\<close> on bytes, as far as it is used: UTF-8, the encoder, the string and value
    scanners. \<open>Json_Roundtrip\<close>: decoding undoes encoding, and the bound on the scanner's recursion is
    enough. \<open>Report_Format\<close>: the report as the worker marshals it and as the server decodes it (unknown
    fields refused, names matched regardless of case, \<open>null\<close> and repeated fields, 1 MiB limit), the round trip
    between the two, and the size of a report.
  \<^item> \<open>Report_Server\<close>: \<open>server.go\<close> and \<open>metrics.go\<close>, from the per-node bookkeeping to the request handler.
  \<^item> \<open>Node_Predicate\<close>, \<open>Sysctl_Controller\<close>, \<open>Script_Controller\<close>: the files of the same names, function by
    function; a closure passed to \<open>CreateOrUpdate\<close> is a function \<open>mutate...\<close>, the numbered steps of
    \<open>Reconcile\<close> are \<open>reconcileLive\<close>, \<open>rollOut\<close> and \<open>writeStatus\<close>.
  \<^item> \<open>Worker_Config\<close>, \<open>Worker_Apply\<close>, \<open>Worker_Script\<close>, \<open>Worker_Main\<close>: the worker, over an abstract node
    (\<open>Host\<close>: reading files and directories, running programs, environment variables).
  \<^item> \<open>Node_Ledger\<close>: the per-node status as an abstract map from nodes to entries; the locale \<open>node_ledger\<close>
    is the contract between report server and controllers, and both kinds of profiles implement it. The
    rollout decision is determined by the last report of every selected node.
  \<^item> \<open>Rendering\<close>: the text formats, as the locale \<open>config_codec\<close> with the sysctl drop-in and the scripts
    file as instances: parsing gives back what was rendered, and both sides compute the same hash.
  \<^item> \<open>Reconcile_Flow\<close>: the life cycle both reconcile handlers share (locale \<open>reconcile_flow\<close>; every cluster
    that satisfies \<open>kube\<close> makes both handlers instances of it). \<open>Sysctl_Reconcile\<close>, \<open>Script_Reconcile\<close>: what a
    pass may touch, what a successful pass establishes, deletion, and the absence of status hot loops.
  \<^item> \<open>Report_Service\<close>: a report is recorded once and an errored pod is counted once, whatever conflicts the
    retry loop goes through (locale \<open>report_cluster\<close>).
  \<^item> \<open>Cluster_Run\<close>: the whole operator as a step relation (passes of both controllers, requests, changes by
    others) and its runs. The locale \<open>status_log\<close> shows that the reported part of a status is the replay of a
    sequence of reports that has all recorded and only posted ones; \<open>operator\<close> makes both kinds of profiles instances of it. From it: what a
    pass decides in any run, and that the stored statuses keep to the schema. \<open>Rollout\<close>: reports of success add
    up (locale \<open>delivery_log\<close>, for both kinds), so that rollouts come to their end once they are delivered.
  \<^item> \<open>Report_Endpoint\<close>: the routes of the HTTP API, and \<open>ReportServer.Start\<close> as a state machine of requests,
    cancellation and shutdown. \<open>Manager_Main\<close>: the scheme, the watches of both controllers and \<open>cmd/main.go\<close>, over
    \<open>controller-runtime\<close> as a record of functions on the state of the manager.
  \<^item> \<open>Node_Events\<close>: which node events lead to which passes (locale \<open>node_mapper\<close>). \<open>Owned_Objects\<close>: names,
    selectors and pod environments of the objects built.
  \<^item> \<open>Fleet\<close>: workers next to the cluster, on the pair of a node's state and the cluster's, with posts that
    reach the endpoint: the appliers, or script runners, of all selected nodes complete a rollout.
  \<^item> \<open>Go_Memory\<close>: Go's memory as blocks of cells, pointers to cells, fields and elements (locale \<open>lawful\<close>),
    slices, \<open>new\<close>, \<open>make\<close> and \<open>copy\<close>. \<open>Deep_Copy\<close>: \<open>zz_generated.deepcopy.go\<close> function by function on that memory.
    \<open>Copy_Laws\<close>: what a deep copy is (locales \<open>readable\<close>, \<open>fixer\<close>, \<open>copier\<close>, \<open>part_fixer\<close>) and that the patterns of
    the generated code make one. \<open>Deep_Copy_Laws\<close>: every generated function is a \<open>copier\<close>, if the imported ones
    are (locale \<open>library\<close>). \<open>Snapshots\<close>: what callers rely on, above all that the snapshot of a status which a
    pass compares with at its end is not changed by what the pass writes. This is why the other theories
    may treat profiles as values.
  \<^item> This theory: isolation of profiles, and the loop from a profile to a node and back.

  \<^bold>\<open>Modelling choices.\<close> State is passed explicitly; a fallible call returns an error value with the new
  state. All functions are total: the loops are structural recursions or have a termination proof. Only
  the JSON scanner has a bound on its recursion, twice the length of its input, which is enough: every larger
  bound gives the same result (\<open>nextValue_fuel\<close>). The retry loop of \<open>retry.RetryOnConflict\<close> is only
  assumed to make some bounded number of attempts. A pass and a request are single steps of a run; that a pass
  may read a stale profile accounts for what is recorded in the middle of it. Log output, contexts, time-outs
  and the text of error responses are left out.

  Memory is explicit only in the theories on deep copies; there a stored pointer refers to a whole cell (the
  result of \<open>new\<close> or an element of an array), while a function may be handed a pointer to any field.

  \<^bold>\<open>Assumptions on the cluster\<close> (locale \<open>kube_objects\<close>). \<open>Get\<close> of a profile may return a stale object. For the owned objects and the
  nodes the client's cache is taken to be up to date, and nobody else puts finalizers on owned objects: the
  code deletes without options, in the background, so that a successful \<open>Delete\<close> removes the object at once. Of the
  metadata of an owned object the API server sets UID, resource version and generation; fields of its
  spec that the code leaves unset, and the server defaults, are not in the model.

  \<^bold>\<open>Conditions on the data.\<close> The text formats have no escapes and the CRDs do not restrict the strings, so the
  round trips hold for sysctls and scripts that can be rendered (\<open>sysctlRenderable\<close>, \<open>scriptRenderable\<close>);
  \<open>newline_in_value_adds_sysctl\<close> and \<open>script_footer_in_content_truncates\<close> show what happens to others. JSON
  replaces bytes that are not UTF-8, so names are to be UTF-8; reports are to be at most 1 MiB. A report
  whose recording fails is lost (\<open>sendReport_once\<close>). With no node selected the DaemonSet is kept.

  \<^bold>\<open>Not modelled.\<close> The transport between worker and server (the argument \<open>post\<close>; \<open>Fleet\<close> assumes that it
  delivers), the work queues of \<open>controller-runtime\<close> (which passes run when), log set-up, tests, and
  manifests.
\<close>

section \<open>Profiles are isolated from each other\<close>

lemma pass_effect_others:
  assumes "pass_effect p v v'"
  shows "c \<noteq> configKey p \<Longrightarrow> cl_ConfigMaps v' c = cl_ConfigMaps v c"
    and "d \<noteq> configKey p \<Longrightarrow> cl_DaemonSets v' d = cl_DaemonSets v d"
    and "j \<noteq> jobKey p \<Longrightarrow> cl_CronJobs v' j = cl_CronJobs v j"
proof -
  from assms obtain u where u: "same_unowned p v u" "cl_ConfigMaps v' = cl_ConfigMaps u"
    "cl_DaemonSets v' = cl_DaemonSets u" "cl_CronJobs v' = cl_CronJobs u"
    by (auto simp: pass_effect_def)
  then show "c \<noteq> configKey p \<Longrightarrow> cl_ConfigMaps v' c = cl_ConfigMaps v c"
    and "d \<noteq> configKey p \<Longrightarrow> cl_DaemonSets v' d = cl_DaemonSets v d"
    and "j \<noteq> jobKey p \<Longrightarrow> cl_CronJobs v' j = cl_CronJobs v j"
    unfolding same_except_def by metis+
qed

text \<open>C26: A pass over one sysctl profile, whatever its result, leaves the ConfigMap, the DaemonSet and
  the CronJob of every other sysctl profile and the ConfigMap and the DaemonSet of every script
  profile, even one of the same name, as they were.\<close>

theorem Reconcile_isolates_profiles:
  assumes "kube K view" and "GetSysctlProfile K req w = Inr p" and "Reconcile K img req w = (r, w')"
    and "key_of (sys_meta q) \<noteq> req"
  shows "cl_ConfigMaps (view w') (configKey q) = cl_ConfigMaps (view w) (configKey q)
    \<and> cl_DaemonSets (view w') (configKey q) = cl_DaemonSets (view w) (configKey q)
    \<and> cl_CronJobs (view w') (jobKey q) = cl_CronJobs (view w) (jobKey q)
    \<and> cl_ConfigMaps (view w') (scriptKey s) = cl_ConfigMaps (view w) (scriptKey s)
    \<and> cl_DaemonSets (view w') (scriptKey s) = cl_DaemonSets (view w) (scriptKey s)"
proof -
  have "key_of (sys_meta p) = req" by (rule kube_objects.get_sysctl [OF kube.axioms(1) [OF assms(1)] assms(2)])
  with assms(4) have "configKey q \<noteq> configKey p" "jobKey q \<noteq> jobKey p" "scriptKey s \<noteq> configKey p"
    using owned_keys(1,2) [of q p] owned_keys(4) [of p s] by metis+
  with pass_effect_others [OF kube.Reconcile_effect [OF assms(1-3)]] show ?thesis by blast
qed

theorem Reconcile_isolates_profiles_witness:
  "let w' = snd (Reconcile mem ''img'' exKey exWorld) in
   cl_DaemonSets (world_objects w') (scriptKey exScriptProfile) = None
   \<and> cl_ConfigMaps (world_objects w') (configKey blankProfile) = None"
proof -
  have "key_of (sys_meta blankProfile) \<noteq> exKey" by (simp add: blankProfile_def exKey_def zeroMeta_def)
  from Reconcile_isolates_profiles [OF mem_kube.kube_axioms exGet(1) prod.collapse [symmetric] this, of "''img''" exScriptProfile]
  show ?thesis by (simp add: Let_def) (simp add: exWorld_def worldWith_def)
qed

section \<open>From the profile to the node and back\<close>

text \<open>C2: The loop from the profile to the node and back closes. Take a profile whose sysctls can be rendered (names
  non-empty, without surrounding white space, \<open>=\<close> and newlines, not starting like a comment; values without
  newlines) and whose name and namespace are UTF-8, as is the node's name. A worker with the environment of
  the applier DaemonSet's pod that finds the rendered drop-in at the mount path applies exactly the profile's
  sysctls (with white space around values dropped), posts one report and waits. If the body of that report is
  at most 1 MiB long, the report server decodes it to a report on that profile and node, and in a profile into
  which this report is recorded, the node counts as applied at the profile's current hash exactly when every
  write on the node succeeded.\<close>

theorem applier_closes_the_loop:
  assumes "Getenv H = podEnv (workerEnv p (desiredHash p)) podFields"
    and "ReadFile H (configMountPath @ ''/'' @ configFileName) h = Inr (renderSysctlConf p)"
    and "list_all sysctlRenderable (Sysctls (sys_Spec p))"
    and "Apply H ''/proc/sys'' (map sysctlIntended (Sysctls (sys_Spec p))) h = (res, h1)"
    and "toValid (Name (sys_meta p)) = Name (sys_meta p)" and "toValid (Namespace (sys_meta p)) = Namespace (sys_meta p)"
    and "toValid (podFields ''spec.nodeName'') = podFields ''spec.nodeName''"
  shows "workerMain H post (\<lambda>_. None) h = (WaitsForSignal, sendReport post reportURL (applyReportOf H (Parse (renderSysctlConf p)) res) h1)
    \<and> (length (marshalReport (applyReportOf H (Parse (renderSysctlConf p)) res)) \<le> 2 ^ 20 \<longrightarrow>
        (\<exists>r. decodeReport (marshalReport (applyReportOf H (Parse (renderSysctlConf p)) res)) = Some r \<and> rep_Kind r \<noteq> kindScriptProfile
          \<and> (rep_Namespace r, rep_Profile r) = key_of (sys_meta p) \<and> rep_Node r = podFields ''spec.nodeName''
          \<and> (\<forall>t q. applied_at (desiredHash p)
                 (ledger (sys_NodeStatuses (sys_Status (recordSysctl r t q))) (podFields ''spec.nodeName'')) \<longleftrightarrow> OK res)))"
proof -
  let ?rep = "appliedReport H p res"
  note sel = applier_report [OF assms(1,5-7), of res]
  then have "applied_at (desiredHash p) (ledger (sys_NodeStatuses (sys_Status (recordSysctl (received ?rep) t q)))
      (podFields ''spec.nodeName'')) \<longleftrightarrow> OK res" for t q
    by (simp add: sysctl_ledger.record_ledger applied_at_record)
  with applier_run [OF assms(1-4), of post] sel show ?thesis
    by (simp add: decode_marshalReport maxReportBytes_def kindScriptProfile_def)
qed

theorem applier_closes_the_loop_witness:
  "\<exists>rep r. workerMain applierHost (\<lambda>url body h. (Inr 200, h)) (\<lambda>_. None) ()
       = (WaitsForSignal, sendReport (\<lambda>url body h. (Inr 200, h)) reportURL rep ())
     \<and> decodeReport (marshalReport rep) = Some r \<and> rep_Profile r = ''tuning'' \<and> rep_Node r = ''n1''
     \<and> applied_at (desiredHash exProfile) (ledger (sys_NodeStatuses (sys_Status (recordSysctl r 0 exProfile))) ''n1'')"
proof -
  let ?res = "emptyResult\<lparr>res_Applied := [''vm.swappiness'']\<rparr>"
  let ?rep = "applyReportOf applierHost (Parse (renderSysctlConf exProfile)) ?res"
  have r: "list_all sysctlRenderable (Sysctls (sys_Spec exProfile))" by (simp add: ex_defs) code_simp
  have env: "Getenv applierHost = podEnv (workerEnv exProfile (desiredHash exProfile)) (\<lambda>_. ''n1'')"
    and "ReadFile applierHost (configMountPath @ ''/'' @ configFileName) () = Inr (renderSysctlConf exProfile)"
    by (simp_all add: applierHost_def)
  from applier_closes_the_loop [OF this r applierHost_applies, of "\<lambda>url body h. (Inr 200, h)"]
  have loop: "workerMain applierHost (\<lambda>url body h. (Inr 200, h)) (\<lambda>_. None) ()
      = (WaitsForSignal, sendReport (\<lambda>url body h. (Inr 200, h)) reportURL ?rep ())"
    and post: "length (marshalReport ?rep) \<le> 2 ^ 20 \<Longrightarrow> \<exists>r. decodeReport (marshalReport ?rep) = Some r
      \<and> rep_Profile r = Name exMeta \<and> rep_Node r = ''n1''
      \<and> (applied_at (desiredHash exProfile) (ledger (sys_NodeStatuses (sys_Status (recordSysctl r 0 exProfile))) ''n1'') \<longleftrightarrow> OK ?res)"
    using exValid by (auto simp: exProfile_def)
  have "length (marshalReport ?rep) \<le> 2000" by (rule applierHost_report_length)
  with post loop show ?thesis by (auto simp: exMeta_def OK_def emptyResult_def)
qed

text \<open>C7: The same for scripts that can be rendered (name and interpreter without white space, no line of the
  content a script header or footer), with UTF-8 names: a worker with the environment of the runner DaemonSet's
  pod that finds the rendered scripts at the mount path runs exactly the profile's scripts (\<open>/bin/sh\<close> for an
  empty interpreter, one trailing newline of the content dropped), posts one report and waits. If the body is at most 1 MiB long,
  it is decoded to a report of kind \<open>ScriptProfile\<close> on that profile and node, and in a profile into which
  it is recorded, the node counts as done at the current hash exactly when every script succeeded.\<close>

theorem runner_closes_the_loop:
  assumes "Getenv H = podEnv (scriptEnv p (desiredScriptHash p)) podFields"
    and "ReadFile H (scriptConfigMountPath @ ''/'' @ scriptConfigFileName) h = Inr (renderScripts p)"
    and "list_all scriptRenderable (Scripts (scr_Spec p))"
    and "RunScripts H (map scriptIntended (Scripts (scr_Spec p))) h = (res, h1)"
    and "toValid (Name (scr_meta p)) = Name (scr_meta p)" and "toValid (Namespace (scr_meta p)) = Namespace (scr_meta p)"
    and "toValid (podFields ''spec.nodeName'') = podFields ''spec.nodeName''"
  shows "workerMain H post (\<lambda>_. None) h = (WaitsForSignal, sendReport post scriptReportURL (scriptReportOf H (ParseScripts (renderScripts p)) res) h1)
    \<and> (length (marshalReport (scriptReportOf H (ParseScripts (renderScripts p)) res)) \<le> 2 ^ 20 \<longrightarrow>
        (\<exists>r. decodeReport (marshalReport (scriptReportOf H (ParseScripts (renderScripts p)) res)) = Some r \<and> rep_Kind r = kindScriptProfile
          \<and> (rep_Namespace r, rep_Profile r) = key_of (scr_meta p) \<and> rep_Node r = podFields ''spec.nodeName''
          \<and> (\<forall>t q. applied_at (desiredScriptHash p)
                 (ledger (scr_NodeStatuses (scr_Status (recordScript r t q))) (podFields ''spec.nodeName'')) \<longleftrightarrow> OK res)))"
proof -
  let ?rep = "ranReport H p res"
  note sel = runner_report [OF assms(1,5-7), of res]
  then have "applied_at (desiredScriptHash p) (ledger (scr_NodeStatuses (scr_Status (recordScript (received ?rep) t q)))
      (podFields ''spec.nodeName'')) \<longleftrightarrow> OK res" for t q
    by (simp add: script_ledger.record_ledger applied_at_record)
  with runner_run [OF assms(1-4), of post] sel show ?thesis
    by (simp add: decode_marshalReport maxReportBytes_def)
qed

theorem runner_closes_the_loop_witness:
  "\<exists>rep r. workerMain runnerHost (\<lambda>url body h. (Inr 200, h)) (\<lambda>_. None) ()
       = (WaitsForSignal, sendReport (\<lambda>url body h. (Inr 200, h)) scriptReportURL rep ())
     \<and> decodeReport (marshalReport rep) = Some r \<and> rep_Kind r = ''ScriptProfile'' \<and> rep_Node r = ''n1''
     \<and> applied_at (desiredScriptHash exScriptProfile) (ledger (scr_NodeStatuses (scr_Status (recordScript r 0 exScriptProfile))) ''n1'')"
proof -
  let ?res = "emptyResult\<lparr>res_Applied := [''thp'']\<rparr>"
  let ?rep = "scriptReportOf runnerHost (ParseScripts (renderScripts exScriptProfile)) ?res"
  have r: "list_all scriptRenderable (Scripts (scr_Spec exScriptProfile))" by (simp add: ex_defs) code_simp
  have env: "Getenv runnerHost = podEnv (scriptEnv exScriptProfile (desiredScriptHash exScriptProfile)) (\<lambda>_. ''n1'')"
    and "ReadFile runnerHost (scriptConfigMountPath @ ''/'' @ scriptConfigFileName) () = Inr (renderScripts exScriptProfile)"
    by (simp_all add: runnerHost_def)
  from runner_closes_the_loop [OF this r runnerHost_runs, of "\<lambda>url body h. (Inr 200, h)"]
  have loop: "workerMain runnerHost (\<lambda>url body h. (Inr 200, h)) (\<lambda>_. None) ()
      = (WaitsForSignal, sendReport (\<lambda>url body h. (Inr 200, h)) scriptReportURL ?rep ())"
    and post: "length (marshalReport ?rep) \<le> 2 ^ 20 \<Longrightarrow> \<exists>r. decodeReport (marshalReport ?rep) = Some r
      \<and> rep_Kind r = kindScriptProfile \<and> rep_Node r = ''n1''
      \<and> (applied_at (desiredScriptHash exScriptProfile) (ledger (scr_NodeStatuses (scr_Status (recordScript r 0 exScriptProfile))) ''n1'')
           \<longleftrightarrow> OK ?res)"
    using exValid by (auto simp: exScriptProfile_def)
  have "length (marshalReport ?rep) \<le> 2000"
    by (rule exRan_length)
  with post loop show ?thesis by (auto simp: kindScriptProfile_def OK_def emptyResult_def)
qed

end
